(* ===== verification/Prelude.thy ===== *)
theory Prelude
  imports Complex_Main "HOL-Library.Char_ord" "HOL-Library.List_Lexorder"
begin

text \<open>
  Shared vocabulary of the development.  A Python function that may raise is a value of
  \<open>'e + 'a\<close> (\<open>Inl\<close> the exception); a method that also mutates state is a
  function of the state returning the result and the new state, \<^emph>\<open>also when it
  raises\<close>: Python keeps the mutations made before an exception.  This theory holds the
  combinators of that state and exception style with their laws and a small Hoare logic, the
  row-level operations of SQL (select, order by, update, delete) the storage layer is written
  with, and the string functions of the standard library the code calls.
\<close>

named_theorems step_simps "unfolding of the state-and-exception combinators"
named_theorems hoare_rules "rules of the Hoare logic for stateful operations"

subsection \<open>Stateful operations that may raise\<close>

type_synonym ('e, 's, 'a) op = "'s \<Rightarrow> ('e + 'a) \<times> 's"

definition ret :: "'a \<Rightarrow> ('e, 's, 'a) op" where
  "ret x = (\<lambda>s. (Inr x, s))"

definition raise :: "'e \<Rightarrow> ('e, 's, 'a) op" where
  "raise e = (\<lambda>s. (Inl e, s))"

definition bindE :: "('e, 's, 'a) op \<Rightarrow> ('a \<Rightarrow> ('e, 's, 'b) op) \<Rightarrow> ('e, 's, 'b) op" where
  "bindE m f = (\<lambda>s. case m s of (Inl e, s') \<Rightarrow> (Inl e, s') | (Inr x, s') \<Rightarrow> f x s')"

definition andthen :: "('e, 's, 'a) op \<Rightarrow> ('e, 's, 'b) op \<Rightarrow> ('e, 's, 'b) op" where
  "andthen m n = bindE m (\<lambda>_. n)"

definition get_state :: "('s \<Rightarrow> 'a) \<Rightarrow> ('e, 's, 'a) op" where
  "get_state f = (\<lambda>s. (Inr (f s), s))"

definition modify :: "('s \<Rightarrow> 's) \<Rightarrow> ('e, 's, unit) op" where
  "modify f = (\<lambda>s. (Inr (), f s))"

definition lift_res :: "'e + 'a \<Rightarrow> ('e, 's, 'a) op" where
  "lift_res r = (\<lambda>s. (r, s))"

text \<open>\<open>try: m except: h\<close>, and \<open>try: m finally: f\<close> where \<open>f\<close> cannot raise.\<close>

definition try_except :: "('e, 's, 'a) op \<Rightarrow> ('e \<Rightarrow> ('e, 's, 'a) op) \<Rightarrow> ('e, 's, 'a) op" where
  "try_except m h = (\<lambda>s. case m s of (Inl e, s') \<Rightarrow> h e s' | (Inr x, s') \<Rightarrow> (Inr x, s'))"

definition try_finally :: "('e, 's, 'a) op \<Rightarrow> ('s \<Rightarrow> 's) \<Rightarrow> ('e, 's, 'a) op" where
  "try_finally m f = (\<lambda>s. case m s of (r, s') \<Rightarrow> (r, f s'))"

text \<open>\<open>try: m finally: f\<close> where \<open>f\<close> may raise: its exception wins.\<close>

definition try_finally_op :: "('e, 's, 'a) op \<Rightarrow> ('e, 's, unit) op \<Rightarrow> ('e, 's, 'a) op" where
  "try_finally_op m f =
     (\<lambda>s. case m s of (r, s1) \<Rightarrow> (case f s1 of (Inl e, s2) \<Rightarrow> (Inl e, s2) | (Inr _, s2) \<Rightarrow> (r, s2)))"

lemmas op_defs = ret_def raise_def get_state_def modify_def lift_res_def

lemma ret_apply [simp, step_simps]: "ret x s = (Inr x, s)"
  and raise_apply [simp, step_simps]: "raise e s = (Inl e, s)"
  and get_state_apply [simp, step_simps]: "get_state f s = (Inr (f s), s)"
  and modify_apply [simp, step_simps]: "modify g s = (Inr (), g s)"
  and lift_res_apply [simp, step_simps]: "lift_res r s = (r, s)"
  by (simp_all add: op_defs)

lemma bindE_Inr [simp, step_simps]: "m s = (Inr x, s') \<Longrightarrow> bindE m f s = f x s'"
  and bindE_Inl [simp, step_simps]: "m s = (Inl e, s') \<Longrightarrow> bindE m f s = (Inl e, s')"
  by (simp_all add: bindE_def)

lemma bindE_returns_iff:
  "bindE m f s = (Inr y, s') \<longleftrightarrow> (\<exists>x s1. m s = (Inr x, s1) \<and> f x s1 = (Inr y, s'))"
  by (auto simp: bindE_def split: prod.splits sum.splits)

lemma bindE_raises_iff:
  "bindE m f s = (Inl e, s') \<longleftrightarrow>
     m s = (Inl e, s') \<or> (\<exists>x s1. m s = (Inr x, s1) \<and> f x s1 = (Inl e, s'))"
  by (auto simp: bindE_def split: prod.splits sum.splits)

lemma bindE_assoc: "bindE (bindE m f) g = bindE m (\<lambda>x. bindE (f x) g)"
  by (auto simp: bindE_def fun_eq_iff split: prod.splits sum.splits)

lemma bindE_ret [simp]: "bindE (ret x) f = f x" "bindE m ret = m"
  by (auto simp: bindE_def fun_eq_iff split: prod.splits sum.splits)

lemma andthen_apply [simp, step_simps]:
  "m s = (Inr x, s') \<Longrightarrow> andthen m n s = n s'"
  "m s = (Inl e, s') \<Longrightarrow> andthen m n s = (Inl e, s')"
  by (simp_all add: andthen_def)

lemma try_except_apply [simp, step_simps]:
  "m s = (Inr x, s') \<Longrightarrow> try_except m h s = (Inr x, s')"
  "m s = (Inl e, s') \<Longrightarrow> try_except m h s = h e s'"
  by (simp_all add: try_except_def)

lemma try_finally_apply [simp, step_simps]:
  "m s = (r, s') \<Longrightarrow> try_finally m f s = (r, f s')"
  by (simp add: try_finally_def)

subsection \<open>A Hoare logic with an exceptional postcondition\<close>

text \<open>
  \<open>hoare P m Q E\<close>: from a state satisfying \<open>P\<close>, \<open>m\<close> either returns with
  \<open>Q\<close> of result and state or raises with \<open>E\<close> of exception and state.  Every operation
  is total, so this is total correctness.
\<close>

definition hoare ::
  "('s \<Rightarrow> bool) \<Rightarrow> ('e, 's, 'a) op \<Rightarrow> ('a \<Rightarrow> 's \<Rightarrow> bool) \<Rightarrow> ('e \<Rightarrow> 's \<Rightarrow> bool) \<Rightarrow> bool" where
  "hoare P m Q E \<longleftrightarrow>
     (\<forall>s. P s \<longrightarrow> (case m s of (Inr x, s') \<Rightarrow> Q x s' | (Inl e, s') \<Rightarrow> E e s'))"

lemma hoare_returnsD: "hoare P m Q E \<Longrightarrow> P s \<Longrightarrow> m s = (Inr x, s') \<Longrightarrow> Q x s'"
  and hoare_raisesD: "hoare P m Q E \<Longrightarrow> P s \<Longrightarrow> m s = (Inl e, s') \<Longrightarrow> E e s'"
  by (auto simp: hoare_def dest: spec [of _ s])

lemma hoareI:
  assumes "\<And>s x s'. P s \<Longrightarrow> m s = (Inr x, s') \<Longrightarrow> Q x s'"
    and "\<And>s e s'. P s \<Longrightarrow> m s = (Inl e, s') \<Longrightarrow> E e s'"
  shows "hoare P m Q E"
  using assms by (auto simp: hoare_def split: prod.splits sum.splits)

lemma hoare_conseq:
  assumes "hoare P' m Q' E'" and "\<And>s. P s \<Longrightarrow> P' s"
    and "\<And>x s. Q' x s \<Longrightarrow> Q x s" and "\<And>e s. E' e s \<Longrightarrow> E e s"
  shows "hoare P m Q E"
  using assms by (intro hoareI) (blast dest: hoare_returnsD hoare_raisesD)+

lemma hoare_ret [hoare_rules]: "(\<And>s. P s \<Longrightarrow> Q x s) \<Longrightarrow> hoare P (ret x) Q E"
  and hoare_raise [hoare_rules]: "(\<And>s. P s \<Longrightarrow> E e s) \<Longrightarrow> hoare P (raise e) Q E"
  and hoare_get [hoare_rules]: "(\<And>s. P s \<Longrightarrow> Q (f s) s) \<Longrightarrow> hoare P (get_state f) Q E"
  and hoare_modify [hoare_rules]: "(\<And>s. P s \<Longrightarrow> Q () (g s)) \<Longrightarrow> hoare P (modify g) Q E"
  by (simp_all add: hoare_def)

lemma hoare_lift_res [hoare_rules]:
  "(\<And>s x. P s \<Longrightarrow> r = Inr x \<Longrightarrow> Q x s) \<Longrightarrow> (\<And>s e. P s \<Longrightarrow> r = Inl e \<Longrightarrow> E e s) \<Longrightarrow>
     hoare P (lift_res r) Q E"
  by (auto intro!: hoareI)

lemma hoare_bindE [hoare_rules]:
  assumes "hoare P m R E" and "\<And>x. hoare (R x) (f x) Q E"
  shows "hoare P (bindE m f) Q E"
  using assms by (intro hoareI)
    (auto simp: bindE_returns_iff bindE_raises_iff dest: hoare_returnsD hoare_raisesD)

lemma hoare_andthen [hoare_rules]:
  "hoare P m (\<lambda>_. R) E \<Longrightarrow> hoare R n Q E \<Longrightarrow> hoare P (andthen m n) Q E"
  unfolding andthen_def by (rule hoare_bindE)

lemma hoare_try_except [hoare_rules]:
  assumes "hoare P m Q R" and "\<And>e. hoare (R e) (h e) Q E"
  shows "hoare P (try_except m h) Q E"
  using assms unfolding hoare_def try_except_def
  by (fastforce split: prod.splits sum.splits)

lemma hoare_try_finally [hoare_rules]:
  assumes "hoare P m (\<lambda>x s. Q x (f s)) (\<lambda>e s. E e (f s))"
  shows "hoare P (try_finally m f) Q E"
  using assms unfolding hoare_def try_finally_def
  by (fastforce split: prod.splits sum.splits)

subsection \<open>Frames and raised exceptions\<close>

text \<open>
  \<open>keeps f m\<close>: \<open>m\<close> leaves the component \<open>f\<close> of the state alone, whether it returns or
  raises; \<open>raises_only E m\<close>: every exception of \<open>m\<close> satisfies \<open>E\<close>.
\<close>

definition keeps :: "('s \<Rightarrow> 'b) \<Rightarrow> ('e, 's, 'a) op \<Rightarrow> bool" where
  "keeps f m \<longleftrightarrow> (\<forall>s. f (snd (m s)) = f s)"

definition raises_only :: "('e \<Rightarrow> bool) \<Rightarrow> ('e, 's, 'a) op \<Rightarrow> bool" where
  "raises_only E m \<longleftrightarrow> (\<forall>s e s'. m s = (Inl e, s') \<longrightarrow> E e)"

named_theorems frame_rules "components an operation keeps, exceptions it raises"

lemma keepsD: "keeps f m \<Longrightarrow> m s = (r, s') \<Longrightarrow> f s' = f s"
  by (metis keeps_def snd_conv)

lemma keepsI: "(\<And>s r s'. m s = (r, s') \<Longrightarrow> f s' = f s) \<Longrightarrow> keeps f m"
  by (metis keeps_def prod.collapse)

lemma raises_onlyD: "raises_only E m \<Longrightarrow> m s = (Inl e, s') \<Longrightarrow> E e"
  by (auto simp: raises_only_def)

lemma keeps_bindE [frame_rules]:
  assumes "keeps f m" and "\<And>x. keeps f (g x)" shows "keeps f (bindE m g)"
  using assms unfolding keeps_def
  by (metis (no_types, lifting) bindE_Inl bindE_Inr old.sum.exhaust prod.collapse snd_conv)

lemma keeps_andthen [frame_rules]: "keeps f m \<Longrightarrow> keeps f n \<Longrightarrow> keeps f (andthen m n)"
  by (simp add: andthen_def keeps_bindE)

lemma keeps_basic [frame_rules]:
  "keeps f (ret x)" "keeps f (raise e)" "keeps f (get_state h)" "keeps f (lift_res r)"
  by (simp_all add: keeps_def)

lemma keeps_modify: "(\<And>s. f (g s) = f s) \<Longrightarrow> keeps f (modify g)"
  by (simp add: keeps_def)

lemma raises_only_bindE [frame_rules]:
  "raises_only E m \<Longrightarrow> (\<And>x. raises_only E (g x)) \<Longrightarrow> raises_only E (bindE m g)"
  unfolding raises_only_def bindE_raises_iff by blast

lemma raises_only_andthen [frame_rules]:
  "raises_only E m \<Longrightarrow> raises_only E n \<Longrightarrow> raises_only E (andthen m n)"
  by (simp add: andthen_def raises_only_bindE)

lemma raises_only_basic [frame_rules]:
  "raises_only E (ret x)" "raises_only E (get_state h)" "raises_only E (modify g)"
  by (simp_all add: raises_only_def)

lemma raises_only_lift [frame_rules]:
  "(\<And>e. r = Inl e \<Longrightarrow> E e) \<Longrightarrow> raises_only E (lift_res r)"
  by (simp add: raises_only_def)

lemma raises_only_raise [frame_rules]: "E e \<Longrightarrow> raises_only E (raise e)"
  by (simp add: raises_only_def)

lemma frame_Pair [simp]:
  "raises_only E (Pair (Inl e)) \<longleftrightarrow> E e" "raises_only E (Pair (Inr x))" "keeps f (Pair r)"
  by (simp_all add: raises_only_def keeps_def)

lemma keeps_try_except [frame_rules]:
  assumes "keeps f m" and "\<And>e. keeps f (h e)" shows "keeps f (try_except m h)"
  using assms unfolding keeps_def try_except_def by (auto split: prod.splits sum.splits) (metis snd_conv)+

lemma keeps_try_finally [frame_rules]:
  "keeps f m \<Longrightarrow> (\<And>s. f (g s) = f s) \<Longrightarrow> keeps f (try_finally m g)"
  unfolding keeps_def try_finally_def by (auto split: prod.splits) (metis snd_conv)

lemma raises_only_try [frame_rules]:
  "raises_only E m \<Longrightarrow> (\<And>e. E e \<Longrightarrow> raises_only E (h e)) \<Longrightarrow> raises_only E (try_except m h)"
  unfolding raises_only_def try_except_def by (fastforce split: prod.splits sum.splits)

lemma raises_only_try_finally [frame_rules]: "raises_only E m \<Longrightarrow> raises_only E (try_finally m g)"
  unfolding raises_only_def try_finally_def by (auto split: prod.splits)

lemma raises_only_if [frame_rules]:
  "(c \<Longrightarrow> raises_only E m) \<Longrightarrow> (\<not> c \<Longrightarrow> raises_only E n) \<Longrightarrow> raises_only E (if c then m else n)"
  by simp

text \<open>\<open>preserves I m\<close>: \<open>m\<close> keeps the invariant \<open>I\<close>, returning or raising.\<close>

definition preserves :: "('s \<Rightarrow> bool) \<Rightarrow> ('e, 's, 'a) op \<Rightarrow> bool" where
  "preserves I m \<longleftrightarrow> (\<forall>s. I s \<longrightarrow> I (snd (m s)))"

named_theorems preserves_rules "operations that keep an invariant"

lemma preservesD: "preserves I m \<Longrightarrow> I s \<Longrightarrow> m s = (r, s') \<Longrightarrow> I s'"
  by (metis preserves_def snd_conv)

lemma preservesI: "(\<And>s r s'. I s \<Longrightarrow> m s = (r, s') \<Longrightarrow> I s') \<Longrightarrow> preserves I m"
  by (metis preserves_def prod.collapse)

lemma preserves_bindE [preserves_rules]:
  assumes "preserves I m" and "\<And>x. preserves I (f x)" shows "preserves I (bindE m f)"
  using assms unfolding preserves_def
  by (metis (no_types, lifting) bindE_Inl bindE_Inr old.sum.exhaust prod.collapse snd_conv)

lemma preserves_andthen [preserves_rules]:
  "preserves I m \<Longrightarrow> preserves I n \<Longrightarrow> preserves I (andthen m n)"
  by (simp add: andthen_def preserves_bindE)

lemma preserves_basic [preserves_rules]:
  "preserves I (ret x)" "preserves I (raise e)" "preserves I (get_state h)" "preserves I (lift_res r)"
  by (simp_all add: preserves_def)

lemma preserves_modify: "(\<And>s. I s \<Longrightarrow> I (g s)) \<Longrightarrow> preserves I (modify g)"
  by (simp add: preserves_def)

lemma preserves_state: "(\<And>s. preserves I (f s)) \<Longrightarrow> preserves I (\<lambda>s. f s s)"
  by (simp add: preserves_def)

lemma preserves_try_except [preserves_rules]:
  "preserves I m \<Longrightarrow> (\<And>e. preserves I (h e)) \<Longrightarrow> preserves I (try_except m h)"
  unfolding preserves_def try_except_def by (auto split: prod.splits sum.splits)

lemma preserves_try_finally [preserves_rules]:
  "preserves I m \<Longrightarrow> (\<And>s. I s \<Longrightarrow> I (g s)) \<Longrightarrow> preserves I (try_finally m g)"
  unfolding preserves_def try_finally_def by (auto split: prod.splits)

subsection \<open>Rows of a table\<close>

text \<open>
  A table is the list of its rows in rowid order.  \<open>ORDER BY\<close> is a stable sort (SQL leaves
  the order of ties open; no property below depends on it), \<open>UPDATE ... WHERE\<close> reports how
  many rows it matched (\<open>cursor.rowcount\<close>).
\<close>

definition sql_update :: "('r \<Rightarrow> bool) \<Rightarrow> ('r \<Rightarrow> 'r) \<Rightarrow> 'r list \<Rightarrow> 'r list" where
  "sql_update P f = map (\<lambda>r. if P r then f r else r)"

definition sql_rowcount :: "('r \<Rightarrow> bool) \<Rightarrow> 'r list \<Rightarrow> nat" where
  "sql_rowcount P rows = length (filter P rows)"

definition sql_delete :: "('r \<Rightarrow> bool) \<Rightarrow> 'r list \<Rightarrow> 'r list" where
  "sql_delete P = filter (\<lambda>r. \<not> P r)"

definition order_by :: "('r \<Rightarrow> 'k::linorder) \<Rightarrow> 'r list \<Rightarrow> 'r list" where
  "order_by k rows = sort_key k rows"

definition order_by_desc :: "('r \<Rightarrow> 'k::linorder) \<Rightarrow> 'r list \<Rightarrow> 'r list" where
  "order_by_desc k rows = rev (sort_key k (rev rows))"

definition fetchone :: "'r list \<Rightarrow> 'r option" where
  "fetchone rows = (case rows of [] \<Rightarrow> None | r # _ \<Rightarrow> Some r)"

lemmas sql_defs = sql_update_def sql_rowcount_def sql_delete_def order_by_def order_by_desc_def
  fetchone_def

lemma set_order_by [simp]: "set (order_by k rows) = set rows"
  and set_order_by_desc [simp]: "set (order_by_desc k rows) = set rows"
  and length_order_by [simp]: "length (order_by k rows) = length rows"
  and sorted_order_by: "sorted (map k (order_by k rows))"
  by (simp_all add: sql_defs)

lemma order_by_desc_sorted: "sorted_wrt (\<lambda>a b. k b \<le> k a) (order_by_desc k rows)"
  using sorted_sort_key [of k "rev rows"]
  by (simp add: order_by_desc_def sorted_map sorted_wrt_rev)

lemma map_sql_update: "(\<And>r. g (f r) = g r) \<Longrightarrow> map g (sql_update P f rows) = map g rows"
  by (simp add: sql_update_def)

lemma set_sql_update: "set (sql_update P f rows) = (\<lambda>r. if P r then f r else r) ` set rows"
  by (simp add: sql_update_def)

lemma sql_update_id: "(\<And>r. r \<in> set rows \<Longrightarrow> \<not> P r) \<Longrightarrow> sql_update P f rows = rows"
  by (simp add: sql_update_def map_idI)

lemma set_sql_delete [simp]: "set (sql_delete P rows) = {r \<in> set rows. \<not> P r}"
  by (auto simp: sql_delete_def)

lemma fetchone_eq_Some: "fetchone rows = Some r \<longleftrightarrow> (\<exists>rs. rows = r # rs)"
  and fetchone_eq_None: "fetchone rows = None \<longleftrightarrow> rows = []"
  by (auto simp: fetchone_def split: list.splits)

text \<open>A row is determined by its primary key.\<close>

lemma distinct_key_unique:
  "distinct (map k rows) \<Longrightarrow> r \<in> set rows \<Longrightarrow> r' \<in> set rows \<Longrightarrow> k r = k r' \<Longrightarrow> r = r'"
  by (auto simp: distinct_map dest: inj_onD)

lemma filter_key_single:
  "distinct (map k rows) \<Longrightarrow> r \<in> set rows \<Longrightarrow> filter (\<lambda>x. k x = k r) rows = [r]"
  by (induction rows) (auto simp: filter_empty_conv image_iff)

end
