(* ===== verification/Core_State.thy ===== *)
theory Core_State
  imports Prelude
begin

text \<open>
  \<open>src/photobooth/core/state.py\<close> and \<open>core/events.py\<close>: the session states, the table of
  legal transitions, the state machine object, and the events broadcast to the kiosk.  The
  exceptions of the whole program are one datatype here, since one of them carries states; each
  carries the message the raise site builds, and the subclass tests of the \<open>except\<close>
  clauses are predicates on it.
\<close>

subsection \<open>Session states\<close>

datatype session_state = IDLE | ARMED | COUNTDOWN | CAPTURING | REVIEW | PROCESSING

fun state_value :: "session_state \<Rightarrow> string" where
  "state_value IDLE = ''idle''"
| "state_value ARMED = ''armed''"
| "state_value COUNTDOWN = ''countdown''"
| "state_value CAPTURING = ''capturing''"
| "state_value REVIEW = ''review''"
| "state_value PROCESSING = ''processing''"

fun ALLOWED_TRANSITIONS :: "session_state \<Rightarrow> session_state set" where
  "ALLOWED_TRANSITIONS IDLE = {ARMED}"
| "ALLOWED_TRANSITIONS ARMED = {COUNTDOWN, IDLE}"
| "ALLOWED_TRANSITIONS COUNTDOWN = {CAPTURING, IDLE}"
| "ALLOWED_TRANSITIONS CAPTURING = {REVIEW, IDLE, COUNTDOWN}"
| "ALLOWED_TRANSITIONS REVIEW = {PROCESSING, IDLE}"
| "ALLOWED_TRANSITIONS PROCESSING = {IDLE}"

subsection \<open>Exceptions\<close>

datatype exn =
    InvalidTransitionError session_state session_state
  | CameraDisconnectedError string
  | CameraError string
  | FrameTooLargeError string
  | PrinterOfflineError string
  | PrintLimitExceededError string
  | TemplateValidationError string
  | PlaceholderResolutionError string
  | IntegrityError string
  | KeyError string
  | IndexError string
  | TypeError string
  | ValueError string
  | ValidationError string
  | RuntimeError string
  | OverflowError string
  | ZeroDivisionError string
  | AssertionError string
  | FileNotFoundError string
  | OSError string
  | TimeoutError string
  | IncompleteReadError string
  | DecodeError string
  | AuthenticationException string
  | SSHException string
  | GPhoto2Error string
  | VipsError string
  | YAMLError string
  | AttributeError string
  | OperationalError string
  | HTTPException int string
  | Diverges

text \<open>
  \<open>Diverges\<close> is no exception of the program: it is the outcome of a call that never returns
  (a loop that runs out of fuel in the model).  No \<open>except\<close> clause catches it.

  \<open>str(exc)\<close>:
\<close>

fun exn_str :: "exn \<Rightarrow> string" where
  "exn_str (InvalidTransitionError c t) =
     ''cannot transition '' @ state_value c @ '' -> '' @ state_value t"
| "exn_str (HTTPException _ d) = d"
| "exn_str (CameraDisconnectedError m) = m"
| "exn_str (CameraError m) = m"
| "exn_str (FrameTooLargeError m) = m"
| "exn_str (PrinterOfflineError m) = m"
| "exn_str (PrintLimitExceededError m) = m"
| "exn_str (TemplateValidationError m) = m"
| "exn_str (PlaceholderResolutionError m) = m"
| "exn_str (IntegrityError m) = m"
| "exn_str (KeyError m) = m"
| "exn_str (IndexError m) = m"
| "exn_str (TypeError m) = m"
| "exn_str (ValueError m) = m"
| "exn_str (ValidationError m) = m"
| "exn_str (RuntimeError m) = m"
| "exn_str (OverflowError m) = m"
| "exn_str (ZeroDivisionError m) = m"
| "exn_str (AssertionError m) = m"
| "exn_str (FileNotFoundError m) = m"
| "exn_str (OSError m) = m"
| "exn_str (TimeoutError m) = m"
| "exn_str (IncompleteReadError m) = m"
| "exn_str (DecodeError m) = m"
| "exn_str (AuthenticationException m) = m"
| "exn_str (SSHException m) = m"
| "exn_str (GPhoto2Error m) = m"
| "exn_str (VipsError m) = m"
| "exn_str (YAMLError m) = m"
| "exn_str (AttributeError m) = m"
| "exn_str (OperationalError m) = m"
| "exn_str Diverges = ''''"

text \<open>\<open>isinstance\<close> along the class hierarchy.\<close>

fun is_CameraError :: "exn \<Rightarrow> bool" where
  "is_CameraError (CameraError _) = True"
| "is_CameraError (CameraDisconnectedError _) = True"
| "is_CameraError _ = False"

fun is_OSError :: "exn \<Rightarrow> bool" where
  "is_OSError (OSError _) = True"
| "is_OSError (FileNotFoundError _) = True"
| "is_OSError (TimeoutError _) = True"
| "is_OSError _ = False"

fun is_ValueError :: "exn \<Rightarrow> bool" where
  "is_ValueError (ValueError _) = True"
| "is_ValueError (ValidationError _) = True"
| "is_ValueError _ = False"

type_synonym 'a res = "exn + 'a"

text \<open>Sequencing of fallible steps that keep no state.\<close>

definition bind_res :: "'a res \<Rightarrow> ('a \<Rightarrow> 'b res) \<Rightarrow> 'b res" where
  "bind_res r f = (case r of Inl e \<Rightarrow> Inl e | Inr x \<Rightarrow> f x)"

lemma bind_res_simps [simp]: "bind_res (Inl e) f = Inl e" "bind_res (Inr x) f = f x"
  by (simp_all add: bind_res_def)

lemma bind_res_Inr: "bind_res r f = Inr y \<longleftrightarrow> (\<exists>x. r = Inr x \<and> f x = Inr y)"
  by (cases r) simp_all

lemma bind_res_Inl: "bind_res r f = Inl e \<longleftrightarrow> r = Inl e \<or> (\<exists>x. r = Inr x \<and> f x = Inl e)"
  by (cases r) simp_all

subsection \<open>The state machine\<close>

record session_state_machine =
  m_state :: session_state

definition new_machine :: session_state_machine where
  "new_machine = \<lparr>m_state = IDLE\<rparr>"

definition transition ::
  "session_state_machine \<Rightarrow> session_state \<Rightarrow> session_state_machine res" where
  "transition m target =
     (if target \<notin> ALLOWED_TRANSITIONS (m_state m)
      then Inl (InvalidTransitionError (m_state m) target)
      else Inr (m\<lparr>m_state := target\<rparr>))"

subsection \<open>Events\<close>

text \<open>Durations are rationals; the JSON bytes of an event are produced by \<open>msgspec\<close>.\<close>

datatype event =
    StateChanged (ev_session: string) session_state "string option"
  | CountdownStarted (ev_session: string) rat nat nat
  | PreviewReady (ev_session: string) string string nat nat
  | FullImageReady (ev_session: string) string string
  | CaptureFailed (ev_session: string) string

subsection \<open>Properties\<close>

lemma transition_Inr_iff:
  "transition m t = Inr m' \<longleftrightarrow> t \<in> ALLOWED_TRANSITIONS (m_state m) \<and> m' = m\<lparr>m_state := t\<rparr>"
  by (auto simp: transition_def)

lemma transition_Inl_iff:
  "transition m t = Inl e \<longleftrightarrow>
     t \<notin> ALLOWED_TRANSITIONS (m_state m) \<and> e = InvalidTransitionError (m_state m) t"
  by (auto simp: transition_def)

lemma idle_allowed_iff: "IDLE \<in> ALLOWED_TRANSITIONS s \<longleftrightarrow> s \<noteq> IDLE"
  by (cases s) auto

lemma state_value_inject [simp]: "state_value a = state_value b \<longleftrightarrow> a = b"
  by (cases a; cases b) simp_all

text \<open>Runs of the machine over a list of targets, stopping at the first refusal.\<close>

fun run_transitions ::
  "session_state_machine \<Rightarrow> session_state list \<Rightarrow> session_state_machine res" where
  "run_transitions m [] = Inr m"
| "run_transitions m (t # ts) =
     (case transition m t of Inl e \<Rightarrow> Inl e | Inr m' \<Rightarrow> run_transitions m' ts)"

lemma run_transitions_append:
  "run_transitions m (ts @ us) =
     (case run_transitions m ts of Inl e \<Rightarrow> Inl e | Inr m' \<Rightarrow> run_transitions m' us)"
  by (induction ts arbitrary: m) (auto split: sum.splits)

lemma run_transitions_snoc:
  "run_transitions m (ts @ [t]) = Inr m' \<longleftrightarrow>
     (\<exists>m1. run_transitions m ts = Inr m1 \<and> t \<in> ALLOWED_TRANSITIONS (m_state m1) \<and>
           m' = m1\<lparr>m_state := t\<rparr>)"
  by (auto simp: run_transitions_append transition_Inr_iff transition_Inl_iff split: sum.splits)

text \<open>The state after an accepted run is its last target.\<close>

lemma run_transitions_last: "run_transitions m ts = Inr m' \<Longrightarrow> m_state m' = last (m_state m # ts)"
  by (induction ts rule: rev_induct) (auto simp: run_transitions_snoc)

lemma run_into:
  assumes "run_transitions new_machine ts = Inr m" and "m_state m = t" and "t \<noteq> IDLE"
  shows "\<exists>us m1. ts = us @ [t] \<and> run_transitions new_machine us = Inr m1 \<and>
    t \<in> ALLOWED_TRANSITIONS (m_state m1)"
proof (cases ts rule: rev_cases)
  case Nil
  then show ?thesis using assms by (auto simp: new_machine_def)
next
  case (snoc us u)
  then show ?thesis using assms by (auto simp: run_transitions_snoc)
qed

text \<open>
  whatever sequence of transitions a fresh machine has accepted, it is in review only straight
  after a countdown and a capture: no path shows a guest a review without a shot.  And from every
  state but idle itself a dismiss to idle is accepted, so no state is a dead end.
\<close>

theorem review_follows_capture:
  assumes "run_transitions new_machine ts = Inr m" and "m_state m = REVIEW"
  shows "(\<exists>us. ts = us @ [COUNTDOWN, CAPTURING, REVIEW]) \<and>
    (\<forall>s. (\<exists>m'. transition \<lparr>m_state = s\<rparr> IDLE = Inr m') = (s \<noteq> IDLE))"
proof
  have into: "REVIEW \<in> ALLOWED_TRANSITIONS s \<longleftrightarrow> s = CAPTURING"
    "CAPTURING \<in> ALLOWED_TRANSITIONS s \<longleftrightarrow> s = COUNTDOWN" for s
    by (cases s; simp)+
  from run_into [OF assms] obtain us m1 where us: "ts = us @ [REVIEW]"
    and m1: "run_transitions new_machine us = Inr m1" "m_state m1 = CAPTURING" by (auto simp: into)
  from run_into [OF m1] obtain vs m2 where vs: "us = vs @ [CAPTURING]"
    and m2: "run_transitions new_machine vs = Inr m2" "m_state m2 = COUNTDOWN" by (auto simp: into)
  from run_into [OF m2] obtain ws where "vs = ws @ [COUNTDOWN]" by auto
  with us vs show "\<exists>us. ts = us @ [COUNTDOWN, CAPTURING, REVIEW]" by simp
  show "\<forall>s. (\<exists>m'. transition \<lparr>m_state = s\<rparr> IDLE = Inr m') = (s \<noteq> IDLE)"
    by (simp add: transition_Inr_iff idle_allowed_iff)
qed

lemma review_follows_capture_witness:
  "\<exists>us. [ARMED, COUNTDOWN, CAPTURING, COUNTDOWN, CAPTURING, REVIEW] = us @ [COUNTDOWN, CAPTURING, REVIEW]"
proof -
  have "run_transitions new_machine [ARMED, COUNTDOWN, CAPTURING, COUNTDOWN, CAPTURING, REVIEW] =
      Inr \<lparr>m_state = REVIEW\<rparr>"
    by (simp add: transition_def new_machine_def)
  from review_follows_capture [OF this] show ?thesis by simp
qed

end
