(* ===== verification/Py_String.thy ===== *)
theory Py_String
  imports Prelude
begin

text \<open>
  The string functions of the Python standard library the code calls.  A Python string is a
  \<open>string\<close> (8-bit characters, so code points up to 255); a character is ASCII when its code
  is below 128.
\<close>

subsection \<open>Decimal numbers\<close>

definition digit_char :: "nat \<Rightarrow> char" where
  "digit_char d = char_of (48 + d)"

fun str_nat :: "nat \<Rightarrow> string" where
  "str_nat n = (if n < 10 then [digit_char n] else str_nat (n div 10) @ [digit_char (n mod 10)])"

declare str_nat.simps [simp del]

definition str_int :: "int \<Rightarrow> string" where
  "str_int i = (if i < 0 then CHR ''-'' # str_nat (nat (- i)) else str_nat (nat i))"

definition is_digit :: "char \<Rightarrow> bool" where
  "is_digit c \<longleftrightarrow> 48 \<le> (of_char c :: nat) \<and> (of_char c :: nat) \<le> 57"

definition digit_val :: "char \<Rightarrow> nat" where
  "digit_val c = of_char c - 48"

definition digits_val :: "string \<Rightarrow> nat" where
  "digits_val s = foldl (\<lambda>n c. 10 * n + digit_val c) 0 s"

lemma of_char_digit_char [simp]: "d < 10 \<Longrightarrow> of_char (digit_char d) = 48 + d"
  by (simp add: digit_char_def)

lemma digit_char_props [simp]:
  "d < 10 \<Longrightarrow> is_digit (digit_char d)" "d < 10 \<Longrightarrow> digit_val (digit_char d) = d"
  by (simp_all add: is_digit_def digit_val_def)

lemma str_nat_digits: "c \<in> set (str_nat n) \<Longrightarrow> is_digit c"
proof (induction n rule: str_nat.induct)
  case (1 n)
  show ?case
  proof (cases "n < 10")
    case True
    with "1.prems" show ?thesis by (simp add: str_nat.simps [of n])
  next
    case False
    with 1 show ?thesis by (auto simp: str_nat.simps [of n])
  qed
qed

lemma str_nat_nonempty [simp]: "str_nat n \<noteq> []"
  by (simp add: str_nat.simps [of n])

lemma digits_val_append: "digits_val (s @ [c]) = 10 * digits_val s + digit_val c"
  by (simp add: digits_val_def)

lemma digits_val_str_nat [simp]: "digits_val (str_nat n) = n"
proof (induction n rule: str_nat.induct)
  case (1 n)
  show ?case
  proof (cases "n < 10")
    case True
    then show ?thesis by (simp add: str_nat.simps [of n] digits_val_def)
  next
    case False
    with 1 show ?thesis by (simp add: str_nat.simps [of n] digits_val_append)
  qed
qed

lemma str_nat_inject [simp]: "str_nat m = str_nat n \<longleftrightarrow> m = n"
  by (metis digits_val_str_nat)

text \<open>\<open>s.split(c)\<close>, \<open>c.join(parts)\<close>.\<close>

fun split_on :: "char \<Rightarrow> string \<Rightarrow> string list" where
  "split_on c [] = [[]]"
| "split_on c (x # s) =
     (if x = c then [] # split_on c s
      else (case split_on c s of [] \<Rightarrow> [[x]] | p # ps \<Rightarrow> (x # p) # ps))"

fun join_with :: "string \<Rightarrow> string list \<Rightarrow> string" where
  "join_with sep [] = []"
| "join_with sep [p] = p"
| "join_with sep (p # q # ps) = p @ sep @ join_with sep (q # ps)"

lemma split_on_nonempty [simp]: "split_on c s \<noteq> []"
  by (induction s) (auto split: list.splits)

lemma join_with_Cons: "ps \<noteq> [] \<Longrightarrow> join_with sep (p # ps) = p @ sep @ join_with sep ps"
  by (cases ps) auto

lemma join_with_push: "join_with sep ((x # p) # ps) = x # join_with sep (p # ps)"
  by (cases ps) auto

lemma join_split: "join_with [c] (split_on c s) = s"
proof (induction s)
  case Nil
  show ?case by simp
next
  case (Cons x s)
  obtain p ps where "split_on c s = p # ps"
    using split_on_nonempty by (metis neq_Nil_conv)
  with Cons show ?case
    by (auto simp: join_with_Cons join_with_push)
qed

text \<open>
  \<open>int(s)\<close> in base ten: surrounding white space is dropped, one sign is allowed, and single
  underscores may stand between digits.  \<open>None\<close> is the \<open>ValueError\<close>.
\<close>

definition is_space :: "char \<Rightarrow> bool" where
  "is_space c \<longleftrightarrow> (of_char c :: nat) \<in> {9, 10, 11, 12, 13, 28, 29, 30, 31, 32, 133, 160}"

definition strip_space :: "string \<Rightarrow> string" where
  "strip_space s = rev (dropWhile is_space (rev (dropWhile is_space s)))"

definition py_digits :: "string \<Rightarrow> nat option" where
  "py_digits s =
     (let ps = split_on (CHR ''_'') s in
      if list_all (\<lambda>p. p \<noteq> [] \<and> list_all is_digit p) ps
      then Some (digits_val (concat ps)) else None)"

definition py_int :: "string \<Rightarrow> int option" where
  "py_int s =
     (case strip_space s of
        [] \<Rightarrow> None
      | c # t \<Rightarrow>
          if c = CHR ''-'' then map_option (\<lambda>n. - int n) (py_digits t)
          else if c = CHR ''+'' then map_option int (py_digits t)
          else map_option int (py_digits (c # t)))"

lemma digit_not_special:
  "is_digit c \<Longrightarrow> \<not> is_space c" "is_digit c \<Longrightarrow> c \<noteq> CHR ''-''" "is_digit c \<Longrightarrow> c \<noteq> CHR ''+''"
  "is_digit c \<Longrightarrow> c \<noteq> CHR ''.''" "is_digit c \<Longrightarrow> c \<noteq> CHR ''_''"
  by (auto simp: is_digit_def is_space_def)

lemma strip_space_id: "(\<And>c. c \<in> set s \<Longrightarrow> \<not> is_space c) \<Longrightarrow> strip_space s = s"
proof -
  have dw: "dropWhile is_space t = t" if "\<And>c. c \<in> set t \<Longrightarrow> \<not> is_space c" for t
    using that by (cases t) auto
  assume a: "\<And>c. c \<in> set s \<Longrightarrow> \<not> is_space c"
  then have "dropWhile is_space s = s" and "dropWhile is_space (rev s) = rev s"
    by (auto intro!: dw)
  then show ?thesis by (simp add: strip_space_def)
qed

lemma split_on_no_sep: "c \<notin> set s \<Longrightarrow> split_on c s = [s]"
  by (induction s) auto

lemma py_digits_all:
  assumes "s \<noteq> []" and "\<And>c. c \<in> set s \<Longrightarrow> is_digit c"
  shows "py_digits s = Some (digits_val s)"
proof -
  have "CHR ''_'' \<notin> set s" using assms(2) digit_not_special(5) by blast
  then have "split_on (CHR ''_'') s = [s]" by (rule split_on_no_sep)
  with assms show ?thesis by (simp add: py_digits_def list_all_iff)
qed

lemma py_int_str_nat: "py_int (str_nat n) = Some (int n)"
proof -
  have strip: "strip_space (str_nat n) = str_nat n"
    by (rule strip_space_id) (simp add: str_nat_digits digit_not_special)
  obtain c t where ct: "str_nat n = c # t"
    using str_nat_nonempty by (cases "str_nat n") auto
  then have "is_digit c" using str_nat_digits [of c n] by simp
  moreover have "py_digits (str_nat n) = Some n"
    using py_digits_all [of "str_nat n"] by (simp add: str_nat_digits)
  ultimately show ?thesis
    using ct strip by (simp add: py_int_def digit_not_special)
qed

lemma py_int_str_int: "py_int (str_int i) = Some i"
proof (cases "i < 0")
  case True
  have "strip_space (str_int i) = str_int i"
    using True by (intro strip_space_id)
      (auto simp: str_int_def dest!: str_nat_digits, auto simp: digit_not_special is_space_def is_digit_def)
  moreover have "py_digits (str_nat (nat (- i))) = Some (nat (- i))"
    using py_digits_all [of "str_nat (nat (- i))"] by (simp add: str_nat_digits)
  ultimately show ?thesis
    using True by (simp add: py_int_def str_int_def)
next
  case False
  then show ?thesis by (simp add: str_int_def py_int_str_nat)
qed

subsection \<open>Splitting and stripping\<close>

text \<open>\<open>s.split(c, 1)\<close> unpacked into two: \<open>None\<close> when there is no \<open>c\<close>.\<close>

definition split_once :: "char \<Rightarrow> string \<Rightarrow> (string \<times> string) option" where
  "split_once c s =
     (case dropWhile (\<lambda>x. x \<noteq> c) s of
        [] \<Rightarrow> None
      | _ # r \<Rightarrow> Some (takeWhile (\<lambda>x. x \<noteq> c) s, r))"

lemma split_once_append: "c \<notin> set a \<Longrightarrow> split_once c (a @ c # b) = Some (a, b)"
proof -
  assume c: "c \<notin> set a"
  have "dropWhile (\<lambda>x. x \<noteq> c) (a @ c # b) = c # b"
    using c by (subst dropWhile_append2) auto
  moreover have "takeWhile (\<lambda>x. x \<noteq> c) (a @ c # b) = a"
    using c by (subst takeWhile_append2) auto
  ultimately show ?thesis by (simp add: split_once_def)
qed

definition rstrip_char :: "char \<Rightarrow> string \<Rightarrow> string" where
  "rstrip_char c s = rev (dropWhile (\<lambda>x. x = c) (rev s))"

definition lstrip_char :: "char \<Rightarrow> string \<Rightarrow> string" where
  "lstrip_char c s = dropWhile (\<lambda>x. x = c) s"

definition strip_char :: "char \<Rightarrow> string \<Rightarrow> string" where
  "strip_char c s = rstrip_char c (lstrip_char c s)"

text \<open>\<open>s.rsplit(c, 1)[0]\<close>: the part before the last \<open>c\<close>, or all of \<open>s\<close>.\<close>

definition rsplit_head :: "char \<Rightarrow> string \<Rightarrow> string" where
  "rsplit_head c s =
     (case dropWhile (\<lambda>x. x \<noteq> c) (rev s) of [] \<Rightarrow> s | _ # r \<Rightarrow> rev r)"

lemma rsplit_head_append: "c \<notin> set b \<Longrightarrow> rsplit_head c (a @ c # b) = a"
proof -
  assume c: "c \<notin> set b"
  have "dropWhile (\<lambda>x. x \<noteq> c) (rev b @ c # rev a) = c # rev a"
    using c by (subst dropWhile_append2) auto
  then show ?thesis by (simp add: rsplit_head_def)
qed

lemma rstrip_char_no_suffix: "rstrip_char c s = [] \<or> last (rstrip_char c s) \<noteq> c"
proof (cases "dropWhile (\<lambda>x. x = c) (rev s)")
  case Nil
  then show ?thesis by (simp add: rstrip_char_def)
next
  case (Cons a list)
  then have "a \<noteq> c" using hd_dropWhile [of "\<lambda>x. x = c" "rev s"] by simp
  with Cons show ?thesis by (simp add: rstrip_char_def)
qed

text \<open>\<open>sub in s\<close>, \<open>s.startswith(p)\<close>, \<open>s.endswith(p)\<close>.\<close>

fun str_contains :: "string \<Rightarrow> string \<Rightarrow> bool" where
  "str_contains sub [] = (sub = [])"
| "str_contains sub (x # s) = (take (length sub) (x # s) = sub \<or> str_contains sub s)"

definition starts_with :: "string \<Rightarrow> string \<Rightarrow> bool" where
  "starts_with p s \<longleftrightarrow> take (length p) s = p"

definition is_ascii :: "string \<Rightarrow> bool" where
  "is_ascii s \<longleftrightarrow> list_all (\<lambda>c. (of_char c :: nat) < 128) s"

lemma str_contains_iff: "str_contains sub s \<longleftrightarrow> (\<exists>a b. s = a @ sub @ b)"
proof (induction s)
  case Nil
  show ?case by auto
next
  case (Cons x s)
  have "take (length sub) (x # s) = sub \<longleftrightarrow> (\<exists>b. x # s = [] @ sub @ b)"
    by (metis append_Nil append_eq_conv_conj)
  moreover have "(\<exists>a b. x # s = a @ sub @ b) \<longleftrightarrow>
      (\<exists>b. x # s = [] @ sub @ b) \<or> (\<exists>a b. s = a @ sub @ b)" (is "?L \<longleftrightarrow> ?R")
  proof
    assume ?L
    then obtain a b where ab: "x # s = a @ sub @ b" by blast
    then show ?R by (cases a) auto
  next
    assume ?R
    then show ?L
    proof
      assume "\<exists>a b. s = a @ sub @ b"
      then obtain a b where "s = a @ sub @ b" by blast
      then have "x # s = (x # a) @ sub @ b" by simp
      then show ?L by blast
    qed blast
  qed
  ultimately show ?case using Cons.IH by simp
qed

subsection \<open>\<open>repr\<close>\<close>

text \<open>
  \<open>repr(s)\<close> of a string: single quotes, unless the string holds a single quote and no double
  one; backslash, the quote and unprintable characters are escaped.
\<close>

definition hex_digit :: "nat \<Rightarrow> char" where
  "hex_digit d = (if d < 10 then char_of (48 + d) else char_of (87 + d))"

definition repr_char :: "char \<Rightarrow> char \<Rightarrow> string" where
  "repr_char q c =
     (let n = (of_char c :: nat) in
      if c = q \<or> n = 92 then [CHR 0x5C, c]
      else if n = 9 then [CHR 0x5C, CHR ''t'']
      else if n = 10 then [CHR 0x5C, CHR ''n'']
      else if n = 13 then [CHR 0x5C, CHR ''r'']
      else if n < 32 \<or> 127 \<le> n \<and> n \<le> 160 \<or> n = 173
      then [CHR 0x5C, CHR ''x'', hex_digit (n div 16), hex_digit (n mod 16)]
      else [c])"

definition py_repr :: "string \<Rightarrow> string" where
  "py_repr s =
     (let q = (if CHR 0x27 \<in> set s \<and> CHR 0x22 \<notin> set s then CHR 0x22 else CHR 0x27) in
      q # concat (map (repr_char q) s) @ [q])"

text \<open>Characters of the program's literals outside ASCII, as their UTF-8 bytes.\<close>

definition ellipsis :: string where
  "ellipsis = [CHR 0xE2, CHR 0x80, CHR 0xA6]"

definition em_dash :: string where
  "em_dash = [CHR 0xE2, CHR 0x80, CHR 0x94]"

definition section_sign :: string where
  "section_sign = [CHR 0xC2, CHR 0xA7]"

end
