(* ===== verification/Database.thy ===== *)
theory Database
  imports Core_State Py_String
begin

text \<open>
  \<open>src/photobooth/storage/db.py\<close> (the schema) and \<open>storage/repos.py\<close> (\<open>SessionRepo\<close>,
  \<open>CaptureRepo\<close>), and the span inserts of \<open>telemetry/spans.py\<close>.  A table is the list of its
  rows in rowid order, a row a record with the schema's columns; \<open>PRIMARY KEY\<close> and
  \<open>UNIQUE\<close> constraints raise \<open>IntegrityError\<close> and leave the table alone, foreign keys are
  not enforced (SQLite's default, the code does not turn them on).  Every operation ends in
  \<open>commit()\<close>, so the state after it is the durable one.  The time stamp an operation reads
  is an argument.
\<close>

subsection \<open>Schema\<close>

text \<open>
  JSON values stand for the text \<open>json.dumps\<close> stores and \<open>json.loads\<close> reads back.
\<close>

datatype json =
    JNull
  | JBool bool
  | JNum rat
  | JStr string
  | JArr "json list"
  | JObj "(string \<times> json) list"

type_synonym payload = "(string \<times> json) list"

record session_row =
  s_id :: string
  s_event_id :: string
  s_state :: string
  s_created_at :: string
  s_share_token :: "string option"

record capture_row =
  c_id :: string
  c_session_id :: string
  c_created_at :: string
  c_is_deliverable :: int

record span_row =
  sp_capture_id :: string
  sp_name :: string
  sp_t_start :: rat
  sp_t_end :: "rat option"
  sp_meta_json :: "payload"

datatype job_status = Pending | Claimed | Done | Dead

record job_row =
  j_id :: string
  j_kind :: string
  j_payload_json :: payload
  j_status :: job_status
  j_attempts :: nat
  j_max_attempts :: int
  j_next_attempt_at :: rat
  j_claimed_at :: "rat option"
  j_created_at :: string
  j_updated_at :: string
  j_last_error :: "string option"

record db =
  sessions :: "session_row list"
  captures :: "capture_row list"
  spans :: "span_row list"
  jobs :: "job_row list"

definition empty_db :: db where
  "empty_db = \<lparr>sessions = [], captures = [], spans = [], jobs = []\<rparr>"

text \<open>What the constraints guarantee.\<close>

definition wf_db :: "db \<Rightarrow> bool" where
  "wf_db d \<longleftrightarrow>
     distinct (map s_id (sessions d)) \<and>
     distinct (map c_id (captures d)) \<and>
     distinct (map j_id (jobs d)) \<and>
     distinct (List.map_filter s_share_token (sessions d))"

subsection \<open>\<open>SessionRepo\<close>\<close>

definition session_create :: "string \<Rightarrow> string \<Rightarrow> string \<Rightarrow> string \<Rightarrow> (exn, db, unit) op" where
  "session_create session_id event_id state now_iso =
     (\<lambda>d. if session_id \<in> s_id ` set (sessions d)
          then (Inl (IntegrityError ''UNIQUE constraint failed: sessions.id''), d)
          else (Inr (), d\<lparr>sessions := sessions d @
                 [\<lparr>s_id = session_id, s_event_id = event_id, s_state = state,
                   s_created_at = now_iso, s_share_token = None\<rparr>]\<rparr>))"

definition session_update_state :: "string \<Rightarrow> string \<Rightarrow> db \<Rightarrow> db" where
  "session_update_state session_id state d =
     d\<lparr>sessions := sql_update (\<lambda>r. s_id r = session_id) (\<lambda>r. r\<lparr>s_state := state\<rparr>) (sessions d)\<rparr>"

definition session_set_share_token :: "string \<Rightarrow> string \<Rightarrow> (exn, db, unit) op" where
  "session_set_share_token session_id token =
     (\<lambda>d. if session_id \<in> s_id ` set (sessions d) \<and>
             (\<exists>r \<in> set (sessions d). s_id r \<noteq> session_id \<and> s_share_token r = Some token)
          then (Inl (IntegrityError ''UNIQUE constraint failed: sessions.share_token''), d)
          else (Inr (), d\<lparr>sessions := sql_update (\<lambda>r. s_id r = session_id)
                  (\<lambda>r. r\<lparr>s_share_token := Some token\<rparr>) (sessions d)\<rparr>))"

definition session_get_by_share_token :: "string \<Rightarrow> db \<Rightarrow> session_row option" where
  "session_get_by_share_token token d =
     fetchone (filter (\<lambda>r. s_share_token r = Some token) (sessions d))"

subsection \<open>\<open>CaptureRepo\<close>\<close>

definition capture_create :: "string \<Rightarrow> string \<Rightarrow> bool \<Rightarrow> string \<Rightarrow> (exn, db, unit) op" where
  "capture_create capture_id session_id is_deliverable now_iso =
     (\<lambda>d. if capture_id \<in> c_id ` set (captures d)
          then (Inl (IntegrityError ''UNIQUE constraint failed: captures.id''), d)
          else (Inr (), d\<lparr>captures := captures d @
                 [\<lparr>c_id = capture_id, c_session_id = session_id, c_created_at = now_iso,
                   c_is_deliverable = (if is_deliverable then 1 else 0)\<rparr>]\<rparr>))"

definition capture_mark_deliverable :: "string \<Rightarrow> db \<Rightarrow> db" where
  "capture_mark_deliverable capture_id d =
     d\<lparr>captures := sql_update (\<lambda>r. c_id r = capture_id) (\<lambda>r. r\<lparr>c_is_deliverable := 1\<rparr>)
        (captures d)\<rparr>"

definition capture_list_older_than :: "string \<Rightarrow> db \<Rightarrow> string list" where
  "capture_list_older_than cutoff_iso d =
     map c_id (filter (\<lambda>r. c_created_at r < cutoff_iso) (captures d))"

definition capture_delete :: "string \<Rightarrow> db \<Rightarrow> db" where
  "capture_delete capture_id d =
     d\<lparr>captures := sql_delete (\<lambda>r. c_id r = capture_id) (captures d)\<rparr>"

text \<open>The join: a row per pair of a capture and a session with the capture's session id.\<close>

definition capture_list_by_event :: "string \<Rightarrow> db \<Rightarrow> (string \<times> string) list" where
  "capture_list_by_event event_id d =
     map (\<lambda>(c, s). (c_id c, c_created_at c))
       (order_by_desc (\<lambda>(c, s). c_created_at c)
         (filter (\<lambda>(c, s). c_session_id c = s_id s \<and> s_event_id s = event_id \<and>
                            c_is_deliverable c = 1)
           (List.product (captures d) (sessions d))))"

definition capture_get_session_id :: "string \<Rightarrow> db \<Rightarrow> string option" where
  "capture_get_session_id capture_id d =
     map_option c_session_id (fetchone (filter (\<lambda>r. c_id r = capture_id) (captures d)))"

definition capture_list_by_session :: "string \<Rightarrow> db \<Rightarrow> (string \<times> string) list" where
  "capture_list_by_session session_id d =
     map (\<lambda>c. (c_id c, c_created_at c))
       (order_by_desc c_created_at
         (filter (\<lambda>c. c_session_id c = session_id \<and> c_is_deliverable c = 1) (captures d)))"

subsection \<open>Spans\<close>

definition insert_span :: "string \<Rightarrow> string \<Rightarrow> rat \<Rightarrow> rat \<Rightarrow> payload \<Rightarrow> db \<Rightarrow> db" where
  "insert_span capture_id name t_start t_end meta d =
     d\<lparr>spans := spans d @
        [\<lparr>sp_capture_id = capture_id, sp_name = name, sp_t_start = t_start,
          sp_t_end = Some t_end, sp_meta_json = meta\<rparr>]\<rparr>"

text \<open>\<open>with span(...)\<close>: the row is written whether the body returns or raises.\<close>

definition span ::
  "((db \<Rightarrow> db) \<Rightarrow> 's \<Rightarrow> 's) \<Rightarrow> string \<Rightarrow> string \<Rightarrow> rat \<Rightarrow> rat \<Rightarrow>
     (exn, 's, 'a) op \<Rightarrow> (exn, 's, 'a) op" where
  "span upd_db name capture_id t_start t_end body =
     try_finally body (upd_db (insert_span capture_id name t_start t_end []))"

definition record_duration :: "string \<Rightarrow> string \<Rightarrow> rat \<Rightarrow> rat \<Rightarrow> payload \<Rightarrow> db \<Rightarrow> db" where
  "record_duration name capture_id duration_s t_end meta =
     insert_span capture_id name (t_end - duration_s) t_end meta"

subsection \<open>Well-formedness is preserved\<close>

lemmas repo_defs = session_create_def session_update_state_def session_set_share_token_def
  capture_create_def capture_mark_deliverable_def capture_delete_def insert_span_def

lemma map_filter_conv: "List.map_filter f xs = map the (filter (\<lambda>y. y \<noteq> None) (map f xs))"
  by (induction xs) (auto simp: List.map_filter_def)

lemma set_map_filter: "set (List.map_filter f xs) = {y. \<exists>x \<in> set xs. f x = Some y}"
  by (force simp: List.map_filter_def)

lemma distinct_map_filter_update:
  assumes "distinct (map k rows)" and "distinct (List.map_filter f rows)"
    and "\<forall>r \<in> set rows. k r \<noteq> i \<longrightarrow> f r \<noteq> Some t"
    and "\<And>r. f (g r) = Some t"
  shows "distinct (List.map_filter f (sql_update (\<lambda>r. k r = i) g rows))"
  using assms(1-3)
proof (induction rows)
  case Nil
  then show ?case by (simp add: sql_update_def List.map_filter_def)
next
  case (Cons r rows)
  have IH: "distinct (List.map_filter f (sql_update (\<lambda>r. k r = i) g rows))"
    using Cons by (auto simp: List.map_filter_def split: if_splits)
  have set_upd: "set (List.map_filter f (sql_update (\<lambda>r. k r = i) g rows)) \<subseteq>
      set (List.map_filter f rows) \<union> (if i \<in> k ` set rows then {t} else {})"
    using assms(4) by (auto simp: set_map_filter set_sql_update image_iff)
  show ?case
  proof (cases "k r = i")
    case True
    then have "i \<notin> k ` set rows" using Cons.prems(1) by auto
    then have "sql_update (\<lambda>r. k r = i) g rows = rows"
      by (intro sql_update_id) auto
    moreover have "t \<notin> set (List.map_filter f rows)"
      using Cons.prems(3) \<open>i \<notin> k ` set rows\<close>
      by (auto simp: set_map_filter image_iff)
    ultimately show ?thesis
      using True IH assms(4) by (simp add: sql_update_def List.map_filter_def)
  next
    case False
    have "y \<notin> set (List.map_filter f (sql_update (\<lambda>r. k r = i) g rows))" if "f r = Some y" for y
    proof -
      have "y \<noteq> t" using Cons.prems(3) False that by auto
      moreover have "y \<notin> set (List.map_filter f rows)"
        using Cons.prems(2) that by (auto simp: List.map_filter_def)
      ultimately show ?thesis using set_upd by (auto split: if_splits)
    qed
    with False IH show ?thesis
      by (auto simp: sql_update_def List.map_filter_def split: option.splits)
  qed
qed

lemma wf_session_create:
  "wf_db d \<Longrightarrow> wf_db (snd (session_create i e st t d))"
  by (auto simp: wf_db_def session_create_def List.map_filter_def)

lemma map_filter_sql_update:
  "(\<And>r. f (g r) = f r) \<Longrightarrow> List.map_filter f (sql_update P g rows) = List.map_filter f rows"
  by (induction rows) (auto simp: sql_update_def List.map_filter_def)

lemma wf_session_update_state: "wf_db d \<Longrightarrow> wf_db (session_update_state i st d)"
  by (simp add: wf_db_def session_update_state_def map_sql_update map_filter_sql_update)

lemma wf_session_set_share_token: "wf_db d \<Longrightarrow> wf_db (snd (session_set_share_token i t d))"
proof (cases "i \<in> s_id ` set (sessions d)")
  case True
  then show "wf_db d \<Longrightarrow> ?thesis"
    unfolding session_set_share_token_def wf_db_def
    by (auto simp: map_sql_update intro!: distinct_map_filter_update)
next
  case False
  then have "sql_update (\<lambda>r. s_id r = i) g (sessions d) = sessions d" for g
    by (intro sql_update_id) auto
  with False show "wf_db d \<Longrightarrow> ?thesis"
    by (simp add: session_set_share_token_def)
qed

lemma wf_capture_create: "wf_db d \<Longrightarrow> wf_db (snd (capture_create i s b t d))"
  by (auto simp: wf_db_def capture_create_def)

lemma wf_capture_mark_deliverable: "wf_db d \<Longrightarrow> wf_db (capture_mark_deliverable i d)"
  by (simp add: wf_db_def capture_mark_deliverable_def map_sql_update)

lemma wf_capture_delete: "wf_db d \<Longrightarrow> wf_db (capture_delete i d)"
  by (simp add: wf_db_def capture_delete_def sql_delete_def distinct_map_filter)

lemma wf_insert_span: "wf_db (insert_span c n t0 t1 m d) \<longleftrightarrow> wf_db d"
  by (simp add: wf_db_def insert_span_def)

lemmas wf_repo = wf_session_create wf_session_update_state wf_session_set_share_token
  wf_capture_create wf_capture_mark_deliverable wf_capture_delete

end
