(* ===== verification/Py_Files.thy ===== *)
theory Py_Files
  imports Py_String Core_State "HOL-Library.Word"
begin

text \<open>
  \<open>pathlib\<close> paths and the files the program reads and writes.  A path is its root and its
  parts, as \<open>PurePosixPath\<close> keeps it; ``..'' is an ordinary part (\<open>pathlib\<close> does not
  collapse it), and the file system is a map keyed by paths as written, without links.  A fault
  predicate stands for the \<open>OSError\<close>s of a full or broken disk, so that the error branches of
  the callers are reached.
\<close>

type_synonym bytes = "8 word list"

datatype path = Path (p_root: string) (p_parts: "string list")

definition to_path :: "string \<Rightarrow> path" where
  "to_path s =
     Path (if starts_with ''//'' s \<and> \<not> starts_with ''///'' s then ''//''
           else if starts_with ''/'' s then ''/'' else '''')
          (filter (\<lambda>p. p \<noteq> '''' \<and> p \<noteq> ''.'') (split_on (CHR ''/'') s))"

text \<open>\<open>p / s\<close>: an absolute right operand replaces the left one.\<close>

definition path_div :: "path \<Rightarrow> string \<Rightarrow> path" where
  "path_div p s =
     (let q = to_path s in
      if p_root q \<noteq> '''' then q else Path (p_root p) (p_parts p @ p_parts q))"

definition path_str :: "path \<Rightarrow> string" where
  "path_str p =
     (let s = p_root p @ join_with ''/'' (p_parts p) in if s = '''' then ''.'' else s)"

definition path_parent :: "path \<Rightarrow> path" where
  "path_parent p = Path (p_root p) (butlast (p_parts p))"

definition path_name :: "path \<Rightarrow> string" where
  "path_name p = (if p_parts p = [] then '''' else last (p_parts p))"

text \<open>\<open>suffix\<close> and \<open>stem\<close>: split at the last dot, unless it is first or last.\<close>

definition path_suffix :: "path \<Rightarrow> string" where
  "path_suffix p =
     (let n = path_name p; h = rsplit_head (CHR ''.'') n in
      if CHR ''.'' \<notin> set n \<or> h = '''' \<or> length h = length n - 1 then '''' else drop (length h) n)"

definition path_stem :: "path \<Rightarrow> string" where
  "path_stem p = take (length (path_name p) - length (path_suffix p)) (path_name p)"

text \<open>A file name: non-empty, no slash, not the dot entry.\<close>

definition plain_name :: "string \<Rightarrow> bool" where
  "plain_name s \<longleftrightarrow> s \<noteq> '''' \<and> s \<noteq> ''.'' \<and> CHR ''/'' \<notin> set s"

lemma starts_with_slash: "CHR ''/'' \<notin> set s \<Longrightarrow> \<not> starts_with ''/'' s"
  by (cases s) (auto simp: starts_with_def)

lemma starts_with_slash2: "CHR ''/'' \<notin> set s \<Longrightarrow> \<not> starts_with ''//'' s"
  by (cases s) (auto simp: starts_with_def)

lemma to_path_plain: "plain_name s \<Longrightarrow> to_path s = Path '''' [s]"
  by (simp add: to_path_def plain_name_def starts_with_slash starts_with_slash2 split_on_no_sep)

lemma path_div_plain: "plain_name s \<Longrightarrow> path_div p s = Path (p_root p) (p_parts p @ [s])"
  by (simp add: path_div_def to_path_plain)

lemma path_div_plain_inject:
  "plain_name a \<Longrightarrow> plain_name b \<Longrightarrow> path_div p a = path_div p b \<longleftrightarrow> a = b"
  by (simp add: path_div_plain)

lemma path_parent_div_plain: "plain_name s \<Longrightarrow> path_parent (path_div p s) = p"
  by (cases p) (simp add: path_div_plain path_parent_def)

lemma plain_name_append: "plain_name a \<Longrightarrow> CHR ''/'' \<notin> set b \<Longrightarrow> a @ b \<noteq> ''.'' \<Longrightarrow> plain_name (a @ b)"
  by (simp add: plain_name_def)

subsection \<open>The file system\<close>

record fs =
  fs_files :: "path \<rightharpoonup> bytes"
  fs_dirs :: "path set"
  fs_faults :: "path \<Rightarrow> bool"

definition is_file :: "fs \<Rightarrow> path \<Rightarrow> bool" where
  "is_file f p \<longleftrightarrow> fs_files f p \<noteq> None"

definition is_dir :: "fs \<Rightarrow> path \<Rightarrow> bool" where
  "is_dir f p \<longleftrightarrow> p \<in> fs_dirs f"

definition path_exists :: "fs \<Rightarrow> path \<Rightarrow> bool" where
  "path_exists f p \<longleftrightarrow> is_file f p \<or> is_dir f p"

definition read_file :: "fs \<Rightarrow> path \<Rightarrow> bytes res" where
  "read_file f p =
     (case fs_files f p of
        None \<Rightarrow> Inl (FileNotFoundError (path_str p))
      | Some d \<Rightarrow> if fs_faults f p then Inl (OSError (path_str p)) else Inr d)"

definition write_file :: "path \<Rightarrow> bytes \<Rightarrow> (exn, fs, unit) op" where
  "write_file p d =
     (\<lambda>f. if \<not> is_dir f (path_parent p) then (Inl (FileNotFoundError (path_str p)), f)
          else if fs_faults f p then (Inl (OSError (path_str p)), f)
          else (Inr (), f\<lparr>fs_files := (fs_files f)(p \<mapsto> d)\<rparr>))"

definition unlink_file :: "path \<Rightarrow> (exn, fs, unit) op" where
  "unlink_file p =
     (\<lambda>f. if \<not> is_file f p then (Inl (FileNotFoundError (path_str p)), f)
          else if fs_faults f p then (Inl (OSError (path_str p)), f)
          else (Inr (), f\<lparr>fs_files := (fs_files f)(p := None)\<rparr>))"

lemma write_file_cases:
  "write_file p d f = (r, f') \<Longrightarrow>
     (r = Inr () \<and> f' = f\<lparr>fs_files := (fs_files f)(p \<mapsto> d)\<rparr> \<and> is_dir f (path_parent p) \<and>
        \<not> fs_faults f p) \<or>
     ((\<exists>e. r = Inl e \<and> is_OSError e) \<and> f' = f)"
  by (auto simp: write_file_def split: if_splits)

lemma write_file_ok:
  "is_dir f (path_parent p) \<Longrightarrow> \<not> fs_faults f p \<Longrightarrow>
     write_file p d f = (Inr (), f\<lparr>fs_files := (fs_files f)(p \<mapsto> d)\<rparr>)"
  by (simp add: write_file_def)

lemma unlink_file_result:
  "fs_files (snd (unlink_file p f)) =
     (if fs_faults f p then fs_files f else (fs_files f)(p := None))"
  by (auto simp: unlink_file_def is_file_def fun_eq_iff)

lemma unlink_file_frame [simp]:
  "fs_dirs (snd (unlink_file p f)) = fs_dirs f" "fs_faults (snd (unlink_file p f)) = fs_faults f"
  by (simp_all add: unlink_file_def)

subsection \<open>Making directories and copying\<close>

text \<open>
  \<open>p.mkdir(parents=True, exist_ok=True)\<close>: refused when \<open>p\<close> or a parent of it is a file.
\<close>

definition path_ancestors :: "path \<Rightarrow> path set" where
  "path_ancestors p = (\<lambda>n. Path (p_root p) (take n (p_parts p))) ` {0..length (p_parts p)}"

definition mkdir_parents :: "path \<Rightarrow> (exn, fs, unit) op" where
  "mkdir_parents p =
     (\<lambda>f. if (\<exists>q \<in> path_ancestors p. is_file f q) \<or> fs_faults f p
          then (Inl (OSError (path_str p)), f)
          else (Inr (), f\<lparr>fs_dirs := fs_dirs f \<union> path_ancestors p\<rparr>))"

text \<open>The same where the code cannot fail on it: the directories exist or can be made.\<close>

definition make_dir :: "path \<Rightarrow> fs \<Rightarrow> fs" where
  "make_dir p f = f\<lparr>fs_dirs := fs_dirs f \<union> path_ancestors p\<rparr>"

text \<open>
  \<open>shutil.copy2(src, dst)\<close>, without the time stamps: into \<open>dst\<close> when that is a directory,
  refused on the file itself.  A copy that fails leaves no partial file.
\<close>

definition copy_target :: "fs \<Rightarrow> path \<Rightarrow> path \<Rightarrow> path" where
  "copy_target f src dst = (if is_dir f dst then path_div dst (path_name src) else dst)"

definition copy2 :: "path \<Rightarrow> path \<Rightarrow> (exn, fs, unit) op" where
  "copy2 src dst =
     (\<lambda>f. let target = copy_target f src dst in
          if src = target \<and> is_file f src then (Inl (OSError (path_str src)), f)
          else if is_dir f target then (Inl (OSError (path_str target)), f)
          else (case read_file f src of
                  Inl e \<Rightarrow> (Inl e, f)
                | Inr d \<Rightarrow> write_file target d f))"

lemma path_ancestors_self [simp]: "p \<in> path_ancestors p"
  by (force simp: path_ancestors_def intro!: path.expand)

lemma path_ancestors_finite [simp]: "finite (path_ancestors p)"
  by (simp add: path_ancestors_def)

lemma mkdir_parents_cases:
  "mkdir_parents p f = (r, f') \<Longrightarrow>
     (r = Inr () \<and> f' = f\<lparr>fs_dirs := fs_dirs f \<union> path_ancestors p\<rparr> \<and>
        (\<forall>q \<in> path_ancestors p. \<not> is_file f q)) \<or>
     ((\<exists>e. r = Inl e \<and> is_OSError e) \<and> f' = f)"
  by (auto simp: mkdir_parents_def split: if_splits)

lemma copy2_cases:
  "copy2 src dst f = (r, f') \<Longrightarrow>
     (\<exists>d. r = Inr () \<and> fs_files f src = Some d \<and>
        f' = f\<lparr>fs_files := (fs_files f)(copy_target f src dst \<mapsto> d)\<rparr>) \<or>
     ((\<exists>e. r = Inl e \<and> is_OSError e) \<and> f' = f)"
  by (auto simp: copy2_def Let_def read_file_def write_file_def
      split: if_splits option.splits sum.splits)

subsection \<open>Paths as strings\<close>

lemma split_on_parts: "p \<in> set (split_on c s) \<Longrightarrow> c \<notin> set p"
proof (induction s arbitrary: p)
  case (Cons x s)
  then show ?case by (cases "split_on c s") (auto split: if_splits)
qed simp

lemma split_on_append: "c \<notin> set p \<Longrightarrow> split_on c (p @ c # s) = p # split_on c s"
  by (induction p) auto

lemma split_join: "ps \<noteq> [] \<Longrightarrow> \<forall>p \<in> set ps. c \<notin> set p \<Longrightarrow> split_on c (join_with [c] ps) = ps"
proof (induction ps)
  case (Cons p ps)
  then show ?case by (cases ps) (simp_all add: split_on_no_sep split_on_append)
qed simp

definition wf_path :: "path \<Rightarrow> bool" where
  "wf_path p \<longleftrightarrow> p_root p \<in> {'''', ''/'', ''//''} \<and> list_all plain_name (p_parts p)"

lemma wf_to_path: "wf_path (to_path s)"
  by (auto simp: wf_path_def to_path_def plain_name_def list_all_iff dest: split_on_parts)

lemma join_plain_head:
  assumes "list_all plain_name ps" and "ps \<noteq> []"
  obtains x t where "join_with ''/'' ps = x # t" and "x \<noteq> CHR ''/''"
proof -
  obtain p qs where ps: "ps = p # qs" using assms(2) by (cases ps) auto
  obtain x t where p: "p = x # t" "x \<noteq> CHR ''/''"
    using assms(1) ps by (cases p) (auto simp: plain_name_def)
  have "join_with ''/'' ps = x # join_with ''/'' (t # qs)" by (cases qs) (simp_all add: ps p)
  with p(2) show thesis using that by blast
qed

lemma filter_plain: "list_all plain_name ps \<Longrightarrow> filter (\<lambda>p. p \<noteq> '''' \<and> p \<noteq> ''.'') ps = ps"
  by (induction ps) (simp_all add: plain_name_def)

lemma split_plain:
  assumes "list_all plain_name ps"
  shows "filter (\<lambda>p. p \<noteq> '''' \<and> p \<noteq> ''.'') (split_on (CHR ''/'') (join_with ''/'' ps)) = ps"
proof (cases "ps = []")
  case False
  moreover have "\<forall>p \<in> set ps. CHR ''/'' \<notin> set p" using assms by (simp add: plain_name_def list_all_iff)
  ultimately have "split_on (CHR ''/'') (join_with ''/'' ps) = ps" by (rule split_join)
  then show ?thesis using filter_plain [OF assms] by simp
qed simp

text \<open>\<open>Path(str(p)) = p\<close>.\<close>

lemma to_path_path_str:
  assumes "wf_path p"
  shows "to_path (path_str p) = p"
proof -
  obtain r ps where p: "p = Path r ps" by (cases p)
  have plain: "list_all plain_name ps" and r: "r = '''' \<or> r = ''/'' \<or> r = ''//''"
    using assms by (auto simp: wf_path_def p)
  let ?j = "join_with ''/'' ps"
  have nos: "\<not> starts_with ''/'' ?j \<and> \<not> starts_with ''//'' ?j"
  proof (cases "ps = []")
    case False
    obtain x t where "?j = x # t" "x \<noteq> CHR ''/''" by (rule join_plain_head [OF plain False])
    then show ?thesis by (simp add: starts_with_def)
  qed (simp add: starts_with_def)

  show ?thesis
  proof (cases "r = '''' \<and> ps = []")
    case True
    then show ?thesis by (simp add: p path_str_def to_path_def starts_with_def)
  next
    case False
    have "?j \<noteq> ''''" if "ps \<noteq> []" by (rule join_plain_head [OF plain that]) simp
    then have str: "path_str p = r @ ?j" using False by (auto simp: p path_str_def Let_def)
    have sl: "starts_with ''/'' (CHR ''/'' # s)" "starts_with ''//'' (CHR ''/'' # s) \<longleftrightarrow> starts_with ''/'' s"
      "starts_with ''///'' (CHR ''/'' # s) \<longleftrightarrow> starts_with ''//'' s" for s
      by (simp_all add: starts_with_def)
    have split: "filter (\<lambda>p. p \<noteq> '''' \<and> p \<noteq> ''.'') (split_on (CHR ''/'') (r @ ?j)) = ps"
      using r split_plain [OF plain] by auto
    show ?thesis
      using r nos split unfolding str to_path_def by (elim disjE) (simp_all add: p sl)
  qed
qed

end
