(* ===== verification/Storage_Connect.thy ===== *)
theory Storage_Connect
  imports Database Py_Files
begin

text \<open>
  \<open>connect\<close> of \<open>src/photobooth/storage/db.py\<close>: opening the database file, which may be missing, new, or
  written by an earlier version of the program, whose \<open>captures\<close> had no \<open>is_deliverable\<close>.  A
  stored database has for every table of the schema its rows, or no such table.  The statements of
  \<open>connect\<close> are numbered; \<open>locked k\<close> says that another process holds the file's write lock longer than
  SQLite's time-out when statement \<open>k\<close> runs, so that it is refused if it has to write.  Database
  files are kept apart from the other files; one that holds something else is left out.
\<close>

subsection \<open>Stored databases\<close>

record old_capture_row =
  oc_id :: string
  oc_session_id :: string
  oc_created_at :: string

datatype captures_table = OldCaptures "old_capture_row list" | Captures "capture_row list"

record db_file =
  f_wal :: bool
  f_sessions :: "session_row list option"
  f_captures :: "captures_table option"
  f_spans :: "span_row list option"
  f_jobs :: "job_row list option"
  f_indexes :: "string list"

definition new_db_file :: db_file where
  "new_db_file = \<lparr>f_wal = False, f_sessions = None, f_captures = None, f_spans = None, f_jobs = None,
     f_indexes = []\<rparr>"

record store =
  st_fs :: fs
  st_dbs :: "path \<Rightarrow> db_file option"

type_synonym 'a store_op = "(exn, store, 'a) op"

subsection \<open>The statements\<close>

fun is_OperationalError :: "exn \<Rightarrow> bool" where
  "is_OperationalError (OperationalError _) = True"
| "is_OperationalError _ = False"

text \<open>A statement that has nothing to do needs no lock; another one is refused while the file is locked.\<close>

definition write_statement :: "bool \<Rightarrow> (db_file \<Rightarrow> bool) \<Rightarrow> (db_file \<Rightarrow> db_file) \<Rightarrow> (exn, db_file, unit) op" where
  "write_statement locked to_do change =
     (\<lambda>f. if \<not> to_do f then (Inr (), f)
          else if locked then (Inl (OperationalError ''database is locked''), f)
          else (Inr (), change f))"

definition journal_mode_wal :: "bool \<Rightarrow> (exn, db_file, unit) op" where
  "journal_mode_wal locked = write_statement locked (\<lambda>f. \<not> f_wal f) (f_wal_update (\<lambda>_. True))"

definition create_index :: "bool \<Rightarrow> string \<Rightarrow> (exn, db_file, unit) op" where
  "create_index locked name =
     write_statement locked (\<lambda>f. name \<notin> set (f_indexes f)) (\<lambda>f. f\<lparr>f_indexes := f_indexes f @ [name]\<rparr>)"

definition create_schema :: "(nat \<Rightarrow> bool) \<Rightarrow> (exn, db_file, unit) op" where
  "create_schema locked =
     andthen (write_statement (locked 1) (\<lambda>f. f_sessions f = None) (\<lambda>f. f\<lparr>f_sessions := Some []\<rparr>))
     (andthen (write_statement (locked 2) (\<lambda>f. f_captures f = None) (\<lambda>f. f\<lparr>f_captures := Some (Captures [])\<rparr>))
     (andthen (write_statement (locked 3) (\<lambda>f. f_spans f = None) (\<lambda>f. f\<lparr>f_spans := Some []\<rparr>))
     (andthen (write_statement (locked 4) (\<lambda>f. f_jobs f = None) (\<lambda>f. f\<lparr>f_jobs := Some []\<rparr>))
     (andthen (create_index (locked 5) ''idx_jobs_claim'')
       (create_index (locked 6) ''idx_jobs_kind_status'')))))"

text \<open>\<open>ADD COLUMN ... DEFAULT 1\<close>: the value of the new column in every row there was.\<close>

definition add_deliverable :: "old_capture_row \<Rightarrow> capture_row" where
  "add_deliverable r = \<lparr>c_id = oc_id r, c_session_id = oc_session_id r, c_created_at = oc_created_at r,
     c_is_deliverable = 1\<rparr>"

definition alter_captures :: "bool \<Rightarrow> (exn, db_file, unit) op" where
  "alter_captures locked =
     (\<lambda>f. case f_captures f of
        None \<Rightarrow> (Inl (OperationalError ''no such table: captures''), f)
      | Some (Captures _) \<Rightarrow> (Inl (OperationalError ''duplicate column name: is_deliverable''), f)
      | Some (OldCaptures rs) \<Rightarrow>
          if locked then (Inl (OperationalError ''database is locked''), f)
          else (Inr (), f\<lparr>f_captures := Some (Captures (map add_deliverable rs))\<rparr>))"

definition migrate :: "(nat \<Rightarrow> bool) \<Rightarrow> (exn, db_file, unit) op" where
  "migrate locked =
     andthen (journal_mode_wal (locked 0))
     (andthen (create_schema locked)
       (try_except (alter_captures (locked 7))
         (\<lambda>e. if is_OperationalError e then ret () else raise e)))"

definition on_fs :: "(exn, fs, 'a) op \<Rightarrow> 'a store_op" where
  "on_fs m = (\<lambda>s. let (r, f) = m (st_fs s) in (r, s\<lparr>st_fs := f\<rparr>))"

definition on_db :: "path \<Rightarrow> (exn, db_file, 'a) op \<Rightarrow> 'a store_op" where
  "on_db path m = (\<lambda>s.
     if is_dir (st_fs s) path \<or> fs_faults (st_fs s) path \<or> \<not> is_dir (st_fs s) (path_parent path)
     then (Inl (OperationalError ''unable to open database file''), s)
     else let (r, f) = m (case st_dbs s path of None \<Rightarrow> new_db_file | Some f \<Rightarrow> f)
          in (r, s\<lparr>st_dbs := (st_dbs s)(path := Some f)\<rparr>))"

definition connect :: "(nat \<Rightarrow> bool) \<Rightarrow> path \<Rightarrow> unit store_op" where
  "connect locked path = andthen (on_fs (mkdir_parents (path_parent path))) (on_db path (migrate locked))"

text \<open>\<open>CaptureRepo.create\<close> on a stored table: the statement names the column.\<close>

definition file_capture_create :: "string \<Rightarrow> string \<Rightarrow> bool \<Rightarrow> string \<Rightarrow> (exn, db_file, unit) op" where
  "file_capture_create capture_id session_id is_deliverable now_iso =
     (\<lambda>f. case f_captures f of
        None \<Rightarrow> (Inl (OperationalError ''no such table: captures''), f)
      | Some (OldCaptures _) \<Rightarrow>
          (Inl (OperationalError ''table captures has no column named is_deliverable''), f)
      | Some (Captures cs) \<Rightarrow>
          (let (r, d) = capture_create capture_id session_id is_deliverable now_iso (empty_db\<lparr>captures := cs\<rparr>)
           in (r, f\<lparr>f_captures := Some (Captures (captures d))\<rparr>)))"

subsection \<open>What a file holds\<close>

text \<open>
  \<open>opened\<close>: the database the rest of the program works on, when every table has the columns of the
  schema.  \<open>contents\<close>: the rows whichever version wrote the file; a capture of the earlier version
  was the picture the guest got.
\<close>

definition opened :: "db_file \<Rightarrow> db option" where
  "opened f = (case (f_sessions f, f_captures f, f_spans f, f_jobs f) of
       (Some ss, Some (Captures cs), Some sps, Some js) \<Rightarrow>
         Some \<lparr>sessions = ss, captures = cs, spans = sps, jobs = js\<rparr>
     | _ \<Rightarrow> None)"

definition capture_rows :: "captures_table option \<Rightarrow> capture_row list" where
  "capture_rows t = (case t of
       None \<Rightarrow> []
     | Some (OldCaptures rs) \<Rightarrow> [\<lparr>c_id = oc_id r, c_session_id = oc_session_id r, c_created_at = oc_created_at r,
         c_is_deliverable = 1\<rparr>. r \<leftarrow> rs]
     | Some (Captures cs) \<Rightarrow> cs)"

definition rows :: "'r list option \<Rightarrow> 'r list" where
  "rows t = (case t of None \<Rightarrow> [] | Some rs \<Rightarrow> rs)"

definition contents :: "db_file \<Rightarrow> db" where
  "contents f = \<lparr>sessions = rows (f_sessions f), captures = capture_rows (f_captures f),
     spans = rows (f_spans f), jobs = rows (f_jobs f)\<rparr>"

definition stored :: "store \<Rightarrow> path \<Rightarrow> db" where
  "stored s q = contents (case st_dbs s q of None \<Rightarrow> new_db_file | Some f \<Rightarrow> f)"

subsection \<open>Properties\<close>

lemma rows_simps [simp]: "rows None = []" "rows (Some rs) = rs"
  by (simp_all add: rows_def)

lemma capture_rows_simps [simp]:
  "capture_rows None = []" "capture_rows (Some (Captures cs)) = cs"
  "capture_rows (Some (OldCaptures rs)) = map add_deliverable rs"
  by (simp_all add: capture_rows_def add_deliverable_def)

lemma write_statement_keeps [frame_rules]:
  "(\<And>f. to_do f \<Longrightarrow> g (change f) = g f) \<Longrightarrow> keeps g (write_statement locked to_do change)"
  by (auto simp: keeps_def write_statement_def)

lemma alter_captures_keeps: "keeps contents (alter_captures locked)"
  by (auto simp: keeps_def alter_captures_def contents_def split: option.splits captures_table.splits)

lemma create_schema_keeps: "keeps contents (create_schema locked)"
  unfolding create_schema_def create_index_def
  by (intro keeps_andthen write_statement_keeps) (simp_all add: contents_def)

lemma migrate_keeps: "keeps contents (migrate locked)"
proof -
  have "keeps contents (journal_mode_wal (locked 0))"
    unfolding journal_mode_wal_def by (rule write_statement_keeps) (simp add: contents_def)
  moreover have "keeps contents (if is_OperationalError e then ret () else raise e)" for e
    by (simp add: keeps_basic)
  ultimately show ?thesis
    unfolding migrate_def
    by (intro keeps_andthen create_schema_keeps keeps_try_except alter_captures_keeps)
qed

lemma write_statement_raises [frame_rules]:
  "raises_only is_OperationalError (write_statement locked to_do change)"
  by (auto simp: raises_only_def write_statement_def)

lemma migrate_raises: "raises_only is_OperationalError (migrate locked)"
proof -
  have "raises_only is_OperationalError (alter_captures (locked 7))"
    by (auto simp: raises_only_def alter_captures_def split: option.splits captures_table.splits if_splits)
  moreover have "is_OperationalError e \<Longrightarrow>
      raises_only is_OperationalError (if is_OperationalError e then ret () else raise e)" for e
    by (simp add: raises_only_basic)
  ultimately show ?thesis
    unfolding migrate_def create_schema_def journal_mode_wal_def create_index_def
    by (intro raises_only_andthen raises_only_try write_statement_raises)
qed

text \<open>A file with everything the schema names, apart from the shape of \<open>captures\<close>.\<close>

definition has_schema :: "db_file \<Rightarrow> bool" where
  "has_schema f \<longleftrightarrow> f_wal f \<and> f_sessions f \<noteq> None \<and> f_captures f \<noteq> None \<and> f_spans f \<noteq> None \<and> f_jobs f \<noteq> None \<and>
     {''idx_jobs_claim'', ''idx_jobs_kind_status''} \<subseteq> set (f_indexes f)"

lemma write_statement_returns:
  "write_statement locked to_do change f = (Inr (), f') \<Longrightarrow> f' = (if to_do f then change f else f)"
  by (auto simp: write_statement_def split: if_splits)

lemma write_statement_idle [simp]: "\<not> to_do f \<Longrightarrow> write_statement locked to_do change f = (Inr (), f)"
  by (simp add: write_statement_def)

lemma schema_created:
  assumes "create_schema locked f = (Inr (), f')"
  shows "f_wal f' = f_wal f \<and> (f_wal f \<longrightarrow> has_schema f') \<and>
    f_captures f' = (if f_captures f = None then Some (Captures []) else f_captures f)"
proof -
  from assms obtain f1 f2 f3 f4 f5 where
    f1: "f1 = (if f_sessions f = None then f\<lparr>f_sessions := Some []\<rparr> else f)"
    and f2: "f2 = (if f_captures f1 = None then f1\<lparr>f_captures := Some (Captures [])\<rparr> else f1)"
    and f3: "f3 = (if f_spans f2 = None then f2\<lparr>f_spans := Some []\<rparr> else f2)"
    and f4: "f4 = (if f_jobs f3 = None then f3\<lparr>f_jobs := Some []\<rparr> else f3)"
    and index: "create_index (locked 5) ''idx_jobs_claim'' f4 = (Inr (), f5)"
    "create_index (locked 6) ''idx_jobs_kind_status'' f5 = (Inr (), f')"
    unfolding create_schema_def andthen_def bindE_returns_iff
    by (fastforce dest!: write_statement_returns)
  have "f_wal f1 = f_wal f" "f_sessions f1 \<noteq> None" "f_captures f1 = f_captures f"
    by (simp_all add: f1)
  then have "f_wal f2 = f_wal f" "f_sessions f2 \<noteq> None"
    "f_captures f2 = (if f_captures f = None then Some (Captures []) else f_captures f)"
    by (simp_all add: f2)
  then have "f_wal f3 = f_wal f" "f_sessions f3 \<noteq> None" "f_spans f3 \<noteq> None"
    "f_captures f3 = (if f_captures f = None then Some (Captures []) else f_captures f)"
    by (simp_all add: f3)
  then have "f_wal f4 = f_wal f" "f_sessions f4 \<noteq> None" "f_spans f4 \<noteq> None" "f_jobs f4 \<noteq> None"
    "f_captures f4 = (if f_captures f = None then Some (Captures []) else f_captures f)"
    by (simp_all add: f4)
  with index show ?thesis
    unfolding create_index_def has_schema_def
    by (auto dest!: write_statement_returns split: if_splits)
qed

lemma schema_there: "has_schema f \<Longrightarrow> create_schema locked f = (Inr (), f)"
  by (simp add: create_schema_def create_index_def has_schema_def)

lemma wal_there: "has_schema f \<Longrightarrow> journal_mode_wal locked f = (Inr (), f)"
  by (simp add: journal_mode_wal_def has_schema_def)

lemma alter_captures_migrates:
  assumes "has_schema f" and "alter_captures False f = (r, f')"
  shows "has_schema f' \<and> opened f' = Some (contents f) \<and> (\<forall>e. r = Inl e \<longrightarrow> is_OperationalError e)"
proof -
  obtain ss t sps js where f: "f_sessions f = Some ss" "f_captures f = Some t" "f_spans f = Some sps"
    "f_jobs f = Some js" using assms(1) by (auto simp: has_schema_def)
  show ?thesis
  proof (cases t)
    case (OldCaptures rs)
    then have "r = Inr ()" "f' = f\<lparr>f_captures := Some (Captures (map add_deliverable rs))\<rparr>"
      using assms(2) f by (simp_all add: alter_captures_def)
    then show ?thesis using assms(1) f OldCaptures by (simp add: has_schema_def opened_def contents_def)
  next
    case (Captures cs)
    then have "f' = f" "r = Inl (OperationalError ''duplicate column name: is_deliverable'')"
      using assms(2) f by (simp_all add: alter_captures_def)
    then show ?thesis using assms(1) f Captures by (simp add: opened_def contents_def)
  qed
qed

lemma migrate_there:
  assumes "has_schema f" and "opened f = Some d"
  shows "migrate locked f = (Inr (), f)"
proof -
  obtain cs where "f_captures f = Some (Captures cs)"
    using assms(2) by (auto simp: opened_def split: option.splits captures_table.splits)
  then show ?thesis
    using assms(1) by (simp add: migrate_def schema_there wal_there alter_captures_def)
qed

lemma migrate_upgrades:
  assumes "migrate locked f = (Inr (), f')" and "\<not> locked 7"
  shows "has_schema f' \<and> opened f' = Some (contents f)"
proof -
  from assms(1) obtain f1 f2 where steps: "journal_mode_wal (locked 0) f = (Inr (), f1)"
    "create_schema locked f1 = (Inr (), f2)"
    "try_except (alter_captures (locked 7)) (\<lambda>e. if is_OperationalError e then ret () else raise e) f2 = (Inr (), f')"
    unfolding migrate_def andthen_def bindE_returns_iff by auto
  have "f_wal f1" "contents f1 = contents f"
    using steps(1) by (auto simp: journal_mode_wal_def contents_def dest!: write_statement_returns)
  with schema_created [OF steps(2)] keepsD [OF create_schema_keeps steps(2)]
  have f2: "has_schema f2" "contents f2 = contents f" by auto
  obtain r f3 where alter: "alter_captures False f2 = (r, f3)" by fastforce
  with steps(3) assms(2) alter_captures_migrates [OF f2(1) alter] f2(2) show ?thesis by (cases r) auto
qed

lemma stored_elsewhere:
  assumes "connect locked path s = (r, s')" and "q \<noteq> path" shows "st_dbs s' q = st_dbs s q"
  using assms
  by (auto simp: connect_def on_fs_def on_db_def andthen_def bindE_def Let_def split: prod.splits sum.splits if_splits)

text \<open>How a call ends: refused before the file is opened, or after its statements.\<close>

lemma connect_ends:
  assumes "connect locked path s = (r, s')"
  obtains (refused) e where "r = Inl e" "is_OSError e \<or> is_OperationalError e" "st_dbs s' = st_dbs s"
  | (opened_file) f where
      "migrate locked (case st_dbs s path of None \<Rightarrow> new_db_file | Some f \<Rightarrow> f) = (r, f)"
      "st_dbs s' path = Some f"
      "mkdir_parents (path_parent path) (st_fs s) = (Inr (), st_fs s')"
      "\<not> (is_dir (st_fs s') path \<or> fs_faults (st_fs s') path \<or> \<not> is_dir (st_fs s') (path_parent path))"
proof -
  obtain m fs1 where mk: "mkdir_parents (path_parent path) (st_fs s) = (m, fs1)" by fastforce
  show ?thesis
  proof (cases m)
    case (Inl e)
    with mk assms mkdir_parents_cases [OF mk] show ?thesis
      by (intro refused [of e]) (auto simp: connect_def on_fs_def andthen_def bindE_def)
  next
    case (Inr u)
    then have run: "on_db path (migrate locked) (s\<lparr>st_fs := fs1\<rparr>) = (r, s')"
      using mk assms by (simp add: connect_def on_fs_def andthen_def bindE_def)
    show ?thesis
    proof (cases "is_dir fs1 path \<or> fs_faults fs1 path \<or> \<not> is_dir fs1 (path_parent path)")
      case True
      then show ?thesis
        using run by (intro refused [of "OperationalError ''unable to open database file''"])
          (auto simp: on_db_def)
    next
      case False
      then show ?thesis
        using run mk Inr by (intro opened_file [of "the (st_dbs s' path)"])
          (auto simp: on_db_def Let_def split: prod.splits)
    qed
  qed
qed

lemma mkdir_again:
  assumes "mkdir_parents p f = (Inr (), f')" shows "mkdir_parents p f' = (Inr (), f')"
  using assms by (auto simp: mkdir_parents_def is_file_def split: if_splits)

text \<open>Connecting again to a file that is up to date changes nothing, locked or not.\<close>

lemma connect_again:
  assumes up: "st_dbs s path = Some f" "has_schema f" "opened f = Some d"
    and there: "mkdir_parents (path_parent path) (st_fs s) = (Inr (), st_fs s)"
    and free: "\<not> (is_dir (st_fs s) path \<or> fs_faults (st_fs s) path \<or> \<not> is_dir (st_fs s) (path_parent path))"
  shows "connect locked path s = (Inr (), s)"
proof -
  have "on_fs (mkdir_parents (path_parent path)) s = (Inr (), s)" using there by (simp add: on_fs_def)
  moreover have "on_db path (migrate locked) s = (Inr (), s)"
    using free up migrate_there [OF up(2,3)] by (simp add: on_db_def Let_def fun_upd_idem)
  ultimately show ?thesis by (simp add: connect_def)
qed


text \<open>A file of the earlier version with one capture, opened by an unlocked connection.\<close>

definition old_store :: store where
  "old_store = \<lparr>st_fs = \<lparr>fs_files = (\<lambda>_. None), fs_dirs = {}, fs_faults = (\<lambda>_. False)\<rparr>,
     st_dbs = (\<lambda>_. None)(to_path ''out/photobooth.db'' := Some (new_db_file\<lparr>
       f_wal := True, f_sessions := Some [],
       f_captures := Some (OldCaptures [\<lparr>oc_id = ''c1'', oc_session_id = ''s1'', oc_created_at = ''2024''\<rparr>])\<rparr>))\<rparr>"


text \<open>
  The handler around the migration takes every \<open>OperationalError\<close> for "column already exists".  If
  the file of an earlier version is locked by another process at that moment, \<open>connect\<close> returns as
  if all was well, and every capture the booth then records is refused.
\<close>

theorem locked_out_migration:
  assumes f: "st_dbs s path = Some f" "has_schema f" "f_captures f = Some (OldCaptures rs)"
    and there: "mkdir_parents (path_parent path) (st_fs s) = (Inr (), st_fs s)"
    and free: "\<not> (is_dir (st_fs s) path \<or> fs_faults (st_fs s) path \<or> \<not> is_dir (st_fs s) (path_parent path))"
    and locked: "locked 7"
  shows "connect locked path s = (Inr (), s) \<and>
    file_capture_create capture_id session_id is_deliverable now_iso f =
      (Inl (OperationalError ''table captures has no column named is_deliverable''), f)"
proof -
  have "migrate locked f = (Inr (), f)"
    using f(2,3) locked by (simp add: migrate_def schema_there wal_there alter_captures_def)
  then have "on_db path (migrate locked) s = (Inr (), s)"
    using free f(1) by (simp add: on_db_def Let_def fun_upd_idem)
  moreover have "on_fs (mkdir_parents (path_parent path)) s = (Inr (), s)" using there by (simp add: on_fs_def)
  ultimately show ?thesis using f(3) by (simp add: connect_def file_capture_create_def)
qed

text \<open>On a file that was upgraded the stored table behaves as the repository's model.\<close>

theorem upgraded_file_records:
  assumes "opened f = Some d" and "file_capture_create capture_id session_id is_deliverable now_iso f = (r, f')"
  shows "(r, opened f') = (case capture_create capture_id session_id is_deliverable now_iso d of (r, d') \<Rightarrow> (r, Some d'))"
  using assms
  by (auto simp: file_capture_create_def opened_def capture_create_def empty_db_def Let_def
      split: option.splits captures_table.splits if_splits)

end
