(* ===== verification/Job_Queue.thy ===== *)
theory Job_Queue
  imports Database
begin

text \<open>
  \<open>src/photobooth/storage/queue.py\<close>: the durable job queue over the \<open>jobs\<close> table and the
  poll loop \<open>run_worker\<close>.  \<open>time.time()\<close>, the ISO time stamp and \<open>uuid4().hex\<close> are
  arguments of each operation.  Floating point values are rationals; the conversion of a Python
  int above \<open>2 ** 1024\<close> to a float raises \<open>OverflowError\<close>, as in \<open>fail\<close>.
\<close>

subsection \<open>Operations\<close>

record job =
  job_id :: string
  job_kind :: string
  job_payload :: payload
  job_attempts :: nat

definition to_job :: "job_row \<Rightarrow> job" where
  "to_job r = \<lparr>job_id = j_id r, job_kind = j_kind r, job_payload = j_payload_json r,
               job_attempts = j_attempts r\<rparr>"

definition MAX_BACKOFF_S :: rat where
  "MAX_BACKOFF_S = 3600"

definition upd_jobs :: "(job_row list \<Rightarrow> job_row list) \<Rightarrow> db \<Rightarrow> db" where
  "upd_jobs f d = d\<lparr>jobs := f (jobs d)\<rparr>"

definition enqueue ::
  "string \<Rightarrow> rat \<Rightarrow> string \<Rightarrow> string \<Rightarrow> payload \<Rightarrow> int \<Rightarrow> (exn, db, string) op" where
  "enqueue new_id now now_iso kind payload max_attempts =
     (\<lambda>d. if new_id \<in> j_id ` set (jobs d)
          then (Inl (IntegrityError ''UNIQUE constraint failed: jobs.id''), d)
          else (Inr new_id,
                upd_jobs (\<lambda>rows. rows @
                  [\<lparr>j_id = new_id, j_kind = kind, j_payload_json = payload, j_status = Pending,
                    j_attempts = 0, j_max_attempts = max_attempts, j_next_attempt_at = now,
                    j_claimed_at = None, j_created_at = now_iso, j_updated_at = now_iso,
                    j_last_error = None\<rparr>]) d))"

text \<open>The \<open>WHERE\<close> clause of the candidate query, with and without a kind.\<close>

definition eligible :: "string option \<Rightarrow> rat \<Rightarrow> job_row \<Rightarrow> bool" where
  "eligible kind now r \<longleftrightarrow>
     j_status r = Pending \<and> j_next_attempt_at r \<le> now \<and>
     (case kind of None \<Rightarrow> True | Some k \<Rightarrow> j_kind r = k)"

definition claim_candidates :: "string option \<Rightarrow> rat \<Rightarrow> db \<Rightarrow> string list" where
  "claim_candidates kind now d =
     map j_id (order_by j_created_at (filter (eligible kind now) (jobs d)))"

text \<open>The conditional update on one candidate, with its \<open>rowcount\<close>.\<close>

definition claim_update :: "rat \<Rightarrow> string \<Rightarrow> string \<Rightarrow> db \<Rightarrow> nat \<times> db" where
  "claim_update now now_iso i d =
     (let hit = (\<lambda>r. j_id r = i \<and> j_status r = Pending) in
      (sql_rowcount hit (jobs d),
       upd_jobs (sql_update hit
         (\<lambda>r. r\<lparr>j_status := Claimed, j_claimed_at := Some now, j_updated_at := now_iso\<rparr>)) d))"

fun claim_loop :: "rat \<Rightarrow> string \<Rightarrow> string list \<Rightarrow> db \<Rightarrow> job option \<times> db" where
  "claim_loop now now_iso [] d = (None, d)"
| "claim_loop now now_iso (i # rest) d =
     (case claim_update now now_iso i d of
        (rowcount, d') \<Rightarrow>
          if rowcount = 1
          then (map_option to_job (fetchone (filter (\<lambda>r. j_id r = i) (jobs d'))), d')
          else claim_loop now now_iso rest d')"

definition claim :: "string option \<Rightarrow> rat \<Rightarrow> string \<Rightarrow> db \<Rightarrow> job option \<times> db" where
  "claim kind now now_iso d = claim_loop now now_iso (claim_candidates kind now d) d"

definition complete :: "string \<Rightarrow> string \<Rightarrow> db \<Rightarrow> db" where
  "complete i now_iso =
     upd_jobs (sql_update (\<lambda>r. j_id r = i) (\<lambda>r. r\<lparr>j_status := Done, j_updated_at := now_iso\<rparr>))"

definition backoff_delay :: "rat \<Rightarrow> nat \<Rightarrow> rat res" where
  "backoff_delay backoff_base_s attempts =
     (if 1024 \<le> attempts - 1 then Inl (OverflowError ''int too large to convert to float'')
      else Inr (min (backoff_base_s * 2 ^ (attempts - 1)) MAX_BACKOFF_S))"

definition fail :: "string \<Rightarrow> string \<Rightarrow> rat \<Rightarrow> rat \<Rightarrow> string \<Rightarrow> (exn, db, unit) op" where
  "fail i error backoff_base_s now now_iso =
     (\<lambda>d. case fetchone (filter (\<lambda>r. j_id r = i) (jobs d)) of
        None \<Rightarrow> (Inr (), d)
      | Some row \<Rightarrow>
          (let attempts = j_attempts row + 1 in
           if j_max_attempts row \<le> int attempts
           then (Inr (), upd_jobs (sql_update (\<lambda>r. j_id r = i)
                  (\<lambda>r. r\<lparr>j_status := Dead, j_attempts := attempts, j_updated_at := now_iso,
                        j_last_error := Some error\<rparr>)) d)
           else (case backoff_delay backoff_base_s attempts of
                   Inl e \<Rightarrow> (Inl e, d)
                 | Inr delay \<Rightarrow>
                     (Inr (), upd_jobs (sql_update (\<lambda>r. j_id r = i)
                       (\<lambda>r. r\<lparr>j_status := Pending, j_attempts := attempts,
                             j_next_attempt_at := now + delay, j_updated_at := now_iso,
                             j_last_error := Some error, j_claimed_at := None\<rparr>)) d))))"

definition list_by_status :: "job_status \<Rightarrow> string option \<Rightarrow> db \<Rightarrow> job list" where
  "list_by_status status kind d =
     map to_job (order_by j_created_at
       (filter (\<lambda>r. j_status r = status \<and> (case kind of None \<Rightarrow> True | Some k \<Rightarrow> j_kind r = k))
         (jobs d)))"

definition list_dead :: "string option \<Rightarrow> db \<Rightarrow> job list" where
  "list_dead = list_by_status Dead"

definition list_pending :: "string option \<Rightarrow> db \<Rightarrow> job list" where
  "list_pending = list_by_status Pending"

subsection \<open>The poll loop\<close>

text \<open>
  A handler works on its own state \<open>'w\<close> (the printer, the upload target): no handler of the
  program touches the queue.  One iteration reads the clock for the claim and again when the
  handler is done; the loop runs one iteration per tick until its stop event is set, that is,
  until the list of ticks ends.  An idle iteration only sleeps.
\<close>

record tick =
  t_now :: rat
  t_now_iso :: string
  t_end :: rat
  t_end_iso :: string

type_synonym 'w handler = "job \<Rightarrow> (exn, 'w, unit) op"

definition worker_iteration ::
  "string \<Rightarrow> 'w handler \<Rightarrow> tick \<Rightarrow> (exn, db \<times> 'w, unit) op" where
  "worker_iteration kind handler t =
     (\<lambda>(d, w). case claim (Some kind) (t_now t) (t_now_iso t) d of
        (None, d1) \<Rightarrow> (Inr (), (d1, w))
      | (Some job, d1) \<Rightarrow>
          (case handler job w of
             (Inl exc, w') \<Rightarrow>
               (case fail (job_id job) (exn_str exc) 5 (t_end t) (t_end_iso t) d1 of
                  (r, d2) \<Rightarrow> (r, (d2, w')))
           | (Inr _, w') \<Rightarrow> (Inr (), (complete (job_id job) (t_end_iso t) d1, w'))))"

fun run_worker :: "string \<Rightarrow> 'w handler \<Rightarrow> tick list \<Rightarrow> (exn, db \<times> 'w, unit) op" where
  "run_worker kind handler [] = ret ()"
| "run_worker kind handler (t # ts) =
     andthen (worker_iteration kind handler t) (run_worker kind handler ts)"

subsection \<open>Rows by id\<close>

definition job_row_of :: "db \<Rightarrow> string \<Rightarrow> job_row option" where
  "job_row_of d i = fetchone (filter (\<lambda>r. j_id r = i) (jobs d))"

definition wf_jobs :: "db \<Rightarrow> bool" where
  "wf_jobs d \<longleftrightarrow> distinct (map j_id (jobs d))"

named_theorems queue_simps "effect of the queue operations on the row of an id"

lemma job_row_of_mem:
  "wf_jobs d \<Longrightarrow> job_row_of d i = Some r \<longleftrightarrow> r \<in> set (jobs d) \<and> j_id r = i"
proof -
  assume wf: "wf_jobs d"
  show ?thesis
  proof
    assume "job_row_of d i = Some r"
    then obtain rs where "filter (\<lambda>r. j_id r = i) (jobs d) = r # rs"
      by (auto simp: job_row_of_def fetchone_eq_Some)
    then have "r \<in> set (filter (\<lambda>r. j_id r = i) (jobs d))" by simp
    then show "r \<in> set (jobs d) \<and> j_id r = i" by simp
  next
    assume "r \<in> set (jobs d) \<and> j_id r = i"
    then have "filter (\<lambda>x. j_id x = i) (jobs d) = [r]"
      using filter_key_single [of j_id "jobs d" r] wf by (auto simp: wf_jobs_def)
    then show "job_row_of d i = Some r" by (simp add: job_row_of_def fetchone_def)
  qed
qed

lemma job_row_of_id: "job_row_of d i = Some r \<Longrightarrow> j_id r = i"
  by (auto simp: job_row_of_def fetchone_eq_Some filter_eq_Cons_iff)

lemma job_row_of_None: "job_row_of d i = None \<longleftrightarrow> i \<notin> j_id ` set (jobs d)"
  by (auto simp: job_row_of_def fetchone_eq_None filter_empty_conv)

lemma filter_sql_update_key:
  assumes "\<And>r. k (f r) = k r"
  shows "filter (\<lambda>r. k r = i) (sql_update P f rows) = sql_update P f (filter (\<lambda>r. k r = i) rows)"
  using assms by (induction rows) (auto simp: sql_update_def)

lemma fetchone_sql_update:
  "fetchone (sql_update P f rows) = map_option (\<lambda>r. if P r then f r else r) (fetchone rows)"
  by (cases rows) (simp_all add: fetchone_def sql_update_def)

lemma job_row_of_update [queue_simps]:
  assumes "\<And>r. j_id (f r) = j_id r"
  shows "job_row_of (upd_jobs (sql_update P f) d) i =
    map_option (\<lambda>r. if P r then f r else r) (job_row_of d i)"
  using assms
  by (simp add: job_row_of_def upd_jobs_def filter_sql_update_key fetchone_sql_update)

lemma job_row_of_append [queue_simps]:
  "job_row_of (upd_jobs (\<lambda>rows. rows @ [r]) d) i =
    (case job_row_of d i of Some x \<Rightarrow> Some x | None \<Rightarrow> if j_id r = i then Some r else None)"
  by (auto simp: job_row_of_def upd_jobs_def fetchone_def split: list.splits)

lemma upd_jobs_frame [simp]:
  "sessions (upd_jobs f d) = sessions d" "captures (upd_jobs f d) = captures d"
  "spans (upd_jobs f d) = spans d" "jobs (upd_jobs f d) = f (jobs d)"
  by (simp_all add: upd_jobs_def)

lemma wf_jobs_update:
  "(\<And>r. j_id (f r) = j_id r) \<Longrightarrow> wf_jobs (upd_jobs (sql_update P f) d) = wf_jobs d"
  by (simp add: wf_jobs_def map_sql_update)

lemma wf_db_jobs: "wf_db d \<Longrightarrow> wf_jobs d"
  by (simp add: wf_db_def wf_jobs_def)

subsection \<open>Claiming\<close>

abbreviation claimed_row :: "rat \<Rightarrow> string \<Rightarrow> job_row \<Rightarrow> job_row" where
  "claimed_row now now_iso r \<equiv>
     r\<lparr>j_status := Claimed, j_claimed_at := Some now, j_updated_at := now_iso\<rparr>"

lemma claim_update_rowcount:
  assumes wf: "wf_jobs d" and row: "job_row_of d i = Some r"
  shows "fst (claim_update now nowi i d) = (if j_status r = Pending then 1 else 0)"
proof -
  have r: "r \<in> set (jobs d)" "j_id r = i" using row wf by (simp_all add: job_row_of_mem)
  have "filter (\<lambda>x. j_id x = i) (jobs d) = [r]"
    using filter_key_single [of j_id "jobs d" r] wf r by (simp add: wf_jobs_def)
  then have "filter (\<lambda>x. j_id x = i \<and> j_status x = Pending) (jobs d) =
      filter (\<lambda>x. j_status x = Pending) [r]"
    by (metis (no_types, lifting) filter_cong filter_filter)
  then show ?thesis by (simp add: claim_update_def sql_rowcount_def Let_def)
qed

lemma claim_update_row [queue_simps]:
  "job_row_of (snd (claim_update now nowi i d)) k =
     map_option (\<lambda>r. if j_id r = i \<and> j_status r = Pending then claimed_row now nowi r else r)
       (job_row_of d k)"
  by (simp add: claim_update_def queue_simps Let_def)

lemma wf_claim_update [simp]: "wf_jobs (snd (claim_update now nowi i d)) = wf_jobs d"
  by (simp add: claim_update_def wf_jobs_update Let_def)

lemma candidates_pending:
  assumes "wf_jobs d" and "i \<in> set (claim_candidates kind now d)"
  shows "\<exists>r. job_row_of d i = Some r \<and> eligible kind now r"
  using assms by (auto simp: claim_candidates_def job_row_of_mem)

text \<open>Without interleaving the first candidate wins, so the loop does one update.\<close>

lemma claim_eq:
  assumes wf: "wf_jobs d"
  shows "claim kind now nowi d =
    (case claim_candidates kind now d of
       [] \<Rightarrow> (None, d)
     | i # _ \<Rightarrow> (map_option (\<lambda>r. to_job (claimed_row now nowi r)) (job_row_of d i),
                 snd (claim_update now nowi i d)))"
proof (cases "claim_candidates kind now d")
  case Nil
  then show ?thesis by (simp add: claim_def)
next
  case (Cons i rest)
  then obtain r where r: "job_row_of d i = Some r" "eligible kind now r"
    using candidates_pending [OF wf, of i kind now] by auto
  have pend: "j_status r = Pending" using r(2) by (simp add: eligible_def)
  obtain d' where d': "claim_update now nowi i d = (1, d')"
    using claim_update_rowcount [OF wf r(1), of now nowi] pend
    by (cases "claim_update now nowi i d") simp
  have "job_row_of d' i = Some (claimed_row now nowi r)"
    using claim_update_row [of now nowi i d i] d' r(1) pend job_row_of_id [OF r(1)] by simp
  then show ?thesis
    using Cons d' r(1) by (simp add: claim_def job_row_of_def)
qed

lemma claim_Some:
  assumes wf: "wf_jobs d" and c: "claim kind now nowi d = (Some j, d')"
  obtains r where "job_row_of d (job_id j) = Some r" "eligible kind now r"
    "j = to_job (claimed_row now nowi r)" "d' = snd (claim_update now nowi (job_id j) d)"
    "\<And>r'. r' \<in> set (jobs d) \<Longrightarrow> eligible kind now r' \<Longrightarrow> j_created_at r \<le> j_created_at r'"
proof -
  from c obtain i rest where cand: "claim_candidates kind now d = i # rest"
    by (cases "claim_candidates kind now d") (auto simp: claim_eq [OF wf])
  then obtain r where r: "job_row_of d i = Some r" "eligible kind now r"
    using candidates_pending [OF wf, of i kind now] by auto
  have j: "j = to_job (claimed_row now nowi r)" "d' = snd (claim_update now nowi i d)"
    using c cand r(1) by (simp_all add: claim_eq [OF wf])
  have id: "job_id j = i" using job_row_of_id [OF r(1)] j by (simp add: to_job_def)
  obtain r0 rs where sorted: "order_by j_created_at (filter (eligible kind now) (jobs d)) = r0 # rs"
    and r0: "j_id r0 = i"
    using cand by (auto simp: claim_candidates_def)
  have "r0 \<in> set (jobs d)"
    using sorted set_order_by [of j_created_at "filter (eligible kind now) (jobs d)"] by auto
  then have "r0 = r" using r(1) r0 wf by (metis job_row_of_mem option.inject)
  have "j_created_at r \<le> j_created_at r'" if "r' \<in> set (jobs d)" "eligible kind now r'" for r'
  proof -
    have "r' \<in> set (r0 # rs)"
      using that sorted set_order_by [of j_created_at "filter (eligible kind now) (jobs d)"] by auto
    moreover have "sorted (map j_created_at (r0 # rs))"
      using sorted_order_by [of j_created_at "filter (eligible kind now) (jobs d)"] sorted by simp
    ultimately show ?thesis using \<open>r0 = r\<close> by auto
  qed
  then show thesis using that r j id by metis
qed

lemma claim_None_iff:
  "wf_jobs d \<Longrightarrow> fst (claim kind now nowi d) = None \<longleftrightarrow> (\<forall>r \<in> set (jobs d). \<not> eligible kind now r)"
proof -
  assume wf: "wf_jobs d"
  have none: "claim_candidates kind now d = [] \<longleftrightarrow> (\<forall>r \<in> set (jobs d). \<not> eligible kind now r)"
    by (metis (mono_tags, lifting) claim_candidates_def filter_empty_conv length_0_conv
        length_map length_order_by)
  show ?thesis
  proof (cases "claim_candidates kind now d")
    case Nil
    with none show ?thesis by (simp add: claim_eq [OF wf])
  next
    case (Cons i rest)
    then obtain r where "job_row_of d i = Some r"
      using candidates_pending [OF wf, of i kind now] by auto
    with Cons none show ?thesis by (simp add: claim_eq [OF wf])
  qed
qed

lemma claim_None_state: "claim kind now nowi d = (None, d') \<Longrightarrow> wf_jobs d \<Longrightarrow> d' = d"
proof -
  assume c: "claim kind now nowi d = (None, d')" and wf: "wf_jobs d"
  show "d' = d"
  proof (cases "claim_candidates kind now d")
    case Nil
    with c show ?thesis by (simp add: claim_eq [OF wf])
  next
    case (Cons i rest)
    then obtain r where "job_row_of d i = Some r"
      using candidates_pending [OF wf, of i kind now] by auto
    with c Cons show ?thesis by (simp add: claim_eq [OF wf])
  qed
qed

lemma wf_claim: "wf_jobs d \<Longrightarrow> wf_jobs (snd (claim kind now nowi d))"
  by (simp add: claim_eq split: list.splits)

subsection \<open>Completing and failing\<close>

lemma complete_row [queue_simps]:
  "job_row_of (complete i nowi d) k =
     map_option (\<lambda>r. if j_id r = i then r\<lparr>j_status := Done, j_updated_at := nowi\<rparr> else r)
       (job_row_of d k)"
  by (simp add: complete_def queue_simps)

lemma wf_complete [simp]: "wf_jobs (complete i nowi d) = wf_jobs d"
  by (simp add: complete_def wf_jobs_update)

definition failed_row :: "string \<Rightarrow> rat \<Rightarrow> rat \<Rightarrow> string \<Rightarrow> job_row \<Rightarrow> job_row" where
  "failed_row error base now nowi r =
     (if j_max_attempts r \<le> int (j_attempts r + 1)
      then r\<lparr>j_status := Dead, j_attempts := j_attempts r + 1, j_updated_at := nowi,
             j_last_error := Some error\<rparr>
      else r\<lparr>j_status := Pending, j_attempts := j_attempts r + 1,
             j_next_attempt_at := now + min (base * 2 ^ j_attempts r) MAX_BACKOFF_S,
             j_updated_at := nowi, j_last_error := Some error, j_claimed_at := None\<rparr>)"

definition overflows :: "job_row \<Rightarrow> bool" where
  "overflows r \<longleftrightarrow> int (j_attempts r + 1) < j_max_attempts r \<and> 1024 \<le> j_attempts r"

lemma fail_eq:
  "fail i error base now nowi d =
     (case job_row_of d i of
        None \<Rightarrow> (Inr (), d)
      | Some r \<Rightarrow>
          if overflows r then (Inl (OverflowError ''int too large to convert to float''), d)
          else (Inr (), upd_jobs (sql_update (\<lambda>x. j_id x = i)
                 (\<lambda>x. if j_max_attempts r \<le> int (j_attempts r + 1)
                   then x\<lparr>j_status := Dead, j_attempts := j_attempts r + 1, j_updated_at := nowi,
                          j_last_error := Some error\<rparr>
                   else x\<lparr>j_status := Pending, j_attempts := j_attempts r + 1,
                          j_next_attempt_at := now + min (base * 2 ^ j_attempts r) MAX_BACKOFF_S,
                          j_updated_at := nowi, j_last_error := Some error,
                          j_claimed_at := None\<rparr>)) d))"
  by (simp add: fail_def job_row_of_def overflows_def backoff_delay_def Let_def
      split: option.splits)

lemma fail_ok_row [queue_simps]:
  assumes "job_row_of d i = Some r" and "\<not> overflows r"
  shows "job_row_of (snd (fail i error base now nowi d)) k =
    (if k = i then Some (failed_row error base now nowi r) else job_row_of d k)"
proof -
  have "map_option (\<lambda>r. if j_id r = i then f r else r) (job_row_of d k) = job_row_of d k"
    if "k \<noteq> i" for f
    using that job_row_of_id by (cases "job_row_of d k") auto
  with assms show ?thesis
    by (auto simp: fail_eq queue_simps failed_row_def dest: job_row_of_id)
qed

lemma fail_ok:
  assumes "job_row_of d i = Some r" and "\<not> overflows r"
  shows "fst (fail i error base now nowi d) = Inr ()"
  using assms by (simp add: fail_eq)

lemma wf_fail [simp]: "wf_jobs (snd (fail i error base now nowi d)) = wf_jobs d"
  by (auto simp: fail_eq wf_jobs_update split: option.splits)

subsection \<open>Enqueueing\<close>

lemma enqueue_ok:
  "new_id \<notin> j_id ` set (jobs d) \<Longrightarrow> fst (enqueue new_id now nowi kind p m d) = Inr new_id"
  by (simp add: enqueue_def)

definition new_row :: "string \<Rightarrow> rat \<Rightarrow> string \<Rightarrow> string \<Rightarrow> payload \<Rightarrow> int \<Rightarrow> job_row" where
  "new_row new_id now nowi kind p m =
     \<lparr>j_id = new_id, j_kind = kind, j_payload_json = p, j_status = Pending, j_attempts = 0,
       j_max_attempts = m, j_next_attempt_at = now, j_claimed_at = None, j_created_at = nowi,
       j_updated_at = nowi, j_last_error = None\<rparr>"

lemma enqueue_row [queue_simps]:
  "new_id \<notin> j_id ` set (jobs d) \<Longrightarrow>
     job_row_of (snd (enqueue new_id now nowi kind p m d)) k =
       (if k = new_id then Some (new_row new_id now nowi kind p m) else job_row_of d k)"
  by (auto simp: enqueue_def queue_simps new_row_def job_row_of_None [symmetric]
      split: option.splits)

lemma wf_enqueue: "wf_jobs d \<Longrightarrow> wf_jobs (snd (enqueue new_id now nowi kind p m d))"
  by (simp add: enqueue_def wf_jobs_def)

lemmas wf_queue = wf_claim wf_complete wf_fail wf_enqueue

end
