(* ===== verification/Queue_Protocol.thy ===== *)
theory Queue_Protocol
  imports Job_Queue
begin

text \<open>
  The contract of the job queue.  An abstract queue maps job ids to a job and its phase; the
  locale \<open>work_queue\<close> states what each operation does to it and derives what the workers
  rely on (a held job cannot be claimed again, no job is lost); the interpretation on the
  operations of \<open>Job_Queue\<close> is the refinement of that abstract queue by the \<open>jobs\<close>
  table.  The second half interleaves any number of claimers statement by statement.
\<close>

subsection \<open>The abstract queue\<close>

datatype phase = Waiting rat | Running | Finished | DeadLetter

record ajob =
  a_kind :: string
  a_payload :: payload
  a_attempts :: nat
  a_max :: int
  a_phase :: phase

definition abs_job :: "job_row \<Rightarrow> ajob" where
  "abs_job r =
     \<lparr>a_kind = j_kind r, a_payload = j_payload_json r, a_attempts = j_attempts r,
      a_max = j_max_attempts r,
      a_phase = (case j_status r of Pending \<Rightarrow> Waiting (j_next_attempt_at r) | Claimed \<Rightarrow> Running
                 | Done \<Rightarrow> Finished | Dead \<Rightarrow> DeadLetter)\<rparr>"

definition abs_queue :: "db \<Rightarrow> string \<Rightarrow> ajob option" where
  "abs_queue d i = map_option abs_job (job_row_of d i)"

definition a_ready :: "string option \<Rightarrow> rat \<Rightarrow> ajob \<Rightarrow> bool" where
  "a_ready kind now a \<longleftrightarrow>
     (case a_phase a of Waiting t \<Rightarrow> t \<le> now | _ \<Rightarrow> False) \<and>
     (case kind of None \<Rightarrow> True | Some k \<Rightarrow> a_kind a = k)"

definition a_failed :: "rat \<Rightarrow> rat \<Rightarrow> ajob \<Rightarrow> ajob" where
  "a_failed base now a =
     a\<lparr>a_attempts := a_attempts a + 1,
       a_phase := (if a_max a \<le> int (a_attempts a + 1) then DeadLetter
                   else Waiting (now + min (base * 2 ^ a_attempts a) MAX_BACKOFF_S))\<rparr>"

lemma abs_job_simps [simp]:
  "abs_job (claimed_row now nowi r) = (abs_job r)\<lparr>a_phase := Running\<rparr>"
  "abs_job (r\<lparr>j_status := Done, j_updated_at := nowi\<rparr>) = (abs_job r)\<lparr>a_phase := Finished\<rparr>"
  "abs_job (failed_row error base now nowi r) = a_failed base now (abs_job r)"
  "a_kind (abs_job r) = j_kind r" "a_attempts (abs_job r) = j_attempts r"
  by (simp_all add: abs_job_def failed_row_def a_failed_def)

lemma a_ready_abs [simp]: "a_ready kind now (abs_job r) = eligible kind now r"
  by (auto simp: a_ready_def abs_job_def eligible_def split: job_status.splits option.splits)

subsection \<open>The interface\<close>

locale work_queue =
  fixes view :: "'q \<Rightarrow> string \<Rightarrow> ajob option"
    and inv :: "'q \<Rightarrow> bool"
    and enq :: "string \<Rightarrow> rat \<Rightarrow> string \<Rightarrow> string \<Rightarrow> payload \<Rightarrow> int \<Rightarrow> 'q \<Rightarrow> 'q"
    and take_job :: "string option \<Rightarrow> rat \<Rightarrow> string \<Rightarrow> 'q \<Rightarrow> job option \<times> 'q"
    and finish :: "string \<Rightarrow> string \<Rightarrow> 'q \<Rightarrow> 'q"
    and give_back :: "string \<Rightarrow> string \<Rightarrow> rat \<Rightarrow> rat \<Rightarrow> string \<Rightarrow> (exn, 'q, unit) op"
  assumes inv_enq: "inv q \<Longrightarrow> inv (enq i now nowi kind p m q)"
    and inv_take: "inv q \<Longrightarrow> inv (snd (take_job ko now nowi q))"
    and inv_finish: "inv q \<Longrightarrow> inv (finish i nowi q)"
    and inv_give_back: "inv q \<Longrightarrow> inv (snd (give_back i err base now nowi q))"
    and view_enq: "view q i = None \<Longrightarrow>
      view (enq i now nowi kind p m q) =
        (view q)(i \<mapsto> \<lparr>a_kind = kind, a_payload = p, a_attempts = 0, a_max = m,
                        a_phase = Waiting now\<rparr>)"
    and take_Some: "inv q \<Longrightarrow> take_job ko now nowi q = (Some j, q') \<Longrightarrow>
      \<exists>a. view q (job_id j) = Some a \<and> a_ready ko now a \<and>
          job_kind j = a_kind a \<and> job_payload j = a_payload a \<and> job_attempts j = a_attempts a \<and>
          view q' = (view q)(job_id j \<mapsto> a\<lparr>a_phase := Running\<rparr>)"
    and take_None: "inv q \<Longrightarrow> take_job ko now nowi q = (None, q') \<Longrightarrow>
      q' = q \<and> (\<forall>i a. view q i = Some a \<longrightarrow> \<not> a_ready ko now a)"
    and view_finish: "view (finish i nowi q) =
      (case view q i of None \<Rightarrow> view q | Some a \<Rightarrow> (view q)(i \<mapsto> a\<lparr>a_phase := Finished\<rparr>))"
    and view_give_back: "give_back i err base now nowi q = (Inr (), q') \<Longrightarrow>
      view q' = (case view q i of None \<Rightarrow> view q | Some a \<Rightarrow> (view q)(i \<mapsto> a_failed base now a))"
    and give_back_raises: "give_back i err base now nowi q = (Inl e, q') \<Longrightarrow> q' = q"
begin

lemma take_ready: "inv q \<Longrightarrow> take_job ko now nowi q = (Some j, q') \<Longrightarrow>
    \<exists>a t. view q (job_id j) = Some a \<and> a_phase a = Waiting t \<and> t \<le> now"
proof -
  assume "inv q" and "take_job ko now nowi q = (Some j, q')"
  then obtain a where "view q (job_id j) = Some a" "a_ready ko now a"
    using take_Some by blast
  then show ?thesis by (cases "a_phase a") (auto simp: a_ready_def)
qed

text \<open>A job that is running is not handed out again.\<close>

lemma running_not_taken:
  assumes "inv q" and "view q i = Some a" and "a_phase a = Running"
    and "take_job ko now nowi q = (Some j, q')"
  shows "job_id j \<noteq> i \<and> view q' i = Some a"
  using take_Some [OF assms(1,4)] assms(2,3) by (auto simp: a_ready_def)

text \<open>No operation loses a job or changes what it is.\<close>

lemma take_keeps: "inv q \<Longrightarrow> take_job ko now nowi q = (r, q') \<Longrightarrow> view q i = Some a \<Longrightarrow>
    \<exists>a'. view q' i = Some a' \<and> a_kind a' = a_kind a \<and> a_payload a' = a_payload a \<and>
         a_attempts a' = a_attempts a"
proof (cases r)
  case None
  then show "inv q \<Longrightarrow> take_job ko now nowi q = (r, q') \<Longrightarrow> view q i = Some a \<Longrightarrow> ?thesis"
    by (auto dest: take_None)
next
  case (Some j)
  then show "inv q \<Longrightarrow> take_job ko now nowi q = (r, q') \<Longrightarrow> view q i = Some a \<Longrightarrow> ?thesis"
    using take_Some [of q ko now nowi j q'] by auto
qed

lemma finish_keeps: "view q i = Some a \<Longrightarrow>
    \<exists>a'. view (finish k nowi q) i = Some a' \<and> a_kind a' = a_kind a \<and> a_payload a' = a_payload a"
  by (auto simp: view_finish split: option.splits)

lemma give_back_keeps: "give_back k err base now nowi q = (r, q') \<Longrightarrow> view q i = Some a \<Longrightarrow>
    \<exists>a'. view q' i = Some a' \<and> a_kind a' = a_kind a \<and> a_payload a' = a_payload a"
  by (cases r) (auto simp: a_failed_def dest!: view_give_back dest: give_back_raises
      split: option.splits)

text \<open>Taking a job and settling it touches that job only.\<close>

lemma take_finish:
  assumes "inv q" and "take_job ko now nowi q = (Some j, q1)"
  shows "\<exists>a. view q (job_id j) = Some a \<and> a_ready ko now a \<and>
    view (finish (job_id j) nowi' q1) = (view q)(job_id j \<mapsto> a\<lparr>a_phase := Finished\<rparr>)"
  using take_Some [OF assms] by (auto simp: view_finish)

lemma take_give_back:
  assumes "inv q" and "take_job ko now nowi q = (Some j, q1)"
    and "give_back (job_id j) err base now' nowi' q1 = (Inr (), q2)"
  shows "\<exists>a. view q (job_id j) = Some a \<and> a_ready ko now a \<and>
    view q2 = (view q)(job_id j \<mapsto> a_failed base now' a)"
  using take_Some [OF assms(1,2)] view_give_back [OF assms(3)]
  by (auto simp: a_failed_def)

end

subsection \<open>The \<open>jobs\<close> table implements it\<close>

lemma abs_queue_None: "abs_queue d i = None \<longleftrightarrow> i \<notin> j_id ` set (jobs d)"
  by (simp add: abs_queue_def job_row_of_None)

lemma abs_enqueue:
  "abs_queue d i = None \<Longrightarrow>
     abs_queue (snd (enqueue i now nowi kind p m d)) =
       (abs_queue d)(i \<mapsto> \<lparr>a_kind = kind, a_payload = p, a_attempts = 0, a_max = m,
                           a_phase = Waiting now\<rparr>)"
proof -
  assume "abs_queue d i = None"
  then have "i \<notin> j_id ` set (jobs d)" by (simp add: abs_queue_None)
  then show ?thesis
    by (auto simp: fun_eq_iff abs_queue_def enqueue_row new_row_def abs_job_def)
qed

lemma abs_claim_Some:
  assumes wf: "wf_jobs d" and c: "claim kind now nowi d = (Some j, d')"
  shows "\<exists>a. abs_queue d (job_id j) = Some a \<and> a_ready kind now a \<and>
          job_kind j = a_kind a \<and> job_payload j = a_payload a \<and> job_attempts j = a_attempts a \<and>
          abs_queue d' = (abs_queue d)(job_id j \<mapsto> a\<lparr>a_phase := Running\<rparr>)"
proof -
  from claim_Some [OF wf c] obtain r where
    r: "job_row_of d (job_id j) = Some r" "eligible kind now r" and
    j: "j = to_job (claimed_row now nowi r)" "d' = snd (claim_update now nowi (job_id j) d)"
    by metis
  have pend: "j_status r = Pending" using r(2) by (simp add: eligible_def)
  have "abs_queue d' = (abs_queue d)(job_id j \<mapsto> (abs_job r)\<lparr>a_phase := Running\<rparr>)"
  proof (rule ext)
    fix k
    show "abs_queue d' k = ((abs_queue d)(job_id j \<mapsto> (abs_job r)\<lparr>a_phase := Running\<rparr>)) k"
    proof (cases "k = job_id j")
      case True
      then show ?thesis
        using r(1) pend job_row_of_id [OF r(1)] j(2)
        by (simp add: abs_queue_def claim_update_row)
    next
      case False
      then have "job_row_of d' k = job_row_of d k"
        using j(2) job_row_of_id [of d k] by (cases "job_row_of d k") (auto simp: claim_update_row)
      with False show ?thesis by (simp add: abs_queue_def)
    qed
  qed
  moreover have "job_kind j = j_kind r" "job_payload j = j_payload_json r"
    "job_attempts j = j_attempts r"
    by (subst j(1), simp add: to_job_def)+
  ultimately show ?thesis
    using r by (auto simp: abs_queue_def abs_job_def [of r] simp flip: a_ready_abs)
qed

lemma abs_claim_None:
  assumes wf: "wf_jobs d" and c: "claim kind now nowi d = (None, d')"
  shows "d' = d \<and> (\<forall>i a. abs_queue d i = Some a \<longrightarrow> \<not> a_ready kind now a)"
proof
  show "d' = d" by (rule claim_None_state [OF c wf])
  show "\<forall>i a. abs_queue d i = Some a \<longrightarrow> \<not> a_ready kind now a"
    using claim_None_iff [OF wf, of kind now nowi] c
    by (auto simp: abs_queue_def job_row_of_mem [OF wf])
qed

lemma abs_complete:
  "abs_queue (complete i nowi d) =
     (case abs_queue d i of None \<Rightarrow> abs_queue d
      | Some a \<Rightarrow> (abs_queue d)(i \<mapsto> a\<lparr>a_phase := Finished\<rparr>))"
proof (rule ext)
  fix k
  show "abs_queue (complete i nowi d) k = (case abs_queue d i of None \<Rightarrow> abs_queue d
      | Some a \<Rightarrow> (abs_queue d)(i \<mapsto> a\<lparr>a_phase := Finished\<rparr>)) k"
    using job_row_of_id [of d k]
    by (cases "job_row_of d k"; cases "job_row_of d i")
       (auto simp: abs_queue_def complete_row)
qed

lemma abs_fail:
  assumes "fail i error base now nowi d = (Inr (), d')"
  shows "abs_queue d' =
    (case abs_queue d i of None \<Rightarrow> abs_queue d
     | Some a \<Rightarrow> (abs_queue d)(i \<mapsto> a_failed base now a))"
proof (cases "job_row_of d i")
  case None
  with assms show ?thesis by (simp add: fail_eq abs_queue_def)
next
  case (Some r)
  with assms have "\<not> overflows r" by (auto simp: fail_eq split: if_splits)
  then have "job_row_of d' k = (if k = i then Some (failed_row error base now nowi r)
      else job_row_of d k)" for k
    using fail_ok_row [OF Some, of error base now nowi k] assms by simp
  with Some show ?thesis by (auto simp: abs_queue_def fun_eq_iff)
qed

interpretation sqlite_queue: work_queue abs_queue wf_jobs
  "\<lambda>i now nowi kind p m d. snd (enqueue i now nowi kind p m d)" claim complete fail
proof unfold_locales
  fix i error base now nowi d e d'
  assume "fail i error base now nowi d = (Inl e, d')"
  then show "d' = d" by (auto simp: fail_eq split: option.splits if_splits)
qed (simp_all add: wf_queue abs_enqueue abs_claim_Some abs_claim_None abs_complete abs_fail)

subsection \<open>Claimers interleaved statement by statement\<close>

text \<open>
  \<open>claim()\<close> is a select followed by one conditional update per candidate, each its own
  statement; \<open>p_phase w\<close> is where claimer \<open>w\<close> stands in that loop.  A process crash
  forgets every claimer and keeps the committed table.
\<close>

datatype claimer = Idle | Trying "string list" rat string | Holding string

record pool =
  p_db :: db
  p_phase :: "nat \<Rightarrow> claimer"

inductive pool_step :: "pool \<Rightarrow> pool \<Rightarrow> bool" where
  select: "p_phase s w = Idle \<Longrightarrow>
    pool_step s (s\<lparr>p_phase := (p_phase s)(w := Trying (claim_candidates ko now (p_db s)) now nowi)\<rparr>)"
| win: "p_phase s w = Trying (i # rest) now nowi \<Longrightarrow>
    claim_update now nowi i (p_db s) = (1, d') \<Longrightarrow>
    pool_step s (s\<lparr>p_db := d', p_phase := (p_phase s)(w := Holding i)\<rparr>)"
| lose: "p_phase s w = Trying (i # rest) now nowi \<Longrightarrow>
    claim_update now nowi i (p_db s) = (n, d') \<Longrightarrow> n \<noteq> 1 \<Longrightarrow>
    pool_step s (s\<lparr>p_db := d', p_phase := (p_phase s)(w := Trying rest now nowi)\<rparr>)"
| give_up: "p_phase s w = Trying [] now nowi \<Longrightarrow>
    pool_step s (s\<lparr>p_phase := (p_phase s)(w := Idle)\<rparr>)"
| settle_ok: "p_phase s w = Holding i \<Longrightarrow>
    pool_step s (s\<lparr>p_db := complete i nowi (p_db s), p_phase := (p_phase s)(w := Idle)\<rparr>)"
| settle_fail: "p_phase s w = Holding i \<Longrightarrow> fail i err base now nowi (p_db s) = (Inr (), d') \<Longrightarrow>
    pool_step s (s\<lparr>p_db := d', p_phase := (p_phase s)(w := Idle)\<rparr>)"
| submit: "enqueue i now nowi kind p m (p_db s) = (Inr i, d') \<Longrightarrow>
    pool_step s (s\<lparr>p_db := d'\<rparr>)"
| crash: "pool_step s (s\<lparr>p_phase := (\<lambda>_. Idle)\<rparr>)"

inductive_cases pool_stepE: "pool_step s t"

inductive pool_run :: "pool \<Rightarrow> pool \<Rightarrow> bool" where
  refl: "pool_run s s"
| step: "pool_run s t \<Longrightarrow> pool_step t u \<Longrightarrow> pool_run s u"

definition start_pool :: pool where
  "start_pool = \<lparr>p_db = empty_db, p_phase = (\<lambda>_. Idle)\<rparr>"

definition job_status_of :: "db \<Rightarrow> string \<Rightarrow> job_status option" where
  "job_status_of d i = map_option j_status (job_row_of d i)"

definition pool_inv :: "pool \<Rightarrow> bool" where
  "pool_inv s \<longleftrightarrow> wf_jobs (p_db s) \<and>
     (\<forall>w i. p_phase s w = Holding i \<longrightarrow> job_status_of (p_db s) i = Some Claimed) \<and>
     (\<forall>w w' i. p_phase s w = Holding i \<longrightarrow> p_phase s w' = Holding i \<longrightarrow> w = w')"

lemma status_claim_update:
  "job_status_of (snd (claim_update now nowi i d)) k =
     (if k = i \<and> job_status_of d k = Some Pending then Some Claimed else job_status_of d k)"
  using job_row_of_id [of d k]
  by (cases "job_row_of d k") (auto simp: job_status_of_def claim_update_row)

lemma status_complete:
  "job_status_of (complete i nowi d) k =
     (if k = i \<and> job_status_of d k \<noteq> None then Some Done else job_status_of d k)"
  using job_row_of_id [of d k]
  by (cases "job_row_of d k") (auto simp: job_status_of_def complete_row)

lemma status_fail_other:
  "k \<noteq> i \<Longrightarrow> job_status_of (snd (fail i err base now nowi d)) k = job_status_of d k"
proof (cases "job_row_of d i")
  case None
  then show ?thesis by (simp add: fail_eq)
next
  case (Some r)
  then show "k \<noteq> i \<Longrightarrow> ?thesis"
    by (cases "overflows r") (simp_all add: job_status_of_def fail_ok_row, simp add: fail_eq)
qed

lemma status_enqueue_old:
  "job_status_of d k \<noteq> None \<Longrightarrow>
     job_status_of (snd (enqueue i now nowi kind p m d)) k = job_status_of d k"
  by (cases "i \<in> j_id ` set (jobs d)")
     (auto simp: enqueue_row job_status_of_def job_row_of_None [symmetric], simp add: enqueue_def)

lemma claim_update_wins:
  assumes "wf_jobs d" and "claim_update now nowi i d = (1, d')"
  shows "job_status_of d i = Some Pending"
proof (cases "job_row_of d i")
  case None
  then have "filter (\<lambda>r. j_id r = i \<and> j_status r = Pending) (jobs d) = []"
    by (auto simp: job_row_of_None filter_empty_conv)
  with assms(2) show ?thesis by (simp add: claim_update_def Let_def sql_rowcount_def)
next
  case (Some r)
  have "fst (claim_update now nowi i d) = 1" by (simp only: assms(2) fst_conv)
  then have "j_status r = Pending"
    unfolding claim_update_rowcount [OF assms(1) Some] by (rule contrapos_pp) simp
  with Some show ?thesis by (simp add: job_status_of_def)
qed

lemmas pool_status = status_claim_update status_complete status_fail_other status_enqueue_old

lemma pool_step_inv: "pool_step s t \<Longrightarrow> pool_inv s \<Longrightarrow> pool_inv t"
proof (induction rule: pool_step.induct)
  case (win s w i rest now nowi d')
  have d': "d' = snd (claim_update now nowi i (p_db s))" using win.hyps by simp
  have "job_status_of (p_db s) i = Some Pending"
    using claim_update_wins win by (auto simp: pool_inv_def)
  with win show ?case
    by (auto simp: pool_inv_def d' pool_status)
next
  case (lose s w i rest now nowi n d')
  have d': "d' = snd (claim_update now nowi i (p_db s))" using lose.hyps by simp
  with lose show ?case
    by (auto simp: pool_inv_def pool_status split: if_splits)
next
  case (settle_ok s w i nowi)
  have "k \<noteq> i" if "p_phase s w' = Holding k" "w' \<noteq> w" for w' k
    using settle_ok that by (auto simp: pool_inv_def)
  with settle_ok show ?case
    by (auto simp: pool_inv_def pool_status)
next
  case (settle_fail s w i err base now nowi d')
  have d': "d' = snd (fail i err base now nowi (p_db s))" using settle_fail.hyps by simp
  have other: "k \<noteq> i" if "p_phase s w' = Holding k" "w' \<noteq> w" for w' k
    using settle_fail that by (auto simp: pool_inv_def)
  with settle_fail show ?case
    by (auto simp: pool_inv_def d' pool_status split: if_splits)
next
  case (submit i now nowi kind p m s d')
  have d': "d' = snd (enqueue i now nowi kind p m (p_db s))" using submit.hyps by simp
  with submit show ?case
    by (auto simp: pool_inv_def wf_enqueue pool_status)
qed (auto simp: pool_inv_def split: if_splits)

lemma pool_run_inv: "pool_run s t \<Longrightarrow> pool_inv s \<Longrightarrow> pool_inv t"
  by (induction rule: pool_run.induct) (auto intro: pool_step_inv)

lemma pool_inv_start: "pool_inv start_pool"
  by (simp add: pool_inv_def start_pool_def wf_jobs_def empty_db_def)

text \<open>A claimed job nobody holds: what a crash leaves behind.\<close>

definition orphaned :: "pool \<Rightarrow> string \<Rightarrow> bool" where
  "orphaned s i \<longleftrightarrow> job_status_of (p_db s) i = Some Claimed \<and> (\<forall>w. p_phase s w \<noteq> Holding i)"

lemma pool_step_orphaned:
  "pool_step s t \<Longrightarrow> pool_inv s \<Longrightarrow> orphaned s k \<Longrightarrow> orphaned t k"
proof (induction rule: pool_step.induct)
  case (win s w i rest now nowi d')
  have d': "d' = snd (claim_update now nowi i (p_db s))" using win.hyps by simp
  have "job_status_of (p_db s) i = Some Pending"
    using claim_update_wins win by (auto simp: pool_inv_def)
  with win show ?case by (auto simp: orphaned_def d' pool_status)
next
  case (lose s w i rest now nowi n d')
  have d': "d' = snd (claim_update now nowi i (p_db s))" using lose.hyps by simp
  with lose show ?case by (auto simp: orphaned_def pool_status)
next
  case (settle_fail s w i err base now nowi d')
  have d': "d' = snd (fail i err base now nowi (p_db s))" using settle_fail.hyps by simp
  have "k \<noteq> i" using settle_fail by (auto simp: orphaned_def)
  with settle_fail show ?case by (auto simp: orphaned_def d' pool_status)
next
  case (submit i now nowi kind p m s d')
  have d': "d' = snd (enqueue i now nowi kind p m (p_db s))" using submit.hyps by simp
  with submit show ?case by (auto simp: orphaned_def pool_status)
qed (auto simp: orphaned_def pool_status)

lemma pool_run_orphaned:
  "pool_run s t \<Longrightarrow> pool_inv s \<Longrightarrow> orphaned s i \<Longrightarrow> orphaned t i"
  by (induction rule: pool_run.induct) (auto intro: pool_step_orphaned pool_run_inv)

subsection \<open>Properties\<close>

text \<open>
  C33: A successful \<open>claim\<close> returns the eligible job (pending, due, of the asked kind) with
  the smallest \<open>created_at\<close>, carrying the row's kind, payload and attempts; exactly that row
  becomes claimed and every other row is as before.
\<close>

theorem claim_oldest_due:
  assumes "wf_jobs d" and "claim kind now nowi d = (Some j, d')"
  shows "\<exists>r. job_row_of d (job_id j) = Some r \<and> eligible kind now r \<and> j = to_job r \<and>
    (\<forall>r' \<in> set (jobs d). eligible kind now r' \<longrightarrow> j_created_at r \<le> j_created_at r') \<and>
    job_row_of d' (job_id j) =
      Some (r\<lparr>j_status := Claimed, j_claimed_at := Some now, j_updated_at := nowi\<rparr>) \<and>
    (\<forall>k. k \<noteq> job_id j \<longrightarrow> job_row_of d' k = job_row_of d k)"
proof -
  from claim_Some [OF assms] obtain r where r: "job_row_of d (job_id j) = Some r"
    "eligible kind now r" "j = to_job (claimed_row now nowi r)"
    "d' = snd (claim_update now nowi (job_id j) d)"
    "\<And>r'. r' \<in> set (jobs d) \<Longrightarrow> eligible kind now r' \<Longrightarrow> j_created_at r \<le> j_created_at r'"
    by metis
  have "job_row_of d' k = job_row_of d k" if "k \<noteq> job_id j" for k
    using that job_row_of_id [of d k] r(4)
    by (cases "job_row_of d k") (auto simp: claim_update_row)
  moreover have "job_row_of d' (job_id j) = Some (claimed_row now nowi r)"
    using r job_row_of_id [OF r(1)] by (simp add: claim_update_row eligible_def)
  moreover have "j = to_job r" using r(3) by (simp add: to_job_def)
  ultimately show ?thesis using r(1,2,5) by blast
qed

definition two_jobs :: db where
  "two_jobs = snd (enqueue ''j1'' 10 ''2026-01-02'' ''upload'' [] 3
     (snd (enqueue ''j2'' 10 ''2026-01-01'' ''upload'' [] 3 empty_db)))"

lemma two_jobs_rows: "jobs two_jobs =
    [new_row ''j2'' 10 ''2026-01-01'' ''upload'' [] 3, new_row ''j1'' 10 ''2026-01-02'' ''upload'' [] 3]"
  by (simp add: two_jobs_def enqueue_def empty_db_def new_row_def upd_jobs_def)

lemma wf_two_jobs: "wf_jobs two_jobs"
  by (simp add: wf_jobs_def two_jobs_rows new_row_def)

lemma claim_two_jobs:
  "claim (Some ''upload'') 11 ''2026-01-03'' two_jobs =
     (Some (to_job (new_row ''j2'' 10 ''2026-01-01'' ''upload'' [] 3)),
      snd (claim_update 11 ''2026-01-03'' ''j2'' two_jobs))"
proof -
  have "claim_candidates (Some ''upload'') 11 two_jobs = [''j2'', ''j1'']"
    by (simp add: claim_candidates_def two_jobs_rows eligible_def new_row_def order_by_def)
  moreover have "job_row_of two_jobs ''j2'' = Some (new_row ''j2'' 10 ''2026-01-01'' ''upload'' [] 3)"
    by (simp add: job_row_of_def two_jobs_rows new_row_def fetchone_def)
  ultimately show ?thesis
    by (simp add: claim_eq [OF wf_two_jobs] to_job_def)
qed

theorem claim_oldest_due_witness:
  "\<exists>d'. claim (Some ''upload'') 11 ''2026-01-03'' two_jobs =
       (Some (to_job (new_row ''j2'' 10 ''2026-01-01'' ''upload'' [] 3)), d') \<and>
     (\<exists>r. job_row_of two_jobs ''j2'' = Some r \<and> eligible (Some ''upload'') 11 r)"
  using claim_oldest_due [OF wf_two_jobs claim_two_jobs] claim_two_jobs
  by (auto simp: to_job_def new_row_def)

text \<open>
  C1: However many claimers interleave their selects and updates, with new jobs arriving, jobs
  being settled and the process crashing in between, two claimers never hold the same job, and a
  held job is marked claimed in the table.
\<close>

theorem no_double_claim:
  assumes "pool_run start_pool s" and "p_phase s w = Holding i"
  shows "job_status_of (p_db s) i = Some Claimed \<and> (\<forall>w'. p_phase s w' = Holding i \<longrightarrow> w' = w)"
  using pool_run_inv [OF assms(1) pool_inv_start] assms(2) by (auto simp: pool_inv_def)

definition one_job :: db where
  "one_job = snd (enqueue ''j1'' 10 ''t1'' ''upload'' [] 3 empty_db)"

definition race_pool :: pool where
  "race_pool = \<lparr>p_db = snd (claim_update 11 ''t2'' ''j1'' one_job),
     p_phase = ((\<lambda>_. Idle)(0 := Trying [''j1''] 11 ''t2''))(1 := Holding ''j1'')\<rparr>"

text \<open>Two claimers select the same candidate, the second one wins it.\<close>

lemma race_pool_reached: "pool_run start_pool race_pool"
proof -
  let ?s1 = "start_pool\<lparr>p_db := one_job\<rparr>"
  let ?t = "Trying [''j1''] 11 ''t2''"
  let ?s2 = "?s1\<lparr>p_phase := (p_phase ?s1)(0 := ?t)\<rparr>"
  let ?s3 = "?s2\<lparr>p_phase := (p_phase ?s2)(1 := ?t)\<rparr>"
  have cand: "claim_candidates (Some ''upload'') 11 one_job = [''j1'']"
    by (simp add: claim_candidates_def one_job_def enqueue_def empty_db_def upd_jobs_def
        eligible_def order_by_def)
  have "pool_step start_pool ?s1"
    by (rule submit [of "''j1''" 10 "''t1''" "''upload''" "[]" 3])
       (simp add: start_pool_def one_job_def enqueue_def empty_db_def)
  moreover have "pool_step ?s1 ?s2"
    using select [of ?s1 0 "Some ''upload''" 11 "''t2''"] cand by (simp add: start_pool_def)
  moreover have "pool_step ?s2 ?s3"
    using select [of ?s2 1 "Some ''upload''" 11 "''t2''"] cand by (simp add: start_pool_def)
  moreover have "pool_step ?s3 race_pool"
  proof -
    have "claim_update 11 ''t2'' ''j1'' (p_db ?s3) = (1, snd (claim_update 11 ''t2'' ''j1'' one_job))"
      by (simp add: claim_update_def one_job_def enqueue_def empty_db_def upd_jobs_def
          sql_rowcount_def)
    from win [OF _ this, of 1 "[]"] show ?thesis by (simp add: race_pool_def start_pool_def)
  qed
  ultimately show ?thesis
    by (meson pool_run.refl pool_run.step)
qed

theorem no_double_claim_witness:
  "p_phase race_pool 1 = Holding ''j1'' \<and> job_status_of (p_db race_pool) ''j1'' = Some Claimed"
  using no_double_claim [OF race_pool_reached, of 1 "''j1''"] by (simp add: race_pool_def)

text \<open>
  C34: A job that is claimed but held by nobody (its worker died between claim and settlement)
  stays claimed through every further run of the system: no later claim, failure or completion
  ever touches it.  The queue has no operation that returns a stale claim to pending.
\<close>

theorem orphan_never_recovered:
  assumes "pool_run start_pool s" and "orphaned s i" and "pool_run s t"
  shows "job_status_of (p_db t) i = Some Claimed \<and> p_phase t w \<noteq> Holding i \<and>
    i \<notin> set (claim_candidates kind now (p_db t))"
proof -
  have inv: "pool_inv s" using pool_run_inv [OF assms(1) pool_inv_start] .
  have o: "orphaned t i" and inv': "pool_inv t"
    using pool_run_orphaned [OF assms(3) inv assms(2)] pool_run_inv [OF assms(3) inv] by auto
  have "wf_jobs (p_db t)" using inv' by (simp add: pool_inv_def)
  then have "i \<notin> set (claim_candidates kind now (p_db t))"
    using candidates_pending [of "p_db t" i kind now] o
    by (auto simp: orphaned_def job_status_of_def eligible_def)
  with o show ?thesis by (simp add: orphaned_def)
qed

theorem orphan_never_recovered_witness:
  "\<exists>s. pool_run start_pool s \<and> orphaned s ''j1'' \<and>
     ''j1'' \<notin> set (claim_candidates None 1000000 (p_db s))"
proof -
  let ?s = "race_pool\<lparr>p_phase := (\<lambda>_. Idle)\<rparr>"
  have r: "pool_run start_pool ?s"
    by (rule pool_run.step [OF race_pool_reached]) (rule crash)
  have o: "orphaned ?s ''j1''"
    by (simp add: orphaned_def race_pool_def status_claim_update)
       (simp add: job_status_of_def one_job_def enqueue_row empty_db_def new_row_def)
  show ?thesis
    using orphan_never_recovered [OF r o pool_run.refl, of 0 None 1000000] r o by blast
qed

text \<open>
  C11: Claiming a job and reporting its failure refines the abstract queue: one ready job has its
  attempts incremented and is parked until \<open>now' + min(base * 2 ** (attempts - 1), 3600)\<close>, or
  dead-lettered when the attempts reach the maximum, and the rest of the queue is unchanged.
\<close>

theorem claim_fail_refines:
  assumes "wf_jobs d" and "claim kind now nowi d = (Some j, d1)"
    and "fail (job_id j) err base now' nowi' d1 = (Inr (), d2)"
  shows "\<exists>a. abs_queue d (job_id j) = Some a \<and> a_ready kind now a \<and>
    abs_queue d2 = (abs_queue d)(job_id j \<mapsto> a\<lparr>a_attempts := a_attempts a + 1,
      a_phase := (if a_max a \<le> int (a_attempts a + 1) then DeadLetter
                  else Waiting (now' + min (base * 2 ^ a_attempts a) 3600))\<rparr>)"
  using sqlite_queue.take_give_back [OF assms]
  unfolding a_failed_def MAX_BACKOFF_S_def .

theorem claim_fail_refines_witness:
  "\<exists>j d1 d2. claim (Some ''upload'') 11 ''2026-01-03'' two_jobs = (Some j, d1) \<and>
     fail (job_id j) ''network down'' 5 12 ''2026-01-03'' d1 = (Inr (), d2) \<and>
     (\<exists>a. abs_queue d2 ''j2'' = Some a \<and> a_phase a = Waiting 17)"
proof -
  let ?d1 = "snd (claim_update 11 ''2026-01-03'' ''j2'' two_jobs)"
  let ?d2 = "snd (fail ''j2'' ''network down'' 5 12 ''2026-01-03'' ?d1)"
  have row: "job_row_of two_jobs ''j2'' = Some (new_row ''j2'' 10 ''2026-01-01'' ''upload'' [] 3)"
    by (simp add: job_row_of_def two_jobs_rows new_row_def fetchone_def)
  have row1: "job_row_of ?d1 ''j2'' =
      Some (claimed_row 11 ''2026-01-03'' (new_row ''j2'' 10 ''2026-01-01'' ''upload'' [] 3))"
    by (simp add: claim_update_row row) (simp add: new_row_def)
  have "fst (fail ''j2'' ''network down'' 5 12 ''2026-01-03'' ?d1) = Inr ()"
    by (rule fail_ok [OF row1]) (simp add: overflows_def new_row_def)
  then have f: "fail ''j2'' ''network down'' 5 12 ''2026-01-03'' ?d1 = (Inr (), ?d2)"
    by (cases "fail ''j2'' ''network down'' 5 12 ''2026-01-03'' ?d1") simp
  have id: "job_id (to_job (new_row ''j2'' 10 ''2026-01-01'' ''upload'' [] 3)) = ''j2''"
    by (simp add: to_job_def new_row_def)
  have "abs_queue two_jobs ''j2'' = Some (abs_job (new_row ''j2'' 10 ''2026-01-01'' ''upload'' [] 3))"
    by (simp add: abs_queue_def row)
  with claim_fail_refines [OF wf_two_jobs claim_two_jobs, of "''network down''" 5 12
      "''2026-01-03''" ?d2] f id
  have "\<exists>a. abs_queue ?d2 ''j2'' = Some a \<and> a_phase a = Waiting 17"
    by (auto simp: abs_job_def new_row_def)
  with claim_two_jobs f id show ?thesis by metis
qed

end
