(* ===== verification/Worker_Loop.thy ===== *)
theory Worker_Loop
  imports Queue_Protocol
begin

text \<open>
  What \<open>run_worker\<close> (\<open>storage/queue.py\<close>) guarantees for a handler that may fail: each
  iteration settles at most one job, a failing job is retried with growing delays and
  dead-lettered after \<open>max_attempts\<close>, and an outage shorter than that loses nothing.
\<close>

subsection \<open>One iteration\<close>

lemma worker_iteration_idle:
  "wf_jobs d \<Longrightarrow> \<forall>r \<in> set (jobs d). \<not> eligible (Some kind) (t_now t) r \<Longrightarrow>
     worker_iteration kind h t (d, w) = (Inr (), (d, w))"
proof -
  assume wf: "wf_jobs d" and no: "\<forall>r \<in> set (jobs d). \<not> eligible (Some kind) (t_now t) r"
  then have "fst (claim (Some kind) (t_now t) (t_now_iso t) d) = None"
    by (simp add: claim_None_iff)
  then obtain d' where "claim (Some kind) (t_now t) (t_now_iso t) d = (None, d')"
    by (cases "claim (Some kind) (t_now t) (t_now_iso t) d") simp
  with claim_None_state [OF this wf] show ?thesis by (simp add: worker_iteration_def)
qed

text \<open>The job an iteration works on when row \<open>r\<close> is the only eligible one.\<close>

definition only_job :: "string \<Rightarrow> string \<Rightarrow> db \<Rightarrow> bool" where
  "only_job kind i d \<longleftrightarrow> (\<forall>r \<in> set (jobs d). j_kind r = kind \<longrightarrow> j_id r = i)"

lemma only_job_row:
  assumes "wf_jobs d" and "job_row_of d i = Some r" and "eligible (Some kind) now r"
    and "only_job kind i d"
  shows "claim (Some kind) now nowi d =
    (Some (to_job (claimed_row now nowi r)), snd (claim_update now nowi i d))"
proof -
  have "r \<in> set (jobs d)" using assms by (simp add: job_row_of_mem)
  then have "fst (claim (Some kind) now nowi d) \<noteq> None"
    using claim_None_iff [OF assms(1), of "Some kind" now nowi] assms(3) by auto
  then obtain j d' where c: "claim (Some kind) now nowi d = (Some j, d')"
    by (cases "claim (Some kind) now nowi d") auto
  from claim_Some [OF assms(1) c] obtain r' where r': "job_row_of d (job_id j) = Some r'"
    "eligible (Some kind) now r'" "j = to_job (claimed_row now nowi r')"
    "d' = snd (claim_update now nowi (job_id j) d)"
    by metis
  have "job_id j = i"
    using r' assms(1,4) by (auto simp: only_job_def job_row_of_mem eligible_def)
  with r' assms(2) c show ?thesis by simp
qed

lemma jobs_kinds:
  "wf_jobs d' \<Longrightarrow> (\<And>k r. job_row_of d' k = Some r \<Longrightarrow> \<exists>r0. job_row_of d k = Some r0 \<and> j_kind r0 = j_kind r)
    \<Longrightarrow> wf_jobs d \<Longrightarrow> only_job kind i d \<Longrightarrow> only_job kind i d'"
  unfolding only_job_def by (metis job_row_of_id job_row_of_mem)

lemma iteration_failure:
  assumes wf: "wf_jobs d" and only: "only_job kind i d"
    and row: "job_row_of d i = Some r" and el: "eligible (Some kind) (t_now t) r"
    and ov: "\<not> overflows r"
    and h: "h (to_job (claimed_row (t_now t) (t_now_iso t) r)) w = (Inl e, w')"
  obtains d' where "worker_iteration kind h t (d, w) = (Inr (), (d', w'))"
    "wf_jobs d'" "only_job kind i d'"
    "job_row_of d' i =
       Some (failed_row (exn_str e) 5 (t_end t) (t_end_iso t) (claimed_row (t_now t) (t_now_iso t) r))"
    "\<And>k. k \<noteq> i \<Longrightarrow> job_row_of d' k = job_row_of d k"
proof -
  let ?d1 = "snd (claim_update (t_now t) (t_now_iso t) i d)"
  let ?r1 = "claimed_row (t_now t) (t_now_iso t) r"
  let ?f = "fail i (exn_str e) 5 (t_end t) (t_end_iso t) ?d1"
  have id: "j_id r = i" by (rule job_row_of_id [OF row])
  have pend: "j_status r = Pending" using el by (simp add: eligible_def)
  have r1: "job_row_of ?d1 i = Some ?r1" using row id pend by (simp add: claim_update_row)
  have ov1: "\<not> overflows ?r1" using ov by (simp add: overflows_def)
  have other: "job_row_of (snd ?f) k = job_row_of d k" if "k \<noteq> i" for k
    using that job_row_of_id [of d k] fail_ok_row [OF r1 ov1]
    by (cases "job_row_of d k") (auto simp: claim_update_row)
  have run: "worker_iteration kind h t (d, w) = (Inr (), (snd ?f, w'))"
    using only_job_row [OF wf row el only, of "t_now_iso t"] h fail_ok [OF r1 ov1, of "exn_str e" 5 "t_end t" "t_end_iso t"] id
    by (cases ?f) (simp add: worker_iteration_def to_job_def)
  have wf': "wf_jobs (snd ?f)" using wf by simp
  have row': "job_row_of (snd ?f) i = Some (failed_row (exn_str e) 5 (t_end t) (t_end_iso t) ?r1)"
    using fail_ok_row [OF r1 ov1] by simp
  have "only_job kind i (snd ?f)"
  proof (rule jobs_kinds [OF wf' _ wf only])
    fix k x assume "job_row_of (snd ?f) k = Some x"
    then show "\<exists>r0. job_row_of d k = Some r0 \<and> j_kind r0 = j_kind x"
      using other row row' by (cases "k = i") (auto simp: failed_row_def)
  qed
  with run wf' row' other show thesis using that by blast
qed

lemma iteration_success:
  assumes wf: "wf_jobs d" and only: "only_job kind i d"
    and row: "job_row_of d i = Some r" and el: "eligible (Some kind) (t_now t) r"
    and h: "h (to_job (claimed_row (t_now t) (t_now_iso t) r)) w = (Inr (), w')"
  obtains d' where "worker_iteration kind h t (d, w) = (Inr (), (d', w'))" "wf_jobs d'"
    "job_row_of d' i =
       Some ((claimed_row (t_now t) (t_now_iso t) r)\<lparr>j_status := Done, j_updated_at := t_end_iso t\<rparr>)"
    "\<And>k. k \<noteq> i \<Longrightarrow> job_row_of d' k = job_row_of d k"
proof -
  let ?d1 = "snd (claim_update (t_now t) (t_now_iso t) i d)"
  let ?d2 = "complete i (t_end_iso t) ?d1"
  have id: "j_id r = i" by (rule job_row_of_id [OF row])
  have pend: "j_status r = Pending" using el by (simp add: eligible_def)
  have "worker_iteration kind h t (d, w) = (Inr (), (?d2, w'))"
    using only_job_row [OF wf row el only, of "t_now_iso t"] h id
    by (simp add: worker_iteration_def to_job_def)
  moreover have "job_row_of ?d2 k = job_row_of d k" if "k \<noteq> i" for k
    using that job_row_of_id [of d k]
    by (cases "job_row_of d k") (auto simp: claim_update_row complete_row)
  moreover have "wf_jobs ?d2" using wf by simp
  moreover have "job_row_of ?d2 i =
      Some ((claimed_row (t_now t) (t_now_iso t) r)\<lparr>j_status := Done, j_updated_at := t_end_iso t\<rparr>)"
    using row id pend by (simp add: claim_update_row complete_row)
  ultimately show thesis using that by blast
qed

subsection \<open>An outage\<close>

text \<open>
  The handler of a target that is down for its first \<open>n\<close> calls (the state counts them), and
  a schedule in which each iteration comes after the longest backoff has passed.
\<close>

definition outage_handler :: "nat \<Rightarrow> exn \<Rightarrow> nat handler" where
  "outage_handler n e j = (\<lambda>w. (if w < n then Inl e else Inr (), Suc w))"

fun due_from :: "rat \<Rightarrow> tick list \<Rightarrow> bool" where
  "due_from b [] = True"
| "due_from b (t # ts) = (b \<le> t_now t \<and> due_from (t_end t + MAX_BACKOFF_S) ts)"

definition waiting_row :: "string \<Rightarrow> rat \<Rightarrow> nat \<Rightarrow> job_row \<Rightarrow> bool" where
  "waiting_row kind b a r \<longleftrightarrow>
     j_kind r = kind \<and> j_status r = Pending \<and> j_next_attempt_at r \<le> b \<and> j_attempts r = a"

definition dead_or_waiting :: "string \<Rightarrow> rat \<Rightarrow> nat \<Rightarrow> job_row \<Rightarrow> bool" where
  "dead_or_waiting kind b a r \<longleftrightarrow>
     (if int a = j_max_attempts r then j_status r = Dead else waiting_row kind b a r)"

lemma run_worker_step:
  "worker_iteration kind h t s = (Inr (), s') \<Longrightarrow> run_worker kind h (t # ts) s = run_worker kind h ts s'"
  by simp

lemma outage_run:
  assumes "wf_jobs d" "only_job kind i d" "job_row_of d i = Some r" "waiting_row kind b a r"
    "due_from b ts" "w + length ts = n" "int (a + length ts) \<le> j_max_attempts r"
    "j_max_attempts r \<le> 1025" "ts \<noteq> []"
  shows "\<exists>d' r'. run_worker kind (outage_handler n e) ts (d, w) = (Inr (), (d', n)) \<and> wf_jobs d' \<and>
    only_job kind i d' \<and> job_row_of d' i = Some r' \<and> j_max_attempts r' = j_max_attempts r \<and>
    j_attempts r' = a + length ts \<and> j_last_error r' = Some (exn_str e) \<and>
    dead_or_waiting kind (t_end (last ts) + MAX_BACKOFF_S) (a + length ts) r'"
  using assms
proof (induction ts arbitrary: d w b a r)
  case Nil
  then show ?case by simp
next
  case (Cons t ts)
  have el: "eligible (Some kind) (t_now t) r"
    using Cons.prems(4,5) by (auto simp: waiting_row_def eligible_def)
  have a: "j_attempts r = a" and pend: "j_status r = Pending" and kd: "j_kind r = kind"
    using Cons.prems(4) by (simp_all add: waiting_row_def)
  have ov: "\<not> overflows r" using Cons.prems(8) a by (auto simp: overflows_def)
  have "outage_handler n e (to_job (claimed_row (t_now t) (t_now_iso t) r)) w = (Inl e, Suc w)"
    using Cons.prems(6) by (simp add: outage_handler_def)
  from iteration_failure [where h = "outage_handler n e", OF Cons.prems(1-3) el ov this] obtain d1 where
    d1: "worker_iteration kind (outage_handler n e) t (d, w) = (Inr (), (d1, Suc w))"
      "wf_jobs d1" "only_job kind i d1" and
    r1: "job_row_of d1 i = Some (failed_row (exn_str e) 5 (t_end t) (t_end_iso t)
       (claimed_row (t_now t) (t_now_iso t) r))" (is "_ = Some ?r1")
    by blast
  show ?case
  proof (cases "ts = []")
    case True
    then show ?thesis using d1 r1 a kd pend Cons.prems(6,7)
      by (auto simp: failed_row_def waiting_row_def dead_or_waiting_def)
  next
    case False
    then have pend1: "waiting_row kind (t_end t + MAX_BACKOFF_S) (Suc a) ?r1"
      using a kd Cons.prems(7) by (cases ts) (auto simp: failed_row_def waiting_row_def)
    have mx: "j_max_attempts ?r1 = j_max_attempts r" by (simp add: failed_row_def)
    have "\<exists>d' r'. run_worker kind (outage_handler n e) ts (d1, Suc w) = (Inr (), (d', n)) \<and> wf_jobs d' \<and>
      only_job kind i d' \<and> job_row_of d' i = Some r' \<and> j_max_attempts r' = j_max_attempts ?r1 \<and>
      j_attempts r' = Suc a + length ts \<and> j_last_error r' = Some (exn_str e) \<and>
      dead_or_waiting kind (t_end (last ts) + MAX_BACKOFF_S) (Suc a + length ts) r'"
      using Cons.prems(5-8) False mx
      by (intro Cons.IH [OF d1(2,3) r1 pend1]) (auto simp: failed_row_def)
    then show ?thesis
      using False mx by (simp add: run_worker_step [OF d1(1)] del: run_worker.simps)
  qed
qed

lemma run_worker_append:
  "run_worker kind h (ts @ us) s =
     (case run_worker kind h ts s of (Inl e, s') \<Rightarrow> (Inl e, s') | (Inr _, s') \<Rightarrow> run_worker kind h us s')"
  by (induction ts arbitrary: s)
     (auto simp: andthen_def bindE_def split: prod.splits sum.splits)

lemma due_from_snoc:
  "ts \<noteq> [] \<Longrightarrow> due_from b (ts @ [t]) \<longleftrightarrow>
     due_from b ts \<and> t_end (last ts) + MAX_BACKOFF_S \<le> t_now t"
  by (induction ts arbitrary: b) auto

subsection \<open>Properties\<close>

text \<open>
  C4: Offline tolerance.  A job whose target is down for the first \<open>n\<close> attempts and then
  reachable is done after \<open>n + 1\<close> iterations that respect the backoff, when
  \<open>n < max_attempts\<close>; \<open>attempts\<close> counts the failures.
\<close>

theorem outage_then_done:
  assumes "wf_jobs d" and "only_job kind i d" and "job_row_of d i = Some r"
    and "waiting_row kind b 0 r" and "int n < j_max_attempts r" and "j_max_attempts r \<le> 1025"
    and "due_from b ts" and "length ts = Suc n"
  shows "\<exists>d'. run_worker kind (outage_handler n e) ts (d, 0) = (Inr (), (d', Suc n)) \<and>
    (\<exists>r'. job_row_of d' i = Some r' \<and> j_status r' = Done \<and> j_attempts r' = n)"
proof -
  obtain us t where ts: "ts = us @ [t]" and us: "length us = n"
    using assms(8) by (metis append_butlast_last_id length_append_singleton list.size(3)
        nat.distinct(1) old.nat.inject)
  obtain d1 r1 b1 where d1: "run_worker kind (outage_handler n e) us (d, 0) = (Inr (), (d1, n))"
    "wf_jobs d1" "only_job kind i d1" "job_row_of d1 i = Some r1"
    "waiting_row kind b1 n r1" "b1 \<le> t_now t"
  proof (cases "us = []")
    case True
    with that [of d r b] assms us ts show ?thesis by simp
  next
    case False
    have "due_from b us" and "t_end (last us) + MAX_BACKOFF_S \<le> t_now t"
      using assms(7) ts due_from_snoc [OF False] by auto
    with outage_run [OF assms(1-4), of us 0 n e] us False assms(5,6)
    obtain d1 r1 where "run_worker kind (outage_handler n e) us (d, 0) = (Inr (), (d1, n))"
      "wf_jobs d1" "only_job kind i d1" "job_row_of d1 i = Some r1"
      "waiting_row kind (t_end (last us) + MAX_BACKOFF_S) n r1"
      by (auto simp: dead_or_waiting_def)
    with that \<open>t_end (last us) + MAX_BACKOFF_S \<le> t_now t\<close> show ?thesis by blast
  qed
  have el: "eligible (Some kind) (t_now t) r1" and a: "j_attempts r1 = n"
    using d1(5,6) by (auto simp: waiting_row_def eligible_def)
  have "outage_handler n e (to_job (claimed_row (t_now t) (t_now_iso t) r1)) n = (Inr (), Suc n)"
    by (simp add: outage_handler_def)
  from iteration_success [where h = "outage_handler n e", OF d1(2-4) el this] obtain d' where
    "worker_iteration kind (outage_handler n e) t (d1, n) = (Inr (), (d', Suc n))"
    "job_row_of d' i =
      Some ((claimed_row (t_now t) (t_now_iso t) r1)\<lparr>j_status := Done, j_updated_at := t_end_iso t\<rparr>)"
    by metis
  then show ?thesis
    using d1(1) ts a by (simp add: run_worker_append)
qed

definition outage_ticks :: "tick list" where
  "outage_ticks =
     [\<lparr>t_now = 10, t_now_iso = ''a'', t_end = 11, t_end_iso = ''a''\<rparr>,
      \<lparr>t_now = 4000, t_now_iso = ''b'', t_end = 4001, t_end_iso = ''b''\<rparr>,
      \<lparr>t_now = 8000, t_now_iso = ''c'', t_end = 8001, t_end_iso = ''c''\<rparr>]"

lemma one_job_facts: "wf_jobs one_job" "only_job ''upload'' ''j1'' one_job"
  "job_row_of one_job ''j1'' = Some (new_row ''j1'' 10 ''t1'' ''upload'' [] 3)"
  "waiting_row ''upload'' 10 0 (new_row ''j1'' 10 ''t1'' ''upload'' [] 3)"
  by (simp_all add: wf_jobs_def only_job_def one_job_def enqueue_def empty_db_def upd_jobs_def
      job_row_of_def fetchone_def new_row_def waiting_row_def)

theorem outage_then_done_witness:
  "\<exists>d' r'. run_worker ''upload'' (outage_handler 2 (OSError ''down'')) outage_ticks (one_job, 0) =
     (Inr (), (d', 3)) \<and> job_row_of d' ''j1'' = Some r' \<and> j_status r' = Done \<and> j_attempts r' = 2"
proof -
  have h: "int 2 < j_max_attempts (new_row ''j1'' 10 ''t1'' ''upload'' [] 3)"
    "j_max_attempts (new_row ''j1'' 10 ''t1'' ''upload'' [] 3) \<le> 1025"
    "due_from 10 outage_ticks" "length outage_ticks = Suc 2"
    by (simp_all add: new_row_def outage_ticks_def MAX_BACKOFF_S_def)
  show ?thesis
    using outage_then_done [OF one_job_facts h, of "OSError ''down''"]
    by (metis Suc_1 numeral_2_eq_2 numeral_3_eq_3)
qed

text \<open>
  Dead-lettering.  If the target stays down, the job is dead after exactly
  \<open>max_attempts\<close> iterations, with that many attempts and the last error recorded, and it is in
  \<open>list_dead\<close> and never a candidate again.
\<close>

theorem outage_dead_letters:
  assumes "wf_jobs d" and "only_job kind i d" and "job_row_of d i = Some r"
    and "waiting_row kind b 0 r" and "j_max_attempts r = int n" and "0 < n" and "n \<le> 1025"
    and "due_from b ts" and "length ts = n"
  shows "\<exists>d' r'. run_worker kind (outage_handler n e) ts (d, 0) = (Inr (), (d', n)) \<and>
    job_row_of d' i = Some r' \<and> j_status r' = Dead \<and> j_attempts r' = n \<and>
    j_last_error r' = Some (exn_str e) \<and> i \<in> job_id ` set (list_dead None d') \<and>
    (\<forall>ko now. i \<notin> set (claim_candidates ko now d'))"
proof -
  have "ts \<noteq> []" using assms(6,9) by auto
  with outage_run [OF assms(1-4,8), of 0 n e] assms(5-7,9) obtain d' r' where
    d': "run_worker kind (outage_handler n e) ts (d, 0) = (Inr (), (d', n))" "wf_jobs d'"
    "job_row_of d' i = Some r'" "j_status r' = Dead" "j_attempts r' = n"
    "j_last_error r' = Some (exn_str e)"
    by (auto simp: dead_or_waiting_def)
  have r': "r' \<in> set (jobs d')" "j_id r' = i" using d'(2,3) by (simp_all add: job_row_of_mem)
  then have "i \<in> job_id ` set (list_dead None d')"
    using d'(4) by (force simp: list_dead_def list_by_status_def to_job_def)
  moreover have "i \<notin> set (claim_candidates ko now d')" for ko now
    using candidates_pending [OF d'(2), of i ko now] d'(3,4) by (auto simp: eligible_def)
  ultimately show ?thesis using d' by blast
qed

theorem outage_dead_letters_witness:
  "\<exists>d' r'. run_worker ''upload'' (outage_handler 3 (OSError ''down'')) outage_ticks (one_job, 0) =
     (Inr (), (d', 3)) \<and> job_row_of d' ''j1'' = Some r' \<and> j_status r' = Dead \<and>
     j_last_error r' = Some ''down''"
proof -
  have h: "j_max_attempts (new_row ''j1'' 10 ''t1'' ''upload'' [] 3) = int 3" "(0::nat) < 3"
    "(3::nat) \<le> 1025" "due_from 10 outage_ticks" "length outage_ticks = 3"
    by (simp_all add: new_row_def outage_ticks_def MAX_BACKOFF_S_def)
  show ?thesis
    using outage_dead_letters [OF one_job_facts h, of "OSError ''down''"] by auto
qed

end
