(* ===== verification/Printing.thy ===== *)
theory Printing
  imports Worker_Loop Py_Files
begin

text \<open>
  \<open>src/photobooth/printing/queue.py\<close> (the per-session print limit and the worker's print
  handler) and \<open>printing/backend.py\<close> (\<open>NullPrinter\<close>, \<open>CupsBackend\<close>, the factory).
  A dictionary returned to the browser is an association list from keys to JSON values.
  Pillow's conversion to PDF and the answers of the CUPS server are parameters.
\<close>

subsection \<open>\<open>PrintQueue\<close>\<close>

definition is_print_of :: "string \<Rightarrow> job_row \<Rightarrow> bool" where
  "is_print_of session_id r \<longleftrightarrow>
     j_kind r = ''print'' \<and> map_of (j_payload_json r) ''session_id'' = Some (JStr session_id)"

definition count_for_session :: "string \<Rightarrow> db \<Rightarrow> nat" where
  "count_for_session session_id d = length (filter (is_print_of session_id) (jobs d))"

definition print_submit ::
  "int \<Rightarrow> string \<Rightarrow> rat \<Rightarrow> string \<Rightarrow> path \<Rightarrow> string \<Rightarrow> int \<Rightarrow> (exn, db, string) op" where
  "print_submit limit new_id now now_iso image_path session_id max_attempts =
     (\<lambda>d. let used = count_for_session session_id d in
        if limit \<le> int used
        then (Inl (PrintLimitExceededError
                (''session '' @ py_repr session_id @ '' has reached its print limit ('' @
                 str_nat used @ ''/'' @ str_int limit @ '')'')), d)
        else enqueue new_id now now_iso ''print''
               [(''image_path'', JStr (path_str image_path)), (''session_id'', JStr session_id)]
               max_attempts d)"

definition remaining_for_session :: "int \<Rightarrow> string \<Rightarrow> db \<Rightarrow> int" where
  "remaining_for_session limit session_id d = max 0 (limit - int (count_for_session session_id d))"

text \<open>
  The handler of a claimed print job.  \<open>str()\<close> of a payload value that is not a string (the
  program never stores one) is the parameter \<open>str_of\<close>.
\<close>

definition json_str :: "(json \<Rightarrow> string) \<Rightarrow> json \<Rightarrow> string" where
  "json_str str_of v = (case v of JStr s \<Rightarrow> s | _ \<Rightarrow> str_of v)"

definition payload_get :: "payload \<Rightarrow> string \<Rightarrow> json res" where
  "payload_get p k = (case map_of p k of None \<Rightarrow> Inl (KeyError (py_repr k)) | Some v \<Rightarrow> Inr v)"

definition make_print_handler ::
  "(json \<Rightarrow> string) \<Rightarrow> (path \<Rightarrow> string \<Rightarrow> (exn, 'w, string) op) \<Rightarrow> 'w handler" where
  "make_print_handler str_of backend_submit job =
     bindE (lift_res (payload_get (job_payload job) ''image_path'')) (\<lambda>v.
     let image_path = to_path (json_str str_of v) in
     bindE (lift_res (payload_get (job_payload job) ''session_id'')) (\<lambda>v.
     let session_id = json_str str_of v in
     andthen (backend_submit image_path session_id) (ret ())))"

subsection \<open>\<open>NullPrinter\<close>\<close>

record null_printer =
  np_output_dir :: path
  np_simulate_out_of_media :: bool
  np_jobs :: "string \<rightharpoonup> string"
  np_tasks :: "string list"
  np_fs :: fs

definition on_np_fs :: "(exn, fs, 'a) op \<Rightarrow> (exn, null_printer, 'a) op" where
  "on_np_fs m = (\<lambda>p. case m (np_fs p) of (r, f) \<Rightarrow> (r, p\<lparr>np_fs := f\<rparr>))"

definition null_submit ::
  "(bytes \<Rightarrow> bytes res) \<Rightarrow> string \<Rightarrow> path \<Rightarrow> string \<Rightarrow> (exn, null_printer, string) op" where
  "null_submit to_pdf new_id image_path session_id =
     bindE (get_state np_simulate_out_of_media) (\<lambda>out_of_media.
     if out_of_media then raise (PrinterOfflineError ''NullPrinter: out of media (simulated)'')
     else
       bindE (get_state np_output_dir) (\<lambda>output_dir.
       andthen (on_np_fs (mkdir_parents output_dir))
       (let pdf_path = path_div output_dir (new_id @ ''.pdf'') in
        bindE (\<lambda>p. (read_file (np_fs p) image_path, p)) (\<lambda>im.
        bindE (lift_res (to_pdf im)) (\<lambda>pdf.
        andthen (on_np_fs (write_file pdf_path pdf))
       (andthen (modify (\<lambda>p. p\<lparr>np_jobs := (np_jobs p)(new_id \<mapsto> ''printing''),
                             np_tasks := np_tasks p @ [new_id]\<rparr>))
          (ret new_id)))))))"

text \<open>The background task of one job, after its delay.\<close>

definition null_finish :: "string \<Rightarrow> null_printer \<Rightarrow> null_printer" where
  "null_finish i p =
     p\<lparr>np_jobs := (if np_jobs p i \<noteq> None then (np_jobs p)(i \<mapsto> ''done'') else np_jobs p),
       np_tasks := removeAll i (np_tasks p)\<rparr>"

definition null_status :: "null_printer \<Rightarrow> payload" where
  "null_status p =
     (if np_simulate_out_of_media p
      then [(''status'', JStr ''red''), (''detail'', JStr ''out of media (simulated)''),
            (''media_remaining'', JNum 0)]
      else [(''status'', JStr ''green''), (''detail'', JStr ''online (simulated)''),
            (''media_remaining'', JNum 9999)])"

subsection \<open>\<open>CupsBackend\<close>\<close>

text \<open>\<open>printer-state-reasons\<close> is missing, one string or a list.\<close>

datatype reasons = NoReasons | OneReason string | ManyReasons "string list"

record printer_info =
  pi_state :: "int option"
  pi_reasons :: reasons

definition reason_list :: "reasons \<Rightarrow> string list" where
  "reason_list rs =
     (case rs of NoReasons \<Rightarrow> []
      | OneReason r \<Rightarrow> if r = '''' then [] else [r]
      | ManyReasons l \<Rightarrow> l)"

definition state_json :: "int option \<Rightarrow> json" where
  "state_json st = (case st of None \<Rightarrow> JNull | Some n \<Rightarrow> JNum (of_int n))"

definition cups_status :: "string \<Rightarrow> exn + (string \<rightharpoonup> printer_info) \<Rightarrow> payload" where
  "cups_status printer_name answer =
     (case answer of
        Inl exc \<Rightarrow>
          [(''status'', JStr ''red''), (''detail'', JStr (''CUPS unreachable: '' @ exn_str exc))]
      | Inr printers \<Rightarrow>
          (case printers printer_name of
             None \<Rightarrow>
               [(''status'', JStr ''red''),
                (''detail'', JStr (''printer '' @ py_repr printer_name @ '' not found in CUPS''))]
           | Some info \<Rightarrow>
               (let state = pi_state info;
                    reasons = reason_list (pi_reasons info);
                    detail = (if reasons \<noteq> [] then join_with '', '' reasons
                              else ''printer-state='' @
                                (case state of None \<Rightarrow> ''None'' | Some n \<Rightarrow> str_int n));
                    media_low = list_ex (\<lambda>r. str_contains ''media-empty'' r \<or>
                                             str_contains ''media-needed'' r) reasons;
                    answer = (\<lambda>colour. [(''status'', JStr colour), (''detail'', JStr detail),
                                        (''printer_state'', state_json state)]) in
                if media_low \<or> state = Some 5 then answer ''red''
                else if state = Some 3 \<or> state = Some 4 then answer ''green''
                else answer ''gray'')))"

text \<open>\<open>submit\<close>: the blocking \<open>printFile\<close> call of the CUPS connection is a parameter.\<close>

definition cups_submit ::
  "(string \<Rightarrow> string \<Rightarrow> string \<Rightarrow> (exn, 'w, int) op) \<Rightarrow> string \<Rightarrow> path \<Rightarrow> string \<Rightarrow>
     (exn, 'w, string) op" where
  "cups_submit printFile printer_name image_path session_id =
     bindE (printFile printer_name (path_str image_path) (''photobooth-'' @ session_id))
       (\<lambda>n. ret (str_int n))"

subsection \<open>The factory\<close>

record null_printer_config =
  npc_output_dir :: path
  npc_simulated_job_seconds :: int
  npc_simulate_out_of_media :: bool

record printing_config =
  pc_backend :: "string option"
  pc_null_backend :: null_printer_config
  pc_printer_name :: string
  pc_print_limit_per_session :: int

datatype printer_backend = NullPrinter path int bool | CupsBackend string

text \<open>
  \<open>pycups\<close> is \<open>None\<close> when its import fails, else the outcome of opening a connection to the server.
\<close>

definition pycups_missing :: string where
  "pycups_missing =
     ''CupsBackend requires the `pycups` package and a working CUPS install '' @ em_dash @
     '' install the `pi` extra (`pip install '' @ [CHR 0x27] @ ''.[pi]'' @ [CHR 0x27] @
     ''`) on a machine with libcups installed. Not available in this environment.''"

definition new_cups_backend :: "unit res option \<Rightarrow> string \<Rightarrow> printer_backend res" where
  "new_cups_backend pycups printer_name =
     (case pycups of
        None \<Rightarrow> Inl (RuntimeError pycups_missing)
      | Some connection \<Rightarrow>
          if printer_name = ''''
          then Inl (RuntimeError (''CupsBackend requires printing.cups.printer_name to be set '' @
                 ''(see config/pi.yaml: fill it in after `lpstat -p`)''))
          else (case connection of Inl exc \<Rightarrow> Inl exc | Inr _ \<Rightarrow> Inr (CupsBackend printer_name)))"

definition build_printer_backend ::
  "unit res option \<Rightarrow> printing_config \<Rightarrow> printer_backend option res" where
  "build_printer_backend pycups config =
     (case pc_backend config of
        None \<Rightarrow> Inr None
      | Some b \<Rightarrow>
          if b = ''null''
          then Inr (Some (NullPrinter (npc_output_dir (pc_null_backend config))
                           (npc_simulated_job_seconds (pc_null_backend config))
                           (npc_simulate_out_of_media (pc_null_backend config))))
          else if b = ''cups''
          then (case new_cups_backend pycups (pc_printer_name config) of
                  Inl e \<Rightarrow> Inl e | Inr p \<Rightarrow> Inr (Some p))
          else Inl (ValueError (''unknown printer backend: '' @ py_repr b)))"

subsection \<open>The printer interface\<close>

text \<open>
  What the routes rely on from any \<open>PrinterBackend\<close>: its status is a traffic light with a
  detail.  The guest's print button is shown exactly on green.
\<close>

definition status_colour :: "payload \<Rightarrow> string option" where
  "status_colour p = (case map_of p ''status'' of Some (JStr s) \<Rightarrow> Some s | _ \<Rightarrow> None)"

locale printer_status_contract =
  fixes status :: "'w \<Rightarrow> payload"
  assumes colours: "status_colour (status w) \<in> {Some ''green'', Some ''red'', Some ''gray''}"
    and has_detail: "\<exists>s. map_of (status w) ''detail'' = Some (JStr s)"
begin

lemma has_colour: "\<exists>c \<in> {''green'', ''red'', ''gray''}. map_of (status w) ''status'' = Some (JStr c)"
  using colours [of w] by (auto simp: status_colour_def split: option.splits json.splits)

lemma not_green: "status_colour (status w) \<noteq> Some ''green'' \<Longrightarrow>
    status_colour (status w) \<in> {Some ''red'', Some ''gray''}"
  using colours [of w] by auto

end

interpretation null_printer: printer_status_contract null_status
  by unfold_locales (auto simp: null_status_def status_colour_def)

interpretation cups_printer: printer_status_contract "cups_status name"
  by unfold_locales
     (auto simp: cups_status_def status_colour_def Let_def split: sum.splits option.splits)

subsection \<open>The per-session limit\<close>

lemma count_upd_jobs:
  assumes "\<And>r. j_kind (f r) = j_kind r \<and> j_payload_json (f r) = j_payload_json r"
  shows "count_for_session sid (upd_jobs (sql_update P f) d) = count_for_session sid d"
proof -
  have "length (filter (is_print_of sid) (sql_update P f rows)) =
      length (filter (is_print_of sid) rows)" for rows
    using assms by (induction rows) (auto simp: sql_update_def is_print_of_def)
  then show ?thesis by (simp add: count_for_session_def)
qed

lemma count_claim [simp]:
  "wf_jobs d \<Longrightarrow> count_for_session sid (snd (claim kind now nowi d)) = count_for_session sid d"
  by (auto simp: claim_eq claim_update_def Let_def count_upd_jobs split: list.splits)

lemma count_complete [simp]:
  "count_for_session sid (complete i nowi d) = count_for_session sid d"
  by (simp add: complete_def count_upd_jobs)

lemma count_fail [simp]:
  "count_for_session sid (snd (fail i err base now nowi d)) = count_for_session sid d"
  by (auto simp: fail_eq count_upd_jobs split: option.splits)

lemma count_enqueue:
  "count_for_session sid (snd (enqueue i now nowi kind p m d)) = count_for_session sid d +
     (if i \<notin> j_id ` set (jobs d) \<and> kind = ''print'' \<and> map_of p ''session_id'' = Some (JStr sid)
      then 1 else 0)"
  by (simp add: count_for_session_def enqueue_def is_print_of_def)

lemma count_print_submit:
  "count_for_session sid (snd (print_submit limit i now nowi path sid' m d)) =
     count_for_session sid d +
     (if int (count_for_session sid' d) < limit \<and> i \<notin> j_id ` set (jobs d) \<and> sid = sid' then 1 else 0)"
  by (auto simp: print_submit_def Let_def count_enqueue)

lemma wf_print_submit: "wf_jobs d \<Longrightarrow> wf_jobs (snd (print_submit limit i now nowi path sid m d))"
  by (simp add: print_submit_def Let_def wf_enqueue)

text \<open>
  Everything that happens to the \<open>jobs\<close> table while the booth runs: guests print, sessions
  enqueue uploads, workers claim, complete and fail jobs.
\<close>

inductive booth_queue :: "int \<Rightarrow> db \<Rightarrow> bool" for limit where
  start: "jobs d = [] \<Longrightarrow> booth_queue limit d"
| print: "booth_queue limit d \<Longrightarrow> booth_queue limit (snd (print_submit limit i now nowi path sid m d))"
| upload: "booth_queue limit d \<Longrightarrow> kind \<noteq> ''print'' \<Longrightarrow>
    booth_queue limit (snd (enqueue i now nowi kind p m d))"
| claim: "booth_queue limit d \<Longrightarrow> booth_queue limit (snd (claim ko now nowi d))"
| complete: "booth_queue limit d \<Longrightarrow> booth_queue limit (complete i nowi d)"
| fail: "booth_queue limit d \<Longrightarrow> booth_queue limit (snd (fail i err base now nowi d))"

lemma booth_queue_inv:
  "booth_queue limit d \<Longrightarrow> wf_jobs d \<and> (\<forall>sid. int (count_for_session sid d) \<le> max 0 limit)"
proof (induction rule: booth_queue.induct)
  case (start d)
  then show ?case by (simp add: wf_jobs_def count_for_session_def)
next
  case (print d i now nowi path sid m)
  then show ?case by (auto simp: count_print_submit wf_print_submit)
qed (auto simp: count_enqueue wf_queue)

text \<open>
  C5: The print limit holds for every session however prints, uploads, claims, completions and
  failures interleave; the guest's ``prints remaining'' is the exact rest of the allowance, and a
  further print is accepted exactly when it is positive.
\<close>

theorem print_limit_enforced:
  assumes "booth_queue limit d" and "0 \<le> limit" and "i \<notin> j_id ` set (jobs d)"
  shows "int (count_for_session sid d) \<le> limit \<and>
    remaining_for_session limit sid d = limit - int (count_for_session sid d) \<and>
    (fst (print_submit limit i now nowi path sid m d) = Inr i \<longleftrightarrow>
       0 < remaining_for_session limit sid d) \<and>
    remaining_for_session limit sid (snd (print_submit limit i now nowi path sid m d)) =
      max 0 (remaining_for_session limit sid d - 1)"
proof -
  have "int (count_for_session sid d) \<le> limit"
    using booth_queue_inv [OF assms(1)] assms(2) by (metis max_absorb2)
  then show ?thesis
    using assms(3)
    by (auto simp: remaining_for_session_def count_print_submit print_submit_def Let_def enqueue_ok
        count_enqueue)
qed

definition one_print :: db where
  "one_print = snd (print_submit 2 ''p1'' 5 ''t1'' (to_path ''a.jpg'') ''s'' 5 empty_db)"

theorem print_limit_enforced_witness:
  "booth_queue 2 one_print \<and> remaining_for_session 2 ''s'' one_print = 1 \<and>
   fst (print_submit 2 ''p2'' 6 ''t2'' (to_path ''a.jpg'') ''s'' 5 one_print) = Inr ''p2''"
proof -
  have b: "booth_queue 2 one_print"
    unfolding one_print_def by (intro booth_queue.intros) (simp add: empty_db_def)
  have "count_for_session ''s'' one_print = 1" and f: "''p2'' \<notin> j_id ` set (jobs one_print)"
    by (simp_all add: one_print_def print_submit_def enqueue_def empty_db_def count_for_session_def
        is_print_of_def upd_jobs_def)
  then show ?thesis
    using print_limit_enforced [OF b _ f, of "''s''" 6 "''t2''" "to_path ''a.jpg''" 5] b by simp
qed

text \<open>
  At the limit a print is refused with \<open>PrintLimitExceededError\<close>, naming the session, the
  prints used and the limit, and the queue is left alone; no settled, dead or pending job frees a
  slot.
\<close>

theorem print_refused_at_limit:
  assumes "limit \<le> int (count_for_session sid d)" and "wf_jobs d"
  shows "print_submit limit i now nowi path sid m
      (snd (fail k err base now' nowi' (complete k' nowi' (snd (claim ko now' nowi' d))))) =
    (Inl (PrintLimitExceededError (''session '' @ py_repr sid @ '' has reached its print limit ('' @
        str_nat (count_for_session sid d) @ ''/'' @ str_int limit @ '')'')),
     snd (fail k err base now' nowi' (complete k' nowi' (snd (claim ko now' nowi' d)))))"
  using assms by (simp add: print_submit_def)

theorem print_refused_at_limit_witness:
  "fst (print_submit 1 ''p2'' 6 ''t2'' (to_path ''a.jpg'') ''s'' 5
     (snd (fail ''x'' ''boom'' 5 7 ''t3'' (complete ''p1'' ''t3'' (snd (claim None 7 ''t3'' one_print)))))) =
   Inl (PrintLimitExceededError (''session '' @ py_repr ''s'' @ '' has reached its print limit (1/1)''))"
proof -
  have c: "count_for_session ''s'' one_print = 1" and w: "wf_jobs one_print"
    by (simp_all add: one_print_def print_submit_def enqueue_def empty_db_def count_for_session_def
        is_print_of_def upd_jobs_def wf_jobs_def)
  have d: "str_nat 1 = ''1''" "str_int 1 = ''1''"
    by code_simp+
  show ?thesis
    using print_refused_at_limit [OF _ w, of 1 "''s''" "''p2''" 6 "''t2''" "to_path ''a.jpg''" 5
        "''x''" "''boom''" 5 7 "''t3''" "''p1''" None] c d by simp
qed

text \<open>
  The CUPS status is green only for a known printer that reports the idle or processing state
  and no reason mentioning \<open>media-empty\<close> or \<open>media-needed\<close>; a stopped printer, a missing
  one, a media reason or an unreachable server is red.
\<close>

theorem cups_status_green_iff:
  "status_colour (cups_status name answer) = Some ''green'' \<longleftrightarrow>
     (\<exists>printers info. answer = Inr printers \<and> printers name = Some info \<and>
        pi_state info \<in> {Some 3, Some 4} \<and>
        (\<nexists>r a b. r \<in> set (reason_list (pi_reasons info)) \<and>
           (r = a @ ''media-empty'' @ b \<or> r = a @ ''media-needed'' @ b)))"
  by (auto simp: cups_status_def status_colour_def Let_def list_ex_iff str_contains_iff
      split: sum.splits option.splits if_splits)

end
