(* ===== verification/Settings.thy ===== *)
theory Settings
  imports Printing
begin

text \<open>
  \<open>src/photobooth/config/models.py\<close>: the profile configuration.  Every pydantic model is a
  record with the model's fields; \<open>yaml.safe_load\<close> followed by the validation of
  \<open>Settings\<close> is a parameter from the bytes of the file, so the defaults below are what that
  validation fills in for an empty section.
\<close>

subsection \<open>Models\<close>

definition DEFAULT_PIN :: string where
  "DEFAULT_PIN = ''changeme''"

record mock_camera_config =
  mcc_fixtures_dir :: path
  mcc_trigger_delay_ms :: int
  mcc_thumb_latency_ms :: int
  mcc_full_download_mbps :: rat
  mcc_disconnect_every_n :: "int option"
  mcc_download_timeout_pct :: rat
  mcc_slow_download_pct :: rat

datatype jpeg_size = JPEG_S | JPEG_M | JPEG_L

datatype camera_choice = Mock | Gphoto

record camera_config =
  cc_backend :: camera_choice
  cc_worker_port :: int
  cc_mock :: mock_camera_config
  cc_jpeg_size :: jpeg_size

record preview_config =
  pvc_stream_url :: string
  pvc_connect_timeout_s :: rat

record sftp_config =
  sf_host :: string
  sf_port :: int
  sf_username :: string
  sf_password :: string
  sf_private_key_path :: "path option"
  sf_remote_path :: string

record s3_config =
  s3_bucket :: string
  s3_region :: string
  s3_endpoint_url :: string
  s3_access_key_id :: string
  s3_secret_access_key :: string
  s3_prefix :: string

datatype delivery_choice = Local | Sftp | S3

record delivery_config =
  dc_backend :: delivery_choice
  dc_local_output_dir :: path
  dc_sftp :: sftp_config
  dc_s3 :: s3_config
  dc_public_base_url :: string

record events_config =
  ec_base_dir :: path
  ec_active_event_id :: string

record admin_config =
  ac_pin :: string
  ac_secret_key :: string
  ac_session_ttl_hours :: rat

record retention_config =
  rc_enabled :: bool
  rc_max_age_days :: int

record logging_config =
  lc_level :: string
  lc_module_levels :: "(string \<times> string) list"

datatype profile = Dev | Pi

record settings =
  st_profile :: profile
  st_camera :: camera_config
  st_preview :: preview_config
  st_printing :: printing_config
  st_delivery :: delivery_config
  st_sqlite_path :: path
  st_web_host :: string
  st_web_port :: int
  st_events :: events_config
  st_idle_timeout_s :: rat
  st_admin :: admin_config
  st_retention :: retention_config
  st_logging :: logging_config

subsection \<open>Defaults\<close>

definition default_mock_camera :: mock_camera_config where
  "default_mock_camera =
     \<lparr>mcc_fixtures_dir = to_path ''fixtures/shots'', mcc_trigger_delay_ms = 250,
      mcc_thumb_latency_ms = 150, mcc_full_download_mbps = 40, mcc_disconnect_every_n = None,
      mcc_download_timeout_pct = 0, mcc_slow_download_pct = 0\<rparr>"

definition default_camera :: camera_config where
  "default_camera =
     \<lparr>cc_backend = Mock, cc_worker_port = 8765, cc_mock = default_mock_camera, cc_jpeg_size = JPEG_S\<rparr>"

definition default_printing :: printing_config where
  "default_printing =
     \<lparr>pc_backend = Some ''null'',
      pc_null_backend = \<lparr>npc_output_dir = to_path ''out/prints'', npc_simulated_job_seconds = 13,
                         npc_simulate_out_of_media = False\<rparr>,
      pc_printer_name = '''', pc_print_limit_per_session = 2\<rparr>"

definition default_sftp :: sftp_config where
  "default_sftp =
     \<lparr>sf_host = '''', sf_port = 22, sf_username = '''', sf_password = '''',
      sf_private_key_path = None, sf_remote_path = ''''\<rparr>"

definition default_s3 :: s3_config where
  "default_s3 =
     \<lparr>s3_bucket = '''', s3_region = '''', s3_endpoint_url = '''', s3_access_key_id = '''',
      s3_secret_access_key = '''', s3_prefix = ''''\<rparr>"

definition default_delivery :: delivery_config where
  "default_delivery =
     \<lparr>dc_backend = Local, dc_local_output_dir = to_path ''out/uploads'', dc_sftp = default_sftp,
      dc_s3 = default_s3, dc_public_base_url = ''''\<rparr>"

text \<open>\<open>secrets.token_hex(32)\<close> at start-up is an argument.\<close>

definition default_admin :: "string \<Rightarrow> admin_config" where
  "default_admin token =
     \<lparr>ac_pin = DEFAULT_PIN, ac_secret_key = token, ac_session_ttl_hours = 8\<rparr>"

definition default_retention :: retention_config where
  "default_retention = \<lparr>rc_enabled = False, rc_max_age_days = 30\<rparr>"

text \<open>The settings of a file with only the required sections, all but one of them empty.\<close>

definition minimal_settings :: "profile \<Rightarrow> string \<Rightarrow> string \<Rightarrow> settings" where
  "minimal_settings p stream_url token =
     \<lparr>st_profile = p, st_camera = default_camera,
      st_preview = \<lparr>pvc_stream_url = stream_url, pvc_connect_timeout_s = 5\<rparr>,
      st_printing = default_printing, st_delivery = default_delivery,
      st_sqlite_path = to_path ''out/photobooth.db'', st_web_host = ''127.0.0.1'',
      st_web_port = 8000,
      st_events = \<lparr>ec_base_dir = to_path ''events'', ec_active_event_id = ''dev''\<rparr>,
      st_idle_timeout_s = 60, st_admin = default_admin token, st_retention = default_retention,
      st_logging = \<lparr>lc_level = ''INFO'', lc_module_levels = []\<rparr>\<rparr>"

subsection \<open>\<open>Settings.load\<close>\<close>

text \<open>The result also has the warnings logged.\<close>

definition load_settings :: "fs \<Rightarrow> (bytes \<Rightarrow> settings res) \<Rightarrow> path \<Rightarrow> (settings \<times> string list) res" where
  "load_settings F parse path =
     bind_res (read_file F path) (\<lambda>data.
     bind_res (parse data) (\<lambda>settings.
       Inr (settings,
         if st_profile settings = Pi \<and> ac_pin (st_admin settings) = DEFAULT_PIN
         then [''admin_pin_is_default''] else [])))"

lemma load_settings_warns:
  "load_settings F parse p = Inr (s, ws) \<Longrightarrow>
     ws \<noteq> [] \<longleftrightarrow> st_profile s = Pi \<and> ac_pin (st_admin s) = ''changeme''"
  by (auto simp: load_settings_def DEFAULT_PIN_def bind_res_Inr split: if_splits)

end
