(* ===== verification/Admin_Auth.thy ===== *)
theory Admin_Auth
  imports Settings
begin

text \<open>
  \<open>src/photobooth/web/routers/admin_auth.py\<close>: the PIN login, the signed session cookie and the
  gate of the admin routes.  HMAC-SHA256 with its hex digest is a parameter \<open>H\<close> of key and
  message.  \<open>int()\<close> refuses more than 4300 digits, and subtracting an integer that has no float
  from the clock raises \<open>OverflowError\<close>; the clock itself is a rational.
\<close>

subsection \<open>Tokens\<close>

definition COOKIE_NAME :: string where
  "COOKIE_NAME = ''photobooth_admin_session''"

type_synonym hmac = "string \<Rightarrow> string \<Rightarrow> string"

text \<open>\<open>hmac.compare_digest\<close> on two strings.\<close>

definition compare_digest :: "string \<Rightarrow> string \<Rightarrow> bool res" where
  "compare_digest a b =
     (if is_ascii a \<and> is_ascii b then Inr (a = b)
      else Inl (TypeError ''comparing strings with non-ASCII characters is not supported''))"

text \<open>\<open>int(x)\<close> of a float and of a string, and the conversion of an integer to a float.\<close>

definition py_trunc :: "rat \<Rightarrow> int" where
  "py_trunc x = (if 0 \<le> x then \<lfloor>x\<rfloor> else \<lceil>x\<rceil>)"

definition py_int_of_str :: "string \<Rightarrow> int option" where
  "py_int_of_str s = (if 4300 < length (filter is_digit s) then None else py_int s)"

definition FLOAT_INT_BOUND :: int where
  "FLOAT_INT_BOUND = 2 ^ 1024 - 2 ^ 970"

definition py_float_of_int :: "int \<Rightarrow> rat res" where
  "py_float_of_int i =
     (if \<bar>i\<bar> < FLOAT_INT_BOUND then Inr (of_int i)
      else Inl (OverflowError ''int too large to convert to float''))"

definition token_sign :: "hmac \<Rightarrow> string \<Rightarrow> int \<Rightarrow> string" where
  "token_sign H secret_key issued_at = H secret_key (str_int issued_at)"

definition make_token :: "hmac \<Rightarrow> string \<Rightarrow> rat \<Rightarrow> string" where
  "make_token H secret_key now =
     (let issued_at = py_trunc now in str_int issued_at @ ''.'' @ token_sign H secret_key issued_at)"

definition verify_token :: "hmac \<Rightarrow> string \<Rightarrow> string \<Rightarrow> rat \<Rightarrow> rat \<Rightarrow> bool res" where
  "verify_token H token secret_key session_ttl_hours now =
     (case split_once (CHR ''.'') token of
        None \<Rightarrow> Inr False
      | Some (issued_at_raw, signature) \<Rightarrow>
          (case py_int_of_str issued_at_raw of
             None \<Rightarrow> Inr False
           | Some issued_at \<Rightarrow>
               bind_res (compare_digest signature (token_sign H secret_key issued_at)) (\<lambda>same.
                 if \<not> same then Inr False
                 else bind_res (py_float_of_int issued_at) (\<lambda>issued.
                   let age_s = now - issued in
                   if age_s < 0 then Inr False else Inr (age_s \<le> session_ttl_hours * 3600)))))"

subsection \<open>Routes\<close>

text \<open>A cookie the response sets; deleting it is setting it empty with no life time.\<close>

record set_cookie =
  sk_name :: string
  sk_value :: string
  sk_max_age :: int
  sk_httponly :: bool
  sk_samesite :: string
  sk_secure :: bool
  sk_path :: string

type_synonym cookies = "(string \<times> string) list"

definition session_cookie :: "hmac \<Rightarrow> admin_config \<Rightarrow> rat \<Rightarrow> set_cookie" where
  "session_cookie H admin now =
     \<lparr>sk_name = COOKIE_NAME, sk_value = make_token H (ac_secret_key admin) now,
      sk_max_age = py_trunc (ac_session_ttl_hours admin * 3600), sk_httponly = True,
      sk_samesite = ''strict'', sk_secure = False, sk_path = ''/''\<rparr>"

definition clear_cookie :: set_cookie where
  "clear_cookie =
     \<lparr>sk_name = COOKIE_NAME, sk_value = '''', sk_max_age = 0, sk_httponly = False,
      sk_samesite = ''lax'', sk_secure = False, sk_path = ''/''\<rparr>"

definition cookie_valid :: "hmac \<Rightarrow> admin_config \<Rightarrow> cookies \<Rightarrow> rat \<Rightarrow> bool res" where
  "cookie_valid H admin cookies now =
     (case map_of cookies COOKIE_NAME of
        None \<Rightarrow> Inr False
      | Some token \<Rightarrow> verify_token H token (ac_secret_key admin) (ac_session_ttl_hours admin) now)"

definition require_admin :: "hmac \<Rightarrow> admin_config \<Rightarrow> cookies \<Rightarrow> rat \<Rightarrow> unit res" where
  "require_admin H admin cookies now =
     bind_res (cookie_valid H admin cookies now) (\<lambda>ok.
       if \<not> ok then Inl (HTTPException 401 ''admin authentication required'') else Inr ())"

definition login :: "hmac \<Rightarrow> admin_config \<Rightarrow> string \<Rightarrow> rat \<Rightarrow> (payload \<times> set_cookie) res" where
  "login H admin pin now =
     bind_res (compare_digest pin (ac_pin admin)) (\<lambda>same.
       if \<not> same then Inl (HTTPException 401 ''incorrect PIN'')
       else Inr ([(''ok'', JBool True)], session_cookie H admin now))"

definition logout :: "payload \<times> set_cookie" where
  "logout = ([(''ok'', JBool True)], clear_cookie)"

definition get_session :: "hmac \<Rightarrow> admin_config \<Rightarrow> cookies \<Rightarrow> rat \<Rightarrow> payload res" where
  "get_session H admin cookies now =
     bind_res (cookie_valid H admin cookies now) (\<lambda>ok. Inr [(''authenticated'', JBool ok)])"

text \<open>The browser's cookie jar after a response.\<close>

definition store_cookie :: "set_cookie \<Rightarrow> cookies \<Rightarrow> cookies" where
  "store_cookie c jar =
     (if sk_max_age c \<le> 0 then filter (\<lambda>(n, _). n \<noteq> sk_name c) jar
      else (sk_name c, sk_value c) # filter (\<lambda>(n, _). n \<noteq> sk_name c) jar)"

subsection \<open>Numbers as decimal strings\<close>

lemma str_nat_length: "n < 10 ^ Suc k \<Longrightarrow> length (str_nat n) \<le> Suc k"
proof (induction k arbitrary: n)
  case 0
  then show ?case by (simp add: str_nat.simps [of n])
next
  case (Suc k)
  have "n div 10 < 10 ^ Suc k" using Suc.prems by (simp add: less_mult_imp_div_less mult.commute)
  with Suc.IH show ?case by (cases "n < 10") (simp_all add: str_nat.simps [of n])
qed

lemma str_int_length: "\<bar>i\<bar> < 10 ^ Suc k \<Longrightarrow> length (filter is_digit (str_int i)) \<le> Suc k"
proof -
  assume "\<bar>i\<bar> < 10 ^ Suc k"
  then have "nat \<bar>i\<bar> < 10 ^ Suc k" by (metis nat_less_iff abs_ge_zero of_nat_numeral of_nat_power)
  from str_nat_length [OF this] have "length (filter is_digit (str_nat (nat \<bar>i\<bar>))) \<le> Suc k"
    by (meson length_filter_le order_trans)
  moreover have "\<not> is_digit (CHR ''-'')" by code_simp
  ultimately show ?thesis by (cases "i < 0") (simp_all add: str_int_def)
qed

lemma str_int_no_dot: "CHR ''.'' \<notin> set (str_int i)"
  by (auto simp: str_int_def dest!: str_nat_digits) (auto simp: is_digit_def)

text \<open>Every instant with a float has a short decimal.\<close>

lemma float_range_int:
  assumes "\<bar>i\<bar> < FLOAT_INT_BOUND"
  shows "py_int_of_str (str_int i) = Some i" and "py_float_of_int i = Inr (of_int i)"
proof -
  have "FLOAT_INT_BOUND \<le> 2 ^ Suc 1023" by (simp add: FLOAT_INT_BOUND_def)
  also have "(2::int) ^ Suc 1023 \<le> 10 ^ Suc 1023" by (rule power_mono) simp_all
  finally have "FLOAT_INT_BOUND \<le> 10 ^ Suc 1023" .
  with assms have "\<bar>i\<bar> < 10 ^ Suc 1023" by (rule less_le_trans)
  from str_int_length [OF this] show "py_int_of_str (str_int i) = Some i"
    by (simp add: py_int_of_str_def py_int_str_int)
  show "py_float_of_int i = Inr (of_int i)" using assms by (simp add: py_float_of_int_def)
qed

subsection \<open>Verification\<close>

lemma verify_token_eq:
  assumes "CHR ''.'' \<notin> set raw"
  shows "verify_token H (raw @ CHR ''.'' # sig) k ttl now =
    (case py_int_of_str raw of
       None \<Rightarrow> Inr False
     | Some i \<Rightarrow>
         if \<not> (is_ascii sig \<and> is_ascii (H k (str_int i)))
         then Inl (TypeError ''comparing strings with non-ASCII characters is not supported'')
         else if sig \<noteq> H k (str_int i) then Inr False
         else (case py_float_of_int i of
                 Inl e \<Rightarrow> Inl e | Inr t \<Rightarrow> Inr (0 \<le> now - t \<and> now - t \<le> ttl * 3600)))"
  using assms
  by (auto simp: verify_token_def split_once_append compare_digest_def token_sign_def Let_def bind_res_def
      split: option.splits sum.splits)

lemma split_once_Some: "split_once c s = Some (a, b) \<longleftrightarrow> s = a @ c # b \<and> c \<notin> set a"
proof
  assume sp: "split_once c s = Some (a, b)"
  then obtain y ys where dw: "dropWhile (\<lambda>x. x \<noteq> c) s = y # ys"
    by (auto simp: split_once_def split: list.splits)
  then have "y = c" using hd_dropWhile [of "\<lambda>x. x \<noteq> c" s] by simp
  with dw sp have "a = takeWhile (\<lambda>x. x \<noteq> c) s" "b = ys" by (auto simp: split_once_def)
  then show "s = a @ c # b \<and> c \<notin> set a"
    using takeWhile_dropWhile_id [of "\<lambda>x. x \<noteq> c" s] dw \<open>y = c\<close> by (auto dest: set_takeWhileD)
next
  assume "s = a @ c # b \<and> c \<notin> set a"
  then show "split_once c s = Some (a, b)" using split_once_append [of c a b] by simp
qed

text \<open>Exactly the tokens signed with the key for an instant in the window are valid.\<close>

lemma verify_token_True:
  "verify_token H token k ttl now = Inr True \<longleftrightarrow>
     (\<exists>raw i. token = raw @ CHR ''.'' # H k (str_int i) \<and> CHR ''.'' \<notin> set raw \<and>
        py_int_of_str raw = Some i \<and> is_ascii (H k (str_int i)) \<and> \<bar>i\<bar> < FLOAT_INT_BOUND \<and>
        0 \<le> now - of_int i \<and> now - of_int i \<le> ttl * 3600)" (is "?L \<longleftrightarrow> ?R")
proof
  assume ?L
  then obtain raw sig where sp: "split_once (CHR ''.'') token = Some (raw, sig)"
    by (auto simp: verify_token_def split: option.splits)
  then have t: "token = raw @ CHR ''.'' # sig" "CHR ''.'' \<notin> set raw" by (simp_all add: split_once_Some)
  with \<open>?L\<close> show ?R
    unfolding t(1) verify_token_eq [OF t(2)]
    by (intro exI [of _ raw]) (auto simp: py_float_of_int_def split: option.splits if_splits)
next
  assume ?R
  then show ?L by (auto simp: verify_token_eq py_float_of_int_def)
qed

lemma verify_token_Inl:
  assumes "verify_token H token k ttl now = Inl e"
  shows "\<exists>raw sig i. token = raw @ CHR ''.'' # sig \<and> py_int_of_str raw = Some i \<and>
    (e = TypeError ''comparing strings with non-ASCII characters is not supported'' \<and>
       \<not> (is_ascii sig \<and> is_ascii (H k (str_int i))) \<or>
     e = OverflowError ''int too large to convert to float'' \<and>
       sig = H k (str_int i) \<and> FLOAT_INT_BOUND \<le> \<bar>i\<bar>)"
proof -
  from assms obtain raw sig where sp: "split_once (CHR ''.'') token = Some (raw, sig)"
    by (auto simp: verify_token_def split: option.splits)
  then have t: "token = raw @ CHR ''.'' # sig" "CHR ''.'' \<notin> set raw" by (simp_all add: split_once_Some)
  with assms show ?thesis
    unfolding t(1) verify_token_eq [OF t(2)]
    by (intro exI [of _ raw] exI [of _ sig])
       (auto simp: py_float_of_int_def split: option.splits if_splits)
qed

lemma verify_made_token:
  assumes "is_ascii (H k (str_int (py_trunc t0)))" and "\<bar>py_trunc t0\<bar> < FLOAT_INT_BOUND"
  shows "verify_token H (make_token H k t0) k ttl now =
    Inr (0 \<le> now - of_int (py_trunc t0) \<and> now - of_int (py_trunc t0) \<le> ttl * 3600)"
  using assms
  by (simp add: make_token_def Let_def token_sign_def verify_token_eq str_int_no_dot float_range_int)

lemma cookie_after_login:
  "map_of (store_cookie (session_cookie H admin t0) jar) COOKIE_NAME =
     (if py_trunc (ac_session_ttl_hours admin * 3600) \<le> 0 then None
      else Some (make_token H (ac_secret_key admin) t0))"
  by (induction jar) (auto simp: store_cookie_def session_cookie_def)

lemma cookie_after_logout: "map_of (store_cookie clear_cookie jar) COOKIE_NAME = None"
  by (induction jar) (auto simp: store_cookie_def clear_cookie_def)

subsection \<open>Properties\<close>

text \<open>
  logging in and using the session fit together: for a digest in ASCII, the
  cookie a login sets at one time opens the admin routes at another time exactly while the session
  lasts, never before the login's second; and after a logout they are closed.
\<close>

theorem login_opens_session:
  assumes "login H admin pin t0 = Inr (body, cookie)"
    and "is_ascii (H (ac_secret_key admin) (str_int (py_trunc t0)))"
    and "\<bar>py_trunc t0\<bar> < FLOAT_INT_BOUND" and "1 \<le> ac_session_ttl_hours admin * 3600"
  shows "pin = ac_pin admin \<and>
    require_admin H admin (store_cookie cookie jar) t =
      (if of_int (py_trunc t0) \<le> t \<and> t \<le> of_int (py_trunc t0) + ac_session_ttl_hours admin * 3600
       then Inr () else Inl (HTTPException 401 ''admin authentication required'')) \<and>
    require_admin H admin (store_cookie (snd logout) (store_cookie cookie jar)) t =
      Inl (HTTPException 401 ''admin authentication required'')"
proof -
  from assms(1) have pin: "pin = ac_pin admin" and c: "cookie = session_cookie H admin t0"
    by (auto simp: login_def bind_res_Inr compare_digest_def split: if_splits)
  have "\<not> py_trunc (ac_session_ttl_hours admin * 3600) \<le> 0"
    using assms(4) by (simp add: py_trunc_def le_floor_iff)
  then have "map_of (store_cookie cookie jar) COOKIE_NAME = Some (make_token H (ac_secret_key admin) t0)"
    by (simp add: c cookie_after_login)
  then show ?thesis
    using pin verify_made_token [where H = H, OF assms(2,3), of "ac_session_ttl_hours admin" t]
    by (auto simp: require_admin_def cookie_valid_def logout_def cookie_after_logout)
qed

text \<open>A stand-in for the digest: one hexadecimal digit of the length of key and message.\<close>

definition demo_hmac :: hmac where
  "demo_hmac k m = [hex_digit ((length k + 3 * length m) mod 16)]"

definition demo_admin :: admin_config where
  "demo_admin = default_admin ''00ff''"

lemma login_opens_session_witness:
  "require_admin demo_hmac demo_admin (store_cookie (session_cookie demo_hmac demo_admin (3001 / 2)) []) 1500 = Inr ()"
proof -
  have "login demo_hmac demo_admin ''changeme'' (3001 / 2) =
      Inr ([(''ok'', JBool True)], session_cookie demo_hmac demo_admin (3001 / 2))" by code_simp
  moreover have "is_ascii (demo_hmac (ac_secret_key demo_admin) (str_int (py_trunc (3001 / 2))))" by code_simp
  moreover have tr: "py_trunc (3001 / 2) = 1500" by code_simp
  moreover have "\<bar>1500 :: int\<bar> < FLOAT_INT_BOUND" by (simp add: FLOAT_INT_BOUND_def)
  moreover have ttl: "ac_session_ttl_hours demo_admin = 8" by code_simp
  ultimately show ?thesis
    using login_opens_session [of demo_hmac demo_admin "''changeme''" "3001 / 2" _
        "session_cookie demo_hmac demo_admin (3001 / 2)" "[]" 1500] by simp
qed

text \<open>
  C12: the gate of the admin routes lets a request through only with a cookie that carries the HMAC,
  under the server's secret, of the very instant the cookie names, and only from that instant on
  and until the session is over; the PIN plays no part.
\<close>

theorem admin_gate_exact:
  "require_admin H admin cookies now = Inr () \<longleftrightarrow>
     (\<exists>raw i. map_of cookies COOKIE_NAME = Some (raw @ CHR ''.'' # H (ac_secret_key admin) (str_int i)) \<and>
        CHR ''.'' \<notin> set raw \<and> py_int_of_str raw = Some i \<and>
        is_ascii (H (ac_secret_key admin) (str_int i)) \<and> \<bar>i\<bar> < FLOAT_INT_BOUND \<and>
        0 \<le> now - of_int i \<and> now - of_int i \<le> ac_session_ttl_hours admin * 3600)"
proof -
  have "require_admin H admin cookies now = Inr () \<longleftrightarrow> cookie_valid H admin cookies now = Inr True"
    by (auto simp: require_admin_def bind_res_Inr split: if_splits)
  also have "\<dots> \<longleftrightarrow> (\<exists>token. map_of cookies COOKIE_NAME = Some token \<and>
      verify_token H token (ac_secret_key admin) (ac_session_ttl_hours admin) now = Inr True)"
    by (auto simp: cookie_valid_def split: option.splits)
  finally show ?thesis unfolding verify_token_True by auto
qed

text \<open>
  the gate's refusals: a request without a valid cookie gets the 401, with two exceptions the
  code does not foresee: a cookie that names an integer and carries a signature with a character
  outside ASCII is not refused but fails with the \<open>TypeError\<close> of \<open>compare_digest\<close> (the client
  sees a server error), and so would a validly signed instant beyond the range of floats.
\<close>

theorem admin_gate_refusals:
  assumes "\<And>m. is_ascii (H (ac_secret_key admin) m)"
    and "require_admin H admin cookies now = Inl e"
  shows "e = HTTPException 401 ''admin authentication required'' \<or>
    (\<exists>raw sig i. map_of cookies COOKIE_NAME = Some (raw @ CHR ''.'' # sig) \<and> py_int_of_str raw = Some i \<and>
      (if is_ascii sig
       then sig = H (ac_secret_key admin) (str_int i) \<and> FLOAT_INT_BOUND \<le> \<bar>i\<bar> \<and>
         e = OverflowError ''int too large to convert to float''
       else e = TypeError ''comparing strings with non-ASCII characters is not supported''))"
proof (cases "cookie_valid H admin cookies now")
  case (Inr b)
  with assms(2) show ?thesis by (auto simp: require_admin_def split: if_splits)
next
  case (Inl e')
  with assms(2) have e: "e = e'" by (simp add: require_admin_def)
  from Inl obtain token where token: "map_of cookies COOKIE_NAME = Some token"
    and v: "verify_token H token (ac_secret_key admin) (ac_session_ttl_hours admin) now = Inl e'"
    by (auto simp: cookie_valid_def split: option.splits)
  from verify_token_Inl [OF v] token e assms(1) show ?thesis by (metis (full_types))
qed

lemma admin_gate_refusals_witness:
  "require_admin demo_hmac demo_admin [(COOKIE_NAME, ''1500.'' @ [CHR 0xE9])] 1500 =
     Inl (TypeError ''comparing strings with non-ASCII characters is not supported'') \<and>
   \<not> is_ascii [CHR 0xE9]"
proof -
  let ?run = "require_admin demo_hmac demo_admin [(COOKIE_NAME, ''1500.'' @ [CHR 0xE9])] 1500"
  have ascii: "is_ascii (demo_hmac k m)" for k m
  proof -
    have "(of_char (hex_digit n) :: nat) < 128" if "n < 16" for n
      using that by (simp add: hex_digit_def)
    then show ?thesis by (simp add: demo_hmac_def is_ascii_def)
  qed
  have run: "?run = Inl (TypeError ''comparing strings with non-ASCII characters is not supported'')"
    by code_simp
  with admin_gate_refusals [OF ascii run] show ?thesis by (simp add: is_ascii_def)
qed

end
