(* ===== verification/Routes.thy ===== *)
theory Routes
  imports Admin_Auth
begin

text \<open>
  The HTTP surface: the routers of \<open>web/routers\<close> as \<open>web/app.py\<close> assembles them, with the gate of
  the admin router.  A route is named by its handler.  How a request finds its route is the web
  framework's documented rule: the entries are tried in the order they were registered, a literal
  segment matches itself, a parameter any segment that is not empty, a mounted directory everything
  below its prefix; a path that only matches under another method is answered with 405.  The
  framework's own documentation pages and its redirect of trailing slashes are left out.
\<close>

subsection \<open>Routers\<close>

datatype http_method = GET | POST | PUT | DELETE | WEBSOCKET

record router =
  ro_prefix :: string
  ro_require_admin :: bool
  ro_routes :: "(http_method \<times> string \<times> string) list"

definition kiosk_router :: router where
  "kiosk_router = \<lparr>ro_prefix = '''', ro_require_admin = False, ro_routes =
     [(GET, ''/session/event'', ''get_active_event''),
      (GET, ''/session/event/background'', ''get_event_background''),
      (GET, ''/session/event/logo'', ''get_event_logo''),
      (POST, ''/session/arm'', ''arm_session''),
      (POST, ''/session/capture'', ''capture_session''),
      (POST, ''/session/dismiss'', ''dismiss_session''),
      (GET, ''/session/printer-status'', ''get_printer_status''),
      (POST, ''/session/print'', ''print_capture''),
      (WEBSOCKET, ''/ws'', ''websocket_endpoint'')]\<rparr>"

definition preview_router :: router where
  "preview_router = \<lparr>ro_prefix = '''', ro_require_admin = False, ro_routes =
     [(GET, ''/preview/stream'', ''preview_stream'')]\<rparr>"

definition debug_router :: router where
  "debug_router = \<lparr>ro_prefix = ''/debug'', ro_require_admin = False, ro_routes =
     [(GET, ''/traces'', ''get_traces''), (GET, ''/timings'', ''get_timings''),
      (GET, ''/health'', ''get_health'')]\<rparr>"

definition gallery_router :: router where
  "gallery_router = \<lparr>ro_prefix = ''/gallery'', ro_require_admin = False, ro_routes =
     [(GET, ''/{event_id}/captures'', ''list_captures''), (GET, ''/{event_id}/info'', ''get_gallery_info''),
      (GET, ''/{event_id}/background'', ''get_gallery_background''),
      (GET, ''/{event_id}/logo'', ''get_gallery_logo'')]\<rparr>"

definition admin_auth_router :: router where
  "admin_auth_router = \<lparr>ro_prefix = ''/admin'', ro_require_admin = False, ro_routes =
     [(POST, ''/login'', ''login''), (POST, ''/logout'', ''logout''), (GET, ''/session'', ''get_session'')]\<rparr>"

definition admin_router :: router where
  "admin_router = \<lparr>ro_prefix = ''/admin'', ro_require_admin = True, ro_routes =
     [(GET, ''/events'', ''list_events''), (GET, ''/events/{event_id}'', ''get_event''),
      (PUT, ''/events/{event_id}'', ''update_event''),
      (POST, ''/events/{event_id}/activate'', ''activate_event''),
      (POST, ''/events/{event_id}/upload-image'', ''upload_event_image''),
      (GET, ''/event-templates'', ''list_event_templates''), (POST, ''/events'', ''create_event''),
      (POST, ''/events/{event_id}/duplicate'', ''duplicate_event''),
      (DELETE, ''/events/{event_id}'', ''delete_event''),
      (GET, ''/delivery'', ''get_delivery_config''), (PUT, ''/delivery'', ''update_delivery_config''),
      (POST, ''/delivery/upload-key'', ''upload_delivery_key''),
      (POST, ''/actions/test-delivery'', ''test_delivery''),
      (GET, ''/events/{event_id}/captures'', ''list_event_captures''),
      (DELETE, ''/captures/{capture_id}'', ''delete_capture_action''),
      (GET, ''/templates'', ''list_templates''), (POST, ''/templates/{name}/preview'', ''preview_template''),
      (GET, ''/status'', ''get_status''), (POST, ''/actions/test-shot'', ''test_shot''),
      (POST, ''/actions/reconnect-camera'', ''reconnect_camera''),
      (POST, ''/actions/reset-session'', ''reset_session''),
      (POST, ''/actions/restart-app'', ''restart_app''),
      (POST, ''/actions/shutdown-camera'', ''shutdown_camera''),
      (POST, ''/actions/reprint/{capture_id}'', ''reprint_capture'')]\<rparr>"

definition share_router :: router where
  "share_router = \<lparr>ro_prefix = ''/s'', ro_require_admin = False, ro_routes =
     [(GET, ''/{token}'', ''get_share''), (GET, ''/{token}/qr.png'', ''get_share_qr'')]\<rparr>"

subsection \<open>The application's entries\<close>

datatype path_segment = Lit string | Param

record route =
  rt_method :: http_method
  rt_path :: "path_segment list"
  rt_endpoint :: string
  rt_admin :: bool

datatype app_entry = Route route | Mount "path_segment list" string

text \<open>The segments of a path that starts with a slash.\<close>

definition parse_segment :: "string \<Rightarrow> path_segment" where
  "parse_segment s = (case s of [] \<Rightarrow> Lit s | c # _ \<Rightarrow> if c = CHR ''{'' then Param else Lit s)"

definition path_segments :: "string \<Rightarrow> path_segment list" where
  "path_segments path = map parse_segment (tl (split_on (CHR ''/'') path))"

definition include_router :: "router \<Rightarrow> app_entry list" where
  "include_router ro =
     map (\<lambda>(m, p, endpoint). Route \<lparr>rt_method = m, rt_path = path_segments (ro_prefix ro @ p),
            rt_endpoint = endpoint, rt_admin = ro_require_admin ro\<rparr>) (ro_routes ro)"

definition app_get :: "string \<Rightarrow> string \<Rightarrow> app_entry" where
  "app_get path endpoint = Route \<lparr>rt_method = GET, rt_path = path_segments path,
     rt_endpoint = endpoint, rt_admin = False\<rparr>"

text \<open>\<open>built\<close>: the directory of the built frontend exists.\<close>

definition app_entries :: "bool \<Rightarrow> app_entry list" where
  "app_entries built =
     include_router kiosk_router @ include_router preview_router @ include_router debug_router @
     include_router gallery_router @ include_router admin_auth_router @ include_router admin_router @
     include_router share_router @
     [Mount (path_segments ''/captures'') ''captures'', Mount (path_segments ''/uploads'') ''uploads'',
      app_get ''/health'' ''health'', app_get ''/'' ''serve_kiosk'', app_get ''/admin'' ''serve_admin'',
      app_get ''/gallery/{event_id}'' ''serve_gallery''] @
     (if built then [Mount [] ''frontend''] else [])"

subsection \<open>Finding the handler\<close>

fun segment_matches :: "path_segment \<Rightarrow> string \<Rightarrow> bool" where
  "segment_matches (Lit l) s \<longleftrightarrow> s = l"
| "segment_matches Param s \<longleftrightarrow> s \<noteq> ''''"

definition path_matches :: "path_segment list \<Rightarrow> string list \<Rightarrow> bool" where
  "path_matches ps ss \<longleftrightarrow> list_all2 segment_matches ps ss"

definition mount_matches :: "path_segment list \<Rightarrow> string list \<Rightarrow> bool" where
  "mount_matches prefix ss \<longleftrightarrow> length prefix < length ss \<and> path_matches prefix (take (length prefix) ss)"

datatype dispatched = ToRoute route | ToMount string | MethodNotAllowed | NotFound

fun dispatch :: "app_entry list \<Rightarrow> http_method \<Rightarrow> string list \<Rightarrow> bool \<Rightarrow> dispatched" where
  "dispatch [] m ss seen = (if seen then MethodNotAllowed else NotFound)"
| "dispatch (Route r # es) m ss seen =
     (if path_matches (rt_path r) ss
      then if rt_method r = m then ToRoute r
           else dispatch es m ss (seen \<or> (rt_method r \<noteq> WEBSOCKET \<and> m \<noteq> WEBSOCKET))
      else dispatch es m ss seen)"
| "dispatch (Mount prefix name # es) m ss seen =
     (if mount_matches prefix ss then ToMount name else dispatch es m ss seen)"

text \<open>A request served: the gate where the router asks for it, then the handler.\<close>

definition serve_request ::
  "bool \<Rightarrow> hmac \<Rightarrow> admin_config \<Rightarrow> cookies \<Rightarrow> rat \<Rightarrow> (string \<Rightarrow> (exn, 's, 'r) op) \<Rightarrow>
     (string \<Rightarrow> string list \<Rightarrow> (exn, 's, 'r) op) \<Rightarrow> http_method \<Rightarrow> string list \<Rightarrow> (exn, 's, 'r) op" where
  "serve_request built H admin cookies now handler static_files m ss =
     (case dispatch (app_entries built) m ss False of
        ToRoute r \<Rightarrow>
          if rt_admin r then andthen (lift_res (require_admin H admin cookies now)) (handler (rt_endpoint r))
          else handler (rt_endpoint r)
      | ToMount name \<Rightarrow> static_files name ss
      | MethodNotAllowed \<Rightarrow> raise (HTTPException 405 ''Method Not Allowed'')
      | NotFound \<Rightarrow> raise (HTTPException 404 ''Not Found''))"

subsection \<open>Properties\<close>

text \<open>Two patterns some path matches both.\<close>

fun segments_overlap :: "path_segment \<Rightarrow> path_segment \<Rightarrow> bool" where
  "segments_overlap (Lit a) (Lit b) \<longleftrightarrow> a = b"
| "segments_overlap (Lit a) Param \<longleftrightarrow> a \<noteq> ''''"
| "segments_overlap Param (Lit b) \<longleftrightarrow> b \<noteq> ''''"
| "segments_overlap Param Param \<longleftrightarrow> True"

lemma paths_overlap:
  assumes "path_matches ps ss" and "path_matches qs ss" shows "list_all2 segments_overlap ps qs"
proof -
  have "segment_matches p s \<Longrightarrow> segment_matches q s \<Longrightarrow> segments_overlap p q" for p q s
    by (cases p; cases q) auto
  then show ?thesis
    using assms unfolding path_matches_def list_all2_conv_all_nth by auto
qed

fun entries_apart :: "app_entry \<Rightarrow> app_entry \<Rightarrow> bool" where
  "entries_apart (Route r) (Route r') \<longleftrightarrow>
     rt_method r = rt_method r' \<longrightarrow> \<not> list_all2 segments_overlap (rt_path r) (rt_path r')"
| "entries_apart (Route r) (Mount p n) \<longleftrightarrow>
     \<not> (length p < length (rt_path r) \<and> list_all2 segments_overlap p (take (length p) (rt_path r)))"
| "entries_apart (Mount p n) (Route r) \<longleftrightarrow>
     \<not> (length p < length (rt_path r) \<and> list_all2 segments_overlap p (take (length p) (rt_path r)))"
| "entries_apart (Mount p n) (Mount q k) \<longleftrightarrow>
     \<not> list_all2 segments_overlap (take (min (length p) (length q)) p) (take (min (length p) (length q)) q)"

lemma app_entries_apart: "sorted_wrt entries_apart (app_entries False)"
  by code_simp

lemma mount_overlap:
  assumes "mount_matches p ss" and "path_matches q ss"
  shows "length p < length q \<and> list_all2 segments_overlap p (take (length p) q)"
proof -
  have "length q = length ss" using assms(2) by (simp add: path_matches_def list_all2_lengthD)
  moreover have "path_matches (take (length p) q) (take (length p) ss)"
    using assms(2) unfolding path_matches_def by (rule list_all2_takeI)
  ultimately show ?thesis using assms(1) paths_overlap by (auto simp: mount_matches_def)
qed

lemma dispatch_reaches:
  assumes "sorted_wrt entries_apart es" and "Route r \<in> set es" and "path_matches (rt_path r) ss"
  shows "dispatch (es @ rest) (rt_method r) ss seen = ToRoute r"
  using assms(1,2)
proof (induction es arbitrary: seen)
  case (Cons x es)
  show ?case
  proof (cases "x = Route r")
    case True
    then show ?thesis using assms(3) by simp
  next
    case False
    with Cons.prems have apart: "entries_apart x (Route r)" and r: "Route r \<in> set es" by auto
    have IH: "dispatch (es @ rest) (rt_method r) ss seen = ToRoute r" for seen
      using Cons.prems(1) r by (intro Cons.IH) auto
    show ?thesis
    proof (cases x)
      case (Route r')
      then show ?thesis
        using apart IH paths_overlap [OF _ assms(3), of "rt_path r'"] by auto
    next
      case (Mount p n)
      then show ?thesis using apart IH mount_overlap [OF _ assms(3), of p] by auto
    qed
  qed
qed simp

text \<open>The routes below \<open>/admin\<close> that need no cookie: logging in and out, the session query, the page.\<close>

definition PUBLIC_ADMIN :: "string set" where
  "PUBLIC_ADMIN = {''login'', ''logout'', ''get_session'', ''serve_admin''}"

fun entry_guarded :: "app_entry \<Rightarrow> bool" where
  "entry_guarded (Route r) \<longleftrightarrow> rt_path r \<noteq> [] \<and> hd (rt_path r) \<noteq> Param \<and>
     (rt_admin r \<longleftrightarrow> hd (rt_path r) = Lit ''admin'' \<and> rt_endpoint r \<notin> set [''login'', ''logout'', ''get_session'', ''serve_admin''])"
| "entry_guarded (Mount p n) \<longleftrightarrow> p \<noteq> [] \<and> hd p \<noteq> Param \<and> hd p \<noteq> Lit ''admin''"

lemma app_entries_guarded: "list_all entry_guarded (app_entries False)"
  by code_simp

lemma app_entries_split:
  "app_entries built = app_entries False @ (if built then [Mount [] ''frontend''] else [])"
  by (simp add: app_entries_def)

lemma dispatch_from: "dispatch es m ss seen = ToRoute r \<Longrightarrow> Route r \<in> set es \<and> path_matches (rt_path r) ss"
  by (induction es m ss seen rule: dispatch.induct) (auto split: if_splits)

lemma dispatch_mount: "dispatch es m ss seen = ToMount n \<Longrightarrow> \<exists>p. Mount p n \<in> set es \<and> mount_matches p ss"
  by (induction es m ss seen rule: dispatch.induct) (auto split: if_splits)

lemma route_guarded:
  assumes "Route r \<in> set (app_entries built)" and "path_matches (rt_path r) ss"
  shows "rt_admin r \<longleftrightarrow> ss \<noteq> [] \<and> hd ss = ''admin'' \<and> rt_endpoint r \<notin> PUBLIC_ADMIN"
proof -
  have "Route r \<in> set (app_entries False)"
    using assms(1) app_entries_split [of built] by (auto split: if_splits)
  then have "entry_guarded (Route r)" using app_entries_guarded by (auto simp: list_all_iff)
  then have g: "rt_path r \<noteq> []" "hd (rt_path r) \<noteq> Param"
    "rt_admin r \<longleftrightarrow> hd (rt_path r) = Lit ''admin'' \<and> rt_endpoint r \<notin> PUBLIC_ADMIN"
    by (simp_all add: PUBLIC_ADMIN_def)
  then obtain l ps where "rt_path r = Lit l # ps" by (metis hd_Cons_tl path_segment.exhaust)
  with assms(2) g(3) show ?thesis by (auto simp: path_matches_def list_all2_Cons1)
qed

lemma served_through_gate:
  assumes r: "Route r \<in> set (app_entries built)" and m: "path_matches (rt_path r) ss"
  shows "serve_request built H admin cookies now handler static_files (rt_method r) ss =
        (if hd ss = ''admin'' \<and> rt_endpoint r \<notin> PUBLIC_ADMIN
         then andthen (lift_res (require_admin H admin cookies now)) (handler (rt_endpoint r))
         else handler (rt_endpoint r))"
proof -
  have base: "Route r \<in> set (app_entries False)"
    using r app_entries_split [of built] by (auto split: if_splits)
  from dispatch_reaches [OF app_entries_apart base m]
  have "dispatch (app_entries built) (rt_method r) ss False = ToRoute r"
    by (subst app_entries_split) simp
  moreover have "rt_path r \<noteq> []" using base app_entries_guarded by (auto simp: list_all_iff)
  then have "ss \<noteq> []" using m by (auto simp: path_matches_def)
  ultimately show ?thesis using route_guarded [OF r m] by (simp add: serve_request_def)
qed

lemma mounted_below_admin:
  assumes "dispatch (app_entries built) m (''admin'' # ps) False = ToMount n"
  shows "n = ''frontend''"
proof -
  from dispatch_mount [OF assms] obtain p where p: "Mount p n \<in> set (app_entries built)"
    "mount_matches p (''admin'' # ps)" by blast
  have "Mount p n \<notin> set (app_entries False)"
  proof
    assume "Mount p n \<in> set (app_entries False)"
    then have "entry_guarded (Mount p n)" using app_entries_guarded by (auto simp: list_all_iff)
    then obtain l q where "p = Lit l # q" "l \<noteq> ''admin''"
      by (metis entry_guarded.simps(2) hd_Cons_tl path_segment.exhaust)
    with p(2) show False by (simp add: mount_matches_def path_matches_def)
  qed
  then show ?thesis using p(1) app_entries_split [of built] by (auto split: if_splits)
qed

lemma refused_below_admin:
  fixes handler :: "string \<Rightarrow> (exn, 's, 'r) op"
  defines "serve \<equiv> \<lambda>built H admin cookies now static_files m ps.
    serve_request built H admin cookies now handler static_files m (''admin'' # ps)"
  assumes e: "require_admin H admin cookies now = Inl e"
  shows "(\<exists>exc \<in> {e, HTTPException 404 ''Not Found'', HTTPException 405 ''Method Not Allowed''}.
         serve built H admin cookies now static_files m ps s = (Inl exc, s)) \<or>
      (\<exists>ep \<in> PUBLIC_ADMIN. serve built H admin cookies now static_files m ps = handler ep) \<or>
      serve built H admin cookies now static_files m ps = static_files ''frontend'' (''admin'' # ps)"
proof (cases "dispatch (app_entries built) m (''admin'' # ps) False")
  case (ToRoute r')
  from dispatch_from [OF this] have "rt_admin r' \<longleftrightarrow> rt_endpoint r' \<notin> PUBLIC_ADMIN"
    using route_guarded [of r' built "''admin'' # ps"] by simp
  then show ?thesis using ToRoute e by (auto simp: serve_def serve_request_def andthen_def)
next
  case (ToMount n)
  then show ?thesis using mounted_below_admin [OF ToMount] by (simp add: serve_def serve_request_def)
qed (auto simp: serve_def serve_request_def)



end
