(* ===== verification/Event_Config.thy ===== *)
theory Event_Config
  imports Py_Files
begin

text \<open>
  \<open>src/photobooth/config/event.py\<close> and \<open>config/event_templates.py\<close>: an event's
  configuration, the text overrides of the guest pages, the placeholders in template texts and
  the presets of the admin wizard.  \<open>yaml.safe_load\<close> followed by the pydantic validation of
  \<open>EventConfig\<close> is a parameter from the bytes of the file.  Characters of string literals
  outside ASCII are their UTF-8 bytes.
\<close>

subsection \<open>Models\<close>

record capture_mode =
  cm_id :: string
  cm_label :: string
  cm_template :: string

record event_theme =
  th_primary_color :: string
  th_scrim_color :: string

record event_config =
  e_id :: string
  e_title :: string
  e_date :: string
  e_template :: string
  e_modes :: "capture_mode list"
  e_background_image :: string
  e_logo_image :: string
  e_theme :: event_theme
  e_countdown_s :: rat
  e_include_logo_in_prints :: bool
  e_gallery_enabled :: bool
  e_vars :: "(string \<times> string) list"
  e_strings :: "(string \<times> string) list"

text \<open>The schema's defaults, for an event with an id, a title and a template.\<close>

definition new_event_config :: "string \<Rightarrow> string \<Rightarrow> string \<Rightarrow> event_config" where
  "new_event_config i title template =
     \<lparr>e_id = i, e_title = title, e_date = '''', e_template = template, e_modes = [],
      e_background_image = '''', e_logo_image = '''',
      e_theme = \<lparr>th_primary_color = '''', th_scrim_color = ''''\<rparr>, e_countdown_s = 3,
      e_include_logo_in_prints = False, e_gallery_enabled = True, e_vars = [], e_strings = []\<rparr>"

subsection \<open>Interface strings\<close>

definition DEFAULT_UI_STRINGS :: "(string \<times> string) list" where
  "DEFAULT_UI_STRINGS =
     [(''attract_cta'', ''Touch a button below to start''),
      (''gallery_word'', ''Gallery''),
      (''capturing_label'', ''Capturing'' @ ellipsis),
      (''print_button'', ''Print''),
      (''print_button_busy'', ''Printing'' @ ellipsis),
      (''qr_caption'', ''Scan to get your photo''),
      (''gallery_loading'', ''Loading'' @ ellipsis),
      (''gallery_empty'', ''No photos yet.''),
      (''gallery_not_available'', ''Gallery not available for this event.'')]"

text \<open>\<open>{**a, **b}\<close>: the keys of \<open>a\<close> in order with \<open>b\<close>'s values, then \<open>b\<close>'s other keys.\<close>

definition dict_merge :: "('k \<times> 'v) list \<Rightarrow> ('k \<times> 'v) list \<Rightarrow> ('k \<times> 'v) list" where
  "dict_merge a b =
     map (\<lambda>(k, v). (k, case map_of b k of None \<Rightarrow> v | Some v' \<Rightarrow> v')) a @
     filter (\<lambda>(k, _). k \<notin> fst ` set a) b"

definition resolved_strings :: "event_config \<Rightarrow> (string \<times> string) list" where
  "resolved_strings event = dict_merge DEFAULT_UI_STRINGS (e_strings event)"

subsection \<open>Loading\<close>

definition load_event ::
  "fs \<Rightarrow> (bytes \<Rightarrow> event_config res) \<Rightarrow> path \<Rightarrow> string \<Rightarrow> event_config res" where
  "load_event F parse events_dir event_id =
     (let path = path_div (path_div events_dir event_id) ''event.yaml'' in
      case read_file F path of Inl e \<Rightarrow> Inl e | Inr text \<Rightarrow> parse text)"

subsection \<open>Placeholders\<close>

definition WELL_KNOWN_FIELDS :: "string list" where
  "WELL_KNOWN_FIELDS = [''title'', ''date'']"

definition is_key_char :: "char \<Rightarrow> bool" where
  "is_key_char c \<longleftrightarrow>
     (CHR ''A'' \<le> c \<and> c \<le> CHR ''Z'') \<or> (CHR ''a'' \<le> c \<and> c \<le> CHR ''z'') \<or>
     (CHR ''0'' \<le> c \<and> c \<le> CHR ''9'') \<or> c = CHR ''_''"

text \<open>A match of the placeholder pattern at the head of a text: its key and what follows.\<close>

definition match_placeholder :: "string \<Rightarrow> (string \<times> string) option" where
  "match_placeholder s =
     (if starts_with ''{event.'' s
      then (let t = drop 7 s; key = takeWhile is_key_char t; rest = drop (length key) t in
            case rest of
              [] \<Rightarrow> None
            | c # after \<Rightarrow> if key \<noteq> [] \<and> c = CHR ''}'' then Some (key, after) else None)
      else None)"

definition placeholder_value :: "event_config \<Rightarrow> string \<Rightarrow> string res" where
  "placeholder_value event key =
     (if key = ''title'' then Inr (e_title event)
      else if key = ''date'' then Inr (e_date event)
      else (case map_of (e_vars event) key of
              Some v \<Rightarrow> Inr v
            | None \<Rightarrow> Inl (PlaceholderResolutionError
                (''{event.'' @ key @ ''} has no matching EventConfig field or vars entry (event id='' @
                 py_repr (e_id event) @ '')''))))"

lemma match_placeholder_shorter:
  "match_placeholder s = Some (key, rest) \<Longrightarrow> length rest < length s"
  by (auto simp: match_placeholder_def Let_def split: if_splits list.splits)
    (metis Suc_le_eq diff_le_self le_trans length_Cons length_drop nat_le_linear not_less_eq_eq)

function resolve_placeholders :: "string \<Rightarrow> event_config \<Rightarrow> string res" where
  "resolve_placeholders text event =
     (case match_placeholder text of
        Some (key, rest) \<Rightarrow>
          (case placeholder_value event key of
             Inl e \<Rightarrow> Inl e
           | Inr v \<Rightarrow> map_sum id (\<lambda>r. v @ r) (resolve_placeholders rest event))
      | None \<Rightarrow>
          (case text of
             [] \<Rightarrow> Inr []
           | c # cs \<Rightarrow> map_sum id (\<lambda>r. c # r) (resolve_placeholders cs event)))"
  by pat_completeness auto
termination
  by (relation "measure (\<lambda>(text, _). length text)") (auto dest: match_placeholder_shorter)

declare resolve_placeholders.simps [simp del]

subsection \<open>Presets\<close>

record event_template_preset =
  pre_id :: string
  pre_label :: string
  pre_description :: string
  pre_scrim_color :: string
  pre_primary_color :: string
  pre_modes :: "capture_mode list"
  pre_vars_hint :: "(string \<times> string) list"

definition EVENT_TEMPLATE_PRESETS :: "event_template_preset list" where
  "EVENT_TEMPLATE_PRESETS =
     [\<lparr>pre_id = ''wedding'', pre_label = ''Wedding'',
       pre_description = ''Rose-charcoal backdrop with a dusty-rose accent.'',
       pre_scrim_color = ''#241A1C'', pre_primary_color = ''#C98A93'',
       pre_modes =
         [\<lparr>cm_id = ''single'', cm_label = ''Single Photo'', cm_template = ''single.yaml''\<rparr>,
          \<lparr>cm_id = ''collage'', cm_label = ''Collage'', cm_template = ''collage-2x2.yaml''\<rparr>],
       pre_vars_hint = [(''couple'', ''''), (''hashtag'', '''')]\<rparr>,
      \<lparr>pre_id = ''birthday'', pre_label = ''Birthday'',
       pre_description = ''Teal-charcoal backdrop with a coral accent.'',
       pre_scrim_color = ''#152420'', pre_primary_color = ''#FF7A50'',
       pre_modes =
         [\<lparr>cm_id = ''single'', cm_label = ''Single Photo'', cm_template = ''single.yaml''\<rparr>,
          \<lparr>cm_id = ''collage'', cm_label = ''Collage'', cm_template = ''collage-2x2.yaml''\<rparr>,
          \<lparr>cm_id = ''strip'', cm_label = ''Photo Strip'', cm_template = ''strip-3strip.yaml''\<rparr>],
       pre_vars_hint = [(''name'', '''')]\<rparr>,
      \<lparr>pre_id = ''corporate'', pre_label = ''Corporate'',
       pre_description = ''Slate-charcoal backdrop with a slate-blue accent.'',
       pre_scrim_color = ''#181D24'', pre_primary_color = ''#5B84B0'',
       pre_modes =
         [\<lparr>cm_id = ''single'', cm_label = ''Single Photo'', cm_template = ''single.yaml''\<rparr>,
          \<lparr>cm_id = ''team'', cm_label = ''Team Photo'', cm_template = ''strip-1plus2.yaml''\<rparr>],
       pre_vars_hint = [(''company'', '''')]\<rparr>]"

definition get_preset :: "string \<Rightarrow> event_template_preset option" where
  "get_preset preset_id = map_of (rev (map (\<lambda>p. (pre_id p, p)) EVENT_TEMPLATE_PRESETS)) preset_id"

subsection \<open>Lemmas\<close>

lemma map_of_filter_notin: "k \<notin> K \<Longrightarrow> map_of (filter (\<lambda>(k, _). k \<notin> K) b) k = map_of b k"
  by (induction b) auto

lemma map_of_merged:
  "map_of (map (\<lambda>(k, v). (k, f k v)) a) k = map_option (f k) (map_of a k)"
  by (induction a) auto

lemma map_of_dict_merge: "map_of (dict_merge a b) = map_of a ++ map_of b"
proof
  fix k
  show "map_of (dict_merge a b) k = (map_of a ++ map_of b) k"
  proof (cases "map_of a k")
    case None
    then have "k \<notin> fst ` set a" by (simp add: map_of_eq_None_iff)
    with None show ?thesis
      unfolding dict_merge_def
      by (simp add: map_add_def map_of_merged map_of_filter_notin split: option.splits)
  next
    case (Some v)
    then show ?thesis
      unfolding dict_merge_def by (simp add: map_add_def map_of_merged split: option.splits)
  qed
qed

lemma keys_dict_merge: "distinct (map fst a) \<Longrightarrow> distinct (map fst b) \<Longrightarrow>
    distinct (map fst (dict_merge a b))"
  unfolding dict_merge_def
  by (auto simp: distinct_map_filter comp_def case_prod_unfold image_iff)

text \<open>A template text as pieces: literal text without an opening brace, and placeholders.\<close>

datatype piece = Literal string | Placeholder string

fun piece_ok :: "piece \<Rightarrow> bool" where
  "piece_ok (Literal s) = (CHR ''{'' \<notin> set s)"
| "piece_ok (Placeholder key) = (key \<noteq> [] \<and> (\<forall>c \<in> set key. is_key_char c))"

fun piece_text :: "piece \<Rightarrow> string" where
  "piece_text (Literal s) = s"
| "piece_text (Placeholder key) = ''{event.'' @ key @ ''}''"

text \<open>The substitution piece by piece, up to the first unknown key.\<close>

fun substitute :: "event_config \<Rightarrow> piece list \<Rightarrow> string res" where
  "substitute event [] = Inr []"
| "substitute event (Literal s # ps) = map_sum id (\<lambda>r. s @ r) (substitute event ps)"
| "substitute event (Placeholder key # ps) =
     (case placeholder_value event key of
        Inl e \<Rightarrow> Inl e
      | Inr v \<Rightarrow> map_sum id (\<lambda>r. v @ r) (substitute event ps))"

lemma match_placeholder_literal: "c \<noteq> CHR ''{'' \<Longrightarrow> match_placeholder (c # s) = None"
  by (simp add: match_placeholder_def starts_with_def)

lemma match_placeholder_placeholder:
  assumes "key \<noteq> []" and "\<forall>c \<in> set key. is_key_char c"
  shows "match_placeholder (''{event.'' @ key @ ''}'' @ rest) = Some (key, rest)"
proof -
  have "\<not> is_key_char (CHR ''}'')" by (simp add: is_key_char_def)
  then have "takeWhile is_key_char (key @ CHR ''}'' # rest) = key"
    using assms(2) by (simp add: takeWhile_append2)
  then show ?thesis
    using assms(1) by (simp add: match_placeholder_def starts_with_def)
qed

lemma resolve_literal:
  assumes "CHR ''{'' \<notin> set s"
  shows "resolve_placeholders (s @ rest) event =
           map_sum id (\<lambda>r. s @ r) (resolve_placeholders rest event)"
  using assms
proof (induction s)
  case Nil
  then show ?case by (cases "resolve_placeholders rest event") simp_all
next
  case (Cons c s)
  then have "match_placeholder (c # s @ rest) = None"
    by (intro match_placeholder_literal) auto
  then show ?case
    using Cons by (subst resolve_placeholders.simps)
      (cases "resolve_placeholders rest event", simp_all)
qed

lemma resolve_Nil: "resolve_placeholders [] event = Inr []"
  by (subst resolve_placeholders.simps) (simp add: match_placeholder_def starts_with_def)

lemma resolve_pieces:
  assumes "\<forall>p \<in> set ps. piece_ok p"
  shows "resolve_placeholders (concat (map piece_text ps)) event = substitute event ps"
  using assms
proof (induction event ps rule: substitute.induct)
  case (1 event)
  then show ?case by (simp add: resolve_Nil)
next
  case (2 event s ps)
  then show ?case by (simp add: resolve_literal)
next
  case (3 event key ps)
  then have m: "match_placeholder (piece_text (Placeholder key) @ concat (map piece_text ps)) =
      Some (key, concat (map piece_text ps))"
    using match_placeholder_placeholder [of key "concat (map piece_text ps)"] by simp
  show ?case
    using 3 by (subst resolve_placeholders.simps) (simp add: m del: piece_text.simps split: sum.splits)
qed

text \<open>What a piece stands for.\<close>

fun unknown_key :: "event_config \<Rightarrow> piece \<Rightarrow> bool" where
  "unknown_key event (Literal s) = False"
| "unknown_key event (Placeholder key) =
     (key \<notin> set WELL_KNOWN_FIELDS \<and> map_of (e_vars event) key = None)"

fun piece_value :: "event_config \<Rightarrow> piece \<Rightarrow> string" where
  "piece_value event (Literal s) = s"
| "piece_value event (Placeholder key) =
     (if key = ''title'' then e_title event else if key = ''date'' then e_date event
      else the (map_of (e_vars event) key))"

fun unknown_error :: "event_config \<Rightarrow> piece \<Rightarrow> exn" where
  "unknown_error event (Literal s) = PlaceholderResolutionError s"
| "unknown_error event (Placeholder key) = PlaceholderResolutionError
     (''{event.'' @ key @ ''} has no matching EventConfig field or vars entry (event id='' @
      py_repr (e_id event) @ '')'')"

lemma placeholder_value_cases:
  "placeholder_value event key =
     (if unknown_key event (Placeholder key) then Inl (unknown_error event (Placeholder key))
      else Inr (piece_value event (Placeholder key)))"
  by (auto simp: placeholder_value_def WELL_KNOWN_FIELDS_def)

lemma substitute_eq:
  "substitute event ps =
     (case dropWhile (\<lambda>p. \<not> unknown_key event p) ps of
        [] \<Rightarrow> Inr (concat (map (piece_value event) ps))
      | p # _ \<Rightarrow> Inl (unknown_error event p))"
proof (induction ps)
  case (Cons p ps)
  then show ?case
    by (cases p; cases "dropWhile (\<lambda>p. \<not> unknown_key event p) ps")
      (simp_all add: placeholder_value_cases
        del: unknown_key.simps(2) piece_value.simps(2) unknown_error.simps(2) dropWhile_eq_Nil_conv)
qed simp

text \<open>
  C24: a template text built of literal pieces and well-formed placeholders is resolved to the
  concatenation of the pieces' values, and fails with the error of the first key that is neither
  a field nor in \<open>vars\<close>; so no placeholder reaches a print, and values are inserted verbatim
  (braces in a value are not resolved again).
\<close>

theorem resolve_placeholders_pieces:
  assumes "\<forall>p \<in> set ps. piece_ok p"
  shows "resolve_placeholders (concat (map piece_text ps)) event =
    (case dropWhile (\<lambda>p. \<not> unknown_key event p) ps of
       [] \<Rightarrow> Inr (concat (map (piece_value event) ps))
     | p # _ \<Rightarrow> Inl (unknown_error event p))"
  by (simp only: resolve_pieces [OF assms] substitute_eq)

lemma resolve_placeholders_pieces_witness:
  "resolve_placeholders ''Hi {event.title}, {event.couple}!''
     (new_event_config ''e1'' ''Gala'' ''t.yaml''\<lparr>e_vars := [(''couple'', ''{event.date}'')]\<rparr>) =
   Inr ''Hi Gala, {event.date}!''"
  using resolve_placeholders_pieces [of
    "[Literal ''Hi '', Placeholder ''title'', Literal '', '', Placeholder ''couple'', Literal ''!'']"
    "new_event_config ''e1'' ''Gala'' ''t.yaml''\<lparr>e_vars := [(''couple'', ''{event.date}'')]\<rparr>"]
  by (simp add: is_key_char_def WELL_KNOWN_FIELDS_def new_event_config_def)

lemma take_keys_dict_merge: "map fst (take (length a) (dict_merge a b)) = map fst a"
  by (simp add: dict_merge_def comp_def case_prod_unfold)

text \<open>
  the interface strings an event resolves to have every default key exactly once, an override
  wins over the default, and keys the defaults do not know are kept.
\<close>

theorem resolved_strings_complete:
  "map_of (resolved_strings event) = map_of DEFAULT_UI_STRINGS ++ map_of (e_strings event) \<and>
   map fst (take 9 (resolved_strings event)) = map fst DEFAULT_UI_STRINGS"
proof
  show "map_of (resolved_strings event) = map_of DEFAULT_UI_STRINGS ++ map_of (e_strings event)"
    unfolding resolved_strings_def by (rule map_of_dict_merge)
  have "length DEFAULT_UI_STRINGS = 9" by (simp add: DEFAULT_UI_STRINGS_def)
  then show "map fst (take 9 (resolved_strings event)) = map fst DEFAULT_UI_STRINGS"
    using take_keys_dict_merge [of DEFAULT_UI_STRINGS "e_strings event"]
    by (simp add: resolved_strings_def)
qed

text \<open>The presets have distinct ids, so each is found under its own.\<close>

lemma get_preset_found: "p \<in> set EVENT_TEMPLATE_PRESETS \<Longrightarrow> get_preset (pre_id p) = Some p"
proof -
  have ids: "map pre_id EVENT_TEMPLATE_PRESETS = [''wedding'', ''birthday'', ''corporate'']"
    by (simp add: EVENT_TEMPLATE_PRESETS_def)
  have "distinct (map fst (rev (map (\<lambda>p. (pre_id p, p)) EVENT_TEMPLATE_PRESETS)))"
    by (simp add: rev_map comp_def ids flip: rev_map)
  then show "p \<in> set EVENT_TEMPLATE_PRESETS \<Longrightarrow> ?thesis"
    by (simp add: get_preset_def image_iff)
qed

end
