(* ===== verification/Template.thy ===== *)
theory Template
  imports Event_Config
begin

text \<open>
  \<open>src/photobooth/pipeline/template.py\<close>: the template schema and the checks
  \<open>load_template\<close> makes beyond it.  YAML parsing and the pydantic types are a parameter from
  the bytes of the file; lengths in millimetres are rationals.
\<close>

subsection \<open>Rounding\<close>

text \<open>Python's \<open>round\<close> to an integer: to the nearest, halves to the even one.\<close>

definition py_round :: "rat \<Rightarrow> int" where
  "py_round x =
     (let f = \<lfloor>x\<rfloor>; d = x - of_int f in
      if d < 1 / 2 then f else if 1 / 2 < d then f + 1 else if even f then f else f + 1)"

lemma py_round_bounds: "of_int (py_round x) \<le> x + 1 / 2" "x - 1 / 2 \<le> of_int (py_round x)"
  by (auto simp: py_round_def Let_def) linarith+

lemma py_round_of_int [simp]: "py_round (of_int n) = n"
  by (simp add: py_round_def)

lemma py_round_mono_int: "of_int n \<le> x \<Longrightarrow> n \<le> py_round x" "x \<le> of_int n \<Longrightarrow> py_round x \<le> n"
proof -
  show "n \<le> py_round x" if "of_int n \<le> x"
  proof -
    have "n \<le> \<lfloor>x\<rfloor>" using that by (simp add: le_floor_iff)
    then show ?thesis by (simp add: py_round_def Let_def)
  qed
  show "py_round x \<le> n" if "x \<le> of_int n"
  proof (cases "\<lfloor>x\<rfloor> = n")
    case True
    with that have "x = of_int n" by (metis of_int_floor_le order_antisym)
    then show ?thesis by simp
  next
    case False
    moreover have "\<lfloor>x\<rfloor> \<le> n" using that by (metis floor_mono floor_of_int)
    ultimately have "\<lfloor>x\<rfloor> + 1 \<le> n" by simp
    then show ?thesis by (simp add: py_round_def Let_def)
  qed
qed

subsection \<open>Schema\<close>

definition REQUIRED_VARIANTS :: "string list" where
  "REQUIRED_VARIANTS = [''print'', ''web'', ''thumb'']"

record canvas =
  cv_width_mm :: rat
  cv_height_mm :: rat
  cv_dpi :: int
  cv_background :: string

definition width_px :: "canvas \<Rightarrow> int" where
  "width_px c = py_round (cv_width_mm c / (127 / 5) * of_int (cv_dpi c))"

definition height_px :: "canvas \<Rightarrow> int" where
  "height_px c = py_round (cv_height_mm c / (127 / 5) * of_int (cv_dpi c))"

datatype fit = Cover | Contain | Fill

record slot =
  sl_x :: int
  sl_y :: int
  sl_w :: int
  sl_h :: int
  sl_fit :: fit

datatype anchor = TopLeft | TopCenter | TopRight | Center | BottomLeft | BottomCenter | BottomRight

record text_overlay =
  tx_content :: string
  tx_font :: string
  tx_size :: int
  tx_color :: string
  tx_anchor :: anchor
  tx_x_offset :: int
  tx_y_offset :: int

datatype overlay =
    ImageOverlay string int int int int
  | LogoOverlay int int int int
  | TextOverlay text_overlay

datatype image_format = Jpeg | Png

datatype variant_spec =
    PrintVariantSpec int image_format int
  | ScaledVariantSpec int image_format int

record template_config =
  t_name :: string
  t_canvas :: canvas
  t_slots :: "slot list"
  t_overlays :: "overlay list"
  t_variants :: "(string \<times> variant_spec) list"

subsection \<open>\<open>load_template\<close>\<close>

text \<open>Each loop of checks, from the index it has reached.\<close>

fun check_slots :: "path \<Rightarrow> canvas \<Rightarrow> nat \<Rightarrow> slot list \<Rightarrow> unit res" where
  "check_slots path canvas i [] = Inr ()"
| "check_slots path canvas i (s # rest) =
     (if width_px canvas < sl_x s + sl_w s \<or> height_px canvas < sl_y s + sl_h s
      then Inl (TemplateValidationError
             (path_str path @ '': slot['' @ str_nat i @ ''] ('' @ str_int (sl_x s) @ '','' @
              str_int (sl_y s) @ '','' @ str_int (sl_w s) @ ''x'' @ str_int (sl_h s) @
              '') exceeds canvas bounds ('' @ str_int (width_px canvas) @ ''x'' @
              str_int (height_px canvas) @ ''px at '' @ str_int (cv_dpi canvas) @ ''dpi)''))
      else check_slots path canvas (i + 1) rest)"

text \<open>The field of an overlay that names a file.\<close>

fun overlay_asset :: "overlay \<Rightarrow> (string \<times> string) option" where
  "overlay_asset (ImageOverlay src _ _ _ _) = Some (''src'', src)"
| "overlay_asset (TextOverlay t) = Some (''font'', tx_font t)"
| "overlay_asset (LogoOverlay _ _ _ _) = None"

fun check_overlays :: "fs \<Rightarrow> path \<Rightarrow> nat \<Rightarrow> overlay list \<Rightarrow> unit res" where
  "check_overlays F path i [] = Inr ()"
| "check_overlays F path i (ov # rest) =
     (case overlay_asset ov of
        None \<Rightarrow> check_overlays F path (i + 1) rest
      | Some (field_name, rel) \<Rightarrow>
          (let resolved = path_div (path_parent path) rel in
           if \<not> is_file F resolved
           then Inl (TemplateValidationError
                  (path_str path @ '': overlay['' @ str_nat i @ ''].'' @ field_name @ '' = '' @
                   py_repr rel @ '' does not exist (resolved to '' @ path_str resolved @ '')''))
           else check_overlays F path (i + 1) rest))"

definition missing_variants :: "template_config \<Rightarrow> string list" where
  "missing_variants t = filter (\<lambda>n. n \<notin> fst ` set (t_variants t)) REQUIRED_VARIANTS"

definition check_variants :: "path \<Rightarrow> template_config \<Rightarrow> unit res" where
  "check_variants path t =
     (let missing = missing_variants t in
      if missing \<noteq> []
      then Inl (TemplateValidationError
             (path_str path @ '': variants missing required key(s): ['' @
              join_with '', '' (map py_repr missing) @ '']''))
      else Inr ())"

definition validate_template :: "fs \<Rightarrow> path \<Rightarrow> template_config \<Rightarrow> unit res" where
  "validate_template F path t =
     (case check_slots path (t_canvas t) 0 (t_slots t) of
        Inl e \<Rightarrow> Inl e
      | Inr _ \<Rightarrow>
          (case check_overlays F path 0 (t_overlays t) of
             Inl e \<Rightarrow> Inl e
           | Inr _ \<Rightarrow> check_variants path t))"

definition load_template ::
  "fs \<Rightarrow> (bytes \<Rightarrow> template_config res) \<Rightarrow> path \<Rightarrow> template_config res" where
  "load_template F parse path =
     (case read_file F path of
        Inl e \<Rightarrow> Inl e
      | Inr text \<Rightarrow>
          (case parse text of
             Inl e \<Rightarrow> Inl e
           | Inr template \<Rightarrow> map_sum id (\<lambda>_. template) (validate_template F path template)))"

subsection \<open>What a loaded template guarantees\<close>

lemma check_slots_ok_iff:
  "check_slots path c i ss = Inr () \<longleftrightarrow>
     (\<forall>s \<in> set ss. sl_x s + sl_w s \<le> width_px c \<and> sl_y s + sl_h s \<le> height_px c)"
  by (induction path c i ss rule: check_slots.induct) (auto simp: not_less)

lemma check_overlays_ok_iff:
  "check_overlays F path i ovs = Inr () \<longleftrightarrow>
     (\<forall>ov \<in> set ovs. case overlay_asset ov of None \<Rightarrow> True
        | Some (_, rel) \<Rightarrow> is_file F (path_div (path_parent path) rel))"
  by (induction F path i ovs rule: check_overlays.induct) (auto split: option.splits simp: Let_def)

lemma check_variants_ok_iff:
  "check_variants path t = Inr () \<longleftrightarrow> set REQUIRED_VARIANTS \<subseteq> fst ` set (t_variants t)"
  by (auto simp: check_variants_def missing_variants_def Let_def filter_empty_conv)

lemma validate_template_ok_iff:
  "validate_template F path t = Inr () \<longleftrightarrow>
     check_slots path (t_canvas t) 0 (t_slots t) = Inr () \<and>
     check_overlays F path 0 (t_overlays t) = Inr () \<and> check_variants path t = Inr ()"
  by (auto simp: validate_template_def split: sum.splits)

lemma load_template_Inr:
  "load_template F parse path = Inr t \<longleftrightarrow>
     (\<exists>text. read_file F path = Inr text \<and> parse text = Inr t) \<and>
     validate_template F path t = Inr ()"
  by (cases "read_file F path"; cases "parse (projr (read_file F path))";
      cases "validate_template F path (projr (parse (projr (read_file F path))))")
    (auto simp: load_template_def)

text \<open>A 4 by 6 inch print with one slot and a logo.\<close>

definition demo_template :: template_config where
  "demo_template =
     \<lparr>t_name = ''single'',
      t_canvas = \<lparr>cv_width_mm = 508 / 5, cv_height_mm = 762 / 5, cv_dpi = 300,
                  cv_background = ''#ffffff''\<rparr>,
      t_slots = [\<lparr>sl_x = 0, sl_y = 0, sl_w = 1200, sl_h = 1800, sl_fit = Cover\<rparr>],
      t_overlays = [LogoOverlay 900 1500 280 280],
      t_variants = [(''print'', PrintVariantSpec 300 Jpeg 95), (''web'', ScaledVariantSpec 1600 Jpeg 90),
                    (''thumb'', ScaledVariantSpec 400 Jpeg 80)]\<rparr>"

definition demo_files :: "(path \<times> bytes) list \<Rightarrow> fs" where
  "demo_files files =
     \<lparr>fs_files = map_of files, fs_dirs = path_parent ` fst ` set files, fs_faults = (\<lambda>_. False)\<rparr>"

lemma demo_canvas [simp]:
  "width_px (t_canvas demo_template) = 1200" "height_px (t_canvas demo_template) = 1800"
  by (simp_all add: demo_template_def width_px_def height_px_def py_round_def)

lemma demo_read:
  "read_file (demo_files [(to_path ''templates/single.yaml'', [1])])
      (to_path ''templates/single.yaml'') = Inr [1]"
  by (simp add: read_file_def demo_files_def)

lemma demo_sets:
  "set (t_slots demo_template) = {\<lparr>sl_x = 0, sl_y = 0, sl_w = 1200, sl_h = 1800, sl_fit = Cover\<rparr>}"
  "set (t_overlays demo_template) = {LogoOverlay 900 1500 280 280}"
  "fst ` set (t_variants demo_template) = {''print'', ''web'', ''thumb''}"
  by (simp_all add: demo_template_def)

lemma demo_load:
  "load_template (demo_files [(to_path ''templates/single.yaml'', [1])]) (\<lambda>_. Inr demo_template)
     (to_path ''templates/single.yaml'') = Inr demo_template"
  by (simp add: load_template_Inr validate_template_ok_iff check_slots_ok_iff check_overlays_ok_iff
      check_variants_ok_iff demo_read demo_sets REQUIRED_VARIANTS_def)



end
