(* ===== verification/Compositor.thy ===== *)
theory Compositor
  imports Template
begin

text \<open>
  \<open>src/photobooth/pipeline/compositor.py\<close> and the render call of \<open>pipeline/pool.py\<close>:
  placing the shots in the slots of a template, the overlays on top, and encoding a variant.
  \<open>pyvips\<close> is a parameter, a record of the calls the compositor makes on images of an unknown
  type, each failing with a \<open>pyvips.Error\<close> message or returning; scale factors are rationals.
\<close>

subsection \<open>pyvips\<close>

record 'i vips =
  v_solid :: "int \<Rightarrow> int \<Rightarrow> int list \<Rightarrow> string + 'i"
  v_new_from_file :: "fs \<Rightarrow> string \<Rightarrow> string + 'i"
  v_width :: "'i \<Rightarrow> int"
  v_height :: "'i \<Rightarrow> int"
  v_bands :: "'i \<Rightarrow> int"
  v_interpretation :: "'i \<Rightarrow> string"
  v_colourspace :: "'i \<Rightarrow> string \<Rightarrow> string + 'i"
  v_resize :: "'i \<Rightarrow> rat \<Rightarrow> rat \<Rightarrow> string + 'i"
  v_crop :: "'i \<Rightarrow> int \<Rightarrow> int \<Rightarrow> int \<Rightarrow> int \<Rightarrow> string + 'i"
  v_composite2 :: "'i \<Rightarrow> 'i \<Rightarrow> int \<Rightarrow> int \<Rightarrow> string + 'i"
  v_thumbnail :: "'i \<Rightarrow> int \<Rightarrow> int \<Rightarrow> string \<Rightarrow> string + 'i"
  v_text :: "fs \<Rightarrow> string \<Rightarrow> string \<Rightarrow> string option \<Rightarrow> string + 'i"
  v_bandjoin :: "'i \<Rightarrow> 'i \<Rightarrow> string + 'i"
  v_set_resolution :: "'i \<Rightarrow> rat \<Rightarrow> string + 'i"
  v_pngsave :: "'i \<Rightarrow> string + bytes"
  v_jpegsave :: "'i \<Rightarrow> int \<Rightarrow> string + bytes"

definition vips :: "string + 'a \<Rightarrow> 'a res" where
  "vips r = map_sum VipsError id r"

lemma vips_Inr [simp]: "vips r = Inr x \<longleftrightarrow> r = Inr x"
  by (cases r) (simp_all add: vips_def)

subsection \<open>Colours\<close>

definition hex_digit_val :: "char \<Rightarrow> int option" where
  "hex_digit_val c =
     (if CHR ''0'' \<le> c \<and> c \<le> CHR ''9'' then Some (of_char c - 48)
      else if CHR ''a'' \<le> c \<and> c \<le> CHR ''f'' then Some (of_char c - 87)
      else if CHR ''A'' \<le> c \<and> c \<le> CHR ''F'' then Some (of_char c - 55)
      else None)"

text \<open>
  \<open>int(s, 16)\<close> on the slices of a colour, two characters or fewer.  Python's \<open>int\<close> also
  takes a sign, surrounding blanks and a \<open>0x\<close> prefix; on two characters that leaves the signed
  and the blank-padded digit, both modelled.
\<close>

definition py_int16 :: "string \<Rightarrow> int res" where
  "py_int16 s =
     (let bad = Inl (ValueError (''invalid literal for int() with base 16: '' @ py_repr s));
          t = strip_space s in
      case t of
        [a] \<Rightarrow> (case hex_digit_val a of Some x \<Rightarrow> Inr x | None \<Rightarrow> bad)
      | [a, b] \<Rightarrow>
          (case hex_digit_val b of
             None \<Rightarrow> bad
           | Some y \<Rightarrow>
               (if a = CHR ''+'' then Inr y else if a = CHR ''-'' then Inr (- y)
                else (case hex_digit_val a of Some x \<Rightarrow> Inr (16 * x + y) | None \<Rightarrow> bad)))
      | _ \<Rightarrow> bad)"

definition hex_to_rgb :: "string \<Rightarrow> (int \<times> int \<times> int) res" where
  "hex_to_rgb color =
     (let value = lstrip_char (CHR ''#'') color in
      bind_res (py_int16 (take 2 value)) (\<lambda>r.
      bind_res (py_int16 (take 2 (drop 2 value))) (\<lambda>g.
      bind_res (py_int16 (take 2 (drop 4 value))) (\<lambda>b. Inr (r, g, b)))))"

definition solid_color_image :: "'i vips \<Rightarrow> int \<Rightarrow> int \<Rightarrow> string \<Rightarrow> 'i res" where
  "solid_color_image V width height color =
     bind_res (hex_to_rgb color) (\<lambda>(r, g, b). vips (v_solid V width height [r, g, b]))"

definition blank_canvas :: "'i vips \<Rightarrow> canvas \<Rightarrow> 'i res" where
  "blank_canvas V c = solid_color_image V (width_px c) (height_px c) (cv_background c)"

subsection \<open>Slots\<close>

text \<open>Division by the size of the source raises on an empty image.\<close>

definition rat_div :: "int \<Rightarrow> int \<Rightarrow> rat res" where
  "rat_div a b =
     (if b = 0 then Inl (ZeroDivisionError ''division by zero'') else Inr (of_int a / of_int b))"

definition slot_scales :: "'i vips \<Rightarrow> 'i \<Rightarrow> slot \<Rightarrow> (rat \<times> rat) res" where
  "slot_scales V im s =
     bind_res (rat_div (sl_w s) (v_width V im)) (\<lambda>hscale.
     bind_res (rat_div (sl_h s) (v_height V im)) (\<lambda>vscale. Inr (hscale, vscale)))"

definition resize_for_slot :: "'i vips \<Rightarrow> 'i \<Rightarrow> slot \<Rightarrow> ('i \<times> int \<times> int) res" where
  "resize_for_slot V im s =
     bind_res (slot_scales V im s) (\<lambda>(hscale, vscale).
       case sl_fit s of
         Fill \<Rightarrow> bind_res (vips (v_resize V im hscale vscale)) (\<lambda>resized. Inr (resized, 0, 0))
       | Cover \<Rightarrow>
           (let scale = max hscale vscale in
            bind_res (vips (v_resize V im scale scale)) (\<lambda>resized.
            let left = py_round (of_int (v_width V resized - sl_w s) / 2);
                top = py_round (of_int (v_height V resized - sl_h s) / 2) in
            bind_res (vips (v_crop V resized left top (sl_w s) (sl_h s))) (\<lambda>cropped.
            Inr (cropped, 0, 0))))
       | Contain \<Rightarrow>
           (let scale = min hscale vscale in
            bind_res (vips (v_resize V im scale scale)) (\<lambda>resized.
            Inr (resized, py_round (of_int (sl_w s - v_width V resized) / 2),
                 py_round (of_int (sl_h s - v_height V resized) / 2)))))"

subsection \<open>Overlays\<close>

definition FALLBACK_FONT_FAMILY :: string where
  "FALLBACK_FONT_FAMILY = ''sans''"

definition FONT_MAGIC_PREFIXES :: "bytes list" where
  "FONT_MAGIC_PREFIXES =
     [[0, 1, 0, 0], [0x4F, 0x54, 0x54, 0x4F], [0x74, 0x72, 0x75, 0x65], [0x74, 0x74, 0x63, 0x66]]"

definition load_font :: "fs \<Rightarrow> path \<Rightarrow> bool" where
  "load_font F font_path =
     (case read_file F font_path of
        Inl _ \<Rightarrow> False
      | Inr d \<Rightarrow> (let header = take 4 d in
                 \<exists>prefix \<in> set FONT_MAGIC_PREFIXES. take (length prefix) header = prefix))"

text \<open>\<open>xml.sax.saxutils.escape\<close>.\<close>

definition xml_escape :: "string \<Rightarrow> string" where
  "xml_escape s =
     concat (map (\<lambda>c. if c = CHR ''&'' then ''&amp;'' else if c = CHR ''<'' then ''&lt;''
                       else if c = CHR ''>'' then ''&gt;'' else [c]) s)"

definition text_mask :: "'i vips \<Rightarrow> fs \<Rightarrow> path \<Rightarrow> string \<Rightarrow> text_overlay \<Rightarrow> 'i res" where
  "text_mask V F font_path content ov =
     (let fallback = vips (v_text V F content (FALLBACK_FONT_FAMILY @ '' '' @ str_int (tx_size ov)) None) in
      if load_font F font_path
      then (case v_text V F content (path_stem font_path @ '' '' @ str_int (tx_size ov))
                   (Some (path_str font_path)) of
              Inr m \<Rightarrow> Inr m
            | Inl _ \<Rightarrow> fallback)
      else fallback)"

definition render_text_overlay ::
  "'i vips \<Rightarrow> fs \<Rightarrow> text_overlay \<Rightarrow> path \<Rightarrow> event_config \<Rightarrow> 'i res" where
  "render_text_overlay V F ov template_dir event =
     bind_res (resolve_placeholders (tx_content ov) event) (\<lambda>resolved.
     bind_res (text_mask V F (path_div template_dir (tx_font ov)) (xml_escape resolved) ov) (\<lambda>msk.
     bind_res (solid_color_image V (v_width V msk) (v_height V msk) (tx_color ov)) (\<lambda>color_layer.
     vips (v_bandjoin V color_layer msk))))"

fun anchor_x :: "int \<Rightarrow> int \<Rightarrow> anchor \<Rightarrow> int" where
  "anchor_x ow cw TopLeft = 0"
| "anchor_x ow cw BottomLeft = 0"
| "anchor_x ow cw TopRight = cw - ow"
| "anchor_x ow cw BottomRight = cw - ow"
| "anchor_x ow cw _ = py_round (of_int (cw - ow) / 2)"

fun anchor_y :: "int \<Rightarrow> int \<Rightarrow> anchor \<Rightarrow> int" where
  "anchor_y oh ch TopLeft = 0"
| "anchor_y oh ch TopCenter = 0"
| "anchor_y oh ch TopRight = 0"
| "anchor_y oh ch Center = py_round (of_int (ch - oh) / 2)"
| "anchor_y oh ch _ = ch - oh"

definition anchor_position :: "int \<Rightarrow> int \<Rightarrow> int \<Rightarrow> int \<Rightarrow> text_overlay \<Rightarrow> int \<times> int" where
  "anchor_position overlay_w overlay_h canvas_w canvas_h ov =
     (anchor_x overlay_w canvas_w (tx_anchor ov) + tx_x_offset ov,
      anchor_y overlay_h canvas_h (tx_anchor ov) + tx_y_offset ov)"

definition logo_path :: "fs \<Rightarrow> event_config \<Rightarrow> path option \<Rightarrow> path option" where
  "logo_path F event events_dir =
     (if \<not> e_include_logo_in_prints event \<or> e_logo_image event = '''' then None
      else (case events_dir of
              None \<Rightarrow> None
            | Some d \<Rightarrow>
                (let path = path_div (path_div d (e_id event)) (e_logo_image event) in
                 if is_file F path then Some path else None)))"

definition to_srgb :: "'i vips \<Rightarrow> 'i \<Rightarrow> 'i res" where
  "to_srgb V im = (if v_interpretation V im \<noteq> ''srgb'' then vips (v_colourspace V im ''srgb'') else Inr im)"

text \<open>The logo, scaled down into the box \<open>x y w h\<close> and put in its lower right corner.\<close>

definition render_logo_overlay ::
  "'i vips \<Rightarrow> fs \<Rightarrow> int \<Rightarrow> int \<Rightarrow> int \<Rightarrow> int \<Rightarrow> path \<Rightarrow> ('i \<times> int \<times> int) res" where
  "render_logo_overlay V F x y w h lp =
     bind_res (vips (v_new_from_file V F (path_str lp))) (\<lambda>logo.
     bind_res (to_srgb V logo) (\<lambda>logo.
     bind_res (vips (v_thumbnail V logo w h ''down'')) (\<lambda>logo.
     Inr (logo, x + (w - v_width V logo), y + (h - v_height V logo)))))"

subsection \<open>The composite\<close>

fun place_slots :: "'i vips \<Rightarrow> fs \<Rightarrow> (slot \<times> path) list \<Rightarrow> 'i \<Rightarrow> 'i res" where
  "place_slots V F [] c = Inr c"
| "place_slots V F ((s, source_path) # rest) c =
     bind_res (vips (v_new_from_file V F (path_str source_path))) (\<lambda>source.
     bind_res (if 3 \<le> v_bands V source then to_srgb V source else Inr source) (\<lambda>source.
     bind_res (resize_for_slot V source s) (\<lambda>(resized, offset_x, offset_y).
     bind_res (vips (v_composite2 V c resized (sl_x s + offset_x) (sl_y s + offset_y))) (\<lambda>c'.
     place_slots V F rest c'))))"

fun place_overlay ::
  "'i vips \<Rightarrow> fs \<Rightarrow> path \<Rightarrow> event_config \<Rightarrow> path option \<Rightarrow> overlay \<Rightarrow> 'i \<Rightarrow> 'i res" where
  "place_overlay V F template_dir event events_dir (ImageOverlay src x y w h) c =
     bind_res (vips (v_new_from_file V F (path_str (path_div template_dir src)))) (\<lambda>im.
     bind_res (vips (v_thumbnail V im w h ''force'')) (\<lambda>im.
     bind_res (to_srgb V im) (\<lambda>im. vips (v_composite2 V c im x y))))"
| "place_overlay V F template_dir event events_dir (LogoOverlay x y w h) c =
     (case logo_path F event events_dir of
        None \<Rightarrow> Inr c
      | Some lp \<Rightarrow>
          bind_res (render_logo_overlay V F x y w h lp) (\<lambda>(logo, paste_x, paste_y).
          vips (v_composite2 V c logo paste_x paste_y)))"
| "place_overlay V F template_dir event events_dir (TextOverlay ov) c =
     bind_res (render_text_overlay V F ov template_dir event) (\<lambda>im.
     case anchor_position (v_width V im) (v_height V im) (v_width V c) (v_height V c) ov of
       (x, y) \<Rightarrow> vips (v_composite2 V c im x y))"

fun place_overlays ::
  "'i vips \<Rightarrow> fs \<Rightarrow> path \<Rightarrow> event_config \<Rightarrow> path option \<Rightarrow> overlay list \<Rightarrow> 'i \<Rightarrow> 'i res" where
  "place_overlays V F td event ed [] c = Inr c"
| "place_overlays V F td event ed (ov # rest) c =
     bind_res (place_overlay V F td event ed ov c) (place_overlays V F td event ed rest)"

definition composite ::
  "'i vips \<Rightarrow> fs \<Rightarrow> template_config \<Rightarrow> path \<Rightarrow> path list \<Rightarrow> event_config \<Rightarrow> path option \<Rightarrow> 'i res" where
  "composite V F template template_dir source_images event events_dir =
     (if length source_images \<noteq> length (t_slots template)
      then Inl (ValueError (''expected '' @ str_nat (length (t_slots template)) @
             '' source image(s) for template '' @ py_repr (t_name template) @
             '' (one per slot), got '' @ str_nat (length source_images)))
      else bind_res (blank_canvas V (t_canvas template)) (\<lambda>c.
           bind_res (place_slots V F (zip (t_slots template) source_images) c) (\<lambda>c.
           place_overlays V F template_dir event events_dir (t_overlays template) c)))"

definition encode :: "'i vips \<Rightarrow> 'i \<Rightarrow> image_format \<Rightarrow> int \<Rightarrow> bytes res" where
  "encode V im fmt quality =
     vips (case fmt of Png \<Rightarrow> v_pngsave V im | Jpeg \<Rightarrow> v_jpegsave V im quality)"

definition encode_variant :: "'i vips \<Rightarrow> 'i \<Rightarrow> variant_spec \<Rightarrow> bytes res" where
  "encode_variant V c spec =
     (case spec of
        PrintVariantSpec dpi fmt quality \<Rightarrow>
          encode V (case v_set_resolution V c (of_int dpi / (127 / 5)) of Inr c' \<Rightarrow> c' | Inl _ \<Rightarrow> c)
            fmt quality
      | ScaledVariantSpec long_edge fmt quality \<Rightarrow>
          bind_res (rat_div long_edge (max (v_width V c) (v_height V c))) (\<lambda>scale.
          bind_res (vips (v_resize V c scale scale)) (\<lambda>resized. encode V resized fmt quality)))"

definition render_variant ::
  "'i vips \<Rightarrow> fs \<Rightarrow> (bytes \<Rightarrow> template_config res) \<Rightarrow> path \<Rightarrow> path list \<Rightarrow> string \<Rightarrow> event_config \<Rightarrow>
     path option \<Rightarrow> bytes res" where
  "render_variant V F parse template_path source_images variant event events_dir =
     bind_res (load_template F parse template_path) (\<lambda>template.
       case map_of (t_variants template) variant of
         None \<Rightarrow> Inl (ValueError (''unknown variant '' @ py_repr variant @ '' for template '' @
                   py_repr (t_name template) @ ''; available: ['' @
                   join_with '', '' (map py_repr (sort (map fst (t_variants template)))) @ '']''))
       | Some spec \<Rightarrow>
           bind_res (composite V F template (path_parent template_path) source_images event events_dir)
             (\<lambda>c. encode_variant V c spec))"

text \<open>\<open>RenderPool.render\<close> passes no events directory.\<close>

definition pool_render ::
  "'i vips \<Rightarrow> fs \<Rightarrow> (bytes \<Rightarrow> template_config res) \<Rightarrow> path \<Rightarrow> path list \<Rightarrow> string \<Rightarrow> event_config \<Rightarrow>
     bytes res" where
  "pool_render V F parse template_path source_images variant event =
     render_variant V F parse template_path source_images variant event None"

definition DEFAULT_MAX_WORKERS :: "int option \<Rightarrow> int" where
  "DEFAULT_MAX_WORKERS cpu_count =
     min 4 (case cpu_count of None \<Rightarrow> 2 | Some n \<Rightarrow> if n = 0 then 2 else n)"

definition new_render_pool :: "int option \<Rightarrow> int option \<Rightarrow> int res" where
  "new_render_pool cpu_count max_workers =
     (let n = (case max_workers of None \<Rightarrow> DEFAULT_MAX_WORKERS cpu_count | Some m \<Rightarrow> m) in
      if n < 1 then Inl (ValueError (''max_workers must be >= 1, got '' @ str_int n)) else Inr n)"

subsection \<open>Geometry\<close>

text \<open>
  What libvips documents of \<open>resize\<close> (each side is scaled and rounded to the nearest pixel, at
  least one), of \<open>crop\<close> (a window inside the image is cut out) and of
  \<open>thumbnail_image(..., size="down")\<close> (the result fits the box).
\<close>

definition rounds_to :: "int \<Rightarrow> rat \<Rightarrow> bool" where
  "rounds_to n x \<longleftrightarrow> (\<exists>m. n = max 1 m \<and> \<bar>of_int m - x\<bar> \<le> 1 / 2)"

definition vips_ok :: "'i vips \<Rightarrow> bool" where
  "vips_ok V \<longleftrightarrow>
     (\<forall>im h v. 0 < h \<longrightarrow> 0 < v \<longrightarrow> (\<exists>r. v_resize V im h v = Inr r \<and>
        rounds_to (v_width V r) (of_int (v_width V im) * h) \<and>
        rounds_to (v_height V r) (of_int (v_height V im) * v))) \<and>
     (\<forall>im l t w h. 0 \<le> l \<longrightarrow> 0 \<le> t \<longrightarrow> 0 < w \<longrightarrow> 0 < h \<longrightarrow>
        l + w \<le> v_width V im \<longrightarrow> t + h \<le> v_height V im \<longrightarrow>
        (\<exists>r. v_crop V im l t w h = Inr r \<and> v_width V r = w \<and> v_height V r = h))"

lemma rounds_to_le: "rounds_to n x \<Longrightarrow> x \<le> of_int k \<Longrightarrow> 1 \<le> k \<Longrightarrow> n \<le> k"
proof -
  assume "rounds_to n x" and x: "x \<le> of_int k" and k: "1 \<le> k"
  then obtain m where n: "n = max 1 m" and "\<bar>of_int m - x\<bar> \<le> 1 / 2" by (auto simp: rounds_to_def)
  then have "of_int m < (of_int (k + 1) :: rat)" using x unfolding of_int_add of_int_1 by linarith
  then have "m \<le> k" by (simp only: of_int_less_iff)
  with n k show ?thesis by simp
qed

lemma rounds_to_ge: "rounds_to n x \<Longrightarrow> of_int k \<le> x \<Longrightarrow> k \<le> n"
proof -
  assume "rounds_to n x" and x: "of_int k \<le> x"
  then obtain m where n: "n = max 1 m" and "\<bar>of_int m - x\<bar> \<le> 1 / 2" by (auto simp: rounds_to_def)
  then have "(of_int (k - 1) :: rat) < of_int m" using x unfolding of_int_diff of_int_1 by linarith
  then have "k \<le> m" by (simp only: of_int_less_iff)
  with n show ?thesis by simp
qed

lemma rounds_to_exact: "rounds_to n (of_int k) \<Longrightarrow> 1 \<le> k \<Longrightarrow> n = k"
  using rounds_to_le [of n "of_int k" k] rounds_to_ge [of n "of_int k" k] by simp

text \<open>The rounded half of a non-negative slack lies between zero and the slack.\<close>

lemma py_round_half: "0 \<le> d \<Longrightarrow> 0 \<le> py_round (of_int d / 2) \<and> py_round (of_int d / 2) \<le> d"
  using py_round_mono_int(1) [of 0 "of_int d / 2"] py_round_mono_int(2) [of "of_int d / 2" d]
  by simp

lemma scaled_exact: "0 < n \<Longrightarrow> of_int n * (of_int k / of_int n) = (of_int k :: rat)"
  by simp

lemma scaled_le: "0 < n \<Longrightarrow> s \<le> of_int k / of_int n \<Longrightarrow> of_int n * s \<le> (of_int k :: rat)"
  by (simp add: pos_le_divide_eq mult.commute)

lemma scaled_ge: "0 < n \<Longrightarrow> of_int k / of_int n \<le> s \<Longrightarrow> (of_int k :: rat) \<le> of_int n * s"
  by (simp add: pos_divide_le_eq mult.commute)

lemma slot_scales_ok:
  "v_width V im \<noteq> 0 \<Longrightarrow> v_height V im \<noteq> 0 \<Longrightarrow> slot_scales V im s =
     Inr (of_int (sl_w s) / of_int (v_width V im), of_int (sl_h s) / of_int (v_height V im))"
  by (simp add: slot_scales_def rat_div_def)

lemma vips_resize_rounds:
  assumes "vips_ok V" and "0 < a" and "0 < b"
  obtains r where "v_resize V im a b = Inr r" and "rounds_to (v_width V r) (of_int (v_width V im) * a)"
    and "rounds_to (v_height V r) (of_int (v_height V im) * b)"
  using assms unfolding vips_ok_def by blast

lemma fill_fits:
  assumes "vips_ok V" and "0 < v_width V im" and "0 < v_height V im" and "0 < sl_w s" and "0 < sl_h s"
    and "sl_fit s = Fill"
  shows "\<exists>r. resize_for_slot V im s = Inr (r, 0, 0) \<and> v_width V r = sl_w s \<and> v_height V r = sl_h s"
proof -
  let ?h = "of_int (sl_w s) / of_int (v_width V im) :: rat"
  let ?v = "of_int (sl_h s) / of_int (v_height V im) :: rat"
  have sc: "slot_scales V im s = Inr (?h, ?v)" using assms by (intro slot_scales_ok) simp_all
  have "0 < ?h" "0 < ?v" using assms by simp_all
  then obtain r where r: "v_resize V im ?h ?v = Inr r"
    and w: "rounds_to (v_width V r) (of_int (v_width V im) * ?h)"
    and h: "rounds_to (v_height V r) (of_int (v_height V im) * ?v)"
    using vips_resize_rounds [OF assms(1)] by metis
  have "v_width V r = sl_w s" "v_height V r = sl_h s" using w h assms(2-5) by (auto intro: rounds_to_exact)
  then show ?thesis using assms(6) sc r by (simp add: resize_for_slot_def vips_def)
qed

lemma contain_fits:
  assumes "vips_ok V" and "0 < v_width V im" and "0 < v_height V im" and "0 < sl_w s" and "0 < sl_h s"
    and "sl_fit s = Contain"
  shows "\<exists>r ox oy. resize_for_slot V im s = Inr (r, ox, oy) \<and>
    0 \<le> ox \<and> ox + v_width V r \<le> sl_w s \<and> 0 \<le> oy \<and> oy + v_height V r \<le> sl_h s \<and>
    (v_width V r = sl_w s \<or> v_height V r = sl_h s)"
proof -
  let ?h = "of_int (sl_w s) / of_int (v_width V im) :: rat"
  let ?v = "of_int (sl_h s) / of_int (v_height V im) :: rat"
  let ?m = "min ?h ?v"
  have sc: "slot_scales V im s = Inr (?h, ?v)" using assms by (intro slot_scales_ok) simp_all
  have m: "0 < ?m" using assms by simp
  obtain r where r: "v_resize V im ?m ?m = Inr r"
    and w: "rounds_to (v_width V r) (of_int (v_width V im) * ?m)"
    and h: "rounds_to (v_height V r) (of_int (v_height V im) * ?m)"
    using vips_resize_rounds [OF assms(1) m m] by metis
  have wle: "v_width V r \<le> sl_w s" using w assms(2,4) by (intro rounds_to_le [OF w] scaled_le) simp_all
  have hle: "v_height V r \<le> sl_h s" using h assms(3,5) by (intro rounds_to_le [OF h] scaled_le) simp_all
  have "v_width V r = sl_w s \<or> v_height V r = sl_h s"
  proof (cases "?h \<le> ?v")
    case True
    then have "rounds_to (v_width V r) (of_int (sl_w s))" using w assms(2) by (simp add: min_def)
    then show ?thesis using assms(4) by (auto intro: rounds_to_exact)
  next
    case False
    then have "rounds_to (v_height V r) (of_int (sl_h s))" using h assms(3) by (simp add: min_def)
    then show ?thesis using assms(5) by (auto intro: rounds_to_exact)
  qed
  then show ?thesis
    using py_round_half [of "sl_w s - v_width V r"] py_round_half [of "sl_h s - v_height V r"] wle hle
      assms(6) sc r
    by (simp add: resize_for_slot_def vips_def Let_def)
qed

lemma cover_fits:
  assumes "vips_ok V" and "0 < v_width V im" and "0 < v_height V im" and "0 < sl_w s" and "0 < sl_h s"
    and "sl_fit s = Cover"
  shows "\<exists>r. resize_for_slot V im s = Inr (r, 0, 0) \<and> v_width V r = sl_w s \<and> v_height V r = sl_h s"
proof -
  let ?h = "of_int (sl_w s) / of_int (v_width V im) :: rat"
  let ?v = "of_int (sl_h s) / of_int (v_height V im) :: rat"
  let ?m = "max ?h ?v"
  have sc: "slot_scales V im s = Inr (?h, ?v)" using assms by (intro slot_scales_ok) simp_all
  have m: "0 < ?m" using assms by (simp add: less_max_iff_disj)
  obtain r where r: "v_resize V im ?m ?m = Inr r"
    and w: "rounds_to (v_width V r) (of_int (v_width V im) * ?m)"
    and h: "rounds_to (v_height V r) (of_int (v_height V im) * ?m)"
    using vips_resize_rounds [OF assms(1) m m] by metis
  have wge: "sl_w s \<le> v_width V r" using assms(2) by (intro rounds_to_ge [OF w] scaled_ge) simp_all
  have hge: "sl_h s \<le> v_height V r" using assms(3) by (intro rounds_to_ge [OF h] scaled_ge) simp_all
  let ?l = "py_round (of_int (v_width V r - sl_w s) / 2)"
  let ?t = "py_round (of_int (v_height V r - sl_h s) / 2)"
  have "0 \<le> ?l \<and> 0 \<le> ?t \<and> ?l + sl_w s \<le> v_width V r \<and> ?t + sl_h s \<le> v_height V r"
    using py_round_half [of "v_width V r - sl_w s"] py_round_half [of "v_height V r - sl_h s"] wge hge
    by simp
  then obtain c where "v_crop V r ?l ?t (sl_w s) (sl_h s) = Inr c"
    "v_width V c = sl_w s" "v_height V c = sl_h s"
    using assms(1,4,5) unfolding vips_ok_def by blast
  then show ?thesis using assms(6) sc r by (simp add: resize_for_slot_def vips_def Let_def)
qed

text \<open>
  C14: whatever the size of the photo, it is resized for a slot without an error and lands inside
  the slot: \<open>cover\<close> and \<open>fill\<close> fill it exactly (the crop window of \<open>cover\<close> never leaves
  the resized photo), \<open>contain\<close> is inside it and meets it in one direction.
\<close>

theorem resize_for_slot_fits:
  assumes "vips_ok V" and "0 < v_width V im" and "0 < v_height V im"
    and "0 < sl_w s" and "0 < sl_h s"
  shows "\<exists>r ox oy. resize_for_slot V im s = Inr (r, ox, oy) \<and>
    0 \<le> ox \<and> ox + v_width V r \<le> sl_w s \<and> 0 \<le> oy \<and> oy + v_height V r \<le> sl_h s \<and>
    (sl_fit s = Contain \<or> (v_width V r = sl_w s \<and> v_height V r = sl_h s)) \<and>
    (v_width V r = sl_w s \<or> v_height V r = sl_h s)"
  using contain_fits [OF assms] fill_fits [OF assms] cover_fits [OF assms] by (cases "sl_fit s") auto

text \<open>Images reduced to their sizes: sources of 6000 by 4000, texts of 300 by 40.\<close>

definition demo_vips :: "(int \<times> int) vips" where
  "demo_vips =
     \<lparr>v_solid = (\<lambda>w h _. Inr (w, h)), v_new_from_file = (\<lambda>_ _. Inr (6000, 4000)),
      v_width = fst, v_height = snd, v_bands = (\<lambda>_. 3), v_interpretation = (\<lambda>_. ''srgb''),
      v_colourspace = (\<lambda>i _. Inr i),
      v_resize = (\<lambda>i h v. Inr (max 1 (py_round (of_int (fst i) * h)), max 1 (py_round (of_int (snd i) * v)))),
      v_crop = (\<lambda>i l t w h. if 0 \<le> l \<and> 0 \<le> t \<and> l + w \<le> fst i \<and> t + h \<le> snd i then Inr (w, h)
                            else Inl ''extract_area: bad extract area''),
      v_composite2 = (\<lambda>c _ _ _. Inr c), v_thumbnail = (\<lambda>i w h _. Inr (min (fst i) w, min (snd i) h)),
      v_text = (\<lambda>_ _ _ _. Inr (300, 40)), v_bandjoin = (\<lambda>a _. Inr a),
      v_set_resolution = (\<lambda>i _. Inr i), v_pngsave = (\<lambda>_. Inr [0x89]), v_jpegsave = (\<lambda>_ _. Inr [0xFF])\<rparr>"

lemma demo_vips_simps:
  "v_solid demo_vips w h c = Inr (w, h)" "v_new_from_file demo_vips F p = Inr (6000, 4000)"
  "v_width demo_vips = fst" "v_height demo_vips = snd" "v_bands demo_vips i = 3"
  "v_interpretation demo_vips i = ''srgb''" "v_composite2 demo_vips i j x y = Inr i"
  "v_set_resolution demo_vips i r = Inr i" "v_jpegsave demo_vips i q = Inr [0xFF]"
  by (simp_all add: demo_vips_def)

lemma rounds_to_py_round: "rounds_to (max 1 (py_round x)) x"
  unfolding rounds_to_def
  by (intro exI [of _ "py_round x"] conjI refl) (use py_round_bounds [of x] in linarith)

lemma demo_vips_ok: "vips_ok demo_vips"
  by (auto simp: vips_ok_def demo_vips_def rounds_to_py_round)

lemma resize_for_slot_fits_witness:
  "\<exists>r ox oy. resize_for_slot demo_vips (6000, 4000)
      \<lparr>sl_x = 40, sl_y = 40, sl_w = 500, sl_h = 700, sl_fit = Contain\<rparr> = Inr (r, ox, oy) \<and>
     0 \<le> ox \<and> ox + fst r \<le> 500 \<and> 0 \<le> oy \<and> oy + snd r \<le> 700 \<and> (fst r = 500 \<or> snd r = 700)"
proof -
  have "v_width demo_vips = fst" "v_height demo_vips = snd" by (simp_all add: demo_vips_def)
  then show ?thesis
    using resize_for_slot_fits [OF demo_vips_ok, of "(6000, 4000)"
      "\<lparr>sl_x = 40, sl_y = 40, sl_w = 500, sl_h = 700, sl_fit = Contain\<rparr>"]
    by simp
qed

text \<open>An overlay that fits the canvas is inside it, flush with the edges its anchor names.\<close>

lemma anchor_inside:
  assumes "ow \<le> cw" and "oh \<le> ch" and "tx_x_offset ov = 0" and "tx_y_offset ov = 0"
  shows "case anchor_position ow oh cw ch ov of (x, y) \<Rightarrow>
    0 \<le> x \<and> x + ow \<le> cw \<and> 0 \<le> y \<and> y + oh \<le> ch"
  using assms py_round_half [of "cw - ow"] py_round_half [of "ch - oh"]
  by (cases "tx_anchor ov") (auto simp: anchor_position_def)

subsection \<open>What a rendered print guarantees\<close>

lemma place_overlays_texts:
  assumes "place_overlays V F td event ed ovs c = Inr c'" and "TextOverlay ov \<in> set ovs"
  shows "\<exists>s. resolve_placeholders (tx_content ov) event = Inr s"
  using assms
  by (induction V F td event ed ovs c rule: place_overlays.induct)
    (auto simp: bind_res_Inr render_text_overlay_def)

text \<open>
  C25: if a print is rendered at all, the template was valid, the variant is one it declares, there
  was exactly one photo per slot and every placeholder of every text overlay was resolved: nothing
  half-filled reaches a guest.
\<close>

theorem render_variant_complete:
  assumes "render_variant V F parse template_path source_images variant event events_dir = Inr out"
  shows "\<exists>t spec. load_template F parse template_path = Inr t \<and>
    map_of (t_variants t) variant = Some spec \<and>
    length source_images = length (t_slots t) \<and>
    (\<forall>ov. TextOverlay ov \<in> set (t_overlays t) \<longrightarrow>
       (\<exists>s. resolve_placeholders (tx_content ov) event = Inr s))"
proof -
  obtain t where t: "load_template F parse template_path = Inr t"
    using assms by (auto simp: render_variant_def bind_res_Inr)
  then obtain spec c where spec: "map_of (t_variants t) variant = Some spec"
    and c: "composite V F t (path_parent template_path) source_images event events_dir = Inr c"
    using assms by (auto simp: render_variant_def bind_res_Inr split: option.splits)
  from c have "length source_images = length (t_slots t)"
    by (auto simp: composite_def split: if_splits)
  moreover from c obtain c0 where
    "place_overlays V F (path_parent template_path) event events_dir (t_overlays t) c0 = Inr c"
    by (auto simp: composite_def bind_res_Inr split: if_splits)
  then have "\<forall>ov. TextOverlay ov \<in> set (t_overlays t) \<longrightarrow>
      (\<exists>s. resolve_placeholders (tx_content ov) event = Inr s)"
    by (auto dest: place_overlays_texts)
  ultimately show ?thesis using t spec by blast
qed

text \<open>
  the errors \<open>render_variant\<close> promises: a variant the template does not declare and a wrong
  number of photos are refused with a \<open>ValueError\<close> that names them, whatever pyvips does.
\<close>

theorem render_variant_refuses:
  assumes "load_template F parse template_path = Inr t"
  shows "(variant \<notin> fst ` set (t_variants t) \<longrightarrow>
      render_variant V F parse template_path source_images variant event events_dir =
        Inl (ValueError (''unknown variant '' @ py_repr variant @ '' for template '' @
          py_repr (t_name t) @ ''; available: ['' @
          join_with '', '' (map py_repr (sort (map fst (t_variants t)))) @ '']''))) \<and>
    (variant \<in> fst ` set (t_variants t) \<and> length source_images \<noteq> length (t_slots t) \<longrightarrow>
      render_variant V F parse template_path source_images variant event events_dir =
        Inl (ValueError (''expected '' @ str_nat (length (t_slots t)) @
          '' source image(s) for template '' @ py_repr (t_name t) @ '' (one per slot), got '' @
          str_nat (length source_images))))"
proof -
  have "map_of (t_variants t) variant = None \<longleftrightarrow> variant \<notin> fst ` set (t_variants t)"
    by (rule map_of_eq_None_iff)
  then show ?thesis
    using assms by (cases "map_of (t_variants t) variant")
      (auto simp: render_variant_def composite_def)
qed

definition demo_render_fs :: fs where
  "demo_render_fs = demo_files [(to_path ''templates/single.yaml'', [1])]"

lemma demo_render_load: "load_template demo_render_fs (\<lambda>_. Inr demo_template)
    (to_path ''templates/single.yaml'') = Inr demo_template"
  unfolding demo_render_fs_def by (rule demo_load)

lemma render_variant_refuses_witness:
  "(\<exists>m. render_variant demo_vips demo_render_fs (\<lambda>_. Inr demo_template)
      (to_path ''templates/single.yaml'') [] ''print'' (new_event_config ''dev'' ''Gala'' ''single.yaml'')
      None = Inl (ValueError m)) \<and>
   (\<exists>m. render_variant demo_vips demo_render_fs (\<lambda>_. Inr demo_template)
      (to_path ''templates/single.yaml'') [] ''poster'' (new_event_config ''dev'' ''Gala'' ''single.yaml'')
      None = Inl (ValueError m))"
proof -
  have "length (t_slots demo_template) = 1" by (simp add: demo_template_def)
  then show ?thesis
    using render_variant_refuses [OF demo_render_load, of "''print''" demo_vips "[]"
        "new_event_config ''dev'' ''Gala'' ''single.yaml''" None]
      render_variant_refuses [OF demo_render_load, of "''poster''" demo_vips "[]"
        "new_event_config ''dev'' ''Gala'' ''single.yaml''" None]
    by (simp add: demo_sets)
qed

text \<open>One shot rendered for print.\<close>

lemma demo_render:
  "render_variant demo_vips demo_render_fs (\<lambda>_. Inr demo_template)
     (to_path ''templates/single.yaml'') [to_path ''captures/a.jpg''] ''print''
     (new_event_config ''dev'' ''Gala'' ''single.yaml'') None = Inr [0xFF]"
proof -
  have bg: "hex_to_rgb ''#ffffff'' = Inr (255, 255, 255)" by code_simp
  have r: "resize_for_slot demo_vips (6000, 4000)
      \<lparr>sl_x = 0, sl_y = 0, sl_w = 1200, sl_h = 1800, sl_fit = Cover\<rparr> = Inr ((1200, 1800), 0, 0)"
    by (simp add: resize_for_slot_def slot_scales_def rat_div_def demo_vips_def py_round_def vips_def)
  show ?thesis
    by (simp add: render_variant_def demo_render_load)
      (simp add: demo_template_def composite_def blank_canvas_def solid_color_image_def bg vips_def
        demo_vips_simps encode_variant_def encode_def logo_path_def to_srgb_def r
        new_event_config_def)
qed

lemma render_variant_complete_witness:
  "\<exists>t spec. load_template demo_render_fs (\<lambda>_. Inr demo_template) (to_path ''templates/single.yaml'') = Inr t \<and>
    map_of (t_variants t) ''print'' = Some spec \<and> length (t_slots t) = 1"
  using render_variant_complete [OF demo_render] by fastforce

end
