(* ===== verification/Retention.thy ===== *)
theory Retention
  imports Settings
begin

text \<open>
  \<open>src/photobooth/storage/retention.py\<close>: deletion of captures, by hand and after the retention
  window.  The state is the database and the file system.  A clock reading is a function from
  \<open>max_age_days\<close> to the ISO stamp of that many days ago, or to the \<open>OverflowError\<close> of a date
  out of range.
\<close>

subsection \<open>Operations\<close>

definition unlink_tolerant :: "path \<Rightarrow> (exn, db \<times> fs, unit) op" where
  "unlink_tolerant p =
     (\<lambda>(d, f). case try_except (unlink_file p) (\<lambda>exc. if is_OSError exc then ret () else raise exc) f of
        (r, f') \<Rightarrow> (r, (d, f')))"

fun unlink_all :: "path list \<Rightarrow> (exn, db \<times> fs, unit) op" where
  "unlink_all [] = ret ()"
| "unlink_all (p # ps) = andthen (unlink_tolerant p) (unlink_all ps)"

definition capture_paths :: "path \<Rightarrow> string \<Rightarrow> path list" where
  "capture_paths captures_dir capture_id =
     map (\<lambda>suffix. path_div captures_dir (capture_id @ suffix)) [''.jpg'', ''-preview.jpg'']"

definition delete_capture :: "path \<Rightarrow> string \<Rightarrow> (exn, db \<times> fs, unit) op" where
  "delete_capture captures_dir capture_id =
     andthen (unlink_all (capture_paths captures_dir capture_id))
             (modify (\<lambda>(d, f). (capture_delete capture_id d, f)))"

fun delete_captures :: "path \<Rightarrow> string list \<Rightarrow> (exn, db \<times> fs, unit) op" where
  "delete_captures captures_dir [] = ret ()"
| "delete_captures captures_dir (i # is) =
     andthen (delete_capture captures_dir i) (delete_captures captures_dir is)"

definition run_retention_sweep_once ::
  "path \<Rightarrow> retention_config \<Rightarrow> (int \<Rightarrow> string res) \<Rightarrow> (exn, db \<times> fs, nat) op" where
  "run_retention_sweep_once captures_dir config clock =
     (if \<not> rc_enabled config then ret 0
      else bindE (lift_res (clock (rc_max_age_days config))) (\<lambda>cutoff_iso (d, f).
        let stale_ids = capture_list_older_than cutoff_iso d in
        andthen (delete_captures captures_dir stale_ids) (ret (length stale_ids)) (d, f)))"

text \<open>One sweep per clock reading, until the stop event is set; an exception is logged.\<close>

fun run_retention_sweep ::
  "path \<Rightarrow> retention_config \<Rightarrow> (int \<Rightarrow> string res) list \<Rightarrow> (exn, db \<times> fs, unit) op" where
  "run_retention_sweep captures_dir config [] = ret ()"
| "run_retention_sweep captures_dir config (clock # clocks) =
     andthen
       (try_except (andthen (run_retention_sweep_once captures_dir config clock) (ret ())) (\<lambda>_. ret ()))
       (run_retention_sweep captures_dir config clocks)"

subsection \<open>What a deletion does\<close>

text \<open>The files after the deletion of some paths: a path that cannot be deleted stays.\<close>

definition without_files :: "path set \<Rightarrow> fs \<Rightarrow> fs" where
  "without_files ps f = f\<lparr>fs_files := (\<lambda>p. if p \<in> ps \<and> \<not> fs_faults f p then None else fs_files f p)\<rparr>"

lemma without_files_empty [simp]: "without_files {} f = f"
  by (simp add: without_files_def)

lemma without_files_Un: "without_files B (without_files A f) = without_files (A \<union> B) f"
  by (auto simp: without_files_def fun_eq_iff)

lemma unlink_tolerant_eq: "unlink_tolerant p (d, f) = (Inr (), (d, without_files {p} f))"
  by (auto simp: unlink_tolerant_def unlink_file_def without_files_def is_file_def try_except_def fun_eq_iff)

lemma unlink_all_eq: "unlink_all ps (d, f) = (Inr (), (d, without_files (set ps) f))"
  by (induction ps arbitrary: f) (simp_all add: unlink_tolerant_eq without_files_Un)

lemma delete_capture_eq:
  "delete_capture captures_dir i (d, f) =
     (Inr (), (capture_delete i d, without_files (set (capture_paths captures_dir i)) f))"
  by (simp add: delete_capture_def unlink_all_eq)

text \<open>The captures a sweep keeps, and the table without the others.\<close>

definition keep_captures :: "(capture_row \<Rightarrow> bool) \<Rightarrow> db \<Rightarrow> db" where
  "keep_captures P d = d\<lparr>captures := filter P (captures d)\<rparr>"

lemma keep_captures_simps [simp]:
  "captures (keep_captures P d) = filter P (captures d)" "sessions (keep_captures P d) = sessions d"
  "jobs (keep_captures P d) = jobs d" "spans (keep_captures P d) = spans d"
  by (simp_all add: keep_captures_def)

lemma keep_captures_twice: "keep_captures Q (keep_captures P d) = keep_captures (\<lambda>r. P r \<and> Q r) d"
  by (simp add: keep_captures_def conj_commute)

lemma keep_captures_all: "(\<And>r. r \<in> set (captures d) \<Longrightarrow> P r) \<Longrightarrow> keep_captures P d = d"
  by (simp add: keep_captures_def filter_id_conv)

lemma capture_delete_keep: "capture_delete i d = keep_captures (\<lambda>r. c_id r \<noteq> i) d"
  by (simp add: capture_delete_def keep_captures_def sql_delete_def)

lemma delete_captures_eq:
  "delete_captures captures_dir is (d, f) =
     (Inr (), (keep_captures (\<lambda>r. c_id r \<notin> set is) d,
               without_files (\<Union>i \<in> set is. set (capture_paths captures_dir i)) f))"
proof (induction "is" arbitrary: d f)
  case Nil
  then show ?case by (simp add: keep_captures_def)
next
  case (Cons i "is")
  then show ?case
    by (simp add: delete_capture_eq capture_delete_keep keep_captures_twice without_files_Un)
qed

definition capture_keys :: "db \<Rightarrow> bool" where
  "capture_keys d \<longleftrightarrow> distinct (map c_id (captures d))"

lemma wf_db_capture_keys: "wf_db d \<Longrightarrow> capture_keys d"
  by (simp add: wf_db_def capture_keys_def)

lemma capture_keys_keep: "capture_keys d \<Longrightarrow> capture_keys (keep_captures P d)"
  by (simp add: capture_keys_def distinct_map_filter)

lemma older_than_kept:
  assumes "capture_keys d" and "r \<in> set (captures d)"
  shows "c_id r \<in> set (capture_list_older_than c d) \<longleftrightarrow> c_created_at r < c"
  using assms distinct_key_unique [of c_id "captures d"]
  by (auto simp: capture_list_older_than_def capture_keys_def)

text \<open>The paths of the captures that a cutoff makes stale.\<close>

text \<open>The photo and the preview of each stale capture.\<close>

definition stale_paths :: "path \<Rightarrow> (capture_row \<Rightarrow> bool) \<Rightarrow> db \<Rightarrow> path set" where
  "stale_paths captures_dir stale d =
     (\<Union>r \<in> {r \<in> set (captures d). stale r}. 
       {path_div captures_dir (c_id r @ ''.jpg''), path_div captures_dir (c_id r @ ''-preview.jpg'')})"

lemma sweep_once_eq:
  assumes wf: "capture_keys d" and en: "rc_enabled config"
    and clock: "clock (rc_max_age_days config) = Inr c"
  shows "run_retention_sweep_once captures_dir config clock (d, f) =
    (Inr (length (filter (\<lambda>r. c_created_at r < c) (captures d))),
     (keep_captures (\<lambda>r. \<not> c_created_at r < c) d,
      without_files (stale_paths captures_dir (\<lambda>r. c_created_at r < c) d) f))"
proof -
  let ?ids = "capture_list_older_than c d"
  have keep: "keep_captures (\<lambda>r. c_id r \<notin> set ?ids) d = keep_captures (\<lambda>r. \<not> c_created_at r < c) d"
    unfolding keep_captures_def using older_than_kept [OF wf]
    by (metis (no_types, lifting) filter_cong)
  have "(\<Union>i \<in> set ?ids. set (capture_paths captures_dir i)) =
      stale_paths captures_dir (\<lambda>r. c_created_at r < c) d"
    by (auto simp: capture_list_older_than_def stale_paths_def capture_paths_def)
  then show ?thesis
    using en clock keep
    by (simp add: run_retention_sweep_once_def bindE_def Let_def delete_captures_eq capture_list_older_than_def)
qed

lemma sweep_once_disabled:
  "\<not> rc_enabled config \<Longrightarrow> run_retention_sweep_once captures_dir config clock (d, f) = (Inr 0, (d, f))"
  by (simp add: run_retention_sweep_once_def)

lemma sweep_once_overflow:
  "rc_enabled config \<Longrightarrow> clock (rc_max_age_days config) = Inl e \<Longrightarrow>
     run_retention_sweep_once captures_dir config clock (d, f) = (Inl e, (d, f))"
  by (simp add: run_retention_sweep_once_def bindE_def)

subsection \<open>The sweep loop\<close>

definition swept :: "retention_config \<Rightarrow> (int \<Rightarrow> string res) list \<Rightarrow> capture_row \<Rightarrow> bool" where
  "swept config clocks r \<longleftrightarrow>
     rc_enabled config \<and>
     list_ex (\<lambda>clock. case clock (rc_max_age_days config) of
        Inl _ \<Rightarrow> False | Inr cutoff \<Rightarrow> c_created_at r < cutoff) clocks"

lemma swept_simps [simp]:
  "\<not> rc_enabled config \<Longrightarrow> swept config clocks = (\<lambda>_. False)" "swept config [] = (\<lambda>_. False)"
  by (auto simp: swept_def fun_eq_iff)

lemma swept_Cons:
  "rc_enabled config \<Longrightarrow> swept config (clock # clocks) r \<longleftrightarrow>
     (case clock (rc_max_age_days config) of Inl _ \<Rightarrow> False | Inr cutoff \<Rightarrow> c_created_at r < cutoff) \<or>
     swept config clocks r"
  by (simp add: swept_def)

lemma stale_paths_keep:
  "stale_paths dir P d \<union> stale_paths dir Q (keep_captures (\<lambda>r. \<not> P r) d) =
     stale_paths dir (\<lambda>r. P r \<or> Q r) d"
  by (auto simp: stale_paths_def)

lemma stale_paths_False [simp]: "stale_paths dir (\<lambda>_. False) d = {}"
  by (simp add: stale_paths_def)

lemma retention_sweep_eq:
  "capture_keys d \<Longrightarrow> run_retention_sweep captures_dir config clocks (d, f) =
     (Inr (), (keep_captures (\<lambda>r. \<not> swept config clocks r) d,
               without_files (stale_paths captures_dir (swept config clocks) d) f))"
proof (induction clocks arbitrary: d f)
  case Nil
  then show ?case by (simp add: keep_captures_def)
next
  case (Cons clock clocks)
  show ?case
  proof (cases "rc_enabled config")
    case False
    with Cons show ?thesis by (simp add: sweep_once_disabled keep_captures_def)
  next
    case en: True
    show ?thesis
    proof (cases "clock (rc_max_age_days config)")
      case (Inl e)
      then have "swept config (clock # clocks) = swept config clocks" by (simp add: fun_eq_iff swept_Cons en)
      with Cons en Inl show ?thesis by (simp add: sweep_once_overflow)
    next
      case (Inr c)
      then have sw: "swept config (clock # clocks) = (\<lambda>r. c_created_at r < c \<or> swept config clocks r)"
        by (simp add: fun_eq_iff swept_Cons en)
      let ?d = "keep_captures (\<lambda>r. \<not> c_created_at r < c) d"
      have "capture_keys ?d" using Cons.prems by (rule capture_keys_keep)
      from Cons.IH [OF this] sweep_once_eq [where clock = clock, OF Cons.prems en Inr, of captures_dir] show ?thesis
        by (simp add: sw keep_captures_twice without_files_Un stale_paths_keep [of _ "\<lambda>r. c_created_at r < c"] del: not_less)
    qed
  qed
qed

subsection \<open>Properties\<close>

text \<open>
  C13: the retention loop never ends by itself with an exception, whatever the clock and the disk
  do, and it deletes exactly what it should: with retention on, the rows of the captures older
  than some sweep's cutoff, and of the files exactly those captures' photo and preview (a file the
  disk refuses to delete stays); with retention off, nothing; no other table changes.
\<close>

theorem retention_deletes_exactly:
  assumes "wf_db d" and "run_retention_sweep captures_dir config clocks (d, f) = (r, (d', f'))"
  shows "r = Inr () \<and> d' = d\<lparr>captures := filter (\<lambda>c. \<not> swept config clocks c) (captures d)\<rparr> \<and>
    (\<forall>p. fs_files f' p =
      (if p \<in> stale_paths captures_dir (swept config clocks) d \<and> \<not> fs_faults f p then None
       else fs_files f p))"
  using retention_sweep_eq [OF wf_db_capture_keys [OF assms(1)], of captures_dir config clocks f] assms(2)
  by (auto simp: keep_captures_def without_files_def)

definition two_captures :: db where
  "two_captures = empty_db\<lparr>captures :=
     [\<lparr>c_id = ''old'', c_session_id = ''s'', c_created_at = ''2026-01-01'', c_is_deliverable = 1\<rparr>,
      \<lparr>c_id = ''new'', c_session_id = ''s'', c_created_at = ''2026-03-01'', c_is_deliverable = 1\<rparr>]\<rparr>"

definition two_captures_fs :: fs where
  "two_captures_fs =
     \<lparr>fs_files = [to_path ''out/captures/old.jpg'' \<mapsto> [0xFF], to_path ''out/captures/new.jpg'' \<mapsto> [0xFF]],
      fs_dirs = {to_path ''out/captures''}, fs_faults = (\<lambda>_. False)\<rparr>"

definition two_captures_swept :: "unit res \<times> db \<times> fs" where
  "two_captures_swept =
     run_retention_sweep (to_path ''out/captures'') \<lparr>rc_enabled = True, rc_max_age_days = 30\<rparr>
       [\<lambda>_. Inl (OverflowError ''date value out of range''), \<lambda>_. Inr ''2026-02-01'']
       (two_captures, two_captures_fs)"

lemma retention_deletes_exactly_witness:
  "fst two_captures_swept = Inr () \<and>
   map c_id (captures (fst (snd two_captures_swept))) = [''new''] \<and>
   fs_files (snd (snd two_captures_swept)) (to_path ''out/captures/old.jpg'') = None"
proof -
  have wf: "wf_db two_captures"
    by (simp add: wf_db_def two_captures_def empty_db_def)
  have run: "run_retention_sweep (to_path ''out/captures'') \<lparr>rc_enabled = True, rc_max_age_days = 30\<rparr>
       [\<lambda>_. Inl (OverflowError ''date value out of range''), \<lambda>_. Inr ''2026-02-01'']
       (two_captures, two_captures_fs) =
     (fst two_captures_swept, (fst (snd two_captures_swept), snd (snd two_captures_swept)))"
    by (simp add: two_captures_swept_def)
  note exact = retention_deletes_exactly [OF wf run]
  have stale: "''2026-01-01'' < ''2026-02-01''" "\<not> ''2026-03-01'' < ''2026-02-01''" by code_simp+
  have "to_path ''out/captures/old.jpg'' = path_div (to_path ''out/captures'') ''old.jpg''"
    by code_simp
  then have "to_path ''out/captures/old.jpg'' \<in> stale_paths (to_path ''out/captures'')
      (swept \<lparr>rc_enabled = True, rc_max_age_days = 30\<rparr>
        [\<lambda>_. Inl (OverflowError ''date value out of range''), \<lambda>_. Inr ''2026-02-01'']) two_captures"
    unfolding stale_paths_def using stale
    by (intro UN_I [where a = "hd (captures two_captures)"]) (simp_all add: swept_def two_captures_def)
  moreover have "\<not> fs_faults two_captures_fs p" for p by (simp add: two_captures_fs_def)
  ultimately have gone: "fs_files (snd (snd two_captures_swept)) (to_path ''out/captures/old.jpg'') = None"
    unfolding spec [OF conjunct2 [OF conjunct2 [OF exact]]] by (rule if_P [OF conjI])
  have "captures (fst (snd two_captures_swept)) =
      [\<lparr>c_id = ''new'', c_session_id = ''s'', c_created_at = ''2026-03-01'', c_is_deliverable = 1\<rparr>]"
    using conjunct1 [OF conjunct2 [OF exact]] stale by (simp add: swept_def two_captures_def)
  with gone conjunct1 [OF exact] show ?thesis by simp
qed

end
