(* ===== verification/Gallery.thy ===== *)
theory Gallery
  imports Event_Config Database
begin

text \<open>
  \<open>src/photobooth/web/routers/gallery.py\<close> and \<open>share.py\<close>: what guests read afterwards, the
  gallery of an event and the share page of a session.  A route is a function of the database or
  the file system to the JSON it answers, the file it serves, or the exception: an
  \<open>HTTPException\<close> is the answer with that status, any other the framework's 500.
  \<open>mimetypes.guess_type\<close> and \<open>qrcode\<close> are parameters.
\<close>

subsection \<open>Gallery\<close>

datatype file_response = FileResponse path "string option"

definition GALLERY_NOT_FOUND :: string where
  "GALLERY_NOT_FOUND = ''gallery not found''"

definition load_gallery_event ::
  "fs \<Rightarrow> (bytes \<Rightarrow> event_config res) \<Rightarrow> path \<Rightarrow> string \<Rightarrow> event_config res" where
  "load_gallery_event F parse events_dir event_id =
     (case load_event F parse events_dir event_id of
        Inl exc \<Rightarrow>
          if is_OSError exc then Inl (HTTPException 404 GALLERY_NOT_FOUND) else Inl exc
      | Inr event \<Rightarrow>
          if \<not> e_gallery_enabled event then Inl (HTTPException 404 GALLERY_NOT_FOUND)
          else Inr event)"

definition capture_json :: "string \<times> string \<Rightarrow> json" where
  "capture_json = (\<lambda>(capture_id, created_at).
     JObj [(''id'', JStr capture_id), (''created_at'', JStr created_at),
           (''image_url'', JStr (''/captures/'' @ capture_id @ ''.jpg''))])"

definition list_captures ::
  "fs \<Rightarrow> (bytes \<Rightarrow> event_config res) \<Rightarrow> path \<Rightarrow> db \<Rightarrow> string \<Rightarrow> json res" where
  "list_captures F parse events_dir d event_id =
     bind_res (load_gallery_event F parse events_dir event_id) (\<lambda>_.
       Inr (JArr (map capture_json (capture_list_by_event event_id d))))"

text \<open>Pieces of an answer that the kiosk's event page shares.\<close>

definition modes_json :: "event_config \<Rightarrow> json" where
  "modes_json event =
     JArr (if e_modes event \<noteq> []
           then map (\<lambda>m. JObj [(''id'', JStr (cm_id m)), (''label'', JStr (cm_label m))]) (e_modes event)
           else [JObj [(''id'', JStr ''default''), (''label'', JStr ''Take Photo'')]])"

definition strings_json :: "event_config \<Rightarrow> json" where
  "strings_json event = JObj (map (\<lambda>(k, v). (k, JStr v)) (resolved_strings event))"

definition theme_json :: "event_config \<Rightarrow> json" where
  "theme_json event = JObj [(''primary_color'', JStr (th_primary_color (e_theme event)))]"

definition optional_url :: "string \<Rightarrow> string \<Rightarrow> json" where
  "optional_url url filename = (if filename \<noteq> '''' then JStr url else JNull)"

definition get_gallery_info ::
  "fs \<Rightarrow> (bytes \<Rightarrow> event_config res) \<Rightarrow> path \<Rightarrow> string \<Rightarrow> json res" where
  "get_gallery_info F parse events_dir event_id =
     bind_res (load_gallery_event F parse events_dir event_id) (\<lambda>event. Inr (JObj
       [(''title'', JStr (e_title event)),
        (''background_image_url'',
           optional_url (''/gallery/'' @ event_id @ ''/background'') (e_background_image event)),
        (''logo_image_url'', optional_url (''/gallery/'' @ event_id @ ''/logo'') (e_logo_image event)),
        (''theme'', theme_json event), (''modes'', modes_json event),
        (''strings'', strings_json event)]))"

definition serve_event_image ::
  "fs \<Rightarrow> (string \<Rightarrow> string option) \<Rightarrow> path \<Rightarrow> string \<Rightarrow> string \<Rightarrow> file_response res" where
  "serve_event_image F guess_type events_dir event_id filename =
     (let path = path_div (path_div events_dir event_id) filename in
      if \<not> is_file F path then Inl (HTTPException 404 ''image file not found'')
      else Inr (FileResponse path (guess_type (path_str path))))"

definition get_gallery_background ::
  "fs \<Rightarrow> (bytes \<Rightarrow> event_config res) \<Rightarrow> (string \<Rightarrow> string option) \<Rightarrow> path \<Rightarrow> string \<Rightarrow> file_response res" where
  "get_gallery_background F parse guess_type events_dir event_id =
     bind_res (load_gallery_event F parse events_dir event_id) (\<lambda>event.
       if e_background_image event = '''' then Inl (HTTPException 404 ''event has no background image'')
       else serve_event_image F guess_type events_dir event_id (e_background_image event))"

definition get_gallery_logo ::
  "fs \<Rightarrow> (bytes \<Rightarrow> event_config res) \<Rightarrow> (string \<Rightarrow> string option) \<Rightarrow> path \<Rightarrow> string \<Rightarrow> file_response res" where
  "get_gallery_logo F parse guess_type events_dir event_id =
     bind_res (load_gallery_event F parse events_dir event_id) (\<lambda>event.
       if e_logo_image event = '''' then Inl (HTTPException 404 ''event has no logo image'')
       else serve_event_image F guess_type events_dir event_id (e_logo_image event))"

subsection \<open>Share pages\<close>

definition SHARE_NOT_FOUND :: string where
  "SHARE_NOT_FOUND = ''not found''"

definition resolve_session :: "db \<Rightarrow> string \<Rightarrow> session_row res" where
  "resolve_session d token =
     (case session_get_by_share_token token d of
        None \<Rightarrow> Inl (HTTPException 404 SHARE_NOT_FOUND) | Some session \<Rightarrow> Inr session)"

definition get_share :: "db \<Rightarrow> string \<Rightarrow> json res" where
  "get_share d token =
     bind_res (resolve_session d token) (\<lambda>session. Inr (JObj
       [(''session_id'', JStr (s_id session)),
        (''captures'', JArr (map capture_json (capture_list_by_session (s_id session) d)))]))"

text \<open>The parts of a request and of the application state the QR code needs.\<close>

record share_request =
  sr_scheme :: string
  sr_netloc :: string
  sr_public_base_url :: string

definition share_url :: "share_request \<Rightarrow> string \<Rightarrow> string" where
  "share_url q token =
     (let base = (if sr_public_base_url q \<noteq> '''' then sr_public_base_url q
                  else sr_scheme q @ ''://'' @ sr_netloc q) in
      rstrip_char (CHR ''/'') base @ ''/s/'' @ token)"

definition qr_target :: "share_request \<Rightarrow> db \<Rightarrow> string \<Rightarrow> string \<Rightarrow> string res" where
  "qr_target q d token session_id =
     (let base = sr_public_base_url q in
      if base = '''' then Inr (share_url q token)
      else (case capture_list_by_session session_id d of
              [] \<Rightarrow> Inl (HTTPException 404 SHARE_NOT_FOUND)
            | (capture_id, _) # _ \<Rightarrow>
                Inr (rstrip_char (CHR ''/'') base @ ''/'' @ capture_id @ ''.jpg'')))"

definition get_share_qr ::
  "(string \<Rightarrow> bytes res) \<Rightarrow> share_request \<Rightarrow> db \<Rightarrow> string \<Rightarrow> bytes res" where
  "get_share_qr qr_png q d token =
     bind_res (resolve_session d token) (\<lambda>session.
     bind_res (qr_target q d token (s_id session)) qr_png)"

subsection \<open>Properties\<close>

text \<open>The file of an event.\<close>

definition event_file :: "path \<Rightarrow> string \<Rightarrow> path" where
  "event_file events_dir event_id = path_div (path_div events_dir event_id) ''event.yaml''"

definition without_event :: "path \<Rightarrow> string \<Rightarrow> fs \<Rightarrow> fs" where
  "without_event events_dir event_id F =
     F\<lparr>fs_files := (fs_files F)(event_file events_dir event_id := None)\<rparr>"

lemma load_without_event:
  "load_event (without_event dir e F) parse dir e = Inl (FileNotFoundError (path_str (event_file dir e)))"
  by (simp add: load_event_def without_event_def read_file_def event_file_def)

lemma gallery_without_event:
  "load_gallery_event (without_event dir e F) parse dir e = Inl (HTTPException 404 GALLERY_NOT_FOUND)"
  by (simp add: load_gallery_event_def load_without_event)

lemma gallery_disabled:
  "load_event F parse dir e = Inr event \<Longrightarrow> \<not> e_gallery_enabled event \<Longrightarrow>
     load_gallery_event F parse dir e = Inl (HTTPException 404 GALLERY_NOT_FOUND)"
  by (simp add: load_gallery_event_def)

text \<open>
  C15: nobody can tell a hidden event from a made-up one: on every gallery route, a readable event
  with its gallery disabled gets the very answer it would get if its file did not exist, the 404
  that names neither.
\<close>

theorem gallery_disabled_invisible:
  assumes "load_event F parse events_dir event_id = Inr event" and "\<not> e_gallery_enabled event"
  shows "(list_captures F parse events_dir d event_id,
      get_gallery_info F parse events_dir event_id,
      get_gallery_background F parse guess_type events_dir event_id,
      get_gallery_logo F parse guess_type events_dir event_id) =
    (let F' = without_event events_dir event_id F in
     (list_captures F' parse events_dir d event_id,
      get_gallery_info F' parse events_dir event_id,
      get_gallery_background F' parse guess_type events_dir event_id,
      get_gallery_logo F' parse guess_type events_dir event_id)) \<and>
    list_captures F parse events_dir d event_id = Inl (HTTPException 404 ''gallery not found'')"
  using gallery_disabled [OF assms]
  by (simp add: list_captures_def get_gallery_info_def get_gallery_background_def get_gallery_logo_def
      gallery_without_event GALLERY_NOT_FOUND_def)

definition hidden_event :: event_config where
  "hidden_event = (new_event_config ''wedding'' ''Ann & Bob'' ''single.yaml'')\<lparr>e_gallery_enabled := False\<rparr>"

definition hidden_fs :: fs where
  "hidden_fs = \<lparr>fs_files = [event_file (to_path ''events'') ''wedding'' \<mapsto> []], fs_dirs = {},
                fs_faults = (\<lambda>_. False)\<rparr>"

lemma gallery_disabled_invisible_witness:
  "get_gallery_info hidden_fs (\<lambda>_. Inr hidden_event) (to_path ''events'') ''wedding'' =
     get_gallery_info (without_event (to_path ''events'') ''wedding'' hidden_fs)
       (\<lambda>_. Inr hidden_event) (to_path ''events'') ''wedding''"
proof -
  have "load_event hidden_fs (\<lambda>_. Inr hidden_event) (to_path ''events'') ''wedding'' = Inr hidden_event"
    by (simp add: load_event_def hidden_fs_def read_file_def event_file_def)
  from gallery_disabled_invisible [OF this] show ?thesis by (simp add: hidden_event_def Let_def)
qed

lemma map_filter_distinct_unique:
  assumes "distinct (List.map_filter f xs)" and "x \<in> set xs" and "y \<in> set xs"
    and "f x = Some v" and "f y = Some v"
  shows "x = y"
proof -
  have "inj_on (the \<circ> f) (set (filter (\<lambda>x. f x \<noteq> None) xs))"
    using assms(1) by (simp add: List.map_filter_def distinct_map)
  moreover have "(the \<circ> f) x = (the \<circ> f) y" using assms(4,5) by simp
  ultimately show ?thesis using assms(2-5) by (elim inj_onD) simp_all
qed

lemma share_token_unique:
  "wf_db d \<Longrightarrow> s \<in> set (sessions d) \<Longrightarrow> s' \<in> set (sessions d) \<Longrightarrow> s_share_token s = Some t \<Longrightarrow>
     s_share_token s' = Some t \<Longrightarrow> s = s'"
  by (rule map_filter_distinct_unique [where f = s_share_token]) (auto simp: wf_db_def distinct_map)

lemma resolve_session_iff:
  assumes "wf_db d"
  shows "resolve_session d token = Inr s \<longleftrightarrow> s \<in> set (sessions d) \<and> s_share_token s = Some token"
proof
  assume "resolve_session d token = Inr s"
  then obtain rest where "filter (\<lambda>r. s_share_token r = Some token) (sessions d) = s # rest"
    by (auto simp: resolve_session_def session_get_by_share_token_def fetchone_eq_Some split: option.splits)
  then have "s \<in> set (filter (\<lambda>r. s_share_token r = Some token) (sessions d))" by simp
  then show "s \<in> set (sessions d) \<and> s_share_token s = Some token" by simp
next
  assume s: "s \<in> set (sessions d) \<and> s_share_token s = Some token"
  then obtain x rest where x: "filter (\<lambda>r. s_share_token r = Some token) (sessions d) = x # rest"
    by (metis (mono_tags, lifting) filter_empty_conv neq_Nil_conv)
  then have "x \<in> set (filter (\<lambda>r. s_share_token r = Some token) (sessions d))" by simp
  then have "x = s" using s share_token_unique [OF assms] by auto
  with x show "resolve_session d token = Inr s"
    by (simp add: resolve_session_def session_get_by_share_token_def fetchone_def)
qed


definition shared_db :: db where
  "shared_db = empty_db\<lparr>
     sessions := [\<lparr>s_id = ''s1'', s_event_id = ''e'', s_state = ''idle'', s_created_at = ''1'', s_share_token = Some ''t1''\<rparr>,
                  \<lparr>s_id = ''s2'', s_event_id = ''e'', s_state = ''idle'', s_created_at = ''2'', s_share_token = Some ''t2''\<rparr>],
     captures := [\<lparr>c_id = ''a'', c_session_id = ''s1'', c_created_at = ''1'', c_is_deliverable = 1\<rparr>,
                  \<lparr>c_id = ''b'', c_session_id = ''s2'', c_created_at = ''2'', c_is_deliverable = 1\<rparr>]\<rparr>"


end
