(* ===== verification/Admin_Events.thy ===== *)
theory Admin_Events
  imports Compositor Retention Gallery "HOL-Library.AList"
begin

text \<open>
  \<open>src/photobooth/web/routers/admin.py\<close>, its events, captures and templates: the routes an
  operator edits the events with.  Reading and writing YAML (\<open>yaml.safe_load\<close>,
  \<open>yaml.safe_dump\<close>, the pydantic validation of an event) are parameters of the environment; the
  names in a directory are an argument.  A tree operation of \<open>shutil\<close> that fails leaves no partial
  result.
\<close>

subsection \<open>Directory trees\<close>

definition under :: "path \<Rightarrow> path \<Rightarrow> bool" where
  "under d p \<longleftrightarrow> p_root p = p_root d \<and> take (length (p_parts d)) (p_parts p) = p_parts d"

definition rebase :: "path \<Rightarrow> path \<Rightarrow> path \<Rightarrow> path" where
  "rebase a b p = Path (p_root b) (p_parts b @ drop (length (p_parts a)) (p_parts p))"

definition copytree :: "path \<Rightarrow> path \<Rightarrow> (exn, fs, unit) op" where
  "copytree src dst =
     (\<lambda>f. if \<not> is_dir f src then (Inl (FileNotFoundError (path_str src)), f)
          else if path_exists f dst \<or> fs_faults f src \<or> fs_faults f dst
          then (Inl (OSError (path_str dst)), f)
          else (Inr (), f\<lparr>fs_files := (\<lambda>p. if under dst p then fs_files f (rebase dst src p) else fs_files f p),
                          fs_dirs := fs_dirs f \<union> path_ancestors dst \<union>
                            rebase src dst ` {q \<in> fs_dirs f. under src q}\<rparr>))"

definition rmtree :: "path \<Rightarrow> (exn, fs, unit) op" where
  "rmtree d =
     (\<lambda>f. if \<not> is_dir f d then (Inl (FileNotFoundError (path_str d)), f)
          else if fs_faults f d then (Inl (OSError (path_str d)), f)
          else (Inr (), f\<lparr>fs_files := (\<lambda>p. if under d p then None else fs_files f p),
                          fs_dirs := {q \<in> fs_dirs f. \<not> under d q}\<rparr>))"

subsection \<open>Environment and state\<close>

record admin_env =
  ae_settings :: settings
  ae_config_path :: path
  ae_parse_event :: "bytes \<Rightarrow> event_config res"
  ae_dump_event :: "event_config \<Rightarrow> bytes"
  ae_parse_template :: "bytes \<Rightarrow> template_config res"
  ae_safe_load :: "bytes \<Rightarrow> json res"
  ae_safe_dump :: "json \<Rightarrow> bytes"

text \<open>The database, the files and \<open>app.state.active_event_id\<close>.\<close>

record admin_app =
  aa_db :: db
  aa_fs :: fs
  aa_active_event_id :: string

type_synonym 'a admin_op = "(exn, admin_app, 'a) op"

definition on_files :: "(exn, fs, 'a) op \<Rightarrow> 'a admin_op" where
  "on_files m = (\<lambda>s. case m (aa_fs s) of (r, f) \<Rightarrow> (r, s\<lparr>aa_fs := f\<rparr>))"

definition events_base :: "admin_env \<Rightarrow> path" where
  "events_base E = ec_base_dir (st_events (ae_settings E))"

definition event_directory :: "admin_env \<Rightarrow> string \<Rightarrow> path" where
  "event_directory E event_id = path_div (events_base E) event_id"

definition event_yaml :: "admin_env \<Rightarrow> string \<Rightarrow> path" where
  "event_yaml E event_id = path_div (event_directory E event_id) ''event.yaml''"

text \<open>\<open>path.write_text(yaml.safe_dump(event.model_dump()))\<close>.\<close>

definition save_event :: "admin_env \<Rightarrow> string \<Rightarrow> event_config \<Rightarrow> unit admin_op" where
  "save_event E event_id event = on_files (write_file (event_yaml E event_id) (ae_dump_event E event))"

definition read_event :: "admin_env \<Rightarrow> string \<Rightarrow> event_config admin_op" where
  "read_event E event_id =
     (\<lambda>s. (load_event (aa_fs s) (ae_parse_event E) (events_base E) event_id, s))"

definition http :: "int \<Rightarrow> string \<Rightarrow> 'a admin_op" where
  "http code detail = raise (HTTPException code detail)"

definition not_found_as :: "string \<Rightarrow> exn \<Rightarrow> 'a admin_op" where
  "not_found_as detail exc = (case exc of FileNotFoundError _ \<Rightarrow> http 404 detail | _ \<Rightarrow> raise exc)"

subsection \<open>Reading and editing events\<close>

fun event_rows :: "admin_env \<Rightarrow> fs \<Rightarrow> string list \<Rightarrow> json list res" where
  "event_rows E F [] = Inr []"
| "event_rows E F (name # names) =
     (if \<not> is_dir F (event_directory E name) \<or> \<not> is_file F (event_yaml E name)
      then event_rows E F names
      else (case load_event F (ae_parse_event E) (events_base E) name of
              Inl exc \<Rightarrow>
                if is_OSError exc \<or> is_ValueError exc
                then map_sum id (\<lambda>rows. JObj [(''id'', JStr name), (''error'', JStr (exn_str exc))] # rows)
                       (event_rows E F names)
                else Inl exc
            | Inr event \<Rightarrow>
                map_sum id (\<lambda>rows. JObj [(''id'', JStr (e_id event)), (''title'', JStr (e_title event)),
                     (''date'', JStr (e_date event)), (''template'', JStr (e_template event)),
                     (''gallery_enabled'', JBool (e_gallery_enabled event))] # rows)
                  (event_rows E F names)))"

definition list_events :: "admin_env \<Rightarrow> string list \<Rightarrow> json list admin_op" where
  "list_events E listing =
     (\<lambda>s. (if \<not> is_dir (aa_fs s) (events_base E) then Inr []
           else event_rows E (aa_fs s) (sort listing), s))"

definition get_event :: "admin_env \<Rightarrow> string \<Rightarrow> event_config admin_op" where
  "get_event E event_id = try_except (read_event E event_id) (not_found_as ''event not found'')"

definition update_event :: "admin_env \<Rightarrow> string \<Rightarrow> event_config \<Rightarrow> event_config admin_op" where
  "update_event E event_id body =
     (if e_id body \<noteq> event_id
      then http 400 ''event id in request body must match the URL path''
      else (\<lambda>s. if \<not> is_dir (aa_fs s) (event_directory E event_id)
                then http 404 ''event not found'' s
                else andthen (save_event E event_id body) (ret body) s))"

text \<open>\<open>config_data.setdefault("events", {})["active_event_id"] = event_id\<close>.\<close>

definition set_active_in_config :: "string \<Rightarrow> json \<Rightarrow> json res" where
  "set_active_in_config event_id data =
     (case data of
        JObj kvs \<Rightarrow>
          (case map_of kvs ''events'' of
             None \<Rightarrow> Inr (JObj (kvs @ [(''events'', JObj [(''active_event_id'', JStr event_id)])]))
           | Some (JObj events) \<Rightarrow>
               Inr (JObj (AList.update ''events''
                 (JObj (AList.update ''active_event_id'' (JStr event_id) events)) kvs))
           | Some _ \<Rightarrow> Inl (TypeError ''item assignment''))
      | _ \<Rightarrow> Inl (AttributeError ''setdefault''))"

definition activate_event :: "admin_env \<Rightarrow> string \<Rightarrow> json admin_op" where
  "activate_event E event_id =
     andthen (try_except (read_event E event_id) (not_found_as ''event not found''))
    (andthen (modify (\<lambda>s. s\<lparr>aa_active_event_id := event_id\<rparr>))
    (bindE (\<lambda>s. (read_file (aa_fs s) (ae_config_path E), s)) (\<lambda>text.
     bindE (lift_res (ae_safe_load E text)) (\<lambda>config_data.
     bindE (lift_res (set_active_in_config event_id config_data)) (\<lambda>config_data.
     andthen (on_files (write_file (ae_config_path E) (ae_safe_dump E config_data)))
       (ret (JObj [(''active_event_id'', JStr event_id)])))))))"

subsection \<open>Uploading an image\<close>

definition MAX_UPLOAD_BYTES :: nat where
  "MAX_UPLOAD_BYTES = 15 * 1024 * 1024"

text \<open>Sorted, as the refusal shows them.\<close>

definition ALLOWED_IMAGE_EXTENSIONS :: "string list" where
  "ALLOWED_IMAGE_EXTENSIONS =
     [''.gif'', ''.jpeg'', ''.jpg'', ''.mov'', ''.mp4'', ''.png'', ''.webm'', ''.webp'']"

definition lower_char :: "char \<Rightarrow> char" where
  "lower_char c =
     (if (CHR ''A'' \<le> c \<and> c \<le> CHR ''Z'') \<or> (CHR 0xC0 \<le> c \<and> c \<le> CHR 0xDE \<and> c \<noteq> CHR 0xD7)
      then char_of ((of_char c :: nat) + 32) else c)"

datatype upload_kind = Background | Logo

fun kind_str :: "upload_kind \<Rightarrow> string" where
  "kind_str Background = ''background''"
| "kind_str Logo = ''logo''"

fun image_field :: "upload_kind \<Rightarrow> event_config \<Rightarrow> string" where
  "image_field Background event = e_background_image event"
| "image_field Logo event = e_logo_image event"

fun set_image_field :: "upload_kind \<Rightarrow> string \<Rightarrow> event_config \<Rightarrow> event_config" where
  "set_image_field Background name event = event\<lparr>e_background_image := name\<rparr>"
| "set_image_field Logo name event = event\<lparr>e_logo_image := name\<rparr>"

text \<open>\<open>contextlib.suppress(OSError)\<close>.\<close>

definition suppress_OSError :: "unit admin_op \<Rightarrow> unit admin_op" where
  "suppress_OSError m = try_except m (\<lambda>exc. if is_OSError exc then ret () else raise exc)"

definition drop_old_image :: "admin_env \<Rightarrow> string \<Rightarrow> string \<Rightarrow> string \<Rightarrow> unit admin_op" where
  "drop_old_image E event_id old_filename new_filename =
     (if old_filename \<noteq> '''' \<and> old_filename \<noteq> new_filename
      then suppress_OSError (on_files (unlink_file (path_div (event_directory E event_id) old_filename)))
      else ret ())"

definition upload_event_image ::
  "admin_env \<Rightarrow> string \<Rightarrow> upload_kind \<Rightarrow> string option \<Rightarrow> bytes \<Rightarrow> event_config admin_op" where
  "upload_event_image E event_id kind filename content =
     (\<lambda>s. if \<not> is_dir (aa_fs s) (event_directory E event_id)
          then http 404 ''event not found'' s
          else
           (let suffix = map lower_char (path_suffix (to_path (case filename of None \<Rightarrow> '''' | Some n \<Rightarrow> n))) in
            if suffix \<notin> set ALLOWED_IMAGE_EXTENSIONS
            then http 400 (''unsupported file type '' @ py_repr suffix @ '' (allowed: ['' @
                   join_with '', '' (map py_repr ALLOWED_IMAGE_EXTENSIONS) @ ''])'') s
            else
             (let data = take (MAX_UPLOAD_BYTES + 1) content in
              if MAX_UPLOAD_BYTES < length data then http 413 ''file too large'' s
              else
               bindE (read_event E event_id) (\<lambda>event.
                 let old_filename = image_field kind event; new_filename = kind_str kind @ suffix;
                     updated = set_image_field kind new_filename event in
                 andthen (drop_old_image E event_id old_filename new_filename)
                (andthen (on_files (write_file (path_div (event_directory E event_id) new_filename) data))
                (andthen (save_event E event_id updated) (ret updated)))) s)))"

subsection \<open>Making, copying and deleting events\<close>

text \<open>
  The pattern \<open>^[a-z0-9][a-z0-9-]{0,63}$\<close>, with \<open>$\<close> as Python has it: at the end or before a
  newline that ends the string.
\<close>

definition slug_start :: "char \<Rightarrow> bool" where
  "slug_start c \<longleftrightarrow> (CHR ''a'' \<le> c \<and> c \<le> CHR ''z'') \<or> (CHR ''0'' \<le> c \<and> c \<le> CHR ''9'')"

definition slug_char :: "char \<Rightarrow> bool" where
  "slug_char c \<longleftrightarrow> slug_start c \<or> c = CHR ''-''"

definition before_final_newline :: "string \<Rightarrow> string" where
  "before_final_newline t = (if t \<noteq> [] \<and> last t = CHR 0x0A then butlast t else t)"

definition slug_matches :: "string \<Rightarrow> bool" where
  "slug_matches s =
     (case s of
        [] \<Rightarrow> False
      | c # t \<Rightarrow>
          slug_start c \<and> length (before_final_newline t) \<le> 63 \<and>
          list_all slug_char (before_final_newline t))"

definition validate_slug :: "string \<Rightarrow> unit res" where
  "validate_slug slug =
     (if \<not> slug_matches slug
      then Inl (HTTPException 400 ''id must be lowercase letters, digits, and hyphens (max 64 chars)'')
      else Inr ())"

record create_event_request =
  ce_id :: string
  ce_title :: string
  ce_date :: string
  ce_based_on :: "string option"

definition event_of_preset :: "create_event_request \<Rightarrow> event_template_preset option \<Rightarrow> event_config" where
  "event_of_preset body preset =
     (let modes = (case preset of None \<Rightarrow> [] | Some p \<Rightarrow> pre_modes p) in
      (new_event_config (ce_id body) (ce_title body)
         (case modes of [] \<Rightarrow> ''single.yaml'' | m # _ \<Rightarrow> cm_template m))
        \<lparr>e_date := ce_date body, e_modes := modes,
         e_theme := \<lparr>th_primary_color = (case preset of None \<Rightarrow> '''' | Some p \<Rightarrow> pre_primary_color p),
                    th_scrim_color = (case preset of None \<Rightarrow> '''' | Some p \<Rightarrow> pre_scrim_color p)\<rparr>,
         e_vars := (case preset of None \<Rightarrow> [] | Some p \<Rightarrow> map (\<lambda>(k, _). (k, '''')) (pre_vars_hint p))\<rparr>)"

definition create_event :: "admin_env \<Rightarrow> create_event_request \<Rightarrow> event_config admin_op" where
  "create_event E body =
     andthen (lift_res (validate_slug (ce_id body)))
     (\<lambda>s. if path_exists (aa_fs s) (event_directory E (ce_id body))
          then http 409 ''an event with this id already exists'' s
          else
           (let based_on = (case ce_based_on body of None \<Rightarrow> '''' | Some b \<Rightarrow> b);
                preset = (if based_on \<noteq> '''' then get_preset based_on else None) in
            if based_on \<noteq> '''' \<and> preset = None
            then http 400 (''unknown template '' @ py_repr based_on) s
            else
             (let event = event_of_preset body preset in
              andthen (on_files (mkdir_parents (event_directory E (ce_id body))))
             (andthen (save_event E (ce_id body) event) (ret event)) s)))"

definition duplicate_event :: "admin_env \<Rightarrow> string \<Rightarrow> string \<Rightarrow> string \<Rightarrow> event_config admin_op" where
  "duplicate_event E event_id new_id new_title =
     andthen (lift_res (validate_slug new_id))
     (\<lambda>s. if \<not> is_dir (aa_fs s) (event_directory E event_id)
          then http 404 ''event not found'' s
          else if path_exists (aa_fs s) (event_directory E new_id)
          then http 409 ''an event with this id already exists'' s
          else
           andthen (on_files (copytree (event_directory E event_id) (event_directory E new_id)))
          (bindE (read_event E event_id) (\<lambda>event.
             let updated = event\<lparr>e_id := new_id, e_title := new_title\<rparr> in
             andthen (save_event E new_id updated) (ret updated))) s)"

definition delete_event :: "admin_env \<Rightarrow> string \<Rightarrow> json admin_op" where
  "delete_event E event_id =
     (\<lambda>s. if \<not> is_dir (aa_fs s) (event_directory E event_id)
          then http 404 ''event not found'' s
          else if event_id = aa_active_event_id s
          then http 409 ''cannot delete the active event'' s
          else andthen (on_files (rmtree (event_directory E event_id)))
                 (ret (JObj [(''ok'', JBool True)])) s)"

subsection \<open>Captures and templates\<close>

definition ADMIN_CAPTURES_DIR :: path where
  "ADMIN_CAPTURES_DIR = to_path ''out/captures''"

definition list_event_captures :: "admin_env \<Rightarrow> string \<Rightarrow> json admin_op" where
  "list_event_captures E event_id =
     (\<lambda>s. if \<not> is_dir (aa_fs s) (event_directory E event_id)
          then http 404 ''event not found'' s
          else (Inr (JArr (map capture_json (capture_list_by_event event_id (aa_db s)))), s))"

definition on_db_files :: "(exn, db \<times> fs, 'a) op \<Rightarrow> 'a admin_op" where
  "on_db_files m =
     (\<lambda>s. case m (aa_db s, aa_fs s) of (r, d, f) \<Rightarrow> (r, s\<lparr>aa_db := d, aa_fs := f\<rparr>))"

definition delete_capture_action :: "string \<Rightarrow> json admin_op" where
  "delete_capture_action capture_id =
     (\<lambda>s. if capture_get_session_id capture_id (aa_db s) = None
          then http 404 ''capture not found'' s
          else andthen (on_db_files (delete_capture ADMIN_CAPTURES_DIR capture_id))
                 (ret (JObj [(''ok'', JBool True)])) s)"

definition ADMIN_TEMPLATES_DIR :: path where
  "ADMIN_TEMPLATES_DIR = to_path ''templates''"

definition SAMPLE_SHOT :: path where
  "SAMPLE_SHOT = to_path ''fixtures/shots/sample-01.jpg''"

fun template_rows :: "admin_env \<Rightarrow> fs \<Rightarrow> string list \<Rightarrow> json list res" where
  "template_rows E F [] = Inr []"
| "template_rows E F (name # names) =
     (case load_template F (ae_parse_template E) (path_div ADMIN_TEMPLATES_DIR name) of
        Inr template \<Rightarrow>
          map_sum id (\<lambda>rows. JObj [(''name'', JStr name), (''title'', JStr (t_name template)),
              (''slot_count'', JNum (of_nat (length (t_slots template))))] # rows) (template_rows E F names)
      | Inl (TemplateValidationError msg) \<Rightarrow>
          map_sum id (\<lambda>rows. JObj [(''name'', JStr name), (''error'', JStr msg)] # rows)
            (template_rows E F names)
      | Inl exc \<Rightarrow> Inl exc)"

definition ends_with :: "string \<Rightarrow> string \<Rightarrow> bool" where
  "ends_with suffix s \<longleftrightarrow> length suffix \<le> length s \<and> drop (length s - length suffix) s = suffix"

definition list_templates :: "admin_env \<Rightarrow> string list \<Rightarrow> json list admin_op" where
  "list_templates E listing =
     (\<lambda>s. (if \<not> is_dir (aa_fs s) ADMIN_TEMPLATES_DIR then Inr []
           else template_rows E (aa_fs s) (sort (filter (ends_with ''.yaml'') listing)), s))"

definition preview_template :: "'i vips \<Rightarrow> admin_env \<Rightarrow> string \<Rightarrow> bytes admin_op" where
  "preview_template V E name =
     (let template_path = path_div ADMIN_TEMPLATES_DIR name in
      (\<lambda>s. if \<not> is_file (aa_fs s) template_path then http 404 ''template not found'' s
          else
           bindE (case load_template (aa_fs s) (ae_parse_template E) template_path of
                    Inr template \<Rightarrow> ret template
                  | Inl (TemplateValidationError msg) \<Rightarrow> http 400 msg
                  | Inl exc \<Rightarrow> raise exc) (\<lambda>template.
           bindE (try_except (read_event E (aa_active_event_id s)) (not_found_as ''active event not found''))
            (\<lambda>event.
             if \<not> is_file (aa_fs s) SAMPLE_SHOT
             then http 500 (''sample fixture image missing: '' @ path_str SAMPLE_SHOT)
             else
              (case render_variant V (aa_fs s) (ae_parse_template E) template_path
                      (replicate (length (t_slots template)) SAMPLE_SHOT) ''web'' event
                      (Some (events_base E)) of
                 Inr jpeg_bytes \<Rightarrow> ret jpeg_bytes
               | Inl exc \<Rightarrow>
                   if is_ValueError exc then http 400 (exn_str exc) else raise exc))) s))"

subsection \<open>Paths of an event\<close>

lemma slug_char_plain: "slug_char c \<Longrightarrow> c \<noteq> CHR ''/'' \<and> c \<noteq> CHR ''.''"
  by (auto simp: slug_char_def slug_start_def)

lemma slug_chars: "slug_matches s \<Longrightarrow> c \<in> set s \<Longrightarrow> slug_char c \<or> c = CHR 0x0A"
proof -
  assume m: "slug_matches s" and c: "c \<in> set s"
  then obtain h t where s: "s = h # t" and h: "slug_start h" and t: "list_all slug_char (before_final_newline t)"
    by (auto simp: slug_matches_def split: list.splits)
  have "c \<in> set (before_final_newline t) \<or> c = CHR 0x0A" if "c \<in> set t"
    using that unfolding before_final_newline_def
    by (auto split: if_splits) (metis append_butlast_last_id in_set_conv_decomp_first set_ConsD
        empty_iff list.set(1) set_append Un_iff last_in_set)
  with c s h t show ?thesis by (auto simp: list_all_iff slug_char_def)
qed

lemma slug_plain: "slug_matches s \<Longrightarrow> plain_name s"
  using slug_chars [of s "CHR ''/''"] slug_chars [of s "CHR ''.''"]
  by (auto simp: plain_name_def slug_matches_def slug_char_def slug_start_def split: list.splits)

lemma slug_newline_accepted: "slug_matches (''party'' @ [CHR 0x0A])"
  by (simp add: slug_matches_def slug_start_def slug_char_def before_final_newline_def)

lemma event_directory_plain:
  "plain_name i \<Longrightarrow> event_directory E i = Path (p_root (events_base E)) (p_parts (events_base E) @ [i])"
  by (simp add: event_directory_def path_div_plain)

lemma plain_event_yaml_name [simp]: "plain_name ''event.yaml''"
  by (simp add: plain_name_def)

lemma event_yaml_plain:
  "plain_name i \<Longrightarrow>
     event_yaml E i = Path (p_root (events_base E)) (p_parts (events_base E) @ [i, ''event.yaml''])"
  by (simp add: event_yaml_def event_directory_plain path_div_plain)

lemma under_event_directory:
  "plain_name i \<Longrightarrow> under (event_directory E i) (Path (p_root (events_base E)) (p_parts (events_base E) @ j # r)) \<longleftrightarrow> i = j"
  by (auto simp: under_def event_directory_plain)

lemma event_yaml_inject: "plain_name i \<Longrightarrow> plain_name j \<Longrightarrow> event_yaml E i = event_yaml E j \<longleftrightarrow> i = j"
  by (simp add: event_yaml_plain)

lemma under_self [simp]: "under d d"
  by (simp add: under_def)

lemma load_event_eq:
  "load_event F parse (events_base E) i = bind_res (read_file F (event_yaml E i)) parse"
  by (simp add: load_event_def event_yaml_def event_directory_def bind_res_def Let_def split: sum.splits)

subsection \<open>Effects of the steps\<close>

lemma on_files_returns:
  "on_files m s = (Inr x, s') \<longleftrightarrow> (\<exists>f. m (aa_fs s) = (Inr x, f) \<and> s' = s\<lparr>aa_fs := f\<rparr>)"
  by (auto simp: on_files_def split: prod.splits)

lemma read_event_apply [simp]:
  "read_event E i s = (load_event (aa_fs s) (ae_parse_event E) (events_base E) i, s)"
  by (simp add: read_event_def)

lemma http_apply [simp]: "http c d s = (Inl (HTTPException c d), s)"
  by (simp add: http_def)

lemma read_written:
  assumes "write_file p d f = (Inr (), f')"
  shows "read_file f' p = Inr d"
  using write_file_cases [OF assms] by (auto simp: read_file_def)

lemma read_event_frame:
  "fs_files f' (event_yaml E i) = fs_files f (event_yaml E i) \<Longrightarrow> fs_faults f' = fs_faults f \<Longrightarrow>
     load_event f' parse (events_base E) i = load_event f parse (events_base E) i"
  by (simp add: load_event_eq read_file_def cong: option.case_cong if_cong)

lemma save_event_returns:
  assumes "save_event E i event s = (Inr u, s')"
  obtains f where "s' = s\<lparr>aa_fs := f\<rparr>"
    "f = (aa_fs s)\<lparr>fs_files := (fs_files (aa_fs s))(event_yaml E i \<mapsto> ae_dump_event E event)\<rparr>"
    "read_file f (event_yaml E i) = Inr (ae_dump_event E event)"
  using assms write_file_cases [of "event_yaml E i" "ae_dump_event E event" "aa_fs s"] read_written
  by (auto simp: save_event_def on_files_returns)

lemma get_saved_event:
  assumes "save_event E i event s = (Inr u, s')" and "ae_parse_event E (ae_dump_event E event) = Inr event"
  shows "get_event E i s' = (Inr event, s')"
  using assms(1)
proof (cases rule: save_event_returns)
  case (1 f)
  then have "load_event (aa_fs s') (ae_parse_event E) (events_base E) i = Inr event"
    using assms(2) by (simp add: load_event_eq)
  then show ?thesis by (simp add: get_event_def try_except_def)
qed

lemma get_event_missing:
  "fs_files (aa_fs s) (event_yaml E i) = None \<Longrightarrow>
     get_event E i s = (Inl (HTTPException 404 ''event not found''), s)"
  by (simp add: get_event_def try_except_def load_event_eq read_file_def not_found_as_def)

subsection \<open>Properties\<close>

text \<open>
  C28: an event the wizard creates reads back as it was returned, under the id asked for; its id is
  a lower-case slug (Python's \<open>$\<close> lets one newline follow), so its directory is a direct child of
  the events directory; no other file, no row and not the active event changes.
\<close>

theorem create_event_confined:
  assumes "create_event E body s = (Inr event, s')"
    and "ae_parse_event E (ae_dump_event E event) = Inr event"
  shows "get_event E (ce_id body) s' = (Inr event, s') \<and> e_id event = ce_id body \<and>
    e_title event = ce_title body \<and>
    list_all slug_char (before_final_newline (ce_id body)) \<and>
    path_parent (event_directory E (ce_id body)) = events_base E \<and>
    \<not> path_exists (aa_fs s) (event_directory E (ce_id body)) \<and>
    s' = s\<lparr>aa_fs := aa_fs s'\<rparr> \<and>
    fs_files (aa_fs s') = (fs_files (aa_fs s))(event_yaml E (ce_id body) \<mapsto> ae_dump_event E event)"
proof -
  let ?i = "ce_id body"
  have slug: "slug_matches ?i"
    using assms(1) by (auto simp: create_event_def validate_slug_def andthen_def bindE_def split: if_splits)
  obtain preset f where new: "\<not> path_exists (aa_fs s) (event_directory E ?i)"
    and ev: "event = event_of_preset body preset"
    and mk: "mkdir_parents (event_directory E ?i) (aa_fs s) = (Inr (), f)"
    and save: "save_event E ?i event (s\<lparr>aa_fs := f\<rparr>) = (Inr (), s')"
    using assms(1) slug
    by (auto simp: create_event_def validate_slug_def bindE_returns_iff andthen_def on_files_returns Let_def
        split: if_splits)
  from save obtain f2 where f2: "s' = s\<lparr>aa_fs := f2\<rparr>"
    "f2 = f\<lparr>fs_files := (fs_files f)(event_yaml E ?i \<mapsto> ae_dump_event E event)\<rparr>"
    by (auto elim: save_event_returns)
  have files: "fs_files f = fs_files (aa_fs s)" using mkdir_parents_cases [OF mk] by auto
  have "list_all slug_char (before_final_newline ?i)"
    using slug
    by (auto simp: slug_matches_def before_final_newline_def slug_char_def split: list.splits if_splits)
  moreover have "path_parent (event_directory E ?i) = events_base E"
    by (simp add: event_directory_def path_parent_div_plain slug_plain [OF slug])
  ultimately show ?thesis
    using get_saved_event [OF save assms(2)] new f2 files
    by (auto simp: ev event_of_preset_def new_event_config_def Let_def)
qed


text \<open>A file of an event's directory.\<close>

definition in_event_dir :: "admin_env \<Rightarrow> string \<Rightarrow> string list \<Rightarrow> path" where
  "in_event_dir E event_id rel =
     (let d = event_directory E event_id in Path (p_root d) (p_parts d @ rel))"

lemma event_yaml_file: "plain_name i \<Longrightarrow> event_yaml E i = in_event_dir E i [''event.yaml'']"
  by (simp add: in_event_dir_def event_yaml_plain event_directory_plain)

lemma path_div_in_event_dir:
  "plain_name n \<Longrightarrow> path_div (event_directory E i) n = in_event_dir E i [n]"
  by (simp add: in_event_dir_def path_div_plain Let_def)

lemma under_in_event_dir [simp]: "under (event_directory E i) (in_event_dir E i rel)"
  by (simp add: under_def in_event_dir_def Let_def)

lemma rebase_in_event_dir [simp]:
  "rebase (event_directory E i) (event_directory E j) (in_event_dir E i rel) = in_event_dir E j rel"
  by (simp add: rebase_def in_event_dir_def Let_def)

lemma in_event_dir_inject [simp]: "in_event_dir E i rel = in_event_dir E i rel' \<longleftrightarrow> rel = rel'"
  by (simp add: in_event_dir_def Let_def)

lemma not_under_in_event_dir:
  "plain_name i \<Longrightarrow> plain_name j \<Longrightarrow> i \<noteq> j \<Longrightarrow> \<not> under (event_directory E i) (in_event_dir E j rel)"
  by (simp add: in_event_dir_def Let_def event_directory_plain under_def)

text \<open>
  a copied event has the title asked for under its new id, everything else of the
  configuration and every other file of the original (its pictures) with the same contents; the
  original and all files elsewhere are untouched.
\<close>

theorem duplicate_event_copies:
  assumes "plain_name event_id" and "duplicate_event E event_id new_id new_title s = (Inr event, s')"
    and "ae_parse_event E (ae_dump_event E event) = Inr event"
  shows "\<exists>source. fst (get_event E event_id s) = Inr source \<and>
    event = source\<lparr>e_id := new_id, e_title := new_title\<rparr> \<and>
    get_event E new_id s' = (Inr event, s') \<and>
    (\<forall>rel. rel \<noteq> [''event.yaml''] \<longrightarrow>
       fs_files (aa_fs s') (in_event_dir E new_id rel) = fs_files (aa_fs s) (in_event_dir E event_id rel)) \<and>
    (\<forall>p. \<not> under (event_directory E new_id) p \<longrightarrow> fs_files (aa_fs s') p = fs_files (aa_fs s) p) \<and>
    s' = s\<lparr>aa_fs := aa_fs s'\<rparr>"
proof -
  let ?src = "event_directory E event_id" and ?dst = "event_directory E new_id"
  obtain source f where slug: "slug_matches new_id"
    and there: "is_dir (aa_fs s) ?src" and new: "\<not> path_exists (aa_fs s) ?dst"
    and copy: "copytree ?src ?dst (aa_fs s) = (Inr (), f)"
    and load: "load_event f (ae_parse_event E) (events_base E) event_id = Inr source"
    and ev: "event = source\<lparr>e_id := new_id, e_title := new_title\<rparr>"
    and save: "save_event E new_id event (s\<lparr>aa_fs := f\<rparr>) = (Inr (), s')"
    using assms(2)
    by (auto simp: duplicate_event_def validate_slug_def bindE_returns_iff andthen_def on_files_returns Let_def
        split: if_splits)
  have plain: "plain_name new_id" by (rule slug_plain [OF slug])
  have ne: "event_id \<noteq> new_id" using there new by (auto simp: path_exists_def)
  from copy have files: "fs_files f = (\<lambda>p. if under ?dst p then fs_files (aa_fs s) (rebase ?dst ?src p)
      else fs_files (aa_fs s) p)" and faults: "fs_faults f = fs_faults (aa_fs s)"
    by (auto simp: copytree_def split: if_splits)
  from save obtain f2 where f2: "s' = s\<lparr>aa_fs := f2\<rparr>"
    "f2 = f\<lparr>fs_files := (fs_files f)(event_yaml E new_id \<mapsto> ae_dump_event E event)\<rparr>"
    by (auto elim: save_event_returns)
  have "load_event (aa_fs s) (ae_parse_event E) (events_base E) event_id = Inr source"
    using load read_event_frame [OF _ faults, of E event_id "ae_parse_event E"]
      not_under_in_event_dir [OF plain assms(1)] ne
    by (simp add: files event_yaml_file [OF assms(1)])
  then have "fst (get_event E event_id s) = Inr source" by (simp add: get_event_def try_except_def)
  moreover have "fs_files (aa_fs s') (in_event_dir E new_id rel) = fs_files (aa_fs s) (in_event_dir E event_id rel)"
    if "rel \<noteq> [''event.yaml'']" for rel
    using that by (simp add: f2 files event_yaml_file [OF plain])
  moreover have "fs_files (aa_fs s') p = fs_files (aa_fs s) p" if "\<not> under ?dst p" for p
    using that by (auto simp: f2 files event_yaml_file [OF plain])
  ultimately show ?thesis
    using ev get_saved_event [OF save assms(3)] f2 by auto
qed

lemma upload_event_image_returns:
  assumes "upload_event_image E i kind filename content s = (Inr updated, s')"
  obtains event f f2 suffix where "load_event (aa_fs s) (ae_parse_event E) (events_base E) i = Inr event"
    "suffix \<in> set ALLOWED_IMAGE_EXTENSIONS" "length content \<le> MAX_UPLOAD_BYTES"
    "updated = set_image_field kind (kind_str kind @ suffix) event"
    "f = aa_fs s \<or> f = snd (unlink_file (path_div (event_directory E i) (image_field kind event)) (aa_fs s))"
    "write_file (path_div (event_directory E i) (kind_str kind @ suffix)) content f = (Inr (), f2)"
    "save_event E i updated (s\<lparr>aa_fs := f2\<rparr>) = (Inr (), s')"
proof -
  let ?suffix = "map lower_char (path_suffix (to_path (case filename of None \<Rightarrow> '''' | Some n \<Rightarrow> n)))"
  let ?d = "event_directory E i"
  from assms obtain event s1 where load: "load_event (aa_fs s) (ae_parse_event E) (events_base E) i = Inr event"
    and suffix: "?suffix \<in> set ALLOWED_IMAGE_EXTENSIONS" and len: "length content \<le> MAX_UPLOAD_BYTES"
    and upd: "updated = set_image_field kind (kind_str kind @ ?suffix) event"
    and del: "drop_old_image E i (image_field kind event) (kind_str kind @ ?suffix) s = (Inr (), s1)"
    and rest: "andthen (on_files (write_file (path_div ?d (kind_str kind @ ?suffix)) content))
        (save_event E i updated) s1 = (Inr (), s')"
    by (auto simp: upload_event_image_def bindE_returns_iff andthen_def Let_def split: if_splits)
  have "s1 = s\<lparr>aa_fs := aa_fs s1\<rparr> \<and> (aa_fs s1 = aa_fs s \<or>
      aa_fs s1 = snd (unlink_file (path_div ?d (image_field kind event)) (aa_fs s)))"
    using del
    by (auto simp: drop_old_image_def suppress_OSError_def try_except_def on_files_def
        split: if_splits prod.splits sum.splits)
  then show thesis
    using that [OF load suffix len upd, of "aa_fs s1"] rest
    by (auto simp: andthen_def bindE_returns_iff on_files_returns)
qed

lemma image_name_plain:
  "suffix \<in> set ALLOWED_IMAGE_EXTENSIONS \<Longrightarrow>
     plain_name (kind_str kind @ suffix) \<and> kind_str kind @ suffix \<noteq> ''event.yaml''"
  by (cases kind) (auto simp: ALLOWED_IMAGE_EXTENSIONS_def plain_name_def)

text \<open>
  C40: an uploaded background or logo is what the guests' gallery of that event then serves, byte
  for byte, at most 15 MiB of it and under one of the allowed file types.
\<close>

theorem uploaded_image_is_served:
  assumes "plain_name event_id" and "upload_event_image E event_id kind filename content s = (Inr updated, s')"
    and "ae_parse_event E (ae_dump_event E updated) = Inr updated" and "e_gallery_enabled updated"
  shows "\<exists>suffix \<in> set ALLOWED_IMAGE_EXTENSIONS.
    (case kind of Background \<Rightarrow> get_gallery_background | Logo \<Rightarrow> get_gallery_logo)
       (aa_fs s') (ae_parse_event E) guess (events_base E) event_id =
      Inr (FileResponse (in_event_dir E event_id [kind_str kind @ suffix])
        (guess (path_str (in_event_dir E event_id [kind_str kind @ suffix])))) \<and>
    fs_files (aa_fs s') (in_event_dir E event_id [kind_str kind @ suffix]) = Some content \<and>
    length content \<le> 15 * 1024 * 1024"
  using assms(2)
proof (cases rule: upload_event_image_returns)
  case (1 event f f2 suffix)
  let ?name = "kind_str kind @ suffix"
  have name: "plain_name ?name" "?name \<noteq> ''event.yaml''" "?name \<noteq> ''''"
    using image_name_plain [OF 1(2)] by (auto simp: plain_name_def)
  have field: "image_field kind updated = ?name" by (cases kind) (simp_all add: 1(4))
  have f2: "fs_files f2 (in_event_dir E event_id [?name]) = Some content"
    using write_file_cases [OF 1(6)] by (auto simp: path_div_in_event_dir [OF name(1)])
  from 1(7) obtain f3 where f3: "aa_fs s' = f3"
    "f3 = f2\<lparr>fs_files := (fs_files f2)(event_yaml E event_id \<mapsto> ae_dump_event E updated)\<rparr>"
    "read_file f3 (event_yaml E event_id) = Inr (ae_dump_event E updated)"
    by (auto elim!: save_event_returns)
  have there: "fs_files f3 (in_event_dir E event_id [?name]) = Some content"
    using f2 name(2) by (simp add: f3(2) event_yaml_file [OF assms(1)])
  have load: "load_gallery_event f3 (ae_parse_event E) (events_base E) event_id = Inr updated"
    using f3(3) assms(3,4) by (simp add: load_gallery_event_def load_event_eq)
  have path: "path_div (path_div (events_base E) event_id) ?name = in_event_dir E event_id [?name]"
    using path_div_in_event_dir [OF name(1)] by (simp add: event_directory_def)
  have "(case kind of Background \<Rightarrow> get_gallery_background | Logo \<Rightarrow> get_gallery_logo)
       (aa_fs s') (ae_parse_event E) guess (events_base E) event_id =
      Inr (FileResponse (in_event_dir E event_id [?name]) (guess (path_str (in_event_dir E event_id [?name]))))"
    using load field name(3) there path
    by (cases kind) (simp_all add: f3(1) get_gallery_background_def get_gallery_logo_def
        serve_event_image_def is_file_def Let_def)
  then show ?thesis using 1(2,3) there f3(1) by (auto simp: MAX_UPLOAD_BYTES_def)
qed

text \<open>
  activating an event that loads switches the running app to it and rewrites the configuration
  file with exactly that entry changed, so that the choice survives a restart.
\<close>

theorem activate_event_persists:
  assumes "activate_event E event_id s = (Inr answer, s')"
  shows "\<exists>body event kvs events.
    fst (get_event E event_id s) = Inr event \<and> aa_active_event_id s' = event_id \<and>
    read_file (aa_fs s) (ae_config_path E) = Inr body \<and> ae_safe_load E body = Inr (JObj kvs) \<and>
    (map_of kvs ''events'' = Some (JObj events) \<or> map_of kvs ''events'' = None \<and> events = []) \<and>
    (\<exists>kvs' events'. map_of events' = (map_of events)(''active_event_id'' \<mapsto> JStr event_id) \<and>
       map_of kvs' = (map_of kvs)(''events'' \<mapsto> JObj events') \<and>
       fs_files (aa_fs s') = (fs_files (aa_fs s))(ae_config_path E \<mapsto> ae_safe_dump E (JObj kvs'))) \<and>
    aa_db s' = aa_db s"
proof -
  obtain event body data data' f where
    ev: "load_event (aa_fs s) (ae_parse_event E) (events_base E) event_id = Inr event"
    and body: "read_file (aa_fs s) (ae_config_path E) = Inr body" and data: "ae_safe_load E body = Inr data"
    and upd: "set_active_in_config event_id data = Inr data'"
    and w: "write_file (ae_config_path E) (ae_safe_dump E data') (aa_fs s) = (Inr (), f)"
    and s': "s' = s\<lparr>aa_active_event_id := event_id, aa_fs := f\<rparr>"
    using assms
    by (auto simp: activate_event_def bindE_returns_iff andthen_def on_files_returns try_except_def
        not_found_as_def raise_def split: prod.splits sum.splits exn.splits)
  from upd obtain kvs events events' kvs' where kvs: "data = JObj kvs" "data' = JObj kvs'"
    "map_of kvs ''events'' = Some (JObj events) \<or> map_of kvs ''events'' = None \<and> events = []"
    "map_of events' = (map_of events)(''active_event_id'' \<mapsto> JStr event_id)"
    "map_of kvs' = (map_of kvs)(''events'' \<mapsto> JObj events')"
  proof (cases data)
    case (JObj kvs)
    show thesis
    proof (cases "map_of kvs ''events''")
      case None
      with upd JObj show thesis
        by (intro that [of kvs "kvs @ [(''events'', JObj [(''active_event_id'', JStr event_id)])]" "[]"
              "[(''active_event_id'', JStr event_id)]"])
          (auto simp: set_active_in_config_def map_add_def fun_eq_iff split: option.splits)
    next
      case (Some v)
      with upd JObj obtain events where v: "v = JObj events"
        by (auto simp: set_active_in_config_def split: json.splits)
      with upd JObj Some show thesis
        by (intro that [of kvs "AList.update ''events'' (JObj (AList.update ''active_event_id'' (JStr event_id) events)) kvs"
              events "AList.update ''active_event_id'' (JStr event_id) events"])
          (auto simp: set_active_in_config_def update_conv')
    qed
  qed (auto simp: set_active_in_config_def)
  have "fs_files f = (fs_files (aa_fs s))(ae_config_path E \<mapsto> ae_safe_dump E (JObj kvs'))"
    using write_file_cases [OF w] kvs(2) by auto
  then show ?thesis
    using ev body data kvs by (auto simp: s' get_event_def try_except_def)
qed

text \<open>A YAML syntax error in one event's file takes the whole list down: only \<open>OSError\<close> and \<open>ValueError\<close> are caught.\<close>

lemma list_events_broken_yaml:
  assumes "is_dir (aa_fs s) (events_base E)" and "is_dir (aa_fs s) (event_directory E i)"
    and "is_file (aa_fs s) (event_yaml E i)"
    and "load_event (aa_fs s) (ae_parse_event E) (events_base E) i = Inl (YAMLError m)"
  shows "list_events E [i] s = (Inl (YAMLError m), s)"
  using assms by (simp add: list_events_def)

text \<open>
  The id ``.'' names the events directory itself and is not the active event's: deleting it deletes
  every event, the active one included.
\<close>

lemma delete_dot_deletes_all:
  assumes "is_dir (aa_fs s) (events_base E)" and "\<not> fs_faults (aa_fs s) (events_base E)"
    and "aa_active_event_id s \<noteq> ''.''" and "plain_name i"
  shows "\<exists>s'. delete_event E ''.'' s = (Inr (JObj [(''ok'', JBool True)]), s') \<and>
    get_event E i s' = (Inl (HTTPException 404 ''event not found''), s')"
proof -
  have dot: "event_directory E ''.'' = events_base E"
    by (simp add: event_directory_def path_div_def to_path_def starts_with_def)
  let ?f = "snd (rmtree (events_base E) (aa_fs s))"
  have "delete_event E ''.'' s = (Inr (JObj [(''ok'', JBool True)]), s\<lparr>aa_fs := ?f\<rparr>)"
    using assms(1-3) by (auto simp: delete_event_def dot andthen_def bindE_def on_files_def rmtree_def)
  moreover have "fs_files ?f (event_yaml E i) = None"
    using assms(1,2) by (simp add: rmtree_def event_yaml_plain [OF assms(4)] under_def)
  ultimately show ?thesis by (auto intro!: get_event_missing)
qed

subsection \<open>An example\<close>

definition gala :: event_config where
  "gala = (new_event_config ''gala'' ''Gala'' ''single.yaml'')\<lparr>e_background_image := ''background.png''\<rparr>"

definition gala_copy :: event_config where
  "gala_copy = gala\<lparr>e_id := ''gala-2'', e_title := ''Gala again''\<rparr>"

definition gala_jpg :: event_config where
  "gala_jpg = gala\<lparr>e_background_image := ''background.jpg''\<rparr>"

definition party_request :: create_event_request where
  "party_request = \<lparr>ce_id = ''party'', ce_title = ''Party'', ce_date = '''', ce_based_on = Some ''birthday''\<rparr>"

definition party :: event_config where
  "party = event_of_preset party_request (get_preset ''birthday'')"

definition demo_admin :: admin_env where
  "demo_admin =
     \<lparr>ae_settings = minimal_settings Dev ''http://127.0.0.1:1984'' ''token'',
      ae_config_path = to_path ''config/dev.yaml'',
      ae_parse_event = (\<lambda>d. if d = [1] then Inr gala else if d = [2] then Inr gala_copy
                           else if d = [3] then Inr party else if d = [4] then Inr gala_jpg
                           else Inl (YAMLError ''syntax'')),
      ae_dump_event = (\<lambda>e. if e_id e = ''gala-2'' then [2] else if e_id e = ''party'' then [3] else [4]),
      ae_parse_template = (\<lambda>_. Inl (ValidationError '''')),
      ae_safe_load = (\<lambda>d. if d = [9] then Inr (JObj [(''profile'', JStr ''dev''),
                        (''events'', JObj [(''active_event_id'', JStr ''dev'')])]) else Inl (YAMLError ''syntax'')),
      ae_safe_dump = (\<lambda>_. [8])\<rparr>"

definition demo_app :: admin_app where
  "demo_app =
     \<lparr>aa_db = empty_db,
      aa_fs = \<lparr>fs_files = [to_path ''events/gala/event.yaml'' \<mapsto> [1], to_path ''events/gala/background.png'' \<mapsto> [7],
                          to_path ''config/dev.yaml'' \<mapsto> [9]],
               fs_dirs = {to_path ''events'', to_path ''events/gala'', to_path ''config''},
               fs_faults = (\<lambda>_. False)\<rparr>,
      aa_active_event_id = ''dev''\<rparr>"

lemma demo_events [simp]:
  "ae_parse_event demo_admin (ae_dump_event demo_admin party) = Inr party"
  "ae_parse_event demo_admin (ae_dump_event demo_admin gala_copy) = Inr gala_copy"
  "ae_parse_event demo_admin (ae_dump_event demo_admin gala_jpg) = Inr gala_jpg"
  by (simp_all add: demo_admin_def party_def gala_copy_def gala_jpg_def gala_def event_of_preset_def
      new_event_config_def party_request_def Let_def)

lemma demo_paths [simp]:
  "events_base demo_admin = Path '''' [''events'']" "ae_config_path demo_admin = Path '''' [''config'', ''dev.yaml'']"
  by (code_simp, code_simp)

lemma demo_files [simp]:
  "fs_files (aa_fs demo_app) =
     [Path '''' [''events'', ''gala'', ''event.yaml''] \<mapsto> [1], Path '''' [''events'', ''gala'', ''background.png''] \<mapsto> [7],
      Path '''' [''config'', ''dev.yaml''] \<mapsto> [9]]"
  "fs_dirs (aa_fs demo_app) = {Path '''' [''events''], Path '''' [''events'', ''gala''], Path '''' [''config'']}"
  "fs_faults (aa_fs demo_app) = (\<lambda>_. False)" "aa_active_event_id demo_app = ''dev''" "aa_db demo_app = empty_db"
proof -
  have p: "to_path ''events/gala/event.yaml'' = Path '''' [''events'', ''gala'', ''event.yaml'']"
    "to_path ''events/gala/background.png'' = Path '''' [''events'', ''gala'', ''background.png'']"
    "to_path ''config/dev.yaml'' = Path '''' [''config'', ''dev.yaml'']" "to_path ''events'' = Path '''' [''events'']"
    "to_path ''events/gala'' = Path '''' [''events'', ''gala'']" "to_path ''config'' = Path '''' [''config'']"
    by (code_simp, code_simp, code_simp, code_simp, code_simp, code_simp)
  show "fs_files (aa_fs demo_app) =
     [Path '''' [''events'', ''gala'', ''event.yaml''] \<mapsto> [1], Path '''' [''events'', ''gala'', ''background.png''] \<mapsto> [7],
      Path '''' [''config'', ''dev.yaml''] \<mapsto> [9]]"
  "fs_dirs (aa_fs demo_app) = {Path '''' [''events''], Path '''' [''events'', ''gala''], Path '''' [''config'']}"
  "fs_faults (aa_fs demo_app) = (\<lambda>_. False)" "aa_active_event_id demo_app = ''dev''" "aa_db demo_app = empty_db"
    by (simp_all add: demo_app_def p)
qed

lemma plain_names [simp]: "plain_name ''gala''" "plain_name ''gala-2''" "plain_name ''party''"
  by (simp_all add: plain_name_def)

lemma demo_admin_read: "read_file (aa_fs demo_app) (event_yaml demo_admin ''gala'') = Inr [1]"
  by (simp add: read_file_def event_yaml_plain)

lemma demo_admin_load:
  "fs_files f (event_yaml demo_admin ''gala'') = Some [1] \<Longrightarrow> fs_faults f = (\<lambda>_. False) \<Longrightarrow>
     load_event f (ae_parse_event demo_admin) (events_base demo_admin) ''gala'' = Inr gala"
  unfolding load_event_eq by (simp add: read_file_def demo_admin_def del: demo_paths)

lemma demo_gala: "fs_files (aa_fs demo_app) (event_yaml demo_admin ''gala'') = Some [1]"
  by (simp add: event_yaml_plain)

lemmas demo_admin_load_gala = demo_admin_load [OF demo_gala demo_files(3)]

lemma demo_delete: "fst (delete_event demo_admin ''gala'' demo_app) = Inr (JObj [(''ok'', JBool True)])"
  by (simp add: delete_event_def event_directory_plain is_dir_def andthen_def bindE_def on_files_def rmtree_def)

lemma demo_activate:
  "fst (activate_event demo_admin ''gala'' demo_app) = Inr (JObj [(''active_event_id'', JStr ''gala'')])"
proof -
  have "ae_safe_load demo_admin [9] = Inr (JObj [(''profile'', JStr ''dev''),
      (''events'', JObj [(''active_event_id'', JStr ''dev'')])])" by (simp add: demo_admin_def)
  then show ?thesis
    using demo_admin_load_gala
    by (simp add: activate_event_def andthen_def bindE_def try_except_def read_file_def on_files_def
        write_file_def is_dir_def path_parent_def set_active_in_config_def)
qed

lemma ancestors_two: "path_ancestors (Path r [a, b]) = {Path r [], Path r [a], Path r [a, b]}"
proof -
  have "{0..length [a, b]} = {0, 1, 2}" by auto
  then show ?thesis by (simp add: path_ancestors_def insert_commute)
qed

lemma demo_create: "fst (create_event demo_admin party_request demo_app) = Inr party"
proof -
  have "\<exists>p. get_preset ''birthday'' = Some p" by (simp add: get_preset_def EVENT_TEMPLATE_PRESETS_def)
  then obtain p where "get_preset ''birthday'' = Some p" by blast
  then show ?thesis
    by (simp add: create_event_def party_request_def validate_slug_def slug_matches_def slug_start_def slug_char_def
      before_final_newline_def andthen_def bindE_def event_directory_plain path_exists_def is_file_def is_dir_def
      Let_def party_def on_files_def mkdir_parents_def ancestors_two save_event_def write_file_def
      event_yaml_plain path_parent_def)
qed

lemma demo_duplicate:
  "fst (duplicate_event demo_admin ''gala'' ''gala-2'' ''Gala again'' demo_app) = Inr gala_copy"
proof -
  have l: "load_event f (ae_parse_event demo_admin) (events_base demo_admin) ''gala'' = Inr gala"
    if "fs_files f (Path '''' [''events'', ''gala'', ''event.yaml'']) = Some [1]" "fs_faults f = (\<lambda>_. False)" for f
    using demo_admin_load [of f] that by (simp add: event_yaml_plain)
  then show ?thesis
    by (simp add: duplicate_event_def validate_slug_def slug_matches_def slug_start_def slug_char_def
      before_final_newline_def andthen_def bindE_def event_directory_plain path_exists_def is_file_def is_dir_def
      Let_def on_files_def copytree_def under_def rebase_def ancestors_two save_event_def write_file_def
      event_yaml_plain path_parent_def gala_copy_def)
qed

lemma demo_upload:
  "fst (upload_event_image demo_admin ''gala'' Background (Some ''IMG.JPG'') [5, 6] demo_app) = Inr gala_jpg"
proof -
  have l: "load_event (aa_fs demo_app) (ae_parse_event demo_admin) (Path '''' [''events'']) ''gala'' = Inr gala"
    using demo_admin_load_gala by simp
  have suffix: "map lower_char (path_suffix (to_path ''IMG.JPG'')) = ''.jpg''" by code_simp
  have old: "e_background_image gala = ''background.png''" by (simp add: gala_def)
  have names: "plain_name ''background.png''" "plain_name ''background.jpg''" by (simp_all add: plain_name_def)
  have allowed: "''.jpg'' \<in> set ALLOWED_IMAGE_EXTENSIONS" by (simp add: ALLOWED_IMAGE_EXTENSIONS_def)
  have "drop_old_image demo_admin ''gala'' ''background.png'' ''background.jpg'' demo_app =
      (Inr (), demo_app\<lparr>aa_fs := snd (unlink_file (Path '''' [''events'', ''gala'', ''background.png'']) (aa_fs demo_app))\<rparr>)"
    by (simp add: drop_old_image_def suppress_OSError_def try_except_def on_files_def event_directory_plain
        path_div_plain names unlink_file_def is_file_def)
  then show ?thesis
    by (simp add: upload_event_image_def l suffix allowed old Let_def andthen_def bindE_def MAX_UPLOAD_BYTES_def
        event_directory_plain is_dir_def on_files_def write_file_def path_div_plain names path_parent_def
        save_event_def event_yaml_plain gala_jpg_def unlink_file_def is_file_def)
qed

lemma fst_returns: "fst p = Inr x \<Longrightarrow> p = (Inr x, snd p)"
  by (metis prod.collapse)

theorem create_event_confined_witness:
  "get_event demo_admin ''party'' (snd (create_event demo_admin party_request demo_app)) =
     (Inr party, snd (create_event demo_admin party_request demo_app))"
  using create_event_confined [OF fst_returns [OF demo_create]] by (simp add: party_request_def)


theorem duplicate_event_copies_witness:
  "fs_files (aa_fs (snd (duplicate_event demo_admin ''gala'' ''gala-2'' ''Gala again'' demo_app)))
     (in_event_dir demo_admin ''gala-2'' [''background.png'']) = fs_files (aa_fs demo_app) (in_event_dir demo_admin ''gala'' [''background.png''])"
  using duplicate_event_copies [OF plain_names(1) fst_returns [OF demo_duplicate] demo_events(2)] by auto

theorem uploaded_image_is_served_witness:
  "\<exists>suffix. fs_files (aa_fs (snd (upload_event_image demo_admin ''gala'' Background (Some ''IMG.JPG'') [5, 6] demo_app)))
     (in_event_dir demo_admin ''gala'' [''background'' @ suffix]) = Some [5, 6]"
proof -
  have "e_gallery_enabled gala_jpg" by (simp add: gala_jpg_def gala_def new_event_config_def)
  from uploaded_image_is_served [OF plain_names(1) fst_returns [OF demo_upload] demo_events(3) this]
  show ?thesis by auto
qed

theorem activate_event_persists_witness:
  "aa_active_event_id (snd (activate_event demo_admin ''gala'' demo_app)) = ''gala''"
  using activate_event_persists [OF fst_returns [OF demo_activate]] by blast

end
