(* ===== verification/Delivery.thy ===== *)
theory Delivery
  imports Settings Worker_Loop
begin

text \<open>
  \<open>src/photobooth/delivery/backend.py\<close> and \<open>delivery/worker.py\<close>: the three upload targets
  and the worker that drains the upload queue.  \<open>paramiko\<close> and \<open>boto3\<close> are parameters, a
  record of the calls the code makes on them, over the state \<open>'w\<close> of the remote end; the
  calls that read a local file get its bytes.  \<open>asyncio.to_thread\<close> runs the blocking call as
  it is.
\<close>

subsection \<open>Local directory\<close>

definition local_upload :: "path \<Rightarrow> path \<Rightarrow> string \<Rightarrow> (exn, fs, string) op" where
  "local_upload output_dir local_path remote_key =
     (let dest = path_div output_dir remote_key in
      andthen (mkdir_parents (path_parent dest))
     (andthen (copy2 local_path dest) (ret (''/uploads/'' @ remote_key))))"

subsection \<open>SFTP\<close>

datatype key_class = Ed25519Key | ECDSAKey | RSAKey | DSSKey

record ('w, 't, 's, 'k) paramiko =
  pk_has_dss :: bool
  pk_from_private_key_file :: "key_class \<Rightarrow> string \<Rightarrow> (exn, 'w, 'k) op"
  pk_transport :: "string \<Rightarrow> int \<Rightarrow> (exn, 'w, 't) op"
  pk_connect_key :: "'t \<Rightarrow> string \<Rightarrow> 'k \<Rightarrow> (exn, 'w, unit) op"
  pk_connect_password :: "'t \<Rightarrow> string \<Rightarrow> string \<Rightarrow> (exn, 'w, unit) op"
  pk_auth_interactive :: "'t \<Rightarrow> string \<Rightarrow> ((string \<times> bool) list \<Rightarrow> string list) \<Rightarrow> (exn, 'w, unit) op"
  pk_from_transport :: "'t \<Rightarrow> (exn, 'w, 's option) op"
  pk_stat :: "'s \<Rightarrow> string \<Rightarrow> (exn, 'w, unit) op"
  pk_mkdir :: "'s \<Rightarrow> string \<Rightarrow> (exn, 'w, unit) op"
  pk_put :: "'s \<Rightarrow> bytes \<Rightarrow> string \<Rightarrow> (exn, 'w, unit) op"
  pk_close_sftp :: "'s \<Rightarrow> 'w \<Rightarrow> 'w"
  pk_close_transport :: "'t \<Rightarrow> 'w \<Rightarrow> 'w"

text \<open>\<open>AuthenticationException\<close> is a subclass of \<open>SSHException\<close>.\<close>

fun is_SSHException :: "exn \<Rightarrow> bool" where
  "is_SSHException (SSHException _) = True"
| "is_SSHException (AuthenticationException _) = True"
| "is_SSHException _ = False"

fun is_AuthenticationException :: "exn \<Rightarrow> bool" where
  "is_AuthenticationException (AuthenticationException _) = True"
| "is_AuthenticationException _ = False"

definition key_classes :: "bool \<Rightarrow> key_class list" where
  "key_classes has_dss = [Ed25519Key, ECDSAKey, RSAKey] @ (if has_dss then [DSSKey] else [])"

fun try_keys ::
  "('w, 't, 's, 'k) paramiko \<Rightarrow> path \<Rightarrow> exn option \<Rightarrow> key_class list \<Rightarrow> (exn, 'w, 'k) op" where
  "try_keys P path last_error [] =
     (case last_error of None \<Rightarrow> raise (AssertionError '''') | Some e \<Rightarrow> raise e)"
| "try_keys P path last_error (c # cs) =
     try_except (pk_from_private_key_file P c (path_str path))
       (\<lambda>exc. if is_SSHException exc then try_keys P path (Some exc) cs else raise exc)"

definition load_private_key :: "('w, 't, 's, 'k) paramiko \<Rightarrow> path \<Rightarrow> (exn, 'w, 'k) op" where
  "load_private_key P path = try_keys P path None (key_classes (pk_has_dss P))"

definition authenticate :: "('w, 't, 's, 'k) paramiko \<Rightarrow> 't \<Rightarrow> sftp_config \<Rightarrow> (exn, 'w, unit) op" where
  "authenticate P transport cfg =
     (case sf_private_key_path cfg of
        Some key_path \<Rightarrow>
          bindE (load_private_key P key_path) (\<lambda>pkey. pk_connect_key P transport (sf_username cfg) pkey)
      | None \<Rightarrow>
          try_except (pk_connect_password P transport (sf_username cfg) (sf_password cfg))
            (\<lambda>exc. if is_AuthenticationException exc
               then pk_auth_interactive P transport (sf_username cfg)
                      (\<lambda>prompt_list. map (\<lambda>_. sf_password cfg) prompt_list)
               else raise exc))"

definition open_sftp :: "('w, 't, 's, 'k) paramiko \<Rightarrow> sftp_config \<Rightarrow> (exn, 'w, 't \<times> 's) op" where
  "open_sftp P cfg =
     bindE (pk_transport P (sf_host cfg) (sf_port cfg)) (\<lambda>transport.
       try_except
         (andthen (authenticate P transport cfg)
           (bindE (pk_from_transport P transport) (\<lambda>sftp.
             case sftp of
               None \<Rightarrow> raise (OSError (''could not open SFTP session to '' @ sf_host cfg))
             | Some s \<Rightarrow> ret (transport, s))))
         (\<lambda>exc. andthen (modify (pk_close_transport P transport)) (raise exc)))"

fun sftp_mkdir_parts ::
  "('w, 't, 's, 'k) paramiko \<Rightarrow> 's \<Rightarrow> string \<Rightarrow> string list \<Rightarrow> (exn, 'w, unit) op" where
  "sftp_mkdir_parts P sftp path [] = ret ()"
| "sftp_mkdir_parts P sftp path (part # parts) =
     (let path' = path @ ''/'' @ part in
      andthen
        (try_except (pk_stat P sftp path')
           (\<lambda>exc. if is_OSError exc then pk_mkdir P sftp path' else raise exc))
        (sftp_mkdir_parts P sftp path' parts))"

definition sftp_makedirs :: "('w, 't, 's, 'k) paramiko \<Rightarrow> 's \<Rightarrow> string \<Rightarrow> (exn, 'w, unit) op" where
  "sftp_makedirs P sftp remote_dir =
     (if remote_dir = '''' \<or> remote_dir = ''/'' then ret ()
      else sftp_mkdir_parts P sftp '''' (split_on (CHR ''/'') (strip_char (CHR ''/'') remote_dir)))"

definition sftp_remote_path :: "sftp_config \<Rightarrow> string \<Rightarrow> string" where
  "sftp_remote_path cfg remote_key = rstrip_char (CHR ''/'') (sf_remote_path cfg) @ ''/'' @ remote_key"

text \<open>\<open>finally: sftp.close(); transport.close()\<close>.\<close>

definition close_sftp :: "('w, 't, 's, 'k) paramiko \<Rightarrow> 't \<Rightarrow> 's \<Rightarrow> 'w \<Rightarrow> 'w" where
  "close_sftp P transport sftp w = pk_close_transport P transport (pk_close_sftp P sftp w)"

text \<open>An operation of one end of an upload: the local files, or the remote service.\<close>

definition on_local :: "(exn, fs, 'a) op \<Rightarrow> (exn, fs \<times> 'w, 'a) op" where
  "on_local m = (\<lambda>(f, w). case m f of (r, f') \<Rightarrow> (r, (f', w)))"

definition on_remote :: "(exn, 'w, 'a) op \<Rightarrow> (exn, fs \<times> 'w, 'a) op" where
  "on_remote m = (\<lambda>(f, w). case m w of (r, w') \<Rightarrow> (r, (f, w')))"

text \<open>\<open>sftp.put\<close>: \<open>paramiko\<close> opens the local file first.\<close>

definition sftp_put_file ::
  "('w, 't, 's, 'k) paramiko \<Rightarrow> 's \<Rightarrow> path \<Rightarrow> string \<Rightarrow> (exn, fs \<times> 'w, unit) op" where
  "sftp_put_file P sftp local_path remote_path =
     bindE (\<lambda>(f, w). (read_file f local_path, (f, w))) (\<lambda>data.
       on_remote (pk_put P sftp data remote_path))"

definition sftp_upload_sync ::
  "('w, 't, 's, 'k) paramiko \<Rightarrow> sftp_config \<Rightarrow> path \<Rightarrow> string \<Rightarrow> (exn, fs \<times> 'w, unit) op" where
  "sftp_upload_sync P cfg local_path remote_key =
     bindE (on_remote (open_sftp P cfg)) (\<lambda>(transport, sftp).
       try_finally
         (let remote_path = sftp_remote_path cfg remote_key;
              remote_dir = rsplit_head (CHR ''/'') remote_path in
          andthen (on_remote (sftp_makedirs P sftp remote_dir))
                  (sftp_put_file P sftp local_path remote_path))
         (\<lambda>(f, w). (f, close_sftp P transport sftp w)))"

definition sftp_upload ::
  "('w, 't, 's, 'k) paramiko \<Rightarrow> sftp_config \<Rightarrow> path \<Rightarrow> string \<Rightarrow> (exn, fs \<times> 'w, string) op" where
  "sftp_upload P cfg local_path remote_key =
     andthen (sftp_upload_sync P cfg local_path remote_key)
       (ret (''sftp://'' @ sf_host cfg @ sftp_remote_path cfg remote_key))"

definition test_sftp_connection ::
  "('w, 't, 's, 'k) paramiko \<Rightarrow> sftp_config \<Rightarrow> (exn, 'w, unit) op" where
  "test_sftp_connection P cfg =
     bindE (open_sftp P cfg) (\<lambda>(transport, sftp).
       try_finally (sftp_makedirs P sftp (sf_remote_path cfg)) (close_sftp P transport sftp))"

subsection \<open>S3\<close>

record ('w, 'c) boto3 =
  bo_client :: "(string \<times> string) list \<Rightarrow> (exn, 'w, 'c) op"
  bo_upload_file :: "'c \<Rightarrow> bytes \<Rightarrow> string \<Rightarrow> string \<Rightarrow> (exn, 'w, unit) op"

definition s3_client_kwargs :: "s3_config \<Rightarrow> (string \<times> string) list" where
  "s3_client_kwargs cfg =
     filter (\<lambda>(_, v). v \<noteq> '''')
       [(''region_name'', s3_region cfg), (''endpoint_url'', s3_endpoint_url cfg),
        (''aws_access_key_id'', s3_access_key_id cfg),
        (''aws_secret_access_key'', s3_secret_access_key cfg)]"

definition s3_key :: "s3_config \<Rightarrow> string \<Rightarrow> string" where
  "s3_key cfg remote_key =
     (if s3_prefix cfg \<noteq> '''' then rstrip_char (CHR ''/'') (s3_prefix cfg) @ ''/'' @ remote_key
      else remote_key)"

definition s3_url :: "s3_config \<Rightarrow> string \<Rightarrow> string" where
  "s3_url cfg key =
     (if s3_endpoint_url cfg \<noteq> ''''
      then rstrip_char (CHR ''/'') (s3_endpoint_url cfg) @ ''/'' @ s3_bucket cfg @ ''/'' @ key
      else ''https://'' @ s3_bucket cfg @ ''.s3'' @
           (if s3_region cfg \<noteq> '''' then ''.'' @ s3_region cfg else '''') @
           ''.amazonaws.com/'' @ key)"

definition s3_upload ::
  "('w, 'c) boto3 \<Rightarrow> s3_config \<Rightarrow> path \<Rightarrow> string \<Rightarrow> (exn, fs \<times> 'w, string) op" where
  "s3_upload B cfg local_path remote_key =
     bindE (on_remote (bo_client B (s3_client_kwargs cfg))) (\<lambda>client.
     bindE (\<lambda>(f, w). (read_file f local_path, (f, w))) (\<lambda>data.
     andthen (on_remote (bo_upload_file B client data (s3_bucket cfg) (s3_key cfg remote_key)))
             (ret (s3_url cfg (s3_key cfg remote_key)))))"

subsection \<open>The backend of a profile\<close>

datatype delivery_backend =
    LocalDirBackend path
  | SftpBackend sftp_config
  | S3Backend s3_config

definition build_delivery_backend :: "delivery_config \<Rightarrow> delivery_backend" where
  "build_delivery_backend config =
     (case dc_backend config of
        Local \<Rightarrow> LocalDirBackend (dc_local_output_dir config)
      | Sftp \<Rightarrow> SftpBackend (dc_sftp config)
      | S3 \<Rightarrow> S3Backend (dc_s3 config))"

fun backend_upload ::
  "('w, 't, 's, 'k) paramiko \<Rightarrow> ('w, 'c) boto3 \<Rightarrow> delivery_backend \<Rightarrow>
     path \<Rightarrow> string \<Rightarrow> (exn, fs \<times> 'w, string) op" where
  "backend_upload P B (LocalDirBackend output_dir) p k = on_local (local_upload output_dir p k)"
| "backend_upload P B (SftpBackend cfg) p k = sftp_upload P cfg p k"
| "backend_upload P B (S3Backend cfg) p k = s3_upload B cfg p k"

subsection \<open>\<open>DeliveryWorker\<close>\<close>

definition UPLOAD_JOB_KIND :: string where
  "UPLOAD_JOB_KIND = ''upload''"

definition delivery_handle :: "(path \<Rightarrow> string \<Rightarrow> (exn, 'w, string) op) \<Rightarrow> 'w handler" where
  "delivery_handle upload job =
     bindE (lift_res (payload_get (job_payload job) ''local_path'')) (\<lambda>local_path.
     bindE (lift_res (payload_get (job_payload job) ''remote_key'')) (\<lambda>remote_key.
       case (local_path, remote_key) of
         (JStr l, JStr k) \<Rightarrow> andthen (upload (to_path l) k) (ret ())
       | _ \<Rightarrow> raise (AssertionError '''')))"

text \<open>
  The worker object: its stop event and, once started, the outcome of its task.  \<open>start\<close>
  creates the task of \<open>delivery_loop\<close>; a set stop event ends the loop before its first claim.
\<close>

record delivery_worker =
  dw_stop_event :: bool
  dw_task :: "unit res option"

definition new_delivery_worker :: delivery_worker where
  "new_delivery_worker = \<lparr>dw_stop_event = False, dw_task = None\<rparr>"

definition delivery_loop ::
  "(path \<Rightarrow> string \<Rightarrow> (exn, 'w, string) op) \<Rightarrow> delivery_worker \<Rightarrow> tick list \<Rightarrow> (exn, db \<times> 'w, unit) op" where
  "delivery_loop upload dw ts =
     run_worker UPLOAD_JOB_KIND (delivery_handle upload) (if dw_stop_event dw then [] else ts)"

definition delivery_start :: "unit res \<Rightarrow> (exn, delivery_worker, unit) op" where
  "delivery_start outcome =
     (\<lambda>dw. if dw_task dw \<noteq> None
           then (Inl (RuntimeError ''DeliveryWorker.start() called more than once''), dw)
           else (Inr (), dw\<lparr>dw_task := Some outcome\<rparr>))"

definition delivery_aclose :: "(exn, delivery_worker, unit) op" where
  "delivery_aclose =
     (\<lambda>dw. case dw_task dw of
        None \<Rightarrow> (Inr (), dw\<lparr>dw_stop_event := True\<rparr>)
      | Some (Inl e) \<Rightarrow> (Inl e, dw\<lparr>dw_stop_event := True\<rparr>)
      | Some (Inr _) \<Rightarrow> (Inr (), dw\<lparr>dw_stop_event := True, dw_task := None\<rparr>))"

subsection \<open>What a finished upload job means\<close>

definition delivered :: "('w \<Rightarrow> path \<Rightarrow> string \<Rightarrow> bool) \<Rightarrow> db \<Rightarrow> 'w \<Rightarrow> bool" where
  "delivered stored d w \<longleftrightarrow>
     (\<forall>r \<in> set (jobs d). j_kind r = UPLOAD_JOB_KIND \<and> j_status r = Done \<longrightarrow>
       (\<exists>l k. map_of (j_payload_json r) ''local_path'' = Some (JStr l) \<and>
          map_of (j_payload_json r) ''remote_key'' = Some (JStr k) \<and> stored w (to_path l) k))"

lemma deliveredD:
  "delivered stored d w \<Longrightarrow> r \<in> set (jobs d) \<Longrightarrow> j_kind r = UPLOAD_JOB_KIND \<Longrightarrow> j_status r = Done \<Longrightarrow>
     \<exists>l k. map_of (j_payload_json r) ''local_path'' = Some (JStr l) \<and>
       map_of (j_payload_json r) ''remote_key'' = Some (JStr k) \<and> stored w (to_path l) k"
  by (simp add: delivered_def)

text \<open>The rows an operation may leave: old ones, or ones that are not done.\<close>

lemma delivered_rows:
  assumes "delivered stored d w" and "\<And>p k. stored w p k \<Longrightarrow> stored w' p k"
    and "\<And>r. r \<in> set (jobs d') \<Longrightarrow> r \<in> set (jobs d) \<or> j_status r \<noteq> Done"
  shows "delivered stored d' w'"
  using assms unfolding delivered_def by metis

lemma claim_rows:
  assumes "wf_jobs d" and "claim kind now nowi d = (j, d')" and "r \<in> set (jobs d')"
  shows "r \<in> set (jobs d) \<or> j_status r = Claimed"
proof -
  have "jobs d' = jobs d \<or> (\<exists>i. d' = snd (claim_update now nowi i d))"
    using assms(1,2) by (auto simp: claim_eq split: list.splits)
  with assms(3) show ?thesis
    by (auto simp: claim_update_def Let_def set_sql_update split: if_splits)
qed

lemma fail_rows:
  "r \<in> set (jobs (snd (fail i e b now nowi d))) \<Longrightarrow> r \<in> set (jobs d) \<or> j_status r \<noteq> Done"
  by (auto simp: fail_eq set_sql_update split: option.splits if_splits)

lemma delivery_handle_ok:
  "delivery_handle upload job w = (Inr x, w') \<Longrightarrow>
     \<exists>l k u. map_of (job_payload job) ''local_path'' = Some (JStr l) \<and>
       map_of (job_payload job) ''remote_key'' = Some (JStr k) \<and> upload (to_path l) k w = (Inr u, w')"
  by (auto simp: delivery_handle_def payload_get_def bindE_returns_iff andthen_def
      split: option.splits json.splits)

lemma delivery_handle_cases:
  assumes "delivery_handle upload job w = (r, w')"
  shows "w' = w \<or> (\<exists>p k r'. upload p k w = (r', w'))"
proof (cases r)
  case (Inl e)
  with assms show ?thesis
    by (auto simp: delivery_handle_def payload_get_def bindE_raises_iff andthen_def
        split: option.splits json.splits)
next
  case (Inr x)
  with assms delivery_handle_ok [of upload job w x w'] show ?thesis by blast
qed

text \<open>The contract of an upload target: what it returned for is there, and stays there.\<close>

locale delivery_contract =
  fixes upload :: "path \<Rightarrow> string \<Rightarrow> (exn, 'w, string) op"
    and stored :: "'w \<Rightarrow> path \<Rightarrow> string \<Rightarrow> bool"
  assumes upload_stores: "upload p k w = (Inr u, w') \<Longrightarrow> stored w' p k"
    and upload_keeps: "upload p k w = (r, w') \<Longrightarrow> stored w p' k' \<Longrightarrow> stored w' p' k'"
begin

lemma handle_keeps: "delivery_handle upload job w = (r, w') \<Longrightarrow> stored w p k \<Longrightarrow> stored w' p k"
  using delivery_handle_cases upload_keeps by metis

lemma complete_delivered:
  assumes wf: "wf_jobs d" and del: "delivered stored d w"
    and c: "claim (Some UPLOAD_JOB_KIND) now now_iso d = (Some job, d1)"
    and h: "delivery_handle upload job w = (Inr x, w2)"
  shows "delivered stored (complete (job_id job) end_iso d1) w2"
proof -
  have wf1: "wf_jobs d1" using wf_claim [OF wf] c by (metis snd_conv)
  have keep: "stored w p k \<Longrightarrow> stored w2 p k" for p k using handle_keeps [OF h] .
  from claim_Some [OF wf c] obtain row where row: "job_row_of d (job_id job) = Some row"
    "job = to_job (claimed_row now now_iso row)"
    "d1 = snd (claim_update now now_iso (job_id job) d)" by metis
  from delivery_handle_ok [of upload job w x w2] h obtain l k u
    where lk: "map_of (job_payload job) ''local_path'' = Some (JStr l)"
      "map_of (job_payload job) ''remote_key'' = Some (JStr k)"
    and up: "upload (to_path l) k w = (Inr u, w2)" by blast
  show ?thesis
    unfolding delivered_def
  proof (intro ballI impI)
    fix y assume y: "y \<in> set (jobs (complete (job_id job) end_iso d1))" and fin: "j_kind y = UPLOAD_JOB_KIND \<and> j_status y = Done"
    from y obtain z where z: "z \<in> set (jobs d1)"
      "y = (if j_id z = job_id job then z\<lparr>j_status := Done, j_updated_at := end_iso\<rparr> else z)"
      by (auto simp: complete_def set_sql_update)
    show "\<exists>l k. map_of (j_payload_json y) ''local_path'' = Some (JStr l) \<and>
        map_of (j_payload_json y) ''remote_key'' = Some (JStr k) \<and> stored w2 (to_path l) k"
    proof (cases "j_id z = job_id job")
      case True
      then have "job_row_of d1 (job_id job) = Some z" using z wf1 by (simp add: job_row_of_mem)
      with row have "j_payload_json z = job_payload job"
        by (auto simp: claim_update_row to_job_def split: if_splits)
      with True z lk upload_stores [OF up] show ?thesis by auto
    next
      case False
      with z fin have yz: "y = z" "j_kind z = UPLOAD_JOB_KIND" "j_status z = Done" by auto
      with claim_rows [OF wf c z(1)] have "z \<in> set (jobs d)" by simp
      from deliveredD [OF del this yz(2,3)] keep yz(1) show ?thesis by blast
    qed
  qed
qed

lemma iteration_delivered:
  assumes wf: "wf_jobs d" and del: "delivered stored d w"
    and run: "worker_iteration UPLOAD_JOB_KIND (delivery_handle upload) t (d, w) = (r, (d', w'))"
  shows "wf_jobs d' \<and> delivered stored d' w'"
proof -
  obtain j d1 where c: "claim (Some UPLOAD_JOB_KIND) (t_now t) (t_now_iso t) d = (j, d1)" by fastforce
  have wf1: "wf_jobs d1" using wf_claim [OF wf] c by (metis snd_conv)
  have rows1: "x \<in> set (jobs d) \<or> j_status x = Claimed" if "x \<in> set (jobs d1)" for x
    using claim_rows [OF wf c that] .
  show ?thesis
  proof (cases j)
    case None
    with c claim_None_state wf have "d1 = d" by blast
    with c run wf del None show ?thesis by (auto simp: worker_iteration_def)
  next
    case (Some job)
    obtain hr w2 where h: "delivery_handle upload job w = (hr, w2)" by fastforce
    have keep: "stored w p k \<Longrightarrow> stored w2 p k" for p k using handle_keeps [OF h] .
    show ?thesis
    proof (cases hr)
      case (Inl e)
      with c Some h run have "d' = snd (fail (job_id job) (exn_str e) 5 (t_end t) (t_end_iso t) d1)"
        and "w' = w2" by (auto simp: worker_iteration_def split: prod.splits)
      moreover have "delivered stored (snd (fail (job_id job) (exn_str e) 5 (t_end t) (t_end_iso t) d1)) w2"
        using fail_rows rows1 by (intro delivered_rows [OF del keep]) fastforce+
      ultimately show ?thesis using wf1 by simp
    next
      case (Inr x)
      with c Some h run have d': "d' = complete (job_id job) (t_end_iso t) d1" and w': "w' = w2"
        by (auto simp: worker_iteration_def)
      have "delivered stored d' w2"
        using complete_delivered [OF wf del, of "t_now t" "t_now_iso t" job d1] c h Some Inr by (simp add: d')
      with w' d' wf1 show ?thesis by simp
    qed
  qed
qed

lemma run_delivered:
  "wf_jobs d \<Longrightarrow> delivered stored d w \<Longrightarrow>
     run_worker UPLOAD_JOB_KIND (delivery_handle upload) ts (d, w) = (r, (d', w')) \<Longrightarrow>
     delivered stored d' w'"
proof (induction ts arbitrary: d w)
  case Nil
  then show ?case by simp
next
  case (Cons t ts)
  obtain r1 d1 w1 where it: "worker_iteration UPLOAD_JOB_KIND (delivery_handle upload) t (d, w) = (r1, (d1, w1))"
    by (metis prod.collapse)
  from iteration_delivered [OF Cons.prems(1,2) it] have "wf_jobs d1" "delivered stored d1 w1" by simp_all
  with Cons it show ?case by (cases r1) auto
qed

end

subsection \<open>The local directory keeps the contract\<close>

definition local_stored :: "path \<Rightarrow> fs \<Rightarrow> path \<Rightarrow> string \<Rightarrow> bool" where
  "local_stored output_dir f p k = is_file f (copy_target f p (path_div output_dir k))"

lemma local_upload_cases:
  assumes "local_upload output_dir p k f = (r, f')"
  obtains (copied) f1 d where "r = Inr (''/uploads/'' @ k)"
      "mkdir_parents (path_parent (path_div output_dir k)) f = (Inr (), f1)"
      "fs_files f1 p = Some d"
      "f' = f1\<lparr>fs_files := (fs_files f1)(copy_target f1 p (path_div output_dir k) \<mapsto> d)\<rparr>"
    | (refused) e where "r = Inl e" "is_OSError e"
      "f' = f \<or> mkdir_parents (path_parent (path_div output_dir k)) f = (Inr (), f')"
proof -
  let ?dest = "path_div output_dir k"
  obtain rm f1 where m: "mkdir_parents (path_parent ?dest) f = (rm, f1)" by fastforce
  obtain rc f2 where c: "copy2 p ?dest f1 = (rc, f2)" by fastforce
  from mkdir_parents_cases [OF m] copy2_cases [OF c] assms m c show thesis
    by (elim disjE conjE exE) (auto simp: local_upload_def Let_def intro: copied refused)
qed

lemma local_upload_returns:
  assumes "local_upload output_dir p k f = (Inr u, f')"
  shows "u = ''/uploads/'' @ k \<and> local_stored output_dir f' p k \<and>
    fs_files f' (copy_target f' p (path_div output_dir k)) = fs_files f p"
  using assms
proof (cases rule: local_upload_cases)
  case (copied f1 d)
  from mkdir_parents_cases [OF copied(2)] have "fs_files f1 = fs_files f" by auto
  with copied show ?thesis
    by (auto simp: local_stored_def copy_target_def is_dir_def is_file_def)
qed simp

lemma mkdir_keeps_file:
  assumes "mkdir_parents q f = (r, f1)" and "local_stored output_dir f p k"
  shows "local_stored output_dir f1 p k"
  using mkdir_parents_cases [OF assms(1)] assms(2)
  by (auto simp: local_stored_def copy_target_def is_dir_def is_file_def split: if_splits)

lemma local_upload_keeps:
  assumes "local_upload output_dir p k f = (r, f')" and "local_stored output_dir f p' k'"
  shows "local_stored output_dir f' p' k'"
  using assms(1)
proof (cases rule: local_upload_cases)
  case (copied f1 d)
  from mkdir_keeps_file [OF copied(2) assms(2)] copied(4) show ?thesis
    by (auto simp: local_stored_def copy_target_def is_dir_def is_file_def split: if_splits)
next
  case (refused e)
  with assms(2) mkdir_keeps_file show ?thesis by blast
qed

interpretation local_dir: delivery_contract "local_upload output_dir" "local_stored output_dir"
  by unfold_locales (blast dest: local_upload_returns local_upload_keeps)+

subsection \<open>SFTP directories and connections\<close>

fun dir_prefixes :: "string \<Rightarrow> string list \<Rightarrow> string list" where
  "dir_prefixes path [] = []"
| "dir_prefixes path (part # parts) = (path @ ''/'' @ part) # dir_prefixes (path @ ''/'' @ part) parts"

text \<open>The directories on the way to a remote directory, from the root.\<close>

definition remote_dirs :: "string \<Rightarrow> string list" where
  "remote_dirs d =
     (if d = '''' \<or> d = ''/'' then []
      else dir_prefixes '''' (split_on (CHR ''/'') (strip_char (CHR ''/'') d)))"

text \<open>
  What the code relies on from an SFTP session, for the set of existing paths \<open>dirs\<close> of the
  server: \<open>stat\<close> changes nothing and returns for the existing paths only; a \<open>mkdir\<close> that
  returns made the directory; a call removes none.
\<close>

definition sftp_session_laws ::
  "('w, 't, 's, 'k) paramiko \<Rightarrow> 's \<Rightarrow> ('w \<Rightarrow> string set) \<Rightarrow> bool" where
  "sftp_session_laws P sftp dirs \<longleftrightarrow>
     (\<forall>p w r w'. pk_stat P sftp p w = (r, w') \<longrightarrow> dirs w' = dirs w \<and> (r = Inr () \<longleftrightarrow> p \<in> dirs w)) \<and>
     (\<forall>p w r w'. pk_mkdir P sftp p w = (r, w') \<longrightarrow>
        dirs w \<subseteq> dirs w' \<and> (r = Inr () \<longrightarrow> p \<in> dirs w'))"

lemma sftp_statD:
  "sftp_session_laws P sftp dirs \<Longrightarrow> pk_stat P sftp p w = (r, w') \<Longrightarrow>
     dirs w' = dirs w \<and> (r = Inr () \<longleftrightarrow> p \<in> dirs w)"
  and sftp_mkdirD:
  "sftp_session_laws P sftp dirs \<Longrightarrow> pk_mkdir P sftp p w = (r, w') \<Longrightarrow>
     dirs w \<subseteq> dirs w' \<and> (r = Inr () \<longrightarrow> p \<in> dirs w')"
  unfolding sftp_session_laws_def by blast+

lemma sftp_ensure:
  assumes laws: "sftp_session_laws P sftp dirs"
    and run: "try_except (pk_stat P sftp p)
      (\<lambda>exc. if is_OSError exc then pk_mkdir P sftp p else raise exc) w = (r, w')"
  shows "dirs w \<subseteq> dirs w' \<and> (r = Inr () \<longrightarrow> p \<in> dirs w') \<and>
    (p \<in> dirs w \<longrightarrow> r = Inr () \<and> dirs w' = dirs w)"
proof -
  obtain rs w1 where st: "pk_stat P sftp p w = (rs, w1)" by fastforce
  note s = sftp_statD [OF laws st]
  show ?thesis
  proof (cases rs)
    case (Inl e)
    with st run s show ?thesis by (auto dest: sftp_mkdirD [OF laws] split: if_splits)
  next
    case (Inr x)
    with st run s show ?thesis by auto
  qed
qed

lemma sftp_mkdir_parts_spec:
  assumes laws: "sftp_session_laws (P :: ('w, 't, 's, 'k) paramiko) sftp dirs"
  shows "sftp_mkdir_parts P sftp path parts w = (r, w') \<Longrightarrow>
     dirs w \<subseteq> dirs w' \<and> (r = Inr () \<longrightarrow> set (dir_prefixes path parts) \<subseteq> dirs w') \<and>
     (set (dir_prefixes path parts) \<subseteq> dirs w \<longrightarrow> r = Inr () \<and> dirs w' = dirs w)"
proof (induction parts arbitrary: path w)
  case Nil
  then show ?case by simp
next
  case (Cons part parts)
  define p where "p = path @ ''/'' @ part"
  let ?step = "try_except (pk_stat P sftp p)
      (\<lambda>exc. if is_OSError exc then pk_mkdir P sftp p else raise exc)"
  obtain r1 w1 where one: "?step w = (r1, w1)" by fastforce
  note e = sftp_ensure [OF laws one]
  have run: "andthen ?step (sftp_mkdir_parts P sftp p parts) w = (r, w')"
    using Cons.prems unfolding p_def sftp_mkdir_parts.simps Let_def .
  have pre: "dir_prefixes path (part # parts) = p # dir_prefixes p parts" by (simp add: p_def)
  show ?case
  proof (cases r1)
    case (Inl x)
    then have "andthen ?step n w = (Inl x, w1)" for n :: "(exn, 'w, unit) op"
      using one by (intro andthen_apply(2)) simp
    with run have "r = Inl x" "w' = w1" by simp_all
    with e Inl show ?thesis unfolding pre by auto
  next
    case (Inr x)
    then have "andthen ?step n w = n w1" for n :: "(exn, 'w, unit) op"
      using one by (intro andthen_apply(1)) simp
    with run have "sftp_mkdir_parts P sftp p parts w1 = (r, w')" by simp
    from Cons.IH [OF this] e Inr show ?thesis unfolding pre by auto
  qed
qed

lemma sftp_makedirs_spec:
  assumes "sftp_session_laws P sftp dirs" and "sftp_makedirs P sftp d w = (r, w')"
  shows "dirs w \<subseteq> dirs w' \<and> (r = Inr () \<longrightarrow> set (remote_dirs d) \<subseteq> dirs w') \<and>
    (set (remote_dirs d) \<subseteq> dirs w \<longrightarrow> r = Inr () \<and> dirs w' = dirs w)"
  using assms(2) sftp_mkdir_parts_spec [OF assms(1)]
  by (auto simp: sftp_makedirs_def remote_dirs_def split: if_splits)

text \<open>
  The connections a run leaves open: \<open>open w\<close> are the transports not yet closed.  A new
  transport is a fresh one, closing removes it, the other calls open and close none.
\<close>

definition transport_laws :: "('w, 't, 's, 'k) paramiko \<Rightarrow> ('w \<Rightarrow> 't set) \<Rightarrow> bool" where
  "transport_laws P opened \<longleftrightarrow>
     (\<forall>h n w r w'. pk_transport P h n w = (r, w') \<longrightarrow>
        (case r of Inl _ \<Rightarrow> opened w' = opened w
         | Inr t \<Rightarrow> t \<notin> opened w \<and> opened w' = insert t (opened w))) \<and>
     (\<forall>t w. opened (pk_close_transport P t w) = opened w - {t}) \<and>
     (\<forall>s w. opened (pk_close_sftp P s w) = opened w) \<and>
     (\<forall>c p. keeps opened (pk_from_private_key_file P c p)) \<and>
     (\<forall>t u k. keeps opened (pk_connect_key P t u k)) \<and>
     (\<forall>t u p. keeps opened (pk_connect_password P t u p)) \<and>
     (\<forall>t u h. keeps opened (pk_auth_interactive P t u h)) \<and>
     (\<forall>t. keeps opened (pk_from_transport P t)) \<and>
     (\<forall>s p. keeps opened (pk_stat P s p)) \<and>
     (\<forall>s p. keeps opened (pk_mkdir P s p)) \<and>
     (\<forall>s b p. keeps opened (pk_put P s b p))"

lemma transport_keeps:
  assumes "transport_laws P opened"
  shows "keeps opened (pk_from_private_key_file P c p)" "keeps opened (pk_connect_key P t u k)"
    "keeps opened (pk_connect_password P t u pw)" "keeps opened (pk_auth_interactive P t u h)"
    "keeps opened (pk_from_transport P t)" "keeps opened (pk_stat P s d)"
    "keeps opened (pk_mkdir P s d)" "keeps opened (pk_put P s b d)"
  using assms unfolding transport_laws_def by blast+

lemma transport_close:
  assumes "transport_laws P opened"
  shows "opened (pk_close_transport P t w) = opened w - {t}" "opened (pk_close_sftp P s w) = opened w"
  using assms unfolding transport_laws_def by (elim conjE; simp)+

lemma transport_open:
  assumes "transport_laws P opened" and "pk_transport P h n w = (r, w')"
  shows "r = Inl e \<Longrightarrow> opened w' = opened w"
    and "r = Inr t \<Longrightarrow> t \<notin> opened w \<and> opened w' = insert t (opened w)"
proof -
  have "case r of Inl _ \<Rightarrow> opened w' = opened w
      | Inr t \<Rightarrow> t \<notin> opened w \<and> opened w' = insert t (opened w)"
    using assms unfolding transport_laws_def by (elim conjE) blast
  then show "r = Inl e \<Longrightarrow> opened w' = opened w"
    and "r = Inr t \<Longrightarrow> t \<notin> opened w \<and> opened w' = insert t (opened w)" by auto
qed

lemma keeps_case_option:
  "keeps f a \<Longrightarrow> (\<And>x. keeps f (b x)) \<Longrightarrow> keeps f (case y of None \<Rightarrow> a | Some x \<Rightarrow> b x)"
  by (cases y) simp_all

lemma keeps_if: "keeps f a \<Longrightarrow> keeps f b \<Longrightarrow> keeps f (if c then a else b)"
  by simp

lemma keeps_try_keys: "transport_laws P opened \<Longrightarrow> keeps opened (try_keys P p e cs)"
proof (induction cs arbitrary: e)
  case Nil
  show ?case by (cases e) (simp_all add: frame_rules)
next
  case (Cons c cs)
  then show ?case unfolding try_keys.simps by (intro keeps_try_except keeps_if frame_rules transport_keeps)
qed

lemma keeps_authenticate: "transport_laws P opened \<Longrightarrow> keeps opened (authenticate P t cfg)"
  unfolding authenticate_def load_private_key_def
  by (intro keeps_case_option frame_rules keeps_if keeps_try_keys transport_keeps)

lemma keeps_makedirs: "transport_laws P opened \<Longrightarrow> keeps opened (sftp_makedirs P s d)"
proof -
  assume laws: "transport_laws P opened"
  have "keeps opened (sftp_mkdir_parts P s path parts)" for path parts
    by (induction parts arbitrary: path)
      (auto simp: Let_def intro!: frame_rules keeps_if transport_keeps [OF laws])
  then show ?thesis by (auto simp: sftp_makedirs_def intro!: frame_rules)
qed

lemma open_sftp_opened:
  assumes laws: "transport_laws P opened" and run: "open_sftp P cfg w = (r, w')"
  shows "(\<forall>e. r = Inl e \<longrightarrow> opened w' = opened w) \<and>
    (\<forall>t s. r = Inr (t, s) \<longrightarrow> t \<notin> opened w \<and> opened w' = insert t (opened w))"
proof -
  obtain rt w1 where tr: "pk_transport P (sf_host cfg) (sf_port cfg) w = (rt, w1)" by fastforce
  show ?thesis
  proof (cases rt)
    case (Inl e)
    with tr run transport_open(1) [OF laws tr] show ?thesis by (auto simp: open_sftp_def)
  next
    case (Inr t)
    note t = transport_open(2) [OF laws tr Inr]
    let ?body = "andthen (authenticate P t cfg)
        (bindE (pk_from_transport P t) (\<lambda>sftp.
          case sftp of None \<Rightarrow> raise (OSError (''could not open SFTP session to '' @ sf_host cfg))
          | Some s \<Rightarrow> ret (t, s)))"
    obtain rb w2 where b: "?body w1 = (rb, w2)" by fastforce
    have "keeps opened ?body"
      by (intro frame_rules keeps_case_option keeps_authenticate [OF laws] transport_keeps [OF laws])
    then have w2: "opened w2 = opened w1" using b by (rule keepsD)
    have fst_t: "rb = Inr (t', s) \<Longrightarrow> t' = t" for t' s
      using b by (auto simp: andthen_def bindE_returns_iff split: option.splits)
    have run': "open_sftp P cfg w = try_except ?body
        (\<lambda>exc. andthen (modify (pk_close_transport P t)) (raise exc)) w1"
      unfolding open_sftp_def
      by (rule bindE_Inr [where m = "pk_transport P (sf_host cfg) (sf_port cfg)", OF tr [unfolded Inr]])
    show ?thesis
    proof (cases rb)
      case (Inl e)
      then have "try_except ?body h w1 = h e w2" for h using b by (intro try_except_apply(2)) simp
      with run run' have "r = Inl e" "w' = pk_close_transport P t w2" by simp_all
      with t w2 show ?thesis by (simp add: transport_close [OF laws])
    next
      case (Inr x)
      then have "try_except ?body h w1 = (Inr x, w2)" for h using b by (intro try_except_apply(1)) simp
      with run run' have "r = Inr x" "w' = w2" by simp_all
      with t w2 fst_t Inr show ?thesis by (cases x) auto
    qed
  qed
qed

lemma keeps_on_remote: "keeps f m \<Longrightarrow> keeps (\<lambda>(x, w). f w) (on_remote m)"
  by (auto simp: keeps_def on_remote_def split: prod.splits) (metis snd_conv)

lemma keeps_sftp_put_file:
  "transport_laws P opened \<Longrightarrow> keeps (\<lambda>(f, w). opened w) (sftp_put_file P s p d)"
  unfolding sftp_put_file_def
  by (intro frame_rules keeps_on_remote transport_keeps) (auto simp: keeps_def)

lemma sftp_upload_opened:
  assumes laws: "transport_laws P opened" and run: "sftp_upload P cfg p k (f, w) = (r, (f', w'))"
  shows "opened w' = opened w \<and> f' = f"
proof -
  obtain ro w1 where o: "open_sftp P cfg w = (ro, w1)" by fastforce
  note op = open_sftp_opened [OF laws o]
  show ?thesis
  proof (cases ro)
    case (Inl e)
    with o run op show ?thesis
      by (auto simp: sftp_upload_def sftp_upload_sync_def on_remote_def andthen_def bindE_def)
  next
    case (Inr x)
    obtain t s where x: "x = (t, s)" by fastforce
    let ?rp = "sftp_remote_path cfg k"
    let ?body = "andthen (on_remote (sftp_makedirs P s (rsplit_head (CHR ''/'') ?rp))) (sftp_put_file P s p ?rp)"
    obtain rb f2 w2 where b: "?body (f, w1) = (rb, (f2, w2))" by (metis prod.collapse)
    have "keeps (\<lambda>(f, w). opened w) ?body"
      by (intro frame_rules keeps_on_remote keeps_makedirs keeps_sftp_put_file laws)
    then have w2: "opened w2 = opened w1" using b by (auto dest: keepsD)
    have "keeps fst ?body"
      by (intro frame_rules) (auto simp: keeps_def on_remote_def sftp_put_file_def bindE_def
          split: prod.splits sum.splits)
    then have "f2 = f" using b by (auto dest: keepsD)
    with o Inr x b run op w2 show ?thesis
      by (cases rb) (auto simp: sftp_upload_def sftp_upload_sync_def on_remote_def close_sftp_def
          transport_close [OF laws] Let_def andthen_def bindE_def try_finally_def)
  qed
qed

text \<open>A remote path without a leading slash.\<close>

lemma strip_char_slash: "strip_char c (c # s) = strip_char c s"
  by (simp add: strip_char_def lstrip_char_def)

lemma rstrip_char_Cons: "x \<noteq> c \<Longrightarrow> rstrip_char c (x # s) = x # rstrip_char c s"
proof -
  assume x: "x \<noteq> c"
  have "dropWhile (\<lambda>y. y = c) (rev s @ [x]) = dropWhile (\<lambda>y. y = c) (rev s) @ [x]"
    using x by (cases "\<exists>y \<in> set (rev s). y \<noteq> c") (auto simp: dropWhile_append)
  then show ?thesis by (simp add: rstrip_char_def)
qed

lemma dir_prefixes_root: "p \<in> set (dir_prefixes path parts) \<Longrightarrow> \<exists>q. p = path @ CHR ''/'' # q"
proof (induction parts arbitrary: path)
  case (Cons part parts)
  then show ?case by (cases "p = path @ ''/'' @ part") fastforce+
qed simp

subsection \<open>A demonstration server and booth\<close>

text \<open>A server that accepts every login; its state is its directories and its open connections.\<close>

definition demo_paramiko :: "(string list \<times> nat list, nat, nat, unit) paramiko" where
  "demo_paramiko =
     \<lparr>pk_has_dss = False, pk_from_private_key_file = (\<lambda>_ _. ret ()),
      pk_transport = (\<lambda>_ _ (ds, ts).
        if length ts \<in> set ts then (Inl (OSError ''connection refused''), (ds, ts))
        else (Inr (length ts), (ds, length ts # ts))),
      pk_connect_key = (\<lambda>_ _ _. ret ()), pk_connect_password = (\<lambda>_ _ _. ret ()),
      pk_auth_interactive = (\<lambda>_ _ _. ret ()), pk_from_transport = (\<lambda>_. ret (Some 0)),
      pk_stat = (\<lambda>_ p (ds, ts).
        (if p \<in> set ds then Inr () else Inl (FileNotFoundError p), (ds, ts))),
      pk_mkdir = (\<lambda>_ p (ds, ts). (Inr (), (p # ds, ts))), pk_put = (\<lambda>_ _ _. ret ()),
      pk_close_sftp = (\<lambda>_ w. w), pk_close_transport = (\<lambda>t (ds, ts). (ds, filter (\<lambda>u. u \<noteq> t) ts))\<rparr>"

definition demo_sftp_config :: sftp_config where
  "demo_sftp_config = default_sftp\<lparr>sf_host := ''sftp.example.com'', sf_remote_path := ''/photos/booth''\<rparr>"

lemma demo_paramiko_laws:
  "sftp_session_laws demo_paramiko s (\<lambda>w. set (fst w))"
  "transport_laws demo_paramiko (\<lambda>w. set (snd w))"
  by (auto simp: sftp_session_laws_def transport_laws_def demo_paramiko_def keeps_def
      split: if_splits)

definition upload_job :: job_row where
  "upload_job =
     new_row ''j1'' 0 ''2026-01-01T00:00:00+00:00'' ''upload''
       [(''local_path'', JStr ''out/captures/a.jpg''), (''remote_key'', JStr ''a.jpg'')] 5"

definition upload_db :: db where
  "upload_db = empty_db\<lparr>jobs := [upload_job]\<rparr>"

definition upload_fs :: fs where
  "upload_fs = \<lparr>fs_files = [to_path ''out/captures/a.jpg'' \<mapsto> [0xFF, 0xD8]], fs_dirs = {},
                fs_faults = (\<lambda>_. False)\<rparr>"

definition upload_tick :: tick where
  "upload_tick = \<lparr>t_now = 1, t_now_iso = ''2026-01-01T00:00:01+00:00'', t_end = 2,
                  t_end_iso = ''2026-01-01T00:00:02+00:00''\<rparr>"

definition upload_run :: "unit res \<times> db \<times> fs" where
  "upload_run = delivery_loop (local_upload (to_path ''out/uploads'')) new_delivery_worker
     [upload_tick] (upload_db, upload_fs)"

subsection \<open>Properties\<close>



text \<open>
  making a remote directory over SFTP is a faithful \<open>mkdir -p\<close>: when it returns, the
  directory and every directory above it exist; nothing is removed, returned or not; and when all
  of them exist already it returns and leaves the server's directories alone.
\<close>

theorem sftp_makedirs_is_mkdir_p:
  assumes "sftp_session_laws P sftp dirs" and "sftp_makedirs P sftp d w = (r, w')"
  shows "(if r = Inr () then set (remote_dirs d) \<subseteq> dirs w' else \<not> set (remote_dirs d) \<subseteq> dirs w) \<and>
    dirs w \<subseteq> dirs w' \<and> (dirs w' = dirs w \<or> \<not> set (remote_dirs d) \<subseteq> dirs w)"
  using sftp_makedirs_spec [OF assms] by auto

lemma sftp_makedirs_is_mkdir_p_witness:
  "remote_dirs ''/photos/booth'' = [''/photos'', ''/photos/booth''] \<and>
   {''/photos'', ''/photos/booth''} \<subseteq>
     set (fst (snd (sftp_makedirs demo_paramiko 0 ''/photos/booth'' ([''/photos''], []))))"
proof -
  let ?run = "sftp_makedirs demo_paramiko 0 ''/photos/booth'' ([''/photos''], [])"
  have dirs: "remote_dirs ''/photos/booth'' = [''/photos'', ''/photos/booth'']" by code_simp
  have "fst ?run = Inr ()" by code_simp
  then have "?run = (Inr (), snd ?run)" by (metis prod.collapse)
  from sftp_makedirs_is_mkdir_p [OF demo_paramiko_laws(1) this] dirs show ?thesis by simp
qed

text \<open>
  C37: an SFTP upload leaks no connection: however it ends (refused login, no session, a directory
  or the transfer failing, or success), every transport it opened is closed again, the others are
  left alone, and no local file is touched.
\<close>

theorem sftp_upload_leaks_nothing:
  assumes "transport_laws P opened"
    and "sftp_upload P cfg local_path remote_key (f, w) = (r, (f', w'))"
  shows "opened w' = opened w \<and> f' = f"
  by (rule sftp_upload_opened [OF assms])

lemma sftp_upload_leaks_nothing_witness:
  "fst (sftp_upload demo_paramiko demo_sftp_config (to_path ''out/captures/a.jpg'') ''a.jpg''
      (upload_fs, ([], [7]))) = Inr ''sftp://sftp.example.com/photos/booth/a.jpg'' \<and>
   set (snd (snd (snd (sftp_upload demo_paramiko demo_sftp_config (to_path ''out/captures/a.jpg'') ''a.jpg''
      (upload_fs, ([], [7])))))) = {7}"
proof -
  let ?run = "sftp_upload demo_paramiko demo_sftp_config (to_path ''out/captures/a.jpg'') ''a.jpg''
      (upload_fs, ([], [7]))"
  have "fst ?run = Inr ''sftp://sftp.example.com/photos/booth/a.jpg''" by code_simp
  moreover have "?run = (fst ?run, (fst (snd ?run), snd (snd ?run)))" by simp
  from sftp_upload_leaks_nothing [OF demo_paramiko_laws(2) this] have "set (snd (snd (snd ?run))) = {7}"
    by simp
  ultimately show ?thesis by simp
qed

text \<open>
  a remote path without a leading slash is read in two ways by one upload: the directories
  are made under the server's root (the same calls as for the path with a slash in front), but the
  file is put under a relative path, that is below the login directory; and the URL it returns
  runs the host name and the path together.
\<close>

theorem relative_remote_path_mismatch:
  assumes "sf_remote_path cfg = c # path" and "c \<noteq> CHR ''/''"
  shows "sftp_makedirs P sftp (sf_remote_path cfg) = sftp_makedirs P sftp (''/'' @ sf_remote_path cfg) \<and>
    filter (\<lambda>d. hd d \<noteq> CHR ''/'') (remote_dirs (sf_remote_path cfg)) = [] \<and>
    (\<exists>rest. sftp_remote_path cfg remote_key = c # rest \<and>
       fst (sftp_upload P cfg local_path remote_key s) \<in>
         insert (Inr (''sftp://'' @ sf_host cfg @ c # rest)) (range Inl))"
proof (intro conjI)
  show "sftp_makedirs P sftp (sf_remote_path cfg) = sftp_makedirs P sftp (''/'' @ sf_remote_path cfg)"
    using assms by (simp add: sftp_makedirs_def strip_char_slash)
  show "filter (\<lambda>d. hd d \<noteq> CHR ''/'') (remote_dirs (sf_remote_path cfg)) = []"
    by (auto simp: remote_dirs_def filter_empty_conv dest!: dir_prefixes_root)
  have path: "sftp_remote_path cfg remote_key = c # rstrip_char (CHR ''/'') path @ ''/'' @ remote_key"
    using assms by (simp add: sftp_remote_path_def rstrip_char_Cons)
  moreover have "fst (sftp_upload P cfg local_path remote_key s) \<in>
      insert (Inr (''sftp://'' @ sf_host cfg @ sftp_remote_path cfg remote_key)) (range Inl)"
    by (cases "sftp_upload_sync P cfg local_path remote_key s"; cases "fst (sftp_upload_sync P cfg local_path remote_key s)")
      (auto simp: sftp_upload_def)
  ultimately show "\<exists>rest. sftp_remote_path cfg remote_key = c # rest \<and>
      fst (sftp_upload P cfg local_path remote_key s) \<in>
        insert (Inr (''sftp://'' @ sf_host cfg @ c # rest)) (range Inl)" by auto
qed

lemma relative_remote_path_mismatch_witness:
  "sftp_makedirs demo_paramiko 0 ''photos'' = sftp_makedirs demo_paramiko 0 ''/photos'' \<and>
   fst (sftp_upload demo_paramiko (demo_sftp_config\<lparr>sf_remote_path := ''photos''\<rparr>)
          (to_path ''out/captures/a.jpg'') ''a.jpg'' (upload_fs, ([], []))) =
     Inr ''sftp://sftp.example.comphotos/a.jpg''"
proof -
  have "fst (sftp_upload demo_paramiko (demo_sftp_config\<lparr>sf_remote_path := ''photos''\<rparr>)
          (to_path ''out/captures/a.jpg'') ''a.jpg'' (upload_fs, ([], []))) =
     Inr ''sftp://sftp.example.comphotos/a.jpg''" by code_simp
  then show ?thesis
    using relative_remote_path_mismatch [of "demo_sftp_config\<lparr>sf_remote_path := ''photos''\<rparr>"
        "CHR ''p''" "''hotos''" demo_paramiko 0] by simp
qed

end
