(* ===== verification/Admin_Delivery.thy ===== *)
theory Admin_Delivery
  imports Admin_Events Delivery
begin

text \<open>
  \<open>src/photobooth/web/routers/admin.py\<close>, its delivery settings: the part of the configuration
  file an operator edits, the upload of the SFTP key and the connection test.  The validation of
  \<open>DeliveryConfig\<close> is a parameter; its JSON dump is written out.  \<open>chmod\<close> is left out (the
  model's files have no mode).
\<close>

subsection \<open>Dictionaries read from YAML\<close>

fun truthy :: "json \<Rightarrow> bool" where
  "truthy JNull = False"
| "truthy (JBool b) = b"
| "truthy (JNum x) = (x \<noteq> 0)"
| "truthy (JStr s) = (s \<noteq> '''')"
| "truthy (JArr xs) = (xs \<noteq> [])"
| "truthy (JObj kvs) = (kvs \<noteq> [])"

text \<open>\<open>v.get(k, default)\<close>, \<open>v or {}\<close>.\<close>

definition dict_get :: "string \<Rightarrow> json \<Rightarrow> json \<Rightarrow> json res" where
  "dict_get k dflt v =
     (case v of
        JObj kvs \<Rightarrow> Inr (case map_of kvs k of None \<Rightarrow> dflt | Some x \<Rightarrow> x)
      | _ \<Rightarrow> Inl (AttributeError ''get''))"

definition or_empty :: "json \<Rightarrow> json" where
  "or_empty v = (if truthy v then v else JObj [])"

text \<open>\<open>v[k] = x\<close>.\<close>

definition dict_set :: "string \<Rightarrow> json \<Rightarrow> json \<Rightarrow> json res" where
  "dict_set k x v =
     (case v of JObj kvs \<Rightarrow> Inr (JObj (AList.update k x kvs)) | _ \<Rightarrow> Inl (TypeError ''item assignment''))"

text \<open>\<open>v.setdefault(k, {})\<close>: the entry.\<close>

definition dict_setdefault :: "string \<Rightarrow> json \<Rightarrow> json res" where
  "dict_setdefault k v =
     (case v of
        JObj kvs \<Rightarrow> Inr (case map_of kvs k of None \<Rightarrow> JObj [] | Some x \<Rightarrow> x)
      | _ \<Rightarrow> Inl (AttributeError ''setdefault''))"

subsection \<open>Reading and redacting\<close>

definition load_config :: "admin_env \<Rightarrow> json admin_op" where
  "load_config E =
     (\<lambda>s. (bind_res (read_file (aa_fs s) (ae_config_path E)) (ae_safe_load E), s))"

definition save_config :: "admin_env \<Rightarrow> json \<Rightarrow> unit admin_op" where
  "save_config E data = on_files (write_file (ae_config_path E) (ae_safe_dump E data))"

definition delivery_of_config :: "json \<Rightarrow> json res" where
  "delivery_of_config data = map_sum id or_empty (dict_get ''delivery'' JNull data)"

definition read_delivery_config :: "admin_env \<Rightarrow> json admin_op" where
  "read_delivery_config E = bindE (load_config E) (\<lambda>data. lift_res (delivery_of_config data))"

definition redact_delivery :: "json \<Rightarrow> json res" where
  "redact_delivery delivery =
     bind_res (dict_get ''sftp'' JNull delivery) (\<lambda>v. let sftp = or_empty v in
     bind_res (dict_get ''backend'' (JStr ''local'') delivery) (\<lambda>backend.
     bind_res (dict_get ''host'' (JStr '''') sftp) (\<lambda>host.
     bind_res (dict_get ''port'' (JNum 22) sftp) (\<lambda>port.
     bind_res (dict_get ''username'' (JStr '''') sftp) (\<lambda>username.
     bind_res (dict_get ''remote_path'' (JStr '''') sftp) (\<lambda>remote_path.
     bind_res (dict_get ''password'' JNull sftp) (\<lambda>password.
     bind_res (dict_get ''private_key_path'' JNull sftp) (\<lambda>private_key_path.
     bind_res (dict_get ''public_base_url'' (JStr '''') delivery) (\<lambda>public_base_url.
       Inr (JObj
         [(''backend'', backend),
          (''sftp'', JObj
            [(''host'', host), (''port'', port), (''username'', username),
             (''remote_path'', remote_path), (''password_set'', JBool (truthy password)),
             (''private_key_set'', JBool (truthy private_key_path))]),
          (''public_base_url'', public_base_url)]))))))))))"

definition get_delivery_config :: "admin_env \<Rightarrow> json admin_op" where
  "get_delivery_config E =
     bindE (read_delivery_config E) (\<lambda>delivery. lift_res (redact_delivery delivery))"

subsection \<open>Updating\<close>

record delivery_sftp_update =
  du_host :: string
  du_port :: int
  du_username :: string
  du_password :: "string option"
  du_remote_path :: string

record delivery_update_request =
  dr_backend :: delivery_choice
  dr_sftp :: delivery_sftp_update
  dr_public_base_url :: string

fun delivery_choice_str :: "delivery_choice \<Rightarrow> string" where
  "delivery_choice_str Local = ''local''"
| "delivery_choice_str Sftp = ''sftp''"
| "delivery_choice_str S3 = ''s3''"

text \<open>\<open>DeliveryConfig.model_dump(mode="json")\<close>.\<close>

definition dump_delivery :: "delivery_config \<Rightarrow> json" where
  "dump_delivery c =
     (let sftp = dc_sftp c; s3 = dc_s3 c in
      JObj
        [(''backend'', JStr (delivery_choice_str (dc_backend c))),
         (''local'', JObj [(''output_dir'', JStr (path_str (dc_local_output_dir c)))]),
         (''sftp'', JObj
           [(''host'', JStr (sf_host sftp)), (''port'', JNum (of_int (sf_port sftp))),
            (''username'', JStr (sf_username sftp)), (''password'', JStr (sf_password sftp)),
            (''private_key_path'',
               case sf_private_key_path sftp of None \<Rightarrow> JNull | Some p \<Rightarrow> JStr (path_str p)),
            (''remote_path'', JStr (sf_remote_path sftp))]),
         (''s3'', JObj
           [(''bucket'', JStr (s3_bucket s3)), (''region'', JStr (s3_region s3)),
            (''endpoint_url'', JStr (s3_endpoint_url s3)),
            (''access_key_id'', JStr (s3_access_key_id s3)),
            (''secret_access_key'', JStr (s3_secret_access_key s3)), (''prefix'', JStr (s3_prefix s3))]),
         (''public_base_url'', JStr (dc_public_base_url c))])"

text \<open>What is sent to the validation: the saved section with the request's values.\<close>

definition merged_delivery :: "json \<Rightarrow> delivery_update_request \<Rightarrow> json res" where
  "merged_delivery existing_delivery body =
     bind_res (dict_get ''sftp'' JNull existing_delivery) (\<lambda>v. let existing_sftp = or_empty v in
     bind_res (dict_get ''password'' (JStr '''') existing_sftp) (\<lambda>saved_password.
     bind_res (dict_get ''private_key_path'' JNull existing_sftp) (\<lambda>private_key_path.
       let sftp = dr_sftp body;
           password = (case du_password sftp of
                         None \<Rightarrow> saved_password | Some p \<Rightarrow> if p = '''' then saved_password else JStr p) in
       bind_res (dict_set ''backend'' (JStr (delivery_choice_str (dr_backend body))) existing_delivery) (\<lambda>d.
       bind_res (dict_set ''sftp'' (JObj
           [(''host'', JStr (du_host sftp)), (''port'', JNum (of_int (du_port sftp))),
            (''username'', JStr (du_username sftp)), (''password'', password),
            (''private_key_path'', private_key_path), (''remote_path'', JStr (du_remote_path sftp))]) d) (\<lambda>d.
       dict_set ''public_base_url'' (JStr (dr_public_base_url body)) d)))))"

definition validation_400 :: "exn \<Rightarrow> exn" where
  "validation_400 exc = (case exc of ValidationError msg \<Rightarrow> HTTPException 400 msg | _ \<Rightarrow> exc)"

definition update_delivery_config ::
  "admin_env \<Rightarrow> (json \<Rightarrow> delivery_config res) \<Rightarrow> delivery_update_request \<Rightarrow> json admin_op" where
  "update_delivery_config E model_validate body =
     bindE (load_config E) (\<lambda>yaml_data.
     bindE (lift_res (delivery_of_config yaml_data)) (\<lambda>existing_delivery.
     bindE (lift_res (merged_delivery existing_delivery body)) (\<lambda>merged.
     bindE (lift_res (map_sum validation_400 id (model_validate merged))) (\<lambda>validated.
     bindE (lift_res (dict_set ''delivery'' (dump_delivery validated) yaml_data)) (\<lambda>yaml_data.
     andthen (save_config E yaml_data)
       (lift_res (redact_delivery (dump_delivery validated))))))))"

subsection \<open>The SFTP key\<close>

definition SFTP_KEY_FILENAME :: string where
  "SFTP_KEY_FILENAME = ''sftp_key''"

definition set_private_key_path :: "admin_env \<Rightarrow> path \<Rightarrow> json admin_op" where
  "set_private_key_path E key_path =
     bindE (load_config E) (\<lambda>yaml_data.
     bindE (lift_res (dict_setdefault ''delivery'' yaml_data)) (\<lambda>delivery.
     bindE (lift_res (dict_setdefault ''sftp'' delivery)) (\<lambda>sftp.
     bindE (lift_res (dict_set ''private_key_path'' (JStr (path_str key_path)) sftp)) (\<lambda>sftp.
     bindE (lift_res (dict_set ''sftp'' sftp delivery)) (\<lambda>delivery.
     bindE (lift_res (dict_set ''delivery'' delivery yaml_data)) (\<lambda>yaml_data.
     andthen (save_config E yaml_data) (lift_res (redact_delivery delivery))))))))"

definition upload_delivery_key :: "admin_env \<Rightarrow> bytes \<Rightarrow> json admin_op" where
  "upload_delivery_key E content =
     (let data = take (MAX_UPLOAD_BYTES + 1) content in
      if MAX_UPLOAD_BYTES < length data then http 413 ''file too large''
      else
       (let key_path = path_div (path_parent (st_sqlite_path (ae_settings E))) SFTP_KEY_FILENAME in
        andthen (on_files (mkdir_parents (path_parent key_path)))
       (andthen (on_files (write_file key_path data))
         (set_private_key_path E key_path))))"

subsection \<open>The connection test\<close>

definition test_result :: "bool \<Rightarrow> string \<Rightarrow> json" where
  "test_result ok detail = JObj [(''ok'', JBool ok), (''detail'', JStr detail)]"

text \<open>An \<open>except Exception\<close> clause catches everything but a call that never returns.\<close>

definition test_delivery ::
  "('w, 't, 's, 'k) paramiko \<Rightarrow> admin_env \<Rightarrow> (json \<Rightarrow> delivery_config res) \<Rightarrow> admin_app \<Rightarrow>
     (exn, 'w, json) op" where
  "test_delivery P E model_validate s =
     (case fst (read_delivery_config E s) of
        Inl exc \<Rightarrow> raise exc
      | Inr delivery_data \<Rightarrow>
          (case model_validate delivery_data of
             Inl (ValidationError msg) \<Rightarrow> ret (test_result False msg)
           | Inl exc \<Rightarrow> raise exc
           | Inr config \<Rightarrow>
               (case dc_backend config of
                  Local \<Rightarrow> ret (test_result True ''Local delivery needs no connection test.'')
                | Sftp \<Rightarrow>
                    try_except
                      (andthen (test_sftp_connection P (dc_sftp config))
                        (ret (test_result True
                          (''Connected '' @ em_dash @ '' remote path is reachable and writable.''))))
                      (\<lambda>exc. if exc = Diverges then raise exc else ret (test_result False (exn_str exc)))
                | S3 \<Rightarrow>
                    ret (test_result False
                      (''no connection test implemented yet for backend '' @
                       py_repr (delivery_choice_str (dc_backend config)))))))"

subsection \<open>Documents that differ in a secret\<close>

text \<open>The document with the value at a key changed, where it has the key.\<close>

definition at_key :: "string \<Rightarrow> (json \<Rightarrow> json) \<Rightarrow> json \<Rightarrow> json" where
  "at_key key f j =
     (case j of
        JObj kvs \<Rightarrow> (case map_of kvs key of None \<Rightarrow> j | Some v \<Rightarrow> JObj (AList.update key (f v) kvs))
      | _ \<Rightarrow> j)"

definition put_password :: "string \<Rightarrow> json \<Rightarrow> json" where
  "put_password q = at_key ''sftp'' (at_key ''password'' (\<lambda>_. JStr q))"

definition put_config_password :: "string \<Rightarrow> json \<Rightarrow> json" where
  "put_config_password q = at_key ''delivery'' (put_password q)"

lemma at_key_simps [simp]:
  "at_key key f JNull = JNull" "at_key key f (JStr s) = JStr s" "at_key key f (JNum x) = JNum x"
  "at_key key f (JBool b) = JBool b" "at_key key f (JArr xs) = JArr xs" "at_key key f (JObj []) = JObj []"
  by (simp_all add: at_key_def)

lemma truthy_at_key [simp]: "truthy (at_key key f j) = truthy j"
  by (cases j) (auto simp: at_key_def split: option.splits)

lemma or_empty_at_key [simp]: "or_empty (at_key key f j) = at_key key f (or_empty j)"
  by (simp add: or_empty_def)

lemma dict_get_other [simp]: "k \<noteq> key \<Longrightarrow> dict_get k dflt (at_key key f j) = dict_get k dflt j"
  by (cases j) (auto simp: at_key_def dict_get_def update_conv' split: option.splits)

lemma dict_get_same: "f dflt = dflt \<Longrightarrow> dict_get key dflt (at_key key f j) = map_sum id f (dict_get key dflt j)"
  by (cases j) (auto simp: at_key_def dict_get_def update_conv' split: option.splits)

lemma dict_get_present:
  "map_of kvs key = Some v \<Longrightarrow> dict_get key dflt (at_key key f (JObj kvs)) = Inr (f v)"
  by (simp add: at_key_def dict_get_def update_conv')

lemma setdefault_same:
  "f (JObj []) = JObj [] \<Longrightarrow> dict_setdefault key (at_key key f j) = map_sum id f (dict_setdefault key j)"
  by (cases j) (auto simp: dict_setdefault_def at_key_def update_conv' split: option.splits)

lemma update_commute_present:
  "key \<in> fst ` set kvs \<Longrightarrow> k \<noteq> key \<Longrightarrow>
     AList.update k x (AList.update key y kvs) = AList.update key y (AList.update k x kvs)"
  by (induction kvs) auto

lemma update_over:
  assumes "k \<noteq> key"
  shows "AList.update key x (AList.update k y (AList.update key z kvs)) = AList.update k y (AList.update key x kvs)"
proof -
  have "key \<in> fst ` set (AList.update key z kvs)"
    by (simp add: dom_map_of_conv_image_fst [symmetric] update_conv')
  from update_commute_present [OF this assms, of y x] show ?thesis by simp
qed

lemma dict_set_other:
  assumes "k \<noteq> key"
  shows "dict_set k x (at_key key f j) = map_sum id (at_key key f) (dict_set k x j)"
proof (cases j)
  case (JObj kvs)
  have "AList.update k x (AList.update key y kvs) = AList.update key y (AList.update k x kvs)"
    if "map_of kvs key = Some v" for y v
    using update_commute_present [of key kvs k] map_of_SomeD [OF that] assms by force
  with assms show ?thesis
    by (auto simp: JObj dict_set_def at_key_def update_conv' split: option.splits)
qed (simp_all add: dict_set_def)

lemma dict_set_over [simp]: "dict_set key x (at_key key f j) = dict_set key x j"
  by (cases j) (auto simp: dict_set_def at_key_def split: option.splits)

lemma at_key_set: "map_sum id (at_key key f) (dict_set key x j) = dict_set key (f x) j"
  by (cases j) (auto simp: dict_set_def at_key_def update_conv')

text \<open>A non-blank password is saved.\<close>

definition saved_password :: "json \<Rightarrow> string option" where
  "saved_password delivery =
     (case dict_get ''sftp'' JNull delivery of
        Inr (JObj sftp) \<Rightarrow>
          (case map_of sftp ''password'' of Some (JStr p) \<Rightarrow> if p = '''' then None else Some p | _ \<Rightarrow> None)
      | _ \<Rightarrow> None)"

lemma saved_passwordD:
  assumes "saved_password d = Some p"
  obtains kvs sftp where "d = JObj kvs" "map_of kvs ''sftp'' = Some (JObj sftp)"
    "map_of sftp ''password'' = Some (JStr p)" "p \<noteq> ''''"
proof (cases d)
  case (JObj kvs)
  with assms that show thesis
    by (fastforce simp: saved_password_def dict_get_def split: option.splits json.splits if_splits)
qed (use assms in \<open>simp_all add: saved_password_def dict_get_def\<close>)

lemma or_empty_some: "map_of kvs k = Some v \<Longrightarrow> or_empty (JObj kvs) = JObj kvs"
  by (auto simp: or_empty_def)

lemma redact_put_password:
  assumes "saved_password d = Some p" and "q \<noteq> ''''"
  shows "redact_delivery (put_password q d) = redact_delivery d"
  using assms(1)
proof (cases rule: saved_passwordD)
  case (1 kvs sftp)
  have "dict_get ''sftp'' JNull d = Inr (JObj sftp)" using 1 by (simp add: dict_get_def)
  moreover have "dict_get ''password'' JNull (JObj sftp) = Inr (JStr p)" using 1 by (simp add: dict_get_def)
  moreover have "dict_get ''password'' JNull (at_key ''password'' (\<lambda>_. JStr q) (JObj sftp)) = Inr (JStr q)"
    using 1 by (simp add: dict_get_present)
  moreover have "or_empty (JObj sftp) = JObj sftp" using 1 by (simp add: or_empty_some)
  ultimately show ?thesis
    using 1 assms(2) by (simp add: redact_delivery_def put_password_def dict_get_same Let_def)
qed

definition blank :: "string option \<Rightarrow> bool" where
  "blank p \<longleftrightarrow> p = None \<or> p = Some ''''"

text \<open>A request with a password overrides the saved one; one without carries it along.\<close>

lemma merged_put_password:
  assumes "saved_password d = Some p"
  shows "merged_delivery (put_password q d) body =
    (if blank (du_password (dr_sftp body)) then map_sum id (put_password q) (merged_delivery d body)
     else merged_delivery d body)"
  using assms
proof (cases rule: saved_passwordD)
  case (1 kvs sftp)
  let ?f = "at_key ''password'' (\<lambda>_. JStr q)" and ?u = "dr_sftp body"
  obtain key where key: "dict_get ''private_key_path'' JNull (JObj sftp) = Inr key"
    by (simp add: dict_get_def)
  have sftp: "dict_get ''sftp'' JNull d = Inr (JObj sftp)" "or_empty (JObj sftp) = JObj sftp"
    "dict_get ''password'' (JStr '''') (JObj sftp) = Inr (JStr p)"
    using 1 by (simp_all add: dict_get_def or_empty_some)
  have pw: "dict_get ''password'' (JStr '''') (?f (JObj sftp)) = Inr (JStr q)"
    using 1 by (simp add: dict_get_present)
  let ?new = "\<lambda>pw. JObj
      [(''host'', JStr (du_host ?u)), (''port'', JNum (of_int (du_port ?u))),
       (''username'', JStr (du_username ?u)), (''password'', pw),
       (''private_key_path'', key), (''remote_path'', JStr (du_remote_path ?u))]"
  let ?set = "\<lambda>pw d. bind_res (dict_set ''backend'' (JStr (delivery_choice_str (dr_backend body))) d) (\<lambda>d.
       bind_res (dict_set ''sftp'' (?new pw) d) (dict_set ''public_base_url'' (JStr (dr_public_base_url body))))"
  let ?chosen = "\<lambda>saved. case du_password ?u of None \<Rightarrow> saved | Some x \<Rightarrow> if x = '''' then saved else JStr x"
  have eq: "merged_delivery d body = ?set (?chosen (JStr p)) d"
    "merged_delivery (put_password q d) body = ?set (?chosen (JStr q)) (put_password q d)"
    by (simp_all add: merged_delivery_def put_password_def dict_get_same sftp pw key Let_def)
  have same: "?set pw (put_password q d) = ?set pw d" for pw
    using update_commute_present [of "''sftp''" kvs "''backend''"] map_of_SomeD [OF 1(2)]
    by (force simp: dict_set_def put_password_def at_key_def 1)
  have over: "?set (JStr q) d = map_sum id (put_password q) (?set pw d)" for pw
    by (simp add: dict_set_def put_password_def at_key_def 1 update_conv' update_over)
  show ?thesis
  proof (cases "blank (du_password ?u)")
    case True
    then have "?chosen saved = saved" for saved by (auto simp: blank_def split: option.splits)
    then show ?thesis using True same over by (simp only: eq if_True)
  next
    case False
    then obtain x where "du_password ?u = Some x" "x \<noteq> ''''" by (auto simp: blank_def)
    then show ?thesis using False same by (simp only: eq option.case if_False)
  qed
qed

lemma saved_put_password [simp]:
  "saved_password d = Some p \<Longrightarrow> q \<noteq> '''' \<Longrightarrow> saved_password (put_password q d) = Some q"
  by (elim saved_passwordD)
    (simp add: saved_password_def put_password_def at_key_def dict_get_def update_conv')

lemma put_password_triv: "saved_password d = Some p \<Longrightarrow> put_password p d = d"
  by (elim saved_passwordD) (simp add: put_password_def at_key_def update_triv)

lemma merged_saved_password:
  assumes "merged_delivery d body = Inr m" and "saved_password d = Some p"
    and "blank (du_password (dr_sftp body))"
  shows "saved_password m = Some p"
  using assms(2)
proof (cases rule: saved_passwordD)
  case (1 kvs sftp)
  with assms(1,3) show ?thesis
    by (auto simp: merged_delivery_def dict_get_def dict_set_def or_empty_some Let_def blank_def
        saved_password_def update_conv' split: option.splits)
qed

subsection \<open>Properties\<close>

definition set_password :: "string \<Rightarrow> delivery_config \<Rightarrow> delivery_config" where
  "set_password q c = c\<lparr>dc_sftp := (dc_sftp c)\<lparr>sf_password := q\<rparr>\<rparr>"

text \<open>pydantic keeps a string field as it is, and judges every field on its own.\<close>

definition password_opaque :: "(json \<Rightarrow> delivery_config res) \<Rightarrow> bool" where
  "password_opaque model_validate \<longleftrightarrow>
     (\<forall>j q. saved_password j \<noteq> None \<longrightarrow> q \<noteq> '''' \<longrightarrow>
        model_validate (put_password q j) = map_sum id (set_password q) (model_validate j))"

lemma password_opaque_keeps:
  assumes "password_opaque mv" and "saved_password j = Some p" and "mv j = Inr c"
  shows "set_password p c = c" and "sf_password (dc_sftp c) = p" and "p \<noteq> ''''"
proof -
  from assms(2) show p: "p \<noteq> ''''" by (elim saved_passwordD)
  from assms(1,2) p have "mv (put_password p j) = map_sum id (set_password p) (mv j)"
    by (auto simp: password_opaque_def)
  with assms(2,3) show c: "set_password p c = c" by (simp add: put_password_triv)
  have "sf_password (dc_sftp (set_password p c)) = p" by (simp add: set_password_def)
  with c show "sf_password (dc_sftp c) = p" by simp
qed

lemma saved_dump: "sf_password (dc_sftp c) \<noteq> '''' \<Longrightarrow> saved_password (dump_delivery c) = Some (sf_password (dc_sftp c))"
  by (simp add: saved_password_def dump_delivery_def dict_get_def Let_def)

lemma dump_set_password: "dump_delivery (set_password q c) = put_password q (dump_delivery c)"
  by (simp add: dump_delivery_def set_password_def put_password_def at_key_def Let_def)

text \<open>The app with another text in the configuration file.\<close>

definition with_config :: "admin_env \<Rightarrow> bytes \<Rightarrow> admin_app \<Rightarrow> admin_app" where
  "with_config E body s =
     s\<lparr>aa_fs := (aa_fs s)\<lparr>fs_files := (fs_files (aa_fs s))(ae_config_path E \<mapsto> body)\<rparr>\<rparr>"

lemma load_config_apply:
  "read_file (aa_fs s) (ae_config_path E) = Inr body \<Longrightarrow> ae_safe_load E body = Inr data \<Longrightarrow>
     load_config E s = (Inr data, s)"
  by (simp add: load_config_def)

lemma read_with_config:
  "read_file (aa_fs s) (ae_config_path E) = Inr body \<Longrightarrow>
     read_file (aa_fs (with_config E body' s)) (ae_config_path E) = Inr body'"
  by (auto simp: with_config_def read_file_def split: option.splits if_splits)

text \<open>What is written does not change whether it can be written.\<close>

lemma save_any_config:
  "fst (andthen (save_config E y') (lift_res r) (with_config E body' s)) =
     fst (andthen (save_config E y) (lift_res r) s)"
  by (simp add: andthen_def bindE_def save_config_def on_files_def write_file_def with_config_def is_dir_def)

lemma delivery_put_config_password:
  "delivery_of_config (put_config_password q data) = map_sum id (put_password q) (delivery_of_config data)"
  by (cases "dict_get ''delivery'' JNull data")
    (simp_all add: delivery_of_config_def put_config_password_def put_password_def dict_get_same)

lemma redact_dump_set_password:
  "sf_password (dc_sftp c) \<noteq> '''' \<Longrightarrow> q \<noteq> '''' \<Longrightarrow>
     redact_delivery (dump_delivery (set_password q c)) = redact_delivery (dump_delivery c)"
  unfolding dump_set_password by (rule redact_put_password [OF saved_dump])

lemma delivery_of_config_obj: "delivery_of_config data = Inr d \<Longrightarrow> \<exists>kvs. data = JObj kvs"
  by (cases data) (simp_all add: delivery_of_config_def dict_get_def)

lemma update_delivery_eq:
  assumes "load_config E s = (Inr data, s)" and "delivery_of_config data = Inr d"
  shows "fst (update_delivery_config E mv body s) =
    bind_res (merged_delivery d body) (\<lambda>m.
    bind_res (map_sum validation_400 id (mv m)) (\<lambda>c.
    bind_res (dict_set ''delivery'' (dump_delivery c) data) (\<lambda>y.
      fst (andthen (save_config E y) (lift_res (redact_delivery (dump_delivery c))) s))))"
  by (simp add: update_delivery_config_def bindE_def assms bind_res_def split: sum.splits)

lemma update_hides_password:
  assumes "load_config E s = (Inr data, s)"
    and "load_config E (with_config E text2 s) = (Inr (put_config_password q data), with_config E text2 s)"
    and "delivery_of_config data = Inr d" and "saved_password d = Some p" and "q \<noteq> ''''"
    and "password_opaque mv"
  shows "fst (update_delivery_config E mv body (with_config E text2 s)) = fst (update_delivery_config E mv body s)"
proof -
  have dlv: "delivery_of_config (put_config_password q data) = Inr (put_password q d)"
    using assms(3) by (simp add: delivery_put_config_password)
  obtain kvs where data: "data = JObj kvs" using delivery_of_config_obj [OF assms(3)] by blast
  have over: "dict_set ''delivery'' x (put_config_password q data) = Inr (JObj (AList.update ''delivery'' x kvs))"
    "dict_set ''delivery'' x data = Inr (JObj (AList.update ''delivery'' x kvs))" for x
    unfolding put_config_password_def dict_set_over by (simp_all add: data dict_set_def)
  note eq = update_delivery_eq [OF assms(1,3)] update_delivery_eq [OF assms(2) dlv] over
    merged_put_password [OF assms(4)]
  show ?thesis
  proof (cases "blank (du_password (dr_sftp body))")
    case False
    then show ?thesis by (simp add: eq save_any_config [where y' = y and y = y for y])
  next
    case True
    show ?thesis
    proof (cases "merged_delivery d body")
      case (Inl e)
      with True show ?thesis by (simp add: eq)
    next
      case (Inr m)
      have saved: "saved_password m = Some p" by (rule merged_saved_password [OF Inr assms(4) True])
      then have mv: "mv (put_password q m) = map_sum id (set_password q) (mv m)"
        using assms(5,6) by (auto simp: password_opaque_def)
      show ?thesis
      proof (cases "mv m")
        case (Inl e)
        with True Inr mv show ?thesis by (simp add: eq)
      next
        case (Inr c)
        note keep = password_opaque_keeps [OF assms(6) saved Inr]
        then have "sf_password (dc_sftp c) \<noteq> ''''" by simp
        with True Inr mv \<open>merged_delivery d body = Inr m\<close> assms(5) show ?thesis
          by (simp add: eq redact_dump_set_password)
            (rule save_any_config)
      qed
    qed
  qed
qed

lemma set_key_eq:
  assumes "load_config E s = (Inr data, s)"
  shows "fst (set_private_key_path E key s) =
    bind_res (dict_setdefault ''delivery'' data) (\<lambda>delivery.
    bind_res (dict_setdefault ''sftp'' delivery) (\<lambda>sftp.
    bind_res (dict_set ''private_key_path'' (JStr (path_str key)) sftp) (\<lambda>sftp.
    bind_res (dict_set ''sftp'' sftp delivery) (\<lambda>delivery.
    bind_res (dict_set ''delivery'' delivery data) (\<lambda>y.
      fst (andthen (save_config E y) (lift_res (redact_delivery delivery)) s))))))"
  by (simp add: set_private_key_path_def bindE_def assms bind_res_def split: sum.splits)

lemma set_key_hides_password:
  assumes "load_config E s = (Inr data, s)"
    and "load_config E (with_config E text2 s) = (Inr (put_config_password q data), with_config E text2 s)"
    and "delivery_of_config data = Inr d" and "saved_password d = Some p" and "q \<noteq> ''''"
  shows "fst (set_private_key_path E key (with_config E text2 s)) = fst (set_private_key_path E key s)"
  using assms(4)
proof (cases rule: saved_passwordD)
  case (1 kvs sftp)
  obtain top where data: "data = JObj top" using delivery_of_config_obj [OF assms(3)] by blast
  let ?f = "at_key ''password'' (\<lambda>_. JStr q)" and ?k = "JStr (path_str key)"
  have top: "map_of top ''delivery'' = Some d"
    using assms(3) 1 by (auto simp: data delivery_of_config_def dict_get_def or_empty_def split: option.splits if_splits)
  let ?sftp = "JObj (AList.update ''private_key_path'' ?k sftp)"
  let ?d = "JObj (AList.update ''sftp'' ?sftp kvs)"
  have s: "dict_setdefault ''delivery'' data = Inr d" "dict_setdefault ''sftp'' d = Inr (JObj sftp)"
    "dict_set ''private_key_path'' ?k (JObj sftp) = Inr ?sftp" "dict_set ''sftp'' ?sftp d = Inr ?d"
    by (simp_all add: data top 1 dict_setdefault_def dict_set_def)
  have t: "dict_setdefault ''delivery'' (put_config_password q data) = Inr (put_password q d)"
    "dict_setdefault ''sftp'' (put_password q d) = Inr (?f (JObj sftp))"
    "dict_set ''private_key_path'' ?k (?f (JObj sftp)) = Inr (?f ?sftp)"
    "dict_set ''sftp'' (?f ?sftp) (put_password q d) = Inr (put_password q ?d)"
    using s at_key_set [of "''sftp''" ?f ?sftp d]
    by (simp_all add: put_config_password_def put_password_def setdefault_same dict_set_other)
  have over: "dict_set ''delivery'' x (put_config_password q data) = Inr (JObj (AList.update ''delivery'' x top))"
    "dict_set ''delivery'' x data = Inr (JObj (AList.update ''delivery'' x top))" for x
    unfolding put_config_password_def dict_set_over by (simp_all add: data dict_set_def)
  have "saved_password ?d = Some p"
    using 1 by (simp add: saved_password_def dict_get_def update_conv')
  from redact_put_password [OF this assms(5)] show ?thesis
    unfolding set_key_eq [OF assms(1)] set_key_eq [OF assms(2)]
    by (simp add: s t over) (rule save_any_config)
qed

text \<open>
  C27: the answers about the delivery settings tell nothing of the saved SFTP password but that
  there is one: on two configuration files that differ in that password only, reading the settings,
  saving them (with a new password or with the field left blank) and setting the key answer alike.
\<close>

theorem delivery_password_hidden:
  assumes "read_file (aa_fs s) (ae_config_path E) = Inr text1"
    and "ae_safe_load E text1 = Inr data" and "ae_safe_load E text2 = Inr (put_config_password q data)"
    and "delivery_of_config data = Inr d" and "saved_password d = Some p" and "q \<noteq> ''''"
    and "password_opaque mv"
  shows "fst (get_delivery_config E (with_config E text2 s)) = fst (get_delivery_config E s) \<and>
    fst (update_delivery_config E mv body (with_config E text2 s)) = fst (update_delivery_config E mv body s) \<and>
    fst (set_private_key_path E key_path (with_config E text2 s)) = fst (set_private_key_path E key_path s)"
proof -
  note load = load_config_apply [OF assms(1,2)] load_config_apply [OF read_with_config [OF assms(1)] assms(3)]
  have "delivery_of_config (put_config_password q data) = Inr (put_password q d)"
    using assms(4) by (simp add: delivery_put_config_password)
  then have "fst (get_delivery_config E (with_config E text2 s)) = fst (get_delivery_config E s)"
    using assms(4-6) load
    by (simp add: get_delivery_config_def read_delivery_config_def bindE_def redact_put_password)
  then show ?thesis
    using update_hides_password [OF load assms(4-7)] set_key_hides_password [OF load assms(4-6)] by simp
qed

lemma map_sum_Inr_iff: "map_sum f id r = Inr x \<longleftrightarrow> r = Inr x"
  by (cases r) simp_all


subsection \<open>An example\<close>

definition demo_delivery :: json where
  "demo_delivery = JObj [(''backend'', JStr ''local''),
     (''sftp'', JObj [(''host'', JStr ''nas''), (''password'', JStr ''one'')])]"

definition demo_config :: json where
  "demo_config = JObj [(''profile'', JStr ''pi''), (''delivery'', demo_delivery)]"

definition demo_validate :: "json \<Rightarrow> delivery_config res" where
  "demo_validate j =
     (case saved_password j of None \<Rightarrow> Inr default_delivery | Some p \<Rightarrow> Inr (set_password p default_delivery))"

definition demo_saved :: json where
  "demo_saved = JObj [(''profile'', JStr ''pi''), (''delivery'', dump_delivery (set_password ''one'' default_delivery))]"

definition demo_env :: admin_env where
  "demo_env = demo_admin
     \<lparr>ae_safe_load := (\<lambda>b. if b = [9] then Inr demo_config
                          else if b = [10] then Inr (put_config_password ''two'' demo_config)
                          else if b = [11] then Inr demo_saved else Inl (YAMLError ''syntax'')),
      ae_safe_dump := (\<lambda>j. if j = demo_saved then [11] else [12])\<rparr>"

definition demo_update :: delivery_update_request where
  "demo_update =
     \<lparr>dr_backend = Local,
      dr_sftp = \<lparr>du_host = ''nas'', du_port = 22, du_username = ''booth'', du_password = None, du_remote_path = ''/p''\<rparr>,
      dr_public_base_url = ''''\<rparr>"

lemma demo_validate_opaque: "password_opaque demo_validate"
  by (auto simp: password_opaque_def demo_validate_def set_password_def)

lemma demo_env_simps [simp]:
  "ae_config_path demo_env = Path '''' [''config'', ''dev.yaml'']" "ae_safe_load demo_env [9] = Inr demo_config"
  "ae_safe_load demo_env [10] = Inr (put_config_password ''two'' demo_config)"
  "ae_safe_load demo_env [11] = Inr demo_saved" "ae_safe_dump demo_env demo_saved = [11]"
  using demo_paths(2) by (simp_all add: demo_env_def)

lemma demo_env_dump: "ae_safe_dump demo_env j = [11] \<Longrightarrow> j = demo_saved"
  by (simp add: demo_env_def split: if_splits)

lemma demo_delivery_facts [simp]:
  "delivery_of_config demo_config = Inr demo_delivery" "saved_password demo_delivery = Some ''one''"
  "read_file (aa_fs demo_app) (Path '''' [''config'', ''dev.yaml'']) = Inr [9]"
  by (simp_all add: demo_config_def delivery_of_config_def dict_get_def or_empty_def demo_delivery_def
      saved_password_def read_file_def)

theorem delivery_password_hidden_witness:
  "fst (get_delivery_config demo_env (with_config demo_env [10] demo_app)) = fst (get_delivery_config demo_env demo_app)"
  using delivery_password_hidden [of demo_app demo_env "[9]" demo_config "[10]" "''two''" demo_delivery "''one''"
      demo_validate] demo_validate_opaque by simp

lemma demo_update_runs:
  "\<exists>answer. update_delivery_config demo_env demo_validate demo_update demo_app =
     (Inr answer, with_config demo_env [11] demo_app)"
proof -
  obtain m where m: "merged_delivery demo_delivery demo_update = Inr m"
    by (simp add: merged_delivery_def demo_delivery_def demo_update_def dict_get_def dict_set_def or_empty_def Let_def)
  have "saved_password m = Some ''one''"
    by (rule merged_saved_password [OF m]) (simp_all add: blank_def demo_update_def)
  then have v: "demo_validate m = Inr (set_password ''one'' default_delivery)" by (simp add: demo_validate_def)
  have y: "dict_set ''delivery'' (dump_delivery (set_password ''one'' default_delivery)) demo_config = Inr demo_saved"
    by (simp add: demo_config_def dict_set_def demo_saved_def)
  have load: "load_config demo_env demo_app = (Inr demo_config, demo_app)" by (simp add: load_config_def)
  have save: "save_config demo_env demo_saved demo_app = (Inr (), with_config demo_env [11] demo_app)"
    by (simp add: save_config_def on_files_def write_file_def is_dir_def path_parent_def with_config_def)
  obtain answer where "redact_delivery (dump_delivery (set_password ''one'' default_delivery)) = Inr answer"
    by (simp add: redact_delivery_def dump_delivery_def dict_get_def Let_def or_empty_def)
  then show ?thesis
    by (simp add: update_delivery_config_def bindE_def andthen_def load m v y save)
qed


end
