(* ===== verification/Camera_Messages.thy ===== *)
theory Camera_Messages
  imports Py_Files
begin

text \<open>
  \<open>src/photobooth/camera/protocol.py\<close> (the data the camera contract passes around) and
  \<open>camera/messages.py\<close> (the messages between the app and the camera worker and their frames:
  a four byte big-endian length and that many bytes of payload).  The payload is produced by
  \<open>msgspec.msgpack\<close>, a parameter: a \<open>codec\<close> record of the four functions the module builds,
  with the documented round trip as the hypothesis \<open>codes\<close> on the messages at hand.
\<close>

subsection \<open>Images\<close>

datatype image_kind = PREVIEW | FULL

fun kind_value :: "image_kind \<Rightarrow> string" where
  "kind_value PREVIEW = ''preview''"
| "kind_value FULL = ''full''"

definition kind_of_value :: "string \<Rightarrow> image_kind res" where
  "kind_of_value s =
     (if s = ''preview'' then Inr PREVIEW else if s = ''full'' then Inr FULL
      else Inl (ValueError (py_repr s @ '' is not a valid ImageKind'')))"

record captured_image =
  ci_kind :: image_kind
  ci_data :: bytes
  ci_width :: nat
  ci_height :: nat

lemma kind_of_kind_value [simp]: "kind_of_value (kind_value k) = Inr k"
  by (cases k) (simp_all add: kind_of_value_def)

subsection \<open>Messages\<close>

datatype request =
    Connect
  | Disconnect
  | Reconnect
  | GetStatus
  | TriggerAutofocus
  | TriggerCapture
  | DownloadPreview string
  | DownloadFull string

datatype response =
    Ok
  | StatusResult bool
  | CaptureResult string
  | ImageResult string bytes nat nat
  | NoPreview
  | ErrorResult string string

record codec =
  request_encode :: "request \<Rightarrow> bytes"
  request_decode :: "bytes \<Rightarrow> request res"
  response_encode :: "response \<Rightarrow> bytes"
  response_decode :: "bytes \<Rightarrow> response res"

subsection \<open>Frames\<close>

definition LENGTH_PREFIX_BYTES :: nat where
  "LENGTH_PREFIX_BYTES = 4"

definition MAX_FRAME_BYTES :: nat where
  "MAX_FRAME_BYTES = 64 * 1024 * 1024"

text \<open>\<open>int.to_bytes(n, "big")\<close> and \<open>int.from_bytes(_, "big")\<close>.\<close>

fun be_bytes :: "nat \<Rightarrow> nat \<Rightarrow> bytes" where
  "be_bytes 0 n = []"
| "be_bytes (Suc k) n = be_bytes k (n div 256) @ [of_nat (n mod 256)]"

definition int_to_bytes :: "nat \<Rightarrow> nat \<Rightarrow> bytes res" where
  "int_to_bytes n k =
     (if n < 256 ^ k then Inr (be_bytes k n) else Inl (OverflowError ''int too big to convert''))"

definition int_from_bytes :: "bytes \<Rightarrow> nat" where
  "int_from_bytes bs = foldl (\<lambda>a b. a * 256 + unat b) 0 bs"

definition frame :: "bytes \<Rightarrow> bytes res" where
  "frame payload =
     map_sum id (\<lambda>prefix. prefix @ payload) (int_to_bytes (length payload) LENGTH_PREFIX_BYTES)"

definition read_frame_length :: "bytes \<Rightarrow> nat res" where
  "read_frame_length header =
     (let len = int_from_bytes header in
      if MAX_FRAME_BYTES < len
      then Inl (FrameTooLargeError (''frame length '' @ str_nat len @ '' exceeds max '' @
                                    str_nat MAX_FRAME_BYTES))
      else Inr len)"

definition encode_request :: "codec \<Rightarrow> request \<Rightarrow> bytes res" where
  "encode_request c msg = frame (request_encode c msg)"

definition decode_request :: "codec \<Rightarrow> bytes \<Rightarrow> request res" where
  "decode_request c data = request_decode c data"

definition encode_response :: "codec \<Rightarrow> response \<Rightarrow> bytes res" where
  "encode_response c msg = frame (response_encode c msg)"

definition decode_response :: "codec \<Rightarrow> bytes \<Rightarrow> response res" where
  "decode_response c data = response_decode c data"

subsection \<open>Lemmas\<close>

lemma length_be_bytes [simp]: "length (be_bytes k n) = k"
  by (induction k n rule: be_bytes.induct) simp_all

lemma int_from_bytes_snoc: "int_from_bytes (bs @ [b]) = int_from_bytes bs * 256 + unat b"
  by (simp add: int_from_bytes_def)

lemma int_from_be_bytes: "int_from_bytes (be_bytes k n) = n mod 256 ^ k"
proof (induction k n rule: be_bytes.induct)
  case (1 n)
  then show ?case by (simp add: int_from_bytes_def)
next
  case (2 k n)
  have "unat (of_nat (n mod 256) :: 8 word) = n mod 256"
    by (simp add: unat_of_nat)
  then have "int_from_bytes (be_bytes (Suc k) n) = (n div 256 mod 256 ^ k) * 256 + n mod 256"
    using 2 by (simp add: int_from_bytes_snoc)
  also have "\<dots> = n mod 256 ^ Suc k"
    by (simp add: mod_mult2_eq mult.commute)
  finally show ?case .
qed

text \<open>What a frame looks like on the wire, and what its header is read back as.\<close>

lemma frame_eq:
  "length p < 2 ^ 32 \<Longrightarrow> frame p = Inr (be_bytes 4 (length p) @ p)"
  by (simp add: frame_def int_to_bytes_def LENGTH_PREFIX_BYTES_def)

lemma frame_overflow:
  "2 ^ 32 \<le> length p \<Longrightarrow> frame p = Inl (OverflowError ''int too big to convert'')"
  by (simp add: frame_def int_to_bytes_def LENGTH_PREFIX_BYTES_def)

lemma read_frame_length_be:
  "n < 2 ^ 32 \<Longrightarrow> read_frame_length (be_bytes 4 n) =
     (if n \<le> MAX_FRAME_BYTES then Inr n
      else Inl (FrameTooLargeError (''frame length '' @ str_nat n @ '' exceeds max '' @
                                    str_nat MAX_FRAME_BYTES)))"
  by (simp add: read_frame_length_def int_from_be_bytes Let_def not_le)

lemma MAX_FRAME_BYTES_less: "n \<le> MAX_FRAME_BYTES \<Longrightarrow> n < 2 ^ 32"
  by (simp add: MAX_FRAME_BYTES_def)

lemma frame_ok:
  "length p \<le> MAX_FRAME_BYTES \<Longrightarrow> frame p = Inr (be_bytes 4 (length p) @ p)"
  by (rule frame_eq) (rule MAX_FRAME_BYTES_less)

lemma read_frame_length_ok:
  "n \<le> MAX_FRAME_BYTES \<Longrightarrow> read_frame_length (be_bytes 4 n) = Inr n"
  using read_frame_length_be [OF MAX_FRAME_BYTES_less] by simp

text \<open>The documented behaviour of the codec, on one message, for payloads that fit a frame.\<close>

definition codes_request :: "codec \<Rightarrow> request \<Rightarrow> bool" where
  "codes_request c q \<longleftrightarrow>
     request_decode c (request_encode c q) = Inr q \<and>
     length (request_encode c q) \<le> MAX_FRAME_BYTES"

definition codes_response :: "codec \<Rightarrow> response \<Rightarrow> bool" where
  "codes_response c r \<longleftrightarrow>
     response_decode c (response_encode c r) = Inr r \<and>
     length (response_encode c r) \<le> MAX_FRAME_BYTES"

end
