(* ===== verification/Camera_Mock.thy ===== *)
theory Camera_Mock
  imports Camera_Messages
begin

text \<open>
  \<open>src/photobooth/camera/protocol.py\<close>, the \<open>CameraBackend\<close> contract, as a record of the
  eight operations over a backend's own state and a locale of the laws its callers rely on, and
  \<open>camera/mock.py\<close>, the fixture-driven backend with fault injection, which interprets it.
  Sleeping is invisible; \<open>random()\<close>, \<open>uuid4()\<close> and \<open>hash(uuid4())\<close> draw from supplies
  in the state, the JPEG header reader of \<open>PIL\<close> is a parameter.
\<close>

subsection \<open>The contract\<close>

record 'c camera_backend =
  b_connect :: "(exn, 'c, unit) op"
  b_disconnect :: "(exn, 'c, unit) op"
  b_is_connected :: "(exn, 'c, bool) op"
  b_trigger_autofocus :: "(exn, 'c, unit) op"
  b_trigger_capture :: "(exn, 'c, string) op"
  b_download_preview :: "string \<Rightarrow> (exn, 'c, captured_image option) op"
  b_download_full :: "string \<Rightarrow> (exn, 'c, captured_image) op"
  b_reconnect :: "(exn, 'c, unit) op"

fun is_KeyError :: "exn \<Rightarrow> bool" where
  "is_KeyError (KeyError _) = True"
| "is_KeyError _ = False"

text \<open>
  \<open>opened s\<close>: the backend holds a camera handle; \<open>pending s\<close>: the capture ids whose image
  can still be downloaded.
\<close>

locale camera_contract =
  fixes b :: "'c camera_backend"
    and opened :: "'c \<Rightarrow> bool"
    and pending :: "'c \<Rightarrow> string set"
  assumes connect_opens: "b_connect b s = (Inr (), s') \<Longrightarrow> opened s'"
    and reconnect_opens: "b_reconnect b s = (Inr (), s') \<Longrightarrow> opened s'"
    and disconnect_closes: "b_disconnect b s = (Inr (), s') \<Longrightarrow> \<not> opened s'"
    and connected_opened: "b_is_connected b s = (Inr True, s') \<Longrightarrow> opened s"
    and closed_autofocus: "\<not> opened s \<Longrightarrow>
      \<exists>m. b_trigger_autofocus b s = (Inl (CameraDisconnectedError m), s)"
    and closed_capture: "\<not> opened s \<Longrightarrow>
      \<exists>m. b_trigger_capture b s = (Inl (CameraDisconnectedError m), s)"
    and closed_preview: "\<not> opened s \<Longrightarrow>
      \<exists>m. b_download_preview b i s = (Inl (CameraDisconnectedError m), s)"
    and closed_full: "\<not> opened s \<Longrightarrow>
      \<exists>m. b_download_full b i s = (Inl (CameraDisconnectedError m), s)"
    and capture_raises: "b_trigger_capture b s = (Inl e, s') \<Longrightarrow> \<not> is_KeyError e"
    and capture_pending: "b_trigger_capture b s = (Inr i, s') \<Longrightarrow> i \<in> pending s'"
    and preview_pending: "i \<in> pending s \<Longrightarrow> b_download_preview b j s = (r, s') \<Longrightarrow> i \<in> pending s'"
    and preview_known: "i \<in> pending s \<Longrightarrow> b_download_preview b i s = (Inl e, s') \<Longrightarrow> \<not> is_KeyError e"
    and full_known: "i \<in> pending s \<Longrightarrow> b_download_full b i s = (Inl e, s') \<Longrightarrow> \<not> is_KeyError e"
begin

text \<open>The download half of a shot, as the session manager issues it.\<close>

definition shot :: "(exn, 'c, captured_image) op" where
  "shot = bindE (b_trigger_capture b) (\<lambda>i.
            bindE (b_download_preview b i) (\<lambda>_. b_download_full b i))"

lemma shot_no_KeyError: "raises_only (\<lambda>e. \<not> is_KeyError e) shot"
  unfolding raises_only_def shot_def
  by (auto simp: bindE_raises_iff
      dest: capture_raises capture_pending preview_known preview_pending full_known)

lemma preview_twice_no_KeyError:
  assumes "b_trigger_capture b s = (Inr i, s1)" and "b_download_preview b i s1 = (r, s2)"
    and "b_download_preview b i s2 = (Inl e, s3)"
  shows "\<not> is_KeyError e"
  using assms capture_pending [OF assms(1)] by (blast dest: preview_known preview_pending)

lemma closed_shot: "\<not> opened s \<Longrightarrow> \<exists>m. shot s = (Inl (CameraDisconnectedError m), s)"
  unfolding shot_def using closed_capture [of s] by auto

lemma disconnect_stops_captures:
  assumes "b_disconnect b s = (Inr (), s')"
  shows "\<exists>m. b_trigger_capture b s' = (Inl (CameraDisconnectedError m), s')"
  using closed_capture [OF disconnect_closes [OF assms]] .

end

subsection \<open>The mock backend\<close>

record mock_backend =
  mk_fixtures_dir :: path
  mk_listing :: "string list"
  mk_fs :: fs
  mk_trigger_delay_s :: rat
  mk_thumb_latency_s :: rat
  mk_full_download_mbps :: rat
  mk_disconnect_every_n :: "int option"
  mk_download_timeout_pct :: rat
  mk_slow_download_pct :: rat
  mk_random :: "nat \<Rightarrow> rat"
  mk_uuid :: "nat \<Rightarrow> string"
  mk_hash :: "nat \<Rightarrow> int"
  mk_draws :: nat
  mk_uuids :: nat
  mk_connected :: bool
  mk_captures :: "string \<rightharpoonup> bytes"
  mk_shot_count :: nat

text \<open>
  \<open>MockBackend.__init__\<close>: the arguments, then the directory, the file system and the
  supplies the process runs with.
\<close>

definition new_mock_backend ::
  "path \<Rightarrow> int \<Rightarrow> int \<Rightarrow> rat \<Rightarrow> int option \<Rightarrow> rat \<Rightarrow> rat \<Rightarrow> string list \<Rightarrow> fs \<Rightarrow>
     (nat \<Rightarrow> rat) \<Rightarrow> (nat \<Rightarrow> string) \<Rightarrow> (nat \<Rightarrow> int) \<Rightarrow> mock_backend" where
  "new_mock_backend fixtures_dir trigger_delay_ms thumb_latency_ms full_download_mbps
     disconnect_every_n download_timeout_pct slow_download_pct listing files rnd uuid hsh =
     \<lparr>mk_fixtures_dir = fixtures_dir, mk_listing = listing, mk_fs = files,
      mk_trigger_delay_s = of_int trigger_delay_ms / 1000,
      mk_thumb_latency_s = of_int thumb_latency_ms / 1000,
      mk_full_download_mbps = full_download_mbps,
      mk_disconnect_every_n = disconnect_every_n,
      mk_download_timeout_pct = download_timeout_pct,
      mk_slow_download_pct = slow_download_pct,
      mk_random = rnd, mk_uuid = uuid, mk_hash = hsh, mk_draws = 0, mk_uuids = 0,
      mk_connected = False, mk_captures = (\<lambda>_. None), mk_shot_count = 0\<rparr>"

text \<open>
  \<open>PIL\<close>: the pixel size of an image file (\<open>None\<close>: it cannot be identified, an
  \<open>OSError\<close>) and the size \<open>Image.thumbnail\<close> shrinks to.
\<close>

record pil =
  pil_open :: "bytes \<Rightarrow> (nat \<times> nat) option"
  pil_thumbnail :: "nat \<times> nat \<Rightarrow> nat \<times> nat \<Rightarrow> nat \<times> nat"

definition image_open :: "pil \<Rightarrow> bytes \<Rightarrow> (nat \<times> nat) res" where
  "image_open P d =
     (case pil_open P d of None \<Rightarrow> Inl (OSError ''cannot identify image file'') | Some wh \<Rightarrow> Inr wh)"

definition time_sleep :: "rat \<Rightarrow> (exn, 's, unit) op" where
  "time_sleep t =
     (if t < 0 then raise (ValueError ''sleep length must be non-negative'') else ret ())"

definition mock_connect :: "(exn, mock_backend, unit) op" where
  "mock_connect = modify (\<lambda>m. m\<lparr>mk_connected := True\<rparr>)"

definition mock_disconnect :: "(exn, mock_backend, unit) op" where
  "mock_disconnect = modify (\<lambda>m. m\<lparr>mk_connected := False\<rparr>)"

definition mock_is_connected :: "(exn, mock_backend, bool) op" where
  "mock_is_connected = get_state mk_connected"

definition mock_require_connected :: "(exn, mock_backend, unit) op" where
  "mock_require_connected =
     (\<lambda>m. if \<not> mk_connected m
          then (Inl (CameraDisconnectedError ''mock camera not connected''), m) else (Inr (), m))"

definition mock_trigger_autofocus :: "(exn, mock_backend, unit) op" where
  "mock_trigger_autofocus = mock_require_connected"

text \<open>\<open>sorted(dir.glob("*.jpg"))\<close> and the pick by hash.\<close>

definition glob_jpg :: "string list \<Rightarrow> string list" where
  "glob_jpg names = filter (\<lambda>n. 4 \<le> length n \<and> drop (length n - 4) n = ''.jpg'') names"

definition mock_pick_fixture :: "(exn, mock_backend, path) op" where
  "mock_pick_fixture =
     (\<lambda>m. let shots = sort (glob_jpg (mk_listing m)) in
        if shots = []
        then (Inl (FileNotFoundError (''no fixture JPEGs in '' @ path_str (mk_fixtures_dir m) @
                     '' '' @ em_dash @ '' add at least one sample shot'')), m)
        else (Inr (path_div (mk_fixtures_dir m)
                     (shots ! nat (mk_hash m (mk_uuids m) mod int (length shots)))),
              m\<lparr>mk_uuids := mk_uuids m + 1\<rparr>))"

text \<open>The simulated session drop, every \<open>n\<close>th shot.\<close>

definition mock_session_drop :: "(exn, mock_backend, unit) op" where
  "mock_session_drop =
     (\<lambda>m. case mk_disconnect_every_n m of
        None \<Rightarrow> (Inr (), m)
      | Some n \<Rightarrow>
          if n \<noteq> 0 \<and> int (mk_shot_count m) mod n = 0
          then (Inl (CameraDisconnectedError
                 (''simulated PTP session drop after '' @ str_nat (mk_shot_count m) @
                  '' shots (disconnect_every_n='' @ str_int n @ '')'')),
                m\<lparr>mk_connected := False\<rparr>)
          else (Inr (), m))"

definition mock_uuid4 :: "(exn, mock_backend, string) op" where
  "mock_uuid4 = (\<lambda>m. (Inr (mk_uuid m (mk_uuids m)), m\<lparr>mk_uuids := mk_uuids m + 1\<rparr>))"

definition mock_trigger_capture :: "(exn, mock_backend, string) op" where
  "mock_trigger_capture =
     andthen mock_require_connected
      (andthen (modify (\<lambda>m. m\<lparr>mk_shot_count := mk_shot_count m + 1\<rparr>))
      (andthen mock_session_drop
      (andthen (\<lambda>m. time_sleep (mk_trigger_delay_s m) m)
      (bindE mock_uuid4 (\<lambda>capture_id.
       bindE mock_pick_fixture (\<lambda>shot.
       bindE (\<lambda>m. (read_file (mk_fs m) shot, m)) (\<lambda>data.
       andthen (modify (\<lambda>m. m\<lparr>mk_captures := (mk_captures m)(capture_id \<mapsto> data)\<rparr>))
               (ret capture_id))))))))"

definition mock_random :: "(exn, mock_backend, rat) op" where
  "mock_random = (\<lambda>m. (Inr (mk_random m (mk_draws m)), m\<lparr>mk_draws := mk_draws m + 1\<rparr>))"

definition mock_maybe_inject_download_fault :: "(exn, mock_backend, unit) op" where
  "mock_maybe_inject_download_fault =
     (\<lambda>m. if mk_download_timeout_pct m \<noteq> 0
          then bindE mock_random (\<lambda>x m.
                 if x * 100 < mk_download_timeout_pct m
                 then (Inl (CameraError ''simulated download timeout (download_timeout_pct)''), m)
                 else (Inr (), m)) m
          else (Inr (), m))"

definition mock_download_delay_multiplier :: "(exn, mock_backend, rat) op" where
  "mock_download_delay_multiplier =
     (\<lambda>m. if mk_slow_download_pct m \<noteq> 0
          then bindE mock_random (\<lambda>x m. (Inr (if x * 100 < mk_slow_download_pct m then 5 else 1), m)) m
          else (Inr 1, m))"

definition mock_capture_data :: "string \<Rightarrow> (exn, mock_backend, bytes) op" where
  "mock_capture_data capture_id =
     (\<lambda>m. case mk_captures m capture_id of
        None \<Rightarrow> (Inl (KeyError (py_repr capture_id)), m) | Some d \<Rightarrow> (Inr d, m))"

definition mock_download_preview ::
  "pil \<Rightarrow> string \<Rightarrow> (exn, mock_backend, captured_image option) op" where
  "mock_download_preview P capture_id =
     andthen mock_require_connected
      (andthen mock_maybe_inject_download_fault
      (bindE mock_download_delay_multiplier (\<lambda>k.
       andthen (\<lambda>m. time_sleep (mk_thumb_latency_s m * k) m)
      (bindE (mock_capture_data capture_id) (\<lambda>data.
       bindE (lift_res (image_open P data)) (\<lambda>sz.
       case pil_thumbnail P (1616, 1080) sz of
         (w, h) \<Rightarrow> ret (Some \<lparr>ci_kind = PREVIEW, ci_data = data, ci_width = w, ci_height = h\<rparr>)))))))"

definition mock_transfer_s :: "bytes \<Rightarrow> (exn, mock_backend, rat) op" where
  "mock_transfer_s data =
     (\<lambda>m. if mk_full_download_mbps m = 0 then (Inl (ZeroDivisionError ''float division by zero''), m)
          else (Inr (of_nat (length data) / (1024 * 1024) / mk_full_download_mbps m), m))"

definition mock_download_full ::
  "pil \<Rightarrow> string \<Rightarrow> (exn, mock_backend, captured_image) op" where
  "mock_download_full P capture_id =
     andthen mock_require_connected
      (andthen mock_maybe_inject_download_fault
      (bindE (mock_capture_data capture_id) (\<lambda>data.
       bindE (mock_transfer_s data) (\<lambda>transfer_s.
       bindE mock_download_delay_multiplier (\<lambda>k.
       andthen (time_sleep (transfer_s * k))
      (bindE (lift_res (image_open P data)) (\<lambda>(w, h).
       ret \<lparr>ci_kind = FULL, ci_data = data, ci_width = w, ci_height = h\<rparr>)))))))"

definition mock_reconnect :: "(exn, mock_backend, unit) op" where
  "mock_reconnect = andthen mock_disconnect mock_connect"

definition mock_camera :: "pil \<Rightarrow> mock_backend camera_backend" where
  "mock_camera P =
     \<lparr>b_connect = mock_connect, b_disconnect = mock_disconnect, b_is_connected = mock_is_connected,
      b_trigger_autofocus = mock_trigger_autofocus, b_trigger_capture = mock_trigger_capture,
      b_download_preview = mock_download_preview P, b_download_full = mock_download_full P,
      b_reconnect = mock_reconnect\<rparr>"

subsection \<open>Lemmas\<close>

lemma mock_require_connected_simps [simp]:
  "mk_connected m \<Longrightarrow> mock_require_connected m = (Inr (), m)"
  "\<not> mk_connected m \<Longrightarrow>
     mock_require_connected m = (Inl (CameraDisconnectedError ''mock camera not connected''), m)"
  by (simp_all add: mock_require_connected_def)

lemma time_sleep_simp [simp]: "0 \<le> t \<Longrightarrow> time_sleep t = ret ()"
  by (simp add: time_sleep_def)

lemma keeps_time_sleep [frame_rules]: "keeps f (time_sleep t)" "keeps f (\<lambda>m. time_sleep (g m) m)"
  by (simp_all add: time_sleep_def keeps_def)

lemma time_sleep_no_KeyError [frame_rules]:
  "raises_only (\<lambda>e. \<not> is_KeyError e) (time_sleep t)"
  "raises_only (\<lambda>e. \<not> is_KeyError e) (\<lambda>m. time_sleep (g m) m)"
  by (auto simp: time_sleep_def raises_only_def)

lemma mock_frames [frame_rules]:
  "keeps mk_captures mock_require_connected"
  "keeps mk_captures mock_maybe_inject_download_fault"
  "keeps mk_captures mock_download_delay_multiplier"
  "keeps mk_captures (mock_capture_data i)"
  "keeps mk_captures (mock_transfer_s d)"
  by (auto simp: keeps_def mock_require_connected_def mock_maybe_inject_download_fault_def
      mock_download_delay_multiplier_def mock_random_def bindE_def mock_capture_data_def
      mock_transfer_s_def split: option.splits)

lemma mock_no_KeyError [frame_rules]:
  "raises_only (\<lambda>e. \<not> is_KeyError e) mock_require_connected"
  "raises_only (\<lambda>e. \<not> is_KeyError e) mock_maybe_inject_download_fault"
  "raises_only (\<lambda>e. \<not> is_KeyError e) mock_download_delay_multiplier"
  "raises_only (\<lambda>e. \<not> is_KeyError e) (mock_transfer_s d)"
  by (auto simp: raises_only_def mock_require_connected_def mock_maybe_inject_download_fault_def
      mock_download_delay_multiplier_def mock_random_def bindE_def mock_transfer_s_def
      split: if_splits)

lemma image_open_no_KeyError: "image_open P d = Inl e \<Longrightarrow> \<not> is_KeyError e"
  by (auto simp: image_open_def split: option.splits)

text \<open>Once the id is known, what follows the lookup raises no \<open>KeyError\<close>.\<close>

lemma mock_capture_data_known:
  "mk_captures m i = Some d \<Longrightarrow> mock_capture_data i m = (Inr d, m)"
  by (simp add: mock_capture_data_def)

lemma known_after:
  assumes "keeps mk_captures p" and "raises_only (\<lambda>e. \<not> is_KeyError e) p"
    and "\<And>d. raises_only (\<lambda>e. \<not> is_KeyError e) (q d)"
    and "i \<in> dom (mk_captures m)"
    and "bindE p (\<lambda>x. bindE (mock_capture_data i) q) m = (Inl e, m')"
  shows "\<not> is_KeyError e"
proof -
  obtain d where d: "mk_captures m i = Some d" using assms(4) by blast
  show ?thesis
  proof (cases "\<exists>x m1. p m = (Inr x, m1)")
    case True
    then obtain x m1 where p: "p m = (Inr x, m1)" by blast
    then have "mock_capture_data i m1 = (Inr d, m1)"
      using keepsD [OF assms(1) p] d by (simp add: mock_capture_data_known)
    with assms(5) p have "q d m1 = (Inl e, m')" by simp
    then show ?thesis by (rule raises_onlyD [OF assms(3)])
  next
    case False
    then obtain e' m1 where p: "p m = (Inl e', m1)" by (metis old.sum.exhaust prod.collapse)
    with assms(5) have "p m = (Inl e, m')" by simp
    then show ?thesis by (rule raises_onlyD [OF assms(2)])
  qed
qed

lemma mock_preview_known:
  assumes "i \<in> dom (mk_captures m)" and "mock_download_preview P i m = (Inl e, m')"
  shows "\<not> is_KeyError e"
proof (rule known_after [where i = i and m = m])
  let ?p = "andthen mock_require_connected (andthen mock_maybe_inject_download_fault
     (bindE mock_download_delay_multiplier (\<lambda>k m. time_sleep (mk_thumb_latency_s m * k) m)))"
  let ?q = "\<lambda>data. bindE (lift_res (image_open P data)) (\<lambda>sz. case pil_thumbnail P (1616, 1080) sz of
     (w, h) \<Rightarrow> ret (Some \<lparr>ci_kind = PREVIEW, ci_data = data, ci_width = w, ci_height = h\<rparr>))"
  show "keeps mk_captures ?p" by (intro frame_rules)
  show "raises_only (\<lambda>e. \<not> is_KeyError e) ?p" by (intro frame_rules)
  show "raises_only (\<lambda>e. \<not> is_KeyError e) (?q d)" for d
    by (intro frame_rules) (auto simp: image_open_no_KeyError raises_only_def split: prod.splits)
  show "bindE ?p (\<lambda>x. bindE (mock_capture_data i) ?q) m = (Inl e, m')"
    using assms(2) unfolding mock_download_preview_def andthen_def bindE_assoc .
qed (use assms in simp)

lemma mock_full_known:
  assumes "i \<in> dom (mk_captures m)" and "mock_download_full P i m = (Inl e, m')"
  shows "\<not> is_KeyError e"
proof (rule known_after [where i = i and m = m])
  let ?p = "andthen mock_require_connected mock_maybe_inject_download_fault"
  let ?q = "\<lambda>data. bindE (mock_transfer_s data) (\<lambda>transfer_s.
       bindE mock_download_delay_multiplier (\<lambda>k. andthen (time_sleep (transfer_s * k))
      (bindE (lift_res (image_open P data)) (\<lambda>(w, h).
       ret \<lparr>ci_kind = FULL, ci_data = data, ci_width = w, ci_height = h\<rparr>))))"
  show "keeps mk_captures ?p" by (intro frame_rules)
  show "raises_only (\<lambda>e. \<not> is_KeyError e) ?p" by (intro frame_rules)
  show "raises_only (\<lambda>e. \<not> is_KeyError e) (?q d)" for d
    by (intro frame_rules) (auto simp: image_open_no_KeyError raises_only_def split: prod.splits)
  show "bindE ?p (\<lambda>x. bindE (mock_capture_data i) ?q) m = (Inl e, m')"
    using assms(2) unfolding mock_download_full_def andthen_def bindE_assoc .
qed (use assms in simp)

lemma mock_keeps_preview: "keeps mk_captures (mock_download_preview P i)"
  unfolding mock_download_preview_def
  by (intro frame_rules) (auto simp: keeps_def split: prod.splits)

lemma mock_trigger_pending:
  "mock_trigger_capture m = (Inr i, m') \<Longrightarrow> i \<in> dom (mk_captures m')"
  unfolding mock_trigger_capture_def andthen_def by (auto simp: bindE_returns_iff)

lemma mock_closed:
  assumes "\<not> mk_connected m"
  shows "mock_trigger_capture m = (Inl (CameraDisconnectedError ''mock camera not connected''), m)"
    and "mock_download_preview P i m = (Inl (CameraDisconnectedError ''mock camera not connected''), m)"
    and "mock_download_full P i m = (Inl (CameraDisconnectedError ''mock camera not connected''), m)"
  using assms
  by (simp_all add: mock_trigger_capture_def mock_download_preview_def mock_download_full_def)

lemma mock_trigger_raises [frame_rules]: "raises_only (\<lambda>e. \<not> is_KeyError e) mock_trigger_capture"
proof -
  have "raises_only (\<lambda>e. \<not> is_KeyError e) mock_session_drop"
    "raises_only (\<lambda>e. \<not> is_KeyError e) mock_uuid4"
    "raises_only (\<lambda>e. \<not> is_KeyError e) mock_pick_fixture"
    "raises_only (\<lambda>e. \<not> is_KeyError e) (\<lambda>m. (read_file (mk_fs m) p, m))" for p
    by (auto simp: raises_only_def mock_session_drop_def mock_uuid4_def mock_pick_fixture_def Let_def
        read_file_def split: option.splits if_splits)
  then show ?thesis unfolding mock_trigger_capture_def by (intro frame_rules)
qed

interpretation mock: camera_contract "mock_camera P" mk_connected "\<lambda>m. dom (mk_captures m)"
  for P
proof (unfold_locales, goal_cases)
  case (9 s e s')
  then show ?case unfolding mock_camera_def by (simp add: raises_onlyD [OF mock_trigger_raises])
next
  case (12 i s e s')
  then show ?case unfolding mock_camera_def by (simp add: mock_preview_known)
next
  case (13 i s e s')
  then show ?case unfolding mock_camera_def by (simp add: mock_full_known)
qed (auto simp: mock_camera_def mock_connect_def mock_disconnect_def mock_reconnect_def
      mock_is_connected_def mock_trigger_autofocus_def mock_closed
      dest: mock_trigger_pending keepsD [OF mock_keeps_preview])

subsection \<open>The fault schedule of the mock\<close>

text \<open>A backend whose fixtures can be read and whose camera is open.\<close>

definition mock_fixtures_ok :: "mock_backend \<Rightarrow> bool" where
  "mock_fixtures_ok m \<longleftrightarrow>
     0 \<le> mk_trigger_delay_s m \<and> glob_jpg (mk_listing m) \<noteq> [] \<and>
     (\<forall>n \<in> set (glob_jpg (mk_listing m)).
        \<exists>d. read_file (mk_fs m) (path_div (mk_fixtures_dir m) n) = Inr d)"

definition mock_drops :: "mock_backend \<Rightarrow> bool" where
  "mock_drops m \<longleftrightarrow>
     (case mk_disconnect_every_n m of
        None \<Rightarrow> False | Some n \<Rightarrow> n \<noteq> 0 \<and> int (mk_shot_count m + 1) mod n = 0)"

text \<open>Shoot \<open>k\<close> times, reconnecting after every drop, and count the delivered shots.\<close>

fun shoot_and_recover :: "nat \<Rightarrow> mock_backend \<Rightarrow> nat \<times> mock_backend" where
  "shoot_and_recover 0 m = (0, m)"
| "shoot_and_recover (Suc k) m =
     (case mock_trigger_capture m of
        (Inr _, m1) \<Rightarrow> (case shoot_and_recover k m1 of (n, m2) \<Rightarrow> (n + 1, m2))
      | (Inl _, m1) \<Rightarrow> shoot_and_recover k (snd (mock_reconnect m1)))"

lemma mock_trigger_drop:
  assumes "mk_connected m" and "mock_drops m"
  shows "\<exists>e. mock_trigger_capture m =
    (Inl (CameraDisconnectedError e), m\<lparr>mk_shot_count := mk_shot_count m + 1, mk_connected := False\<rparr>)"
  using assms
  by (auto simp: mock_trigger_capture_def mock_session_drop_def mock_drops_def
      mock_require_connected_def andthen_def bindE_def split: option.splits)

lemma mock_pick_fixture_ok:
  assumes "mock_fixtures_ok m"
  shows "\<exists>n d. mock_pick_fixture m =
           (Inr (path_div (mk_fixtures_dir m) n), m\<lparr>mk_uuids := mk_uuids m + 1\<rparr>) \<and>
         read_file (mk_fs m) (path_div (mk_fixtures_dir m) n) = Inr d"
proof -
  let ?shots = "sort (glob_jpg (mk_listing m))"
  let ?k = "nat (mk_hash m (mk_uuids m) mod int (length ?shots))"
  have ne: "?shots \<noteq> []" using assms by (metis length_0_conv length_sort mock_fixtures_ok_def)
  then have "?k < length ?shots"
    by (metis length_greater_0_conv nat_int of_nat_0_less_iff pos_mod_bound pos_mod_sign zless_nat_conj
        nat_mono_iff)
  then have "?shots ! ?k \<in> set (glob_jpg (mk_listing m))"
    by (metis nth_mem set_sort)
  then obtain d where "read_file (mk_fs m) (path_div (mk_fixtures_dir m) (?shots ! ?k)) = Inr d"
    using assms by (auto simp: mock_fixtures_ok_def)
  with ne show ?thesis by (simp add: mock_pick_fixture_def Let_def) blast
qed

lemma mock_trigger_ok:
  assumes "mk_connected m" and "\<not> mock_drops m" and "mock_fixtures_ok m"
  shows "\<exists>d. mock_trigger_capture m =
    (Inr (mk_uuid m (mk_uuids m)),
     m\<lparr>mk_shot_count := mk_shot_count m + 1, mk_uuids := mk_uuids m + 2,
       mk_captures := (mk_captures m)(mk_uuid m (mk_uuids m) \<mapsto> d)\<rparr>)"
proof -
  let ?m1 = "m\<lparr>mk_shot_count := mk_shot_count m + 1\<rparr>"
  let ?m2 = "?m1\<lparr>mk_uuids := mk_uuids m + 1\<rparr>"
  have drop: "mock_session_drop ?m1 = (Inr (), ?m1)"
    using assms(2) by (auto simp: mock_session_drop_def mock_drops_def split: option.splits)
  have "mock_fixtures_ok ?m2" using assms(3) by (simp add: mock_fixtures_ok_def)
  from mock_pick_fixture_ok [OF this] obtain n d where
    pick: "mock_pick_fixture ?m2 =
      (Inr (path_div (mk_fixtures_dir m) n), ?m2\<lparr>mk_uuids := mk_uuids m + 2\<rparr>)"
    and read: "read_file (mk_fs m) (path_div (mk_fixtures_dir m) n) = Inr d"
    by auto
  have "0 \<le> mk_trigger_delay_s m" using assms(3) by (simp add: mock_fixtures_ok_def)
  with assms(1) drop pick read show ?thesis
    by (intro exI [of _ d]) (simp add: mock_trigger_capture_def andthen_def mock_uuid4_def bindE_def)
qed

lemma shoot_and_recover_from:
  assumes "mk_connected m" and "mock_fixtures_ok m"
    and "mk_disconnect_every_n m = Some (int n)" and "0 < n"
  shows "fst (shoot_and_recover k m) + ((mk_shot_count m + k) div n - mk_shot_count m div n) = k"
  using assms(1-3)
proof (induction k arbitrary: m)
  case 0
  then show ?case by simp
next
  case (Suc k)
  let ?c = "mk_shot_count m"
  have drops: "mock_drops m \<longleftrightarrow> Suc ?c mod n = 0"
    using Suc.prems(3) assms(4) zmod_int [of "Suc ?c" n, symmetric]
    by (simp add: mock_drops_def del: of_nat_Suc)
  have mono: "Suc ?c div n \<le> (Suc ?c + k) div n" by (simp add: div_le_mono)
  show ?case
  proof (cases "mock_drops m")
    case True
    from mock_trigger_drop [OF Suc.prems(1) True] obtain e where
      trig: "mock_trigger_capture m =
        (Inl (CameraDisconnectedError e), m\<lparr>mk_shot_count := ?c + 1, mk_connected := False\<rparr>)" ..
    let ?m1 = "m\<lparr>mk_shot_count := ?c + 1, mk_connected := True\<rparr>"
    have rec: "snd (mock_reconnect (m\<lparr>mk_shot_count := ?c + 1, mk_connected := False\<rparr>)) = ?m1"
      by (simp add: mock_reconnect_def mock_disconnect_def mock_connect_def)
    have "fst (shoot_and_recover k ?m1) + ((?c + 1 + k) div n - (?c + 1) div n) = k"
      using Suc.IH [of ?m1] Suc.prems by (simp add: mock_fixtures_ok_def)
    moreover have "Suc ?c div n = Suc (?c div n)"
      using True drops by (simp add: div_Suc)
    ultimately show ?thesis using trig rec mono by simp
  next
    case False
    from mock_trigger_ok [OF Suc.prems(1) False Suc.prems(2)] obtain d where
      trig: "mock_trigger_capture m = (Inr (mk_uuid m (mk_uuids m)),
        m\<lparr>mk_shot_count := ?c + 1, mk_uuids := mk_uuids m + 2,
          mk_captures := (mk_captures m)(mk_uuid m (mk_uuids m) \<mapsto> d)\<rparr>)" (is "_ = (_, ?m1)") ..
    have "fst (shoot_and_recover k ?m1) + ((?c + 1 + k) div n - (?c + 1) div n) = k"
      using Suc.IH [of ?m1] Suc.prems by (simp add: mock_fixtures_ok_def)
    moreover have "Suc ?c div n = ?c div n"
      using False drops by (simp add: div_Suc)
    ultimately show ?thesis using trig mono by (simp add: case_prod_beta)
  qed
qed

text \<open>
  with \<open>disconnect_every_n = n > 0\<close> and readable fixtures, a fresh mock camera that is shot
  \<open>k\<close> times and reconnected after every drop delivers exactly \<open>k - k div n\<close> shots: every
  \<open>n\<close>th shot, and no other, ends in a session drop, and reconnecting always recovers.
\<close>

theorem mock_fault_schedule:
  assumes "mk_connected m" and "mock_fixtures_ok m"
    and "mk_disconnect_every_n m = Some (int n)" and "0 < n" and "mk_shot_count m = 0"
  shows "fst (shoot_and_recover k m) = k - k div n"
  using shoot_and_recover_from [OF assms(1-4), of k] assms(5) by simp

definition demo_mock :: mock_backend where
  "demo_mock = (new_mock_backend (to_path ''fixtures/shots'') 250 150 40 (Some 3) 0 0 [''a.jpg'']
     \<lparr>fs_files = [to_path ''fixtures/shots/a.jpg'' \<mapsto> [0xFF, 0xD8]], fs_dirs = {},
      fs_faults = (\<lambda>_. False)\<rparr>
     (\<lambda>_. 0) (\<lambda>n. CHR ''u'' # str_nat n) (\<lambda>_. 7))\<lparr>mk_connected := True\<rparr>"

lemma mock_fault_schedule_witness: "fst (shoot_and_recover 10 demo_mock) = 7"
proof -
  have "path_div (to_path ''fixtures/shots'') ''a.jpg'' = to_path ''fixtures/shots/a.jpg''"
    by code_simp
  moreover have "glob_jpg [''a.jpg''] = [''a.jpg'']" by code_simp
  ultimately have "mock_fixtures_ok demo_mock"
    by (simp add: mock_fixtures_ok_def demo_mock_def new_mock_backend_def read_file_def)
  then show ?thesis
    using mock_fault_schedule [of demo_mock 3 10]
    by (simp add: demo_mock_def new_mock_backend_def)
qed

end
