(* ===== verification/Camera_Worker.thy ===== *)
theory Camera_Worker
  imports Camera_Mock
begin

text \<open>
  \<open>src/photobooth/camera/worker.py\<close>: the process that owns the camera.  A connected socket is
  the byte segments that will still arrive before the peer closes, the bytes sent, and whether
  the peer still reads; \<open>recv\<close> hands out at most one segment and at most the bytes asked for,
  so the reassembly of frames is modelled.  The accept loop runs over the outcomes of
  \<open>accept\<close> (a time-out or a connection) until its stop event ends the list.
\<close>

subsection \<open>Sockets\<close>

record sock =
  rx :: "bytes list"
  tx :: bytes
  tx_open :: bool

fun recv_segs :: "nat \<Rightarrow> bytes list \<Rightarrow> bytes \<times> bytes list" where
  "recv_segs n [] = ([], [])"
| "recv_segs n ([] # rest) = recv_segs n rest"
| "recv_segs n ((b # bs) # rest) =
     (take n (b # bs), if n < length (b # bs) then drop n (b # bs) # rest else rest)"

definition recv :: "nat \<Rightarrow> sock \<Rightarrow> bytes \<times> sock" where
  "recv n s = (case recv_segs n (rx s) of (c, r) \<Rightarrow> (c, s\<lparr>rx := r\<rparr>))"

definition sendall :: "bytes \<Rightarrow> (exn, sock, unit) op" where
  "sendall d =
     (\<lambda>s. if tx_open s then (Inr (), s\<lparr>tx := tx s @ d\<rparr>)
          else (Inl (OSError ''[Errno 32] Broken pipe''), s))"

lemma recv_segs_concat: "recv_segs n segs = (c, r) \<Longrightarrow> concat segs = c @ concat r"
  by (induction n segs arbitrary: c r rule: recv_segs.induct) auto

lemma recv_segs_length: "recv_segs n segs = (c, r) \<Longrightarrow> length c \<le> n"
  by (induction n segs arbitrary: c r rule: recv_segs.induct) auto

lemma recv_segs_Nil: "0 < n \<Longrightarrow> recv_segs n segs = ([], r) \<Longrightarrow> concat segs = []"
  by (induction n segs arbitrary: r rule: recv_segs.induct) auto

lemma recv_frame [simp]: "tx (snd (recv n s)) = tx s" "tx_open (snd (recv n s)) = tx_open s"
  by (simp_all add: recv_def split: prod.splits)

subsection \<open>\<open>_read_exact\<close>\<close>

definition RECV_CHUNK_BYTES :: nat where
  "RECV_CHUNK_BYTES = 65536"

function read_exact_loop :: "nat \<Rightarrow> bytes \<Rightarrow> sock \<Rightarrow> bytes option \<times> sock" where
  "read_exact_loop remaining acc s =
     (if remaining = 0 then (Some acc, s)
      else (case recv (min remaining RECV_CHUNK_BYTES) s of
              (chunk, s') \<Rightarrow>
                if chunk = [] then (None, s')
                else read_exact_loop (remaining - length chunk) (acc @ chunk) s'))"
  by pat_completeness auto
termination
  by (relation "measure (\<lambda>(remaining, acc, s). remaining)") auto

declare read_exact_loop.simps [simp del]

definition read_exact :: "sock \<Rightarrow> nat \<Rightarrow> bytes option \<times> sock" where
  "read_exact s n = read_exact_loop n [] s"

lemma read_exact_loop_spec:
  assumes "read_exact_loop n acc s = (r, s')"
  shows "tx s' = tx s \<and> tx_open s' = tx_open s \<and>
    (if n \<le> length (concat (rx s))
     then r = Some (acc @ take n (concat (rx s))) \<and> concat (rx s') = drop n (concat (rx s))
     else r = None \<and> concat (rx s') = [])"
  using assms
proof (induction n acc s rule: read_exact_loop.induct)
  case (1 n acc s)
  show ?case
  proof (cases "n = 0")
    case True
    with 1 show ?thesis by (simp add: read_exact_loop.simps)
  next
    case False
    obtain c segs where rs: "recv_segs (min n RECV_CHUNK_BYTES) (rx s) = (c, segs)"
      by fastforce
    have pos: "0 < min n RECV_CHUNK_BYTES" using False by (simp add: RECV_CHUNK_BYTES_def)
    have cat: "concat (rx s) = c @ concat segs" using recv_segs_concat [OF rs] .
    have len: "length c \<le> n" using recv_segs_length [OF rs] by simp
    have rc: "recv (min n RECV_CHUNK_BYTES) s = (c, s\<lparr>rx := segs\<rparr>)"
      using rs by (simp add: recv_def)
    show ?thesis
    proof (cases "c = []")
      case True
      then have "concat (rx s) = []" using recv_segs_Nil [OF pos] rs by simp
      moreover from this have "concat segs = []" using cat by simp
      moreover have "r = None" "s' = s\<lparr>rx := segs\<rparr>"
        using 1(2) False rc True by (auto simp: read_exact_loop.simps [of n])
      ultimately show ?thesis using False by (simp del: concat_eq_Nil_conv)
    next
      case ne: False
      then have "read_exact_loop (n - length c) (acc @ c) (s\<lparr>rx := segs\<rparr>) = (r, s')"
        using 1(2) False rc by (simp add: read_exact_loop.simps [of n])
      from 1(1) [OF False rc [symmetric] ne this] show ?thesis
        using cat len by (auto simp: le_diff_conv)
    qed
  qed
qed

text \<open>How the bytes were cut into segments does not matter.\<close>

lemma read_exact_Some:
  "n \<le> length (concat (rx s)) \<Longrightarrow>
     \<exists>segs. read_exact s n = (Some (take n (concat (rx s))), s\<lparr>rx := segs\<rparr>) \<and>
            concat segs = drop n (concat (rx s))"
  using read_exact_loop_spec [of n "[]" s "fst (read_exact s n)" "snd (read_exact s n)"]
  by (intro exI [of _ "rx (snd (read_exact s n))"]) (auto simp: read_exact_def prod_eq_iff)

lemma read_exact_None:
  "length (concat (rx s)) < n \<Longrightarrow>
     \<exists>segs. read_exact s n = (None, s\<lparr>rx := segs\<rparr>) \<and> concat segs = []"
  using read_exact_loop_spec [of n "[]" s "fst (read_exact s n)" "snd (read_exact s n)"]
  by (intro exI [of _ "rx (snd (read_exact s n))"]) (auto simp: read_exact_def prod_eq_iff)

lemma read_exact_length:
  "read_exact s n = (Some d, s') \<Longrightarrow>
     length d = n \<and> length (concat (rx s)) = n + length (concat (rx s'))"
  using read_exact_loop_spec [of n "[]" s "Some d" s']
  by (auto simp: read_exact_def split: if_splits)

subsection \<open>Requests\<close>

definition image_result :: "captured_image \<Rightarrow> response" where
  "image_result im = ImageResult (kind_value (ci_kind im)) (ci_data im) (ci_width im) (ci_height im)"

fun dispatch :: "'c camera_backend \<Rightarrow> request \<Rightarrow> (exn, 'c, response) op" where
  "dispatch b Connect = andthen (b_connect b) (ret Ok)"
| "dispatch b Disconnect = andthen (b_disconnect b) (ret Ok)"
| "dispatch b Reconnect = andthen (b_reconnect b) (ret Ok)"
| "dispatch b GetStatus = bindE (b_is_connected b) (\<lambda>c. ret (StatusResult c))"
| "dispatch b TriggerAutofocus = andthen (b_trigger_autofocus b) (ret Ok)"
| "dispatch b TriggerCapture = bindE (b_trigger_capture b) (\<lambda>i. ret (CaptureResult i))"
| "dispatch b (DownloadPreview i) =
     bindE (b_download_preview b i) (\<lambda>preview.
       case preview of None \<Rightarrow> ret NoPreview | Some im \<Rightarrow> ret (image_result im))"
| "dispatch b (DownloadFull i) = bindE (b_download_full b i) (\<lambda>full. ret (image_result full))"

fun error_response :: "exn \<Rightarrow> (exn, 'c, response) op" where
  "error_response (CameraDisconnectedError m) = ret (ErrorResult ''disconnected'' m)"
| "error_response (CameraError m) = ret (ErrorResult ''error'' m)"
| "error_response e = raise e"

definition handle_request :: "'c camera_backend \<Rightarrow> request \<Rightarrow> (exn, 'c, response) op" where
  "handle_request b request = try_except (dispatch b request) error_response"

subsection \<open>Connections\<close>

text \<open>One turn of the loop of \<open>_serve_connection\<close>; \<open>True\<close>: the peer closed.\<close>

definition serve_one :: "codec \<Rightarrow> 'c camera_backend \<Rightarrow> (exn, sock \<times> 'c, bool) op" where
  "serve_one K b =
     (\<lambda>(s, c). case read_exact s 4 of
        (None, s1) \<Rightarrow> (Inr True, (s1, c))
      | (Some header, s1) \<Rightarrow>
          (case read_frame_length header of
             Inl e \<Rightarrow> (Inl e, (s1, c))
           | Inr len \<Rightarrow>
               (case read_exact s1 len of
                  (None, s2) \<Rightarrow> (Inr True, (s2, c))
                | (Some payload, s2) \<Rightarrow>
                    (case decode_request K payload of
                       Inl e \<Rightarrow> (Inl e, (s2, c))
                     | Inr request \<Rightarrow>
                         (case handle_request b request c of
                            (Inl e, c') \<Rightarrow> (Inl e, (s2, c'))
                          | (Inr response, c') \<Rightarrow>
                              (case encode_response K response of
                                 Inl e \<Rightarrow> (Inl e, (s2, c'))
                               | Inr out \<Rightarrow>
                                   (case sendall out s2 of
                                      (Inl e, s3) \<Rightarrow> (Inl e, (s3, c'))
                                    | (Inr _, s3) \<Rightarrow> (Inr False, (s3, c')))))))))"

text \<open>
  The loop ends because every turn that goes on has consumed a header; an \<open>with conn\<close> closes
  the socket on the way out.
\<close>

definition sock_left :: "sock \<Rightarrow> nat" where
  "sock_left s = length (concat (rx s))"

lemma serve_one_consumes:
  assumes "serve_one K b (s, c) = (Inr False, (s', c'))"
  shows "sock_left s' < sock_left s"
proof -
  obtain header s1 where h: "read_exact s 4 = (Some header, s1)"
    using assms by (cases "read_exact s 4") (auto simp: serve_one_def split: option.splits)
  obtain len where l: "read_frame_length header = Inr len"
    using assms h by (auto simp: serve_one_def split: sum.splits)
  obtain payload s2 where p: "read_exact s1 len = (Some payload, s2)"
    using assms h l by (cases "read_exact s1 len") (auto simp: serve_one_def split: option.splits)
  have "rx s' = rx s2"
    using assms h l p by (auto simp: serve_one_def sendall_def split: sum.splits prod.splits if_splits)
  then show ?thesis
    using read_exact_length [OF h] read_exact_length [OF p] by (simp add: sock_left_def)
qed

function serve_loop :: "codec \<Rightarrow> 'c camera_backend \<Rightarrow> (exn, sock \<times> 'c, unit) op" where
  "serve_loop K b st =
     (case serve_one K b st of
        (Inl e, st') \<Rightarrow> (Inl e, st')
      | (Inr hangup, st') \<Rightarrow> if hangup then (Inr (), st') else serve_loop K b st')"
  by pat_completeness auto
termination
  by (relation "measure (\<lambda>(K, b, (s, c)). sock_left s)") (auto dest: serve_one_consumes [OF sym])

declare serve_loop.simps [simp del]

definition serve_connection ::
  "codec \<Rightarrow> 'c camera_backend \<Rightarrow> sock \<Rightarrow> (exn, 'c, sock) op" where
  "serve_connection K b s =
     (\<lambda>c. case serve_loop K b (s, c) of
        (r, (s', c')) \<Rightarrow> (map_sum id (\<lambda>_. s') r, c'))"

subsection \<open>The accept loop\<close>

text \<open>
  The loop leaves on the stop event (the end of the list) or on an exception of a connection;
  either way the \<open>finally\<close> block closes the listener and releases the camera.
\<close>

fun accept_loop ::
  "codec \<Rightarrow> 'c camera_backend \<Rightarrow> sock option list \<Rightarrow> (exn, 'c, sock list) op" where
  "accept_loop K b [] = ret []"
| "accept_loop K b (None # rest) = accept_loop K b rest"
| "accept_loop K b (Some s # rest) =
     bindE (serve_connection K b s) (\<lambda>s'.
     bindE (accept_loop K b rest) (\<lambda>ss. ret (s' # ss)))"

definition release_camera :: "'c camera_backend \<Rightarrow> (exn, 'c, unit) op" where
  "release_camera b =
     bindE (b_is_connected b) (\<lambda>connected. if connected then b_disconnect b else ret ())"

text \<open>An exception of the \<open>finally\<close> block replaces the pending one.\<close>

definition run_worker ::
  "codec \<Rightarrow> 'c camera_backend \<Rightarrow> sock option list \<Rightarrow> (exn, 'c, sock list) op" where
  "run_worker K b accepts =
     (\<lambda>c. case accept_loop K b accepts c of
        (Inl Diverges, c') \<Rightarrow> (Inl Diverges, c')
      | (r, c') \<Rightarrow>
          (case release_camera b c' of
             (Inl e, c'') \<Rightarrow> (Inl e, c'')
           | (Inr _, c'') \<Rightarrow> (r, c'')))"

subsection \<open>Lemmas\<close>

text \<open>The bytes of a message on the wire.\<close>

definition request_wire :: "codec \<Rightarrow> request \<Rightarrow> bytes" where
  "request_wire K q = be_bytes 4 (length (request_encode K q)) @ request_encode K q"

definition response_wire :: "codec \<Rightarrow> response \<Rightarrow> bytes" where
  "response_wire K r = be_bytes 4 (length (response_encode K r)) @ response_encode K r"

lemma encode_request_wire: "codes_request K q \<Longrightarrow> encode_request K q = Inr (request_wire K q)"
  by (simp add: codes_request_def encode_request_def request_wire_def frame_ok)

lemma encode_response_wire: "codes_response K r \<Longrightarrow> encode_response K r = Inr (response_wire K r)"
  by (simp add: codes_response_def encode_response_def response_wire_def frame_ok)

text \<open>A request at the front of the stream is taken off it, however it was segmented.\<close>

lemma read_request:
  assumes "codes_request K q" and "concat (rx s) = request_wire K q @ tail"
  shows "\<exists>header s1 segs. read_exact s 4 = (Some header, s1) \<and>
    read_frame_length header = Inr (length (request_encode K q)) \<and>
    read_exact s1 (length (request_encode K q)) = (Some (request_encode K q), s\<lparr>rx := segs\<rparr>) \<and>
    concat segs = tail"
proof -
  let ?n = "length (request_encode K q)"
  have n: "?n \<le> MAX_FRAME_BYTES" using assms(1) by (simp add: codes_request_def)
  have cat: "concat (rx s) = be_bytes 4 ?n @ request_encode K q @ tail"
    using assms(2) by (simp add: request_wire_def)
  then have "4 \<le> length (concat (rx s))" by simp
  from read_exact_Some [OF this] cat obtain segs where
    h: "read_exact s 4 = (Some (be_bytes 4 ?n), s\<lparr>rx := segs\<rparr>)"
    and segs: "concat segs = request_encode K q @ tail" by auto
  then have "?n \<le> length (concat (rx (s\<lparr>rx := segs\<rparr>)))" by simp
  from read_exact_Some [OF this] segs obtain segs' where
    "read_exact (s\<lparr>rx := segs\<rparr>) ?n = (Some (request_encode K q), s\<lparr>rx := segs'\<rparr>)"
    "concat segs' = tail" by auto
  with h read_frame_length_ok [OF n] show ?thesis by blast
qed

lemma serve_one_request:
  assumes "codes_request K q" and "concat (rx s) = request_wire K q @ tail" and "tx_open s"
    and "handle_request b q c = (Inr r, c')" and "codes_response K r"
  shows "\<exists>segs. serve_one K b (s, c) =
      (Inr False, (s\<lparr>rx := segs, tx := tx s @ response_wire K r\<rparr>, c')) \<and> concat segs = tail"
proof -
  from read_request [OF assms(1,2)] obtain header s1 segs where
    "read_exact s 4 = (Some header, s1)"
    "read_frame_length header = Inr (length (request_encode K q))"
    "read_exact s1 (length (request_encode K q)) = (Some (request_encode K q), s\<lparr>rx := segs\<rparr>)"
    "concat segs = tail" by blast
  with assms show ?thesis
    by (intro exI [of _ segs])
      (simp add: serve_one_def decode_request_def codes_request_def encode_response_wire sendall_def)
qed

lemma serve_one_raises:
  assumes "codes_request K q" and "concat (rx s) = request_wire K q @ tail"
    and "handle_request b q c = (Inl e, c')"
  shows "\<exists>s'. serve_one K b (s, c) = (Inl e, (s', c')) \<and> tx s' = tx s"
proof -
  from read_request [OF assms(1,2)] obtain header s1 segs where
    "read_exact s 4 = (Some header, s1)"
    "read_frame_length header = Inr (length (request_encode K q))"
    "read_exact s1 (length (request_encode K q)) = (Some (request_encode K q), s\<lparr>rx := segs\<rparr>)"
    by blast
  with assms show ?thesis
    by (intro exI [of _ "s\<lparr>rx := segs\<rparr>"])
      (simp add: serve_one_def decode_request_def codes_request_def)
qed

lemma serve_one_closed:
  assumes "length (concat (rx s)) < 4"
  shows "\<exists>segs. serve_one K b (s, c) = (Inr True, (s\<lparr>rx := segs\<rparr>, c))"
  using read_exact_None [OF assms] by (auto simp: serve_one_def)

text \<open>Requests handled one after the other, up to the first that raises.\<close>

fun run_requests :: "'c camera_backend \<Rightarrow> request list \<Rightarrow> (exn, 'c, response list) op" where
  "run_requests b [] = ret []"
| "run_requests b (q # qs) =
     bindE (handle_request b q) (\<lambda>r. bindE (run_requests b qs) (\<lambda>rs. ret (r # rs)))"

lemma serve_loop_requests:
  assumes "\<forall>q \<in> set qs. codes_request K q"
    and "concat (rx s) = concat (map (request_wire K) qs) @ rest" and "length rest < 4"
    and "tx_open s" and "run_requests b qs c = (Inr rs, c')"
    and "\<forall>r \<in> set rs. codes_response K r"
  shows "\<exists>s'. serve_loop K b (s, c) = (Inr (), (s', c')) \<and>
              tx s' = tx s @ concat (map (response_wire K) rs)"
  using assms
proof (induction qs arbitrary: s c rs)
  case Nil
  then have "length (concat (rx s)) < 4" "c' = c" "rs = []" by auto
  moreover from serve_one_closed [OF this(1), of K b c] obtain segs where
    "serve_one K b (s, c) = (Inr True, (s\<lparr>rx := segs\<rparr>, c))" by blast
  ultimately show ?case by (simp add: serve_loop.simps [of K b "(s, c)"])
next
  case (Cons q qs)
  from Cons.prems(5) obtain r rs' c1 where
    h: "handle_request b q c = (Inr r, c1)"
    and rest: "run_requests b qs c1 = (Inr rs', c')" and rs: "rs = r # rs'"
    by (auto simp: bindE_returns_iff)
  have "concat (rx s) = request_wire K q @ (concat (map (request_wire K) qs) @ rest)"
    using Cons.prems(2) by simp
  moreover have "codes_request K q" "codes_response K r" using Cons.prems rs by auto
  ultimately obtain segs where
    one: "serve_one K b (s, c) =
      (Inr False, (s\<lparr>rx := segs, tx := tx s @ response_wire K r\<rparr>, c1))"
    and segs: "concat segs = concat (map (request_wire K) qs) @ rest"
    using serve_one_request [OF _ _ Cons.prems(4) h] by blast
  have "\<exists>s'. serve_loop K b (s\<lparr>rx := segs, tx := tx s @ response_wire K r\<rparr>, c1) = (Inr (), (s', c')) \<and>
     tx s' = (tx s @ response_wire K r) @ concat (map (response_wire K) rs')"
    using Cons.IH [of "s\<lparr>rx := segs, tx := tx s @ response_wire K r\<rparr>" c1 rs'] Cons.prems rest rs segs
    by simp
  then show ?case using one rs by (auto simp: serve_loop.simps [of K b "(s, c)"])
qed

lemma serve_loop_first_raises:
  assumes "codes_request K q" and "concat (rx s) = request_wire K q @ tail"
    and "handle_request b q c = (Inl e, c')"
  shows "\<exists>s'. serve_loop K b (s, c) = (Inl e, (s', c'))"
  using serve_one_raises [OF assms] by (auto simp: serve_loop.simps [of K b "(s, c)"])

text \<open>
  C22: the worker is a faithful server: whatever way TCP cuts a client's requests into segments
  (and whatever incomplete header trails them), the bytes it sends back are exactly the framed
  responses, in request order, and the camera state is that of handling the requests one after
  the other.
\<close>

theorem worker_serves_in_order:
  assumes "\<forall>q \<in> set qs. codes_request K q" and "\<forall>r \<in> set rs. codes_response K r"
    and "concat (rx s) = concat (map (request_wire K) qs) @ rest" and "length rest < 4"
    and "tx_open s" and "run_requests b qs c = (Inr rs, c')"
  shows "\<exists>s'. serve_connection K b s c = (Inr s', c') \<and>
              tx s' = tx s @ concat (map (response_wire K) rs)"
  using serve_loop_requests [OF assms(1,3,4,5,6,2)] by (auto simp: serve_connection_def)

text \<open>A codec on a few messages, for the witnesses.\<close>

definition demo_codec :: codec where
  "demo_codec =
     \<lparr>request_encode = (\<lambda>q. case q of Connect \<Rightarrow> [1] | GetStatus \<Rightarrow> [2] | TriggerCapture \<Rightarrow> [3] | _ \<Rightarrow> [4]),
      request_decode = (\<lambda>d. if d = [1] then Inr Connect else if d = [2] then Inr GetStatus
        else if d = [3] then Inr TriggerCapture
        else if d = [4] then Inr (DownloadFull ''nope'') else Inl (DecodeError '''')),
      response_encode = (\<lambda>r. case r of Ok \<Rightarrow> [1] | StatusResult b \<Rightarrow> [2, if b then 1 else 0]
        | CaptureResult _ \<Rightarrow> [3] | _ \<Rightarrow> [4]),
      response_decode = (\<lambda>d. if d = [1] then Inr Ok else if d = [2, 1] then Inr (StatusResult True)
        else if d = [2, 0] then Inr (StatusResult False)
        else if d = [3] then Inr (CaptureResult ''u0'') else Inl (DecodeError ''''))\<rparr>"

definition demo_pil :: pil where
  "demo_pil = \<lparr>pil_open = (\<lambda>_. Some (6000, 4000)), pil_thumbnail = (\<lambda>_ _. (1616, 1077))\<rparr>"

lemma be_bytes_4: "be_bytes 4 n = be_bytes (Suc (Suc (Suc (Suc 0)))) n"
proof -
  have "4 = Suc (Suc (Suc (Suc 0)))" by simp
  then show ?thesis by (simp only:)
qed

lemma worker_serves_in_order_witness:
  "\<exists>s'. serve_connection demo_codec (mock_camera demo_pil)
     \<lparr>rx = [[0, 0], [0, 1, 1, 0, 0, 0], [], [1, 2, 0]], tx = [], tx_open = True\<rparr>
     (demo_mock\<lparr>mk_connected := False\<rparr>) = (Inr s', demo_mock) \<and>
     tx s' = [0, 0, 0, 1, 1, 0, 0, 0, 2, 2, 1]"
proof -
  have "demo_mock\<lparr>mk_connected := True\<rparr> = demo_mock" by (simp add: demo_mock_def)
  moreover have "mk_connected demo_mock" by (simp add: demo_mock_def)
  ultimately show ?thesis
    using worker_serves_in_order [of "[Connect, GetStatus]" demo_codec "[Ok, StatusResult True]"
      "\<lparr>rx = [[0, 0], [0, 1, 1, 0, 0, 0], [], [1, 2, 0]], tx = [], tx_open = True\<rparr>" "[0]"
      "mock_camera demo_pil" "demo_mock\<lparr>mk_connected := False\<rparr>" demo_mock]
    by (simp add: codes_request_def codes_response_def demo_codec_def request_wire_def
        response_wire_def MAX_FRAME_BYTES_def handle_request_def mock_camera_def mock_connect_def
        mock_is_connected_def try_except_def bindE_def andthen_def be_bytes_4)
qed

subsection \<open>What ends the worker\<close>

text \<open>
  Only camera errors become error responses; every other exception of a backend leaves the
  request loop, the accept loop and the process.
\<close>

lemma handle_request_error:
  "dispatch b q c = (Inl e, c') \<Longrightarrow> handle_request b q c =
     (case e of CameraDisconnectedError m \<Rightarrow> (Inr (ErrorResult ''disconnected'' m), c')
      | CameraError m \<Rightarrow> (Inr (ErrorResult ''error'' m), c') | _ \<Rightarrow> (Inl e, c'))"
  by (cases e) (simp_all add: handle_request_def)

lemma handle_request_ok: "dispatch b q c = (Inr r, c') \<Longrightarrow> handle_request b q c = (Inr r, c')"
  by (simp add: handle_request_def)

lemma accept_loop_raises:
  assumes "codes_request K q" and "concat (rx s) = request_wire K q @ tail"
    and "handle_request b q c = (Inl e, c')"
  shows "accept_loop K b (Some s # rest) c = (Inl e, c')"
  using serve_loop_first_raises [OF assms] by (auto simp: serve_connection_def)

lemma release_mock:
  "\<exists>c'. release_camera (mock_camera P) c = (Inr (), c') \<and> \<not> mk_connected c'"
  by (simp add: release_camera_def mock_camera_def mock_is_connected_def mock_disconnect_def bindE_def)

text \<open>
  a request for an image the camera does not hold (an id never issued) raises a
  \<open>KeyError\<close>, which no \<open>except\<close> clause of the worker catches: the camera process stops
  serving, this connection and every later one, after releasing the camera.
\<close>

theorem unknown_download_stops_worker:
  assumes "codes_request K (DownloadFull i)"
    and "concat (rx s) = request_wire K (DownloadFull i) @ tail"
    and "mk_connected c" and "mk_captures c i = None" and "mk_download_timeout_pct c = 0"
  shows "\<exists>c'. run_worker K (mock_camera P) (Some s # rest) c = (Inl (KeyError (py_repr i)), c') \<and>
              \<not> mk_connected c'"
proof -
  have "mock_download_full P i c = (Inl (KeyError (py_repr i)), c)"
    using assms(3-5) by (simp add: mock_download_full_def mock_maybe_inject_download_fault_def
        mock_capture_data_def andthen_def bindE_def)
  then have "handle_request (mock_camera P) (DownloadFull i) c = (Inl (KeyError (py_repr i)), c)"
    by (simp add: mock_camera_def handle_request_error)
  from accept_loop_raises [OF assms(1,2) this] release_mock [of P c]
  show ?thesis by (auto simp: run_worker_def simp del: accept_loop.simps)
qed

lemma unknown_download_stops_worker_witness:
  "\<exists>c'. run_worker demo_codec (mock_camera demo_pil)
      [Some \<lparr>rx = [[0, 0, 0, 1, 4]], tx = [], tx_open = True\<rparr>,
       Some \<lparr>rx = [[0, 0, 0, 1, 2]], tx = [], tx_open = True\<rparr>] demo_mock =
      (Inl (KeyError (py_repr ''nope'')), c') \<and> \<not> mk_connected c'"
  by (rule unknown_download_stops_worker [where tail = "[]"])
    (simp_all add: codes_request_def demo_codec_def request_wire_def MAX_FRAME_BYTES_def be_bytes_4
      demo_mock_def new_mock_backend_def)

end
