(* ===== verification/Camera_Client.thy ===== *)
theory Camera_Client
  imports Camera_Worker
begin

text \<open>
  \<open>src/photobooth/camera/client.py\<close>: the app's side of the camera connection.  The network is
  a \<open>net\<close> record over its own state: opening a connection, and what the peer does with the
  bytes written before it is the client's turn to read again (the protocol is lockstep, the lock
  of \<open>_request\<close> makes calls sequential).  A peer that answers too little and stays connected
  leaves \<open>readexactly\<close> waiting: the call diverges.  \<open>worker_net\<close> is the network whose peer
  is the worker of \<open>Camera_Worker\<close>; over it the client is shown to be transparent.
\<close>

subsection \<open>The network\<close>

datatype answer =
    Answers bytes
  | Hangup bytes
  | Reset string

record 'w net =
  net_connect :: "(exn, 'w, unit) op"
  net_exchange :: "bytes \<Rightarrow> 'w \<Rightarrow> answer \<times> 'w"

text \<open>\<open>cl_conn\<close>: the reader's buffer and whether it has seen the end of the stream.\<close>

record 'w client =
  cl_conn :: "(bytes \<times> bool) option"
  cl_world :: 'w

definition new_client :: "'w \<Rightarrow> 'w client" where
  "new_client w = \<lparr>cl_conn = None, cl_world = w\<rparr>"

subsection \<open>\<open>CameraWorkerClient\<close>\<close>

definition client_open :: "'w net \<Rightarrow> (exn, 'w client, unit) op" where
  "client_open N =
     (\<lambda>st. if cl_conn st \<noteq> None then (Inr (), st)
           else (case net_connect N (cl_world st) of
                   (Inr _, w) \<Rightarrow> (Inr (), st\<lparr>cl_conn := Some ([], False), cl_world := w\<rparr>)
                 | (Inl e, w) \<Rightarrow>
                     (Inl (if is_OSError e
                           then CameraDisconnectedError (''cannot reach camera worker: '' @ exn_str e)
                           else e), st\<lparr>cl_world := w\<rparr>)))"

definition client_close :: "(exn, 'w client, unit) op" where
  "client_close = modify (\<lambda>st. st\<lparr>cl_conn := None\<rparr>)"

definition readexactly :: "nat \<Rightarrow> bytes \<Rightarrow> bool \<Rightarrow> (bytes \<times> bytes) res" where
  "readexactly n buf eof =
     (if n \<le> length buf then Inr (take n buf, drop n buf)
      else if eof then Inl (IncompleteReadError (str_nat (length buf) @ '' bytes read on a total of '' @
                              str_nat n @ '' expected bytes''))
      else Inl Diverges)"

text \<open>The body of the \<open>try\<close>: write, drain, read the header and the payload.\<close>

definition client_read_payload :: "bytes \<Rightarrow> bool \<Rightarrow> (bytes \<times> bytes) res" where
  "client_read_payload buf eof =
     (case readexactly 4 buf eof of
        Inl e \<Rightarrow> Inl e
      | Inr (header, buf1) \<Rightarrow>
          (case read_frame_length header of
             Inl e \<Rightarrow> Inl e
           | Inr len \<Rightarrow> readexactly len buf1 eof))"

definition client_exchange ::
  "codec \<Rightarrow> 'w net \<Rightarrow> request \<Rightarrow> (exn, 'w client, bytes) op" where
  "client_exchange K N request =
     (\<lambda>st. case cl_conn st of
        None \<Rightarrow> (Inl (AssertionError ''''), st)
      | Some (buf, eof) \<Rightarrow>
          (case encode_request K request of
             Inl e \<Rightarrow> (Inl e, st)
           | Inr out \<Rightarrow>
               (case net_exchange N out (cl_world st) of
                  (Reset m, w) \<Rightarrow> (Inl (OSError m), st\<lparr>cl_world := w\<rparr>)
                | (a, w) \<Rightarrow>
                    (let buf' = buf @ (case a of Answers d \<Rightarrow> d | Hangup d \<Rightarrow> d | Reset _ \<Rightarrow> []);
                         eof' = (eof \<or> (case a of Hangup _ \<Rightarrow> True | _ \<Rightarrow> False)) in
                     case client_read_payload buf' eof' of
                       Inl e \<Rightarrow> (Inl e, st\<lparr>cl_world := w, cl_conn := Some (buf', eof')\<rparr>)
                     | Inr (payload, rest) \<Rightarrow>
                         (Inr payload, st\<lparr>cl_world := w, cl_conn := Some (rest, eof')\<rparr>)))))"

text \<open>\<open>except (OSError, IncompleteReadError, FrameTooLargeError) as exc\<close>.\<close>

definition client_lost :: "exn \<Rightarrow> (exn, 'w client, 'a) op" where
  "client_lost exc =
     (case exc of
        FrameTooLargeError m \<Rightarrow>
          andthen client_close (raise (CameraError (''camera worker sent an oversized frame: '' @ m)))
      | IncompleteReadError m \<Rightarrow>
          andthen client_close (raise (CameraDisconnectedError (''lost connection to camera worker: '' @ m)))
      | _ \<Rightarrow>
          if is_OSError exc
          then andthen client_close
                 (raise (CameraDisconnectedError (''lost connection to camera worker: '' @ exn_str exc)))
          else raise exc)"

definition client_request :: "codec \<Rightarrow> 'w net \<Rightarrow> request \<Rightarrow> (exn, 'w client, response) op" where
  "client_request K N request =
     andthen (client_open N)
      (bindE (try_except (client_exchange K N request) client_lost) (\<lambda>payload.
       lift_res (decode_response K payload)))"

fun raise_for_error :: "response \<Rightarrow> unit res" where
  "raise_for_error (ErrorResult error_type message) =
     (if error_type = ''disconnected'' then Inl (CameraDisconnectedError message)
      else Inl (CameraError message))"
| "raise_for_error _ = Inr ()"

definition client_command :: "codec \<Rightarrow> 'w net \<Rightarrow> request \<Rightarrow> (exn, 'w client, response) op" where
  "client_command K N request =
     bindE (client_request K N request) (\<lambda>response.
       andthen (lift_res (raise_for_error response)) (ret response))"

definition client_connect :: "codec \<Rightarrow> 'w net \<Rightarrow> (exn, 'w client, unit) op" where
  "client_connect K N = andthen (client_command K N Connect) (ret ())"

definition client_disconnect :: "codec \<Rightarrow> 'w net \<Rightarrow> (exn, 'w client, unit) op" where
  "client_disconnect K N = andthen (client_command K N Disconnect) (ret ())"

definition client_reconnect :: "codec \<Rightarrow> 'w net \<Rightarrow> (exn, 'w client, unit) op" where
  "client_reconnect K N = andthen (client_command K N Reconnect) (ret ())"

definition client_trigger_autofocus :: "codec \<Rightarrow> 'w net \<Rightarrow> (exn, 'w client, unit) op" where
  "client_trigger_autofocus K N = andthen (client_command K N TriggerAutofocus) (ret ())"

text \<open>The \<open>assert isinstance(...)\<close> of each result.\<close>

fun as_status :: "response \<Rightarrow> bool res" where
  "as_status (StatusResult c) = Inr c"
| "as_status _ = Inl (AssertionError '''')"

fun as_capture :: "response \<Rightarrow> string res" where
  "as_capture (CaptureResult i) = Inr i"
| "as_capture _ = Inl (AssertionError '''')"

fun as_image :: "response \<Rightarrow> captured_image res" where
  "as_image (ImageResult kind d w h) =
     map_sum id (\<lambda>k. \<lparr>ci_kind = k, ci_data = d, ci_width = w, ci_height = h\<rparr>) (kind_of_value kind)"
| "as_image _ = Inl (AssertionError '''')"

definition client_get_status :: "codec \<Rightarrow> 'w net \<Rightarrow> (exn, 'w client, bool) op" where
  "client_get_status K N =
     bindE (client_command K N GetStatus) (\<lambda>response. lift_res (as_status response))"

definition client_trigger_capture :: "codec \<Rightarrow> 'w net \<Rightarrow> (exn, 'w client, string) op" where
  "client_trigger_capture K N =
     bindE (client_command K N TriggerCapture) (\<lambda>response. lift_res (as_capture response))"

definition client_download_preview ::
  "codec \<Rightarrow> 'w net \<Rightarrow> string \<Rightarrow> (exn, 'w client, captured_image option) op" where
  "client_download_preview K N i =
     bindE (client_request K N (DownloadPreview i)) (\<lambda>response.
       if response = NoPreview then ret None
       else andthen (lift_res (raise_for_error response))
              (lift_res (map_sum id Some (as_image response))))"

definition client_download_full ::
  "codec \<Rightarrow> 'w net \<Rightarrow> string \<Rightarrow> (exn, 'w client, captured_image) op" where
  "client_download_full K N i =
     bindE (client_command K N (DownloadFull i)) (\<lambda>response. lift_res (as_image response))"

subsection \<open>The worker as the peer\<close>

record 'c worker_process =
  wp_alive :: bool
  wp_cam :: 'c

definition worker_exchange ::
  "codec \<Rightarrow> 'c camera_backend \<Rightarrow> bytes \<Rightarrow> 'c worker_process \<Rightarrow> answer \<times> 'c worker_process" where
  "worker_exchange K b out w =
     (if \<not> wp_alive w then (Hangup [], w)
      else (case serve_one K b (\<lparr>rx = [out], tx = [], tx_open = True\<rparr>, wp_cam w) of
              (Inr _, (s, c)) \<Rightarrow> (Answers (tx s), w\<lparr>wp_cam := c\<rparr>)
            | (Inl Diverges, (s, c)) \<Rightarrow> (Answers [], w\<lparr>wp_cam := c\<rparr>)
            | (Inl _, (s, c)) \<Rightarrow>
                (Hangup (tx s), w\<lparr>wp_alive := False, wp_cam := snd (release_camera b c)\<rparr>)))"

definition worker_net :: "codec \<Rightarrow> 'c camera_backend \<Rightarrow> 'c worker_process net" where
  "worker_net K b =
     \<lparr>net_connect = (\<lambda>w. (if wp_alive w then Inr () else Inl (OSError ''connection refused''), w)),
      net_exchange = worker_exchange K b\<rparr>"

subsection \<open>The client over the worker\<close>

text \<open>
  \<open>idle st c\<close>: the worker runs with camera state \<open>c\<close> and nothing is in flight;
  \<open>link_ok\<close>: the codec round-trips the request and the response it gets, and the camera
  call returns.
\<close>

definition up :: "'c \<Rightarrow> 'c worker_process client" where
  "up c = \<lparr>cl_conn = Some ([], False), cl_world = \<lparr>wp_alive = True, wp_cam = c\<rparr>\<rparr>"

definition down :: "'c \<Rightarrow> 'c worker_process client" where
  "down c = \<lparr>cl_conn = None, cl_world = \<lparr>wp_alive = False, wp_cam = c\<rparr>\<rparr>"

definition idle :: "'c worker_process client \<Rightarrow> 'c \<Rightarrow> bool" where
  "idle st c \<longleftrightarrow> st = up c \<or> st = new_client \<lparr>wp_alive = True, wp_cam = c\<rparr>"

definition link_ok :: "codec \<Rightarrow> 'c camera_backend \<Rightarrow> request \<Rightarrow> 'c \<Rightarrow> bool" where
  "link_ok K b q c \<longleftrightarrow>
     codes_request K q \<and>
     (case handle_request b q c of (Inr r, _) \<Rightarrow> codes_response K r | (Inl e, _) \<Rightarrow> e \<noteq> Diverges)"

definition lost_message :: string where
  "lost_message =
     ''lost connection to camera worker: 0 bytes read on a total of 4 expected bytes''"

text \<open>
  What the app sees of a call made on the camera in the worker process: results and camera
  errors as they are, any other exception as a lost connection, with the worker gone.
\<close>

definition remote :: "'c camera_backend \<Rightarrow> 'a res \<times> 'c \<Rightarrow> 'a res \<times> 'c worker_process client" where
  "remote b o1 =
     (case o1 of
        (Inr x, c') \<Rightarrow> (Inr x, up c')
      | (Inl e, c') \<Rightarrow>
          if is_CameraError e then (Inl e, up c')
          else (Inl (CameraDisconnectedError lost_message), down (snd (release_camera b c'))))"

lemma client_open_idle: "idle st c \<Longrightarrow> client_open (worker_net K b) st = (Inr (), up c)"
  by (auto simp: idle_def client_open_def worker_net_def new_client_def up_def)

lemma readexactly_append:
  "readexactly n (d @ rest) eof = Inr (d, rest)" if "length d = n"
  using that by (simp add: readexactly_def)

lemma client_read_payload_wire:
  assumes "codes_response K r"
  shows "client_read_payload (response_wire K r) eof = Inr (response_encode K r, [])"
proof -
  let ?n = "length (response_encode K r)"
  have "?n \<le> MAX_FRAME_BYTES" using assms by (simp add: codes_response_def)
  then have "read_frame_length (be_bytes 4 ?n) = Inr ?n" by (rule read_frame_length_ok)
  then show ?thesis
    using readexactly_append [of "response_encode K r" ?n "[]"]
    by (simp add: client_read_payload_def response_wire_def readexactly_append)
qed

lemma worker_exchange_ok:
  assumes "codes_request K q" and "handle_request b q c = (Inr r, c')" and "codes_response K r"
  shows "worker_exchange K b (request_wire K q) \<lparr>wp_alive = True, wp_cam = c\<rparr> =
    (Answers (response_wire K r), \<lparr>wp_alive = True, wp_cam = c'\<rparr>)"
proof -
  let ?s = "\<lparr>rx = [request_wire K q], tx = [], tx_open = True\<rparr>"
  have "concat (rx ?s) = request_wire K q @ []" "tx_open ?s" by simp_all
  from serve_one_request [OF assms(1) this assms(2,3)] show ?thesis
    by (auto simp: worker_exchange_def)
qed

lemma worker_exchange_dies:
  assumes "codes_request K q" and "handle_request b q c = (Inl e, c')" and "e \<noteq> Diverges"
  shows "worker_exchange K b (request_wire K q) \<lparr>wp_alive = True, wp_cam = c\<rparr> =
    (Hangup [], \<lparr>wp_alive = False, wp_cam = snd (release_camera b c')\<rparr>)"
proof -
  let ?s = "\<lparr>rx = [request_wire K q], tx = [], tx_open = True\<rparr>"
  have "concat (rx ?s) = request_wire K q @ []" by simp
  from serve_one_raises [OF assms(1) this assms(2)] assms(3) show ?thesis
    by (auto simp: worker_exchange_def split: exn.splits)
qed

lemma client_request_worker:
  assumes "idle st c" and "link_ok K b q c"
  shows "client_request K (worker_net K b) q st =
    (case handle_request b q c of
       (Inr r, c') \<Rightarrow> (Inr r, up c')
     | (Inl e, c') \<Rightarrow>
         (Inl (CameraDisconnectedError lost_message), down (snd (release_camera b c'))))"
proof -
  have q: "codes_request K q" using assms(2) by (simp add: link_ok_def)
  obtain res c' where h: "handle_request b q c = (res, c')" by fastforce
  show ?thesis
  proof (cases res)
    case (Inr r)
    with h assms(2) have r: "codes_response K r" by (simp add: link_ok_def)
    have "client_exchange K (worker_net K b) q (up c) = (Inr (response_encode K r), up c')"
      using worker_exchange_ok [OF q h [unfolded Inr] r] client_read_payload_wire [OF r]
      by (simp add: client_exchange_def up_def worker_net_def encode_request_wire [OF q])
    then show ?thesis
      using h Inr r client_open_idle [OF assms(1)]
      by (simp add: client_request_def decode_response_def codes_response_def)
  next
    case (Inl e)
    with h assms(2) have e: "e \<noteq> Diverges" by (simp add: link_ok_def)
    have payload: "client_read_payload [] True =
      Inl (IncompleteReadError ''0 bytes read on a total of 4 expected bytes'')"
      by code_simp
    have "client_exchange K (worker_net K b) q (up c) =
      (Inl (IncompleteReadError ''0 bytes read on a total of 4 expected bytes''),
       \<lparr>cl_conn = Some ([], True),
        cl_world = \<lparr>wp_alive = False, wp_cam = snd (release_camera b c')\<rparr>\<rparr>)"
      using worker_exchange_dies [OF q h [unfolded Inl] e]
      by (simp add: client_exchange_def up_def worker_net_def encode_request_wire [OF q] payload)
    then show ?thesis
      using h Inl client_open_idle [OF assms(1)]
      by (simp add: client_request_def client_lost_def client_close_def down_def lost_message_def)
  qed
qed

text \<open>The response to a dispatched call, as the client reads it back.\<close>

lemma handle_request_cases:
  "handle_request b q c =
     (case dispatch b q c of
        (Inr r, c') \<Rightarrow> (Inr r, c')
      | (Inl (CameraDisconnectedError m), c') \<Rightarrow> (Inr (ErrorResult ''disconnected'' m), c')
      | (Inl (CameraError m), c') \<Rightarrow> (Inr (ErrorResult ''error'' m), c')
      | (Inl e, c') \<Rightarrow> (Inl e, c'))"
  by (auto simp: handle_request_def split: prod.splits sum.splits exn.splits)

text \<open>
  A call whose client half turns the response to \<open>dispatch\<close>'s wrapping of a result back into
  that result is transparent.
\<close>

lemma remote_call:
  assumes st: "idle st c" and ok: "link_ok K b q c"
    and dispatch: "\<And>s. dispatch b q s = bindE m (\<lambda>x. ret (wrap x)) s"
    and call: "call = bindE (client_request K (worker_net K b) q) read"
    and wrap: "\<And>x s. read (wrap x) s = (Inr x, s)"
    and err: "\<And>t msg s. read (ErrorResult t msg) s =
      (Inl (if t = ''disconnected'' then CameraDisconnectedError msg else CameraError msg), s)"
  shows "call st = remote b (m c)"
proof -
  obtain res c' where m: "m c = (res, c')" by fastforce
  show ?thesis
  proof (cases res)
    case (Inr x)
    then have "handle_request b q c = (Inr (wrap x), c')"
      using m by (simp add: handle_request_cases dispatch)
    then show ?thesis
      using client_request_worker [OF st ok] m Inr wrap by (simp add: call remote_def bindE_def)
  next
    case (Inl e)
    then have d: "dispatch b q c = (Inl e, c')" using m by (simp add: dispatch)
    show ?thesis
    proof (cases "is_CameraError e")
      case True
      then obtain t msg where h: "handle_request b q c = (Inr (ErrorResult t msg), c')"
        and e: "e = (if t = ''disconnected'' then CameraDisconnectedError msg else CameraError msg)"
        using d by (cases e) (auto simp: handle_request_cases)
      then show ?thesis
        using client_request_worker [OF st ok] m Inl err True by (simp add: call remote_def bindE_def)
    next
      case False
      then have "handle_request b q c = (Inl e, c')"
        using d by (cases e) (auto simp: handle_request_cases)
      then show ?thesis
        using client_request_worker [OF st ok] m Inl False by (simp add: call remote_def)
    qed
  qed
qed

lemma as_image_result [simp]: "as_image (image_result im) = Inr im"
  by (simp add: image_result_def)

lemma raise_for_error_simps [simp]: "raise_for_error (image_result im) = Inr ()"
  by (simp add: image_result_def)

lemma client_command_bind:
  "bindE (client_command K N q) f =
     bindE (client_request K N q) (\<lambda>r. bindE (lift_res (raise_for_error r)) (\<lambda>_. f r))"
  by (simp add: client_command_def andthen_def bindE_assoc)

lemmas remote_simps = client_command_bind andthen_def bindE_assoc

lemma client_unit_call:
  assumes "idle st c" and "link_ok K b q c"
    and "\<And>s. dispatch b q s = andthen m (ret Ok) s"
  shows "andthen (client_command K (worker_net K b) q) (ret ()) st = remote b (m c)"
proof (rule remote_call [OF assms(1,2), where wrap = "\<lambda>_. Ok"])
  show "andthen (client_command K (worker_net K b) q) (ret ()) =
    bindE (client_request K (worker_net K b) q)
      (\<lambda>r. andthen (andthen (lift_res (raise_for_error r)) (ret r)) (ret ()))"
    by (simp add: client_command_def andthen_def bindE_assoc)
qed (simp_all add: assms(3) andthen_def)

text \<open>
  C10: process isolation is transparent: over an idle connection to a live worker, every camera
  operation of the client returns exactly what the operation on the backend returns and leaves
  the camera in the same state; a camera error arrives with its class and message, and any other
  exception of the backend arrives as a lost connection, with the connection closed and the
  worker gone.
\<close>

theorem remote_camera_transparent:
  assumes "idle st c"
    and "link_ok K b TriggerCapture c" and "link_ok K b (DownloadPreview i) c"
    and "link_ok K b (DownloadFull i) c" and "link_ok K b GetStatus c"
    and "link_ok K b Connect c" and "link_ok K b Reconnect c" and "link_ok K b Disconnect c"
    and "link_ok K b TriggerAutofocus c"
  shows "client_trigger_capture K (worker_net K b) st = remote b (b_trigger_capture b c) \<and>
    client_download_preview K (worker_net K b) i st = remote b (b_download_preview b i c) \<and>
    client_download_full K (worker_net K b) i st = remote b (b_download_full b i c) \<and>
    client_get_status K (worker_net K b) st = remote b (b_is_connected b c) \<and>
    client_connect K (worker_net K b) st = remote b (b_connect b c) \<and>
    client_reconnect K (worker_net K b) st = remote b (b_reconnect b c) \<and>
    client_disconnect K (worker_net K b) st = remote b (b_disconnect b c) \<and>
    client_trigger_autofocus K (worker_net K b) st = remote b (b_trigger_autofocus b c)"
proof (intro conjI)
  show "client_trigger_capture K (worker_net K b) st = remote b (b_trigger_capture b c)"
    by (rule remote_call [OF assms(1,2), where wrap = CaptureResult
          and read = "\<lambda>r. bindE (lift_res (raise_for_error r)) (\<lambda>_. lift_res (as_capture r))"])
      (simp_all add: client_trigger_capture_def client_command_bind)
  show "client_download_preview K (worker_net K b) i st = remote b (b_download_preview b i c)"
    by (rule remote_call [OF assms(1,3),
          where wrap = "\<lambda>p. case p of None \<Rightarrow> NoPreview | Some im \<Rightarrow> image_result im"
          and read = "\<lambda>r. if r = NoPreview then ret None
            else andthen (lift_res (raise_for_error r)) (lift_res (map_sum id Some (as_image r)))"])
      (auto simp: client_download_preview_def bindE_def image_result_def
        split: prod.splits sum.splits option.splits)
  show "client_download_full K (worker_net K b) i st = remote b (b_download_full b i c)"
    by (rule remote_call [OF assms(1,4), where wrap = image_result
          and read = "\<lambda>r. bindE (lift_res (raise_for_error r)) (\<lambda>_. lift_res (as_image r))"])
      (simp_all add: client_download_full_def client_command_bind)
  show "client_get_status K (worker_net K b) st = remote b (b_is_connected b c)"
    by (rule remote_call [OF assms(1,5), where wrap = StatusResult
          and read = "\<lambda>r. bindE (lift_res (raise_for_error r)) (\<lambda>_. lift_res (as_status r))"])
      (simp_all add: client_get_status_def client_command_bind)
qed (unfold client_connect_def client_reconnect_def client_disconnect_def
      client_trigger_autofocus_def, rule client_unit_call; simp add: assms)+

text \<open>A mock that drops its session on the first shot, reached through the worker.\<close>

definition demo_client_codec :: codec where
  "demo_client_codec =
     \<lparr>request_encode = (\<lambda>q. case q of Connect \<Rightarrow> [1] | Disconnect \<Rightarrow> [2] | Reconnect \<Rightarrow> [3]
        | GetStatus \<Rightarrow> [4] | TriggerAutofocus \<Rightarrow> [5] | TriggerCapture \<Rightarrow> [6]
        | DownloadPreview _ \<Rightarrow> [7] | DownloadFull _ \<Rightarrow> [8]),
      request_decode = (\<lambda>d. if d = [1] then Inr Connect else if d = [2] then Inr Disconnect
        else if d = [3] then Inr Reconnect else if d = [4] then Inr GetStatus
        else if d = [5] then Inr TriggerAutofocus else if d = [6] then Inr TriggerCapture
        else if d = [7] then Inr (DownloadPreview ''x'')
        else if d = [8] then Inr (DownloadFull ''x'') else Inl (DecodeError '''')),
      response_encode = (\<lambda>r. case r of Ok \<Rightarrow> [1] | StatusResult _ \<Rightarrow> [2] | _ \<Rightarrow> [3]),
      response_decode = (\<lambda>d. if d = [1] then Inr Ok else if d = [2] then Inr (StatusResult False)
        else Inr (ErrorResult ''disconnected'' ''mock camera not connected''))\<rparr>"

lemma remote_camera_transparent_witness:
  "client_trigger_capture demo_client_codec
       (worker_net demo_client_codec (mock_camera demo_pil)) (up (demo_mock\<lparr>mk_connected := False\<rparr>)) =
     (Inl (CameraDisconnectedError ''mock camera not connected''),
      up (demo_mock\<lparr>mk_connected := False\<rparr>))"
proof -
  let ?c = "demo_mock\<lparr>mk_connected := False\<rparr>"
  have off: "\<not> mk_connected ?c" by simp
  have idle: "idle (up ?c) ?c" by (simp add: idle_def)
  have link: "link_ok demo_client_codec (mock_camera demo_pil) q ?c"
    if "q \<in> {TriggerCapture, DownloadPreview ''x'', DownloadFull ''x'', GetStatus, Connect,
              Reconnect, Disconnect, TriggerAutofocus}" for q
    using that off mock_closed [OF off]
    by (auto simp: link_ok_def handle_request_cases codes_request_def codes_response_def
        demo_client_codec_def mock_camera_def mock_connect_def mock_disconnect_def
        mock_reconnect_def mock_is_connected_def mock_trigger_autofocus_def bindE_def andthen_def
        MAX_FRAME_BYTES_def)
  show ?thesis
    using remote_camera_transparent [OF idle link link link link link link link link, of "''x''"]
      mock_closed [OF off]
    by (simp add: mock_camera_def remote_def)
qed

end
