(* ===== verification/Session.thy ===== *)
theory Session
  imports Compositor Job_Queue Camera_Client
begin

text \<open>
  \<open>src/photobooth/web/session.py\<close>: the \<open>SessionManager\<close>, which drives the state machine,
  the camera client, the repositories, the files, the upload queue and the events of one booth.

  A method is an operation on the manager's state; the state also holds the database, the file
  system, the camera world and a counter that numbers the calls of \<open>uuid4\<close>,
  \<open>token_urlsafe\<close> and the clocks (the \<open>k\<close>th call returns the \<open>k\<close>th value of the
  supply).  Where a method awaits the camera, a sleep or the render thread, other requests may
  run: \<open>sc_other k\<close> is what they do at the \<open>k\<close>th such point (\<open>sequential\<close>: nothing).  A
  broadcast is atomic; the events broadcast are logged, and each open socket has what was sent
  to it.
\<close>

subsection \<open>State\<close>

record 'w manager =
  sm_machine :: session_state_machine
  sm_session_id :: string
  sm_shot_count :: nat
  sm_armed_template_path :: "path option"
  sm_armed_countdown_s :: "rat option"
  sm_session_capture_ids :: "string list"
  sm_camera_idle :: bool
  sm_active_event_id :: string
  sm_websockets :: "nat list"
  sm_inbox :: "nat \<Rightarrow> event list"
  sm_events :: "event list"
  sm_db :: db
  sm_fs :: fs
  sm_camera :: 'w
  sm_tick :: nat

record ('w, 'i) session_config =
  sc_camera :: "'w camera_backend"
  sc_captures_dir :: path
  sc_default_countdown_s :: rat
  sc_events_dir :: "path option"
  sc_templates_dir :: "path option"
  sc_job_queue :: bool
  sc_parse_event :: "bytes \<Rightarrow> event_config res"
  sc_parse_template :: "bytes \<Rightarrow> template_config res"
  sc_vips :: "'i vips"
  sc_uuid :: "nat \<Rightarrow> string"
  sc_token :: "nat \<Rightarrow> string"
  sc_now :: "nat \<Rightarrow> rat"
  sc_now_iso :: "nat \<Rightarrow> string"
  sc_socket_broken :: "nat \<Rightarrow> bool"
  sc_other :: "nat \<Rightarrow> 'w manager \<Rightarrow> 'w manager"

definition new_manager :: "('w, 'i) session_config \<Rightarrow> string \<Rightarrow> db \<Rightarrow> fs \<Rightarrow> 'w \<Rightarrow> 'w manager" where
  "new_manager C active_event_id d f w =
     \<lparr>sm_machine = new_machine, sm_session_id = sc_uuid C 0, sm_shot_count = 1,
      sm_armed_template_path = None, sm_armed_countdown_s = None, sm_session_capture_ids = [],
      sm_camera_idle = True, sm_active_event_id = active_event_id, sm_websockets = [],
      sm_inbox = (\<lambda>_. []), sm_events = [], sm_db = d, sm_fs = make_dir (sc_captures_dir C) f,
      sm_camera = w, sm_tick = 1\<rparr>"

text \<open>Operations of the parts, made by the manager.\<close>

definition next_tick :: "(exn, 'w manager, nat) op" where
  "next_tick = (\<lambda>s. (Inr (sm_tick s), s\<lparr>sm_tick := sm_tick s + 1\<rparr>))"

definition on_db :: "(exn, db, 'a) op \<Rightarrow> (exn, 'w manager, 'a) op" where
  "on_db m = (\<lambda>s. case m (sm_db s) of (r, d) \<Rightarrow> (r, s\<lparr>sm_db := d\<rparr>))"

definition on_fs :: "(exn, fs, 'a) op \<Rightarrow> (exn, 'w manager, 'a) op" where
  "on_fs m = (\<lambda>s. case m (sm_fs s) of (r, f) \<Rightarrow> (r, s\<lparr>sm_fs := f\<rparr>))"

definition yield_others :: "('w, 'i) session_config \<Rightarrow> (exn, 'w manager, unit) op" where
  "yield_others C = (\<lambda>s. (Inr (), sc_other C (sm_tick s) (s\<lparr>sm_tick := sm_tick s + 1\<rparr>)))"

text \<open>An awaited call of the camera client: others run while it is under way.\<close>

definition on_camera :: "('w, 'i) session_config \<Rightarrow> (exn, 'w, 'a) op \<Rightarrow> (exn, 'w manager, 'a) op" where
  "on_camera C m =
     andthen (yield_others C)
       (\<lambda>s. case m (sm_camera s) of (r, w) \<Rightarrow> (r, s\<lparr>sm_camera := w\<rparr>))"

text \<open>\<open>with spans.span(self._db, name, capture_id=...)\<close>.\<close>

definition with_span ::
  "('w, 'i) session_config \<Rightarrow> string \<Rightarrow> string \<Rightarrow> (exn, 'w manager, 'a) op \<Rightarrow> (exn, 'w manager, 'a) op" where
  "with_span C name capture_id m =
     bindE next_tick (\<lambda>k. try_finally m (\<lambda>s.
       s\<lparr>sm_db := insert_span capture_id name (sc_now C k) (sc_now C (sm_tick s)) [] (sm_db s),
         sm_tick := sm_tick s + 1\<rparr>))"

subsection \<open>Events\<close>

definition register :: "nat \<Rightarrow> (exn, 'w manager, unit) op" where
  "register ws = modify (\<lambda>s. s\<lparr>sm_websockets := List.insert ws (sm_websockets s)\<rparr>)"

definition unregister :: "nat \<Rightarrow> (exn, 'w manager, unit) op" where
  "unregister ws = modify (\<lambda>s. s\<lparr>sm_websockets := filter (\<lambda>w. w \<noteq> ws) (sm_websockets s)\<rparr>)"

definition broadcast :: "('w, 'i) session_config \<Rightarrow> event \<Rightarrow> (exn, 'w manager, unit) op" where
  "broadcast C ev =
     modify (\<lambda>s. let alive = filter (\<lambda>ws. \<not> sc_socket_broken C ws) (sm_websockets s) in
       s\<lparr>sm_websockets := alive,
         sm_inbox := (\<lambda>ws. sm_inbox s ws @ (if ws \<in> set alive then [ev] else [])),
         sm_events := sm_events s @ [ev]\<rparr>)"

definition machine_transition :: "session_state \<Rightarrow> (exn, 'w manager, unit) op" where
  "machine_transition target =
     (\<lambda>s. case transition (sm_machine s) target of
        Inl e \<Rightarrow> (Inl e, s) | Inr m \<Rightarrow> (Inr (), s\<lparr>sm_machine := m\<rparr>))"

definition do_transition ::
  "('w, 'i) session_config \<Rightarrow> session_state \<Rightarrow> string option \<Rightarrow> (exn, 'w manager, unit) op" where
  "do_transition C target share_token =
     andthen (machine_transition target)
      (andthen (modify (\<lambda>s. s\<lparr>sm_db :=
                 session_update_state (sm_session_id s) (state_value target) (sm_db s)\<rparr>))
        (\<lambda>s. broadcast C (StateChanged (sm_session_id s) target share_token) s))"

subsection \<open>\<open>arm\<close>\<close>

text \<open>\<open>next((m for m in event.modes if m.id == mode_id), event.modes[0])\<close>, where there are modes.\<close>

definition chosen_template :: "event_config \<Rightarrow> string option \<Rightarrow> string" where
  "chosen_template event mode_id =
     (case e_modes event of
        [] \<Rightarrow> e_template event
      | first # _ \<Rightarrow>
          (case find (\<lambda>m. mode_id = Some (cm_id m)) (e_modes event) of
             Some m \<Rightarrow> cm_template m | None \<Rightarrow> cm_template first))"

text \<open>The event and template lookups; the result is the event id and the number of shots.\<close>

definition arm_template ::
  "('w, 'i) session_config \<Rightarrow> string option \<Rightarrow> (exn, 'w manager, string \<times> nat) op" where
  "arm_template C mode_id =
     (\<lambda>s. case (sc_events_dir C, sc_templates_dir C) of
        (Some events_dir, Some templates_dir) \<Rightarrow>
          (case load_event (sm_fs s) (sc_parse_event C) events_dir (sm_active_event_id s) of
             Inl e \<Rightarrow> (Inl e, s)
           | Inr event \<Rightarrow>
               (let template_path = path_div templates_dir (chosen_template event mode_id) in
                case load_template (sm_fs s) (sc_parse_template C) template_path of
                  Inl e \<Rightarrow> (Inl e, s)
                | Inr template \<Rightarrow>
                    (Inr (e_id event, length (t_slots template)),
                     s\<lparr>sm_armed_template_path := Some template_path,
                       sm_armed_countdown_s := Some (e_countdown_s event)\<rparr>)))
      | _ \<Rightarrow> (Inr (sm_active_event_id s, 1), s))"

definition arm :: "('w, 'i) session_config \<Rightarrow> string option \<Rightarrow> (exn, 'w manager, unit) op" where
  "arm C mode_id =
     andthen (machine_transition ARMED)
      (bindE next_tick (\<lambda>k.
       andthen (modify (\<lambda>s. s\<lparr>sm_session_id := sc_uuid C k, sm_session_capture_ids := [],
                              sm_armed_template_path := None, sm_armed_countdown_s := None\<rparr>))
      (bindE (arm_template C mode_id) (\<lambda>(event_id, shot_count).
       andthen (modify (\<lambda>s. s\<lparr>sm_shot_count := shot_count\<rparr>))
      (bindE next_tick (\<lambda>k2.
       andthen (\<lambda>s. on_db (session_create (sm_session_id s) event_id (state_value ARMED)
                              (sc_now_iso C k2)) s)
               (\<lambda>s. broadcast C (StateChanged (sm_session_id s) ARMED None) s)))))))"

subsection \<open>\<open>capture\<close>\<close>

definition capture_file :: "('w, 'i) session_config \<Rightarrow> string \<Rightarrow> path" where
  "capture_file C capture_id = path_div (sc_captures_dir C) (capture_id @ ''.jpg'')"

definition preview_file :: "('w, 'i) session_config \<Rightarrow> string \<Rightarrow> path" where
  "preview_file C capture_id = path_div (sc_captures_dir C) (capture_id @ ''-preview.jpg'')"

definition add_capture ::
  "('w, 'i) session_config \<Rightarrow> string \<Rightarrow> bool \<Rightarrow> (exn, 'w manager, unit) op" where
  "add_capture C capture_id is_deliverable =
     bindE next_tick (\<lambda>k s.
       on_db (capture_create capture_id (sm_session_id s) is_deliverable (sc_now_iso C k)) s)"

definition show_preview ::
  "('w, 'i) session_config \<Rightarrow> string \<Rightarrow> nat \<Rightarrow> nat \<Rightarrow> captured_image option \<Rightarrow> (exn, 'w manager, unit) op" where
  "show_preview C capture_id shot_index shot_count preview =
     (case preview of
        None \<Rightarrow> ret ()
      | Some im \<Rightarrow>
          andthen (on_fs (write_file (preview_file C capture_id) (ci_data im)))
            (\<lambda>s. broadcast C (PreviewReady (sm_session_id s) capture_id
                   (''/captures/'' @ capture_id @ ''-preview.jpg'') shot_index shot_count) s))"

definition image_ready :: "('w, 'i) session_config \<Rightarrow> string \<Rightarrow> (exn, 'w manager, unit) op" where
  "image_ready C capture_id =
     (\<lambda>s. broadcast C (FullImageReady (sm_session_id s) capture_id
            (''/captures/'' @ capture_id @ ''.jpg'')) s)"

text \<open>The camera-busy gate around the full download.\<close>

definition fetch_full ::
  "('w, 'i) session_config \<Rightarrow> string \<Rightarrow> (exn, 'w manager, captured_image) op" where
  "fetch_full C capture_id =
     andthen (modify (\<lambda>s. s\<lparr>sm_camera_idle := False\<rparr>))
       (try_finally
         (with_span C ''ptp.download_full'' capture_id
           (on_camera C (b_download_full (sc_camera C) capture_id)))
         (\<lambda>s. s\<lparr>sm_camera_idle := True\<rparr>))"

text \<open>The \<open>try\<close> block of one shot.\<close>

definition take_shot ::
  "('w, 'i) session_config \<Rightarrow> nat \<Rightarrow> nat \<Rightarrow> (exn, 'w manager, string) op" where
  "take_shot C shot_count shot_index =
     bindE (\<lambda>s. with_span C ''capture.trigger'' (sm_session_id s)
                  (on_camera C (b_trigger_capture (sc_camera C))) s) (\<lambda>capture_id.
     andthen (add_capture C capture_id (shot_count = 1))
    (bindE (with_span C ''ptp.download_thumb'' capture_id
              (on_camera C (b_download_preview (sc_camera C) capture_id))) (\<lambda>preview.
     andthen (show_preview C capture_id shot_index shot_count preview)
    (bindE (fetch_full C capture_id) (\<lambda>full.
     andthen (on_fs (write_file (capture_file C capture_id) (ci_data full)))
    (andthen (image_ready C capture_id) (ret capture_id)))))))"

text \<open>\<open>except CameraError as exc\<close>.\<close>

definition camera_failed :: "('w, 'i) session_config \<Rightarrow> exn \<Rightarrow> (exn, 'w manager, 'a) op" where
  "camera_failed C exc =
     (if is_CameraError exc
      then andthen (modify (\<lambda>s. s\<lparr>sm_camera_idle := True\<rparr>))
            (andthen (\<lambda>s. broadcast C (CaptureFailed (sm_session_id s) (exn_str exc)) s)
            (andthen (do_transition C IDLE None) (raise exc)))
      else raise exc)"

text \<open>\<open>await self._camera_idle.wait()\<close>: without another task to set it, an unset gate is never left.\<close>

definition await_camera_idle :: "(exn, 'w manager, unit) op" where
  "await_camera_idle = (\<lambda>s. if sm_camera_idle s then (Inr (), s) else (Inl Diverges, s))"

definition capture_shot ::
  "('w, 'i) session_config \<Rightarrow> rat \<Rightarrow> nat \<Rightarrow> nat \<Rightarrow> (exn, 'w manager, string) op" where
  "capture_shot C duration shot_count shot_index =
     andthen (do_transition C COUNTDOWN None)
    (andthen (\<lambda>s. broadcast C (CountdownStarted (sm_session_id s) duration shot_index shot_count) s)
    (andthen (yield_others C)
    (andthen await_camera_idle
    (andthen (do_transition C CAPTURING None)
             (try_except (take_shot C shot_count shot_index) (camera_failed C))))))"

fun capture_shots ::
  "('w, 'i) session_config \<Rightarrow> rat \<Rightarrow> nat \<Rightarrow> nat list \<Rightarrow> (exn, 'w manager, string list) op" where
  "capture_shots C duration shot_count [] = ret []"
| "capture_shots C duration shot_count (i # is) =
     bindE (capture_shot C duration shot_count i) (\<lambda>capture_id.
     bindE (capture_shots C duration shot_count is) (\<lambda>ids. ret (capture_id # ids)))"

text \<open>The composite of a template with several slots: rendered, stored, marked deliverable, shown.\<close>

definition store_composite ::
  "('w, 'i) session_config \<Rightarrow> bytes \<Rightarrow> (exn, 'w manager, string) op" where
  "store_composite C composite_bytes =
     bindE next_tick (\<lambda>k.
       andthen (on_fs (write_file (capture_file C (sc_uuid C k)) composite_bytes))
      (andthen (add_capture C (sc_uuid C k) True)
      (andthen (image_ready C (sc_uuid C k)) (ret (sc_uuid C k)))))"

definition render_in_thread ::
  "('w, 'i) session_config \<Rightarrow> path \<Rightarrow> string list \<Rightarrow> event_config \<Rightarrow> path \<Rightarrow> (exn, 'w manager, bytes) op" where
  "render_in_thread C template_path capture_ids event events_dir =
     andthen (yield_others C) (\<lambda>s.
       (render_variant (sc_vips C) (sm_fs s) (sc_parse_template C) template_path
          (map (capture_file C) capture_ids) ''print'' event (Some events_dir), s))"

definition composite_capture ::
  "('w, 'i) session_config \<Rightarrow> path \<Rightarrow> string list \<Rightarrow> (exn, 'w manager, string) op" where
  "composite_capture C template_path capture_ids =
     (case sc_events_dir C of
        None \<Rightarrow> raise (AssertionError '''')
      | Some events_dir \<Rightarrow>
          bindE (\<lambda>s. (load_event (sm_fs s) (sc_parse_event C) events_dir (sm_active_event_id s), s)) (\<lambda>event.
          bindE (render_in_thread C template_path capture_ids event events_dir)
            (store_composite C)))"

definition finalize_capture ::
  "('w, 'i) session_config \<Rightarrow> string list \<Rightarrow> (exn, 'w manager, string) op" where
  "finalize_capture C capture_ids =
     (\<lambda>s. case sm_armed_template_path s of
        None \<Rightarrow>
          (case capture_ids of [] \<Rightarrow> (Inl (IndexError ''list index out of range''), s)
           | i # _ \<Rightarrow> (Inr i, s))
      | Some template_path \<Rightarrow>
          if length capture_ids = 1 then (Inr (hd capture_ids), s)
          else composite_capture C template_path capture_ids s)"

definition upload_payload :: "('w, 'i) session_config \<Rightarrow> string \<Rightarrow> payload" where
  "upload_payload C capture_id =
     [(''local_path'', JStr (path_str (capture_file C capture_id))),
      (''remote_key'', JStr (capture_id @ ''.jpg'')),
      (''capture_id'', JStr capture_id)]"

fun enqueue_uploads :: "('w, 'i) session_config \<Rightarrow> string list \<Rightarrow> (exn, 'w manager, unit) op" where
  "enqueue_uploads C [] = ret ()"
| "enqueue_uploads C (i # is) =
     bindE next_tick (\<lambda>k.
       andthen (on_db (enqueue (sc_uuid C k) (sc_now C k) (sc_now_iso C k) ''upload''
                         (upload_payload C i) 5))
               (enqueue_uploads C is))"

definition issue_share_token_and_enqueue_uploads ::
  "('w, 'i) session_config \<Rightarrow> string list \<Rightarrow> (exn, 'w manager, string option) op" where
  "issue_share_token_and_enqueue_uploads C capture_ids =
     (if \<not> sc_job_queue C then ret None
      else bindE next_tick (\<lambda>k.
           andthen (\<lambda>s. on_db (session_set_share_token (sm_session_id s) (sc_token C k)) s)
          (andthen (enqueue_uploads C capture_ids) (ret (Some (sc_token C k))))))"

definition countdown_duration :: "('w, 'i) session_config \<Rightarrow> rat option \<Rightarrow> 'w manager \<Rightarrow> rat" where
  "countdown_duration C countdown_s s =
     (case countdown_s of
        Some d \<Rightarrow> d
      | None \<Rightarrow> (case sm_armed_countdown_s s of Some d \<Rightarrow> d | None \<Rightarrow> sc_default_countdown_s C))"

definition capture :: "('w, 'i) session_config \<Rightarrow> rat option \<Rightarrow> (exn, 'w manager, unit) op" where
  "capture C countdown_s =
     (\<lambda>s. bindE (capture_shots C (countdown_duration C countdown_s s) (sm_shot_count s)
                   [0..<sm_shot_count s]) (\<lambda>capture_ids.
          bindE (finalize_capture C capture_ids) (\<lambda>deliverable_id.
          andthen (modify (\<lambda>s. s\<lparr>sm_session_capture_ids := [deliverable_id]\<rparr>))
         (bindE (issue_share_token_and_enqueue_uploads C [deliverable_id]) (\<lambda>share_token.
          do_transition C REVIEW share_token)))) s)"

subsection \<open>The rest of the manager\<close>

definition dismiss :: "('w, 'i) session_config \<Rightarrow> (exn, 'w manager, unit) op" where
  "dismiss C = do_transition C IDLE None"

definition record_browser_decode ::
  "('w, 'i) session_config \<Rightarrow> string \<Rightarrow> rat \<Rightarrow> (exn, 'w manager, unit) op" where
  "record_browser_decode C capture_id duration_ms =
     bindE next_tick (\<lambda>k. modify (\<lambda>s. s\<lparr>sm_db :=
       record_duration ''display.browser_decode'' capture_id (duration_ms / 1000) (sc_now C k) []
         (sm_db s)\<rparr>))"

text \<open>The camera of a manager is the client over its connection.\<close>

definition client_camera :: "codec \<Rightarrow> 'w net \<Rightarrow> 'w client camera_backend" where
  "client_camera K N =
     \<lparr>b_connect = client_connect K N, b_disconnect = client_disconnect K N,
      b_is_connected = client_get_status K N, b_trigger_autofocus = client_trigger_autofocus K N,
      b_trigger_capture = client_trigger_capture K N,
      b_download_preview = client_download_preview K N,
      b_download_full = client_download_full K N, b_reconnect = client_reconnect K N\<rparr>"

definition sequential :: "('w, 'i) session_config \<Rightarrow> bool" where
  "sequential C \<longleftrightarrow> (\<forall>k s. sc_other C k s = s)"

end
