(* ===== verification/Session_Props.thy ===== *)
theory Session_Props
  imports Session
begin

text \<open>
  What the session manager of \<open>web/session.py\<close> guarantees: the session row in the database
  mirrors the state machine, a completed capture delivers exactly one image, a camera failure
  returns the booth to idle without side effects on the queue, and what goes wrong when arming
  fails or a guest leaves in the middle of a shot.
\<close>

subsection \<open>The session row mirrors the machine\<close>

text \<open>
  The row of the current session, if there is one, holds the state of the machine; the ids the
  supply has yet to hand out are new.
\<close>

definition mirrored :: "('w, 'i) session_config \<Rightarrow> 'w manager \<Rightarrow> bool" where
  "mirrored C s \<longleftrightarrow>
     (\<forall>r \<in> set (sessions (sm_db s)). s_id r = sm_session_id s \<longrightarrow>
        s_state r = state_value (m_state (sm_machine s))) \<and>
     (\<forall>k \<ge> sm_tick s. \<forall>r \<in> set (sessions (sm_db s)). s_id r \<noteq> sc_uuid C k)"

text \<open>What \<open>mirrored\<close> reads, the clock apart.\<close>

definition mirror_view :: "'w manager \<Rightarrow> session_state_machine \<times> string \<times> session_row list" where
  "mirror_view s = (sm_machine s, sm_session_id s, sessions (sm_db s))"

definition ticks :: "(exn, 'w manager, 'a) op \<Rightarrow> bool" where
  "ticks m \<longleftrightarrow> (\<forall>s. mirror_view (snd (m s)) = mirror_view s \<and> sm_tick s \<le> sm_tick (snd (m s)))"

lemma mirrored_later:
  "mirrored C s \<Longrightarrow> mirror_view s' = mirror_view s \<Longrightarrow> sm_tick s \<le> sm_tick s' \<Longrightarrow> mirrored C s'"
  by (auto simp: mirrored_def mirror_view_def)

lemma preserves_ticks: "ticks m \<Longrightarrow> preserves (mirrored C) m"
  unfolding ticks_def preserves_def by (blast intro: mirrored_later)

lemma ticks_simps [simp]:
  "ticks next_tick" "ticks (modify g) \<longleftrightarrow>
     (\<forall>s. mirror_view (g s) = mirror_view s \<and> sm_tick s \<le> sm_tick (g s))"
  by (simp_all add: ticks_def next_tick_def mirror_view_def)

lemma ticks_on_db:
  "keeps sessions m \<Longrightarrow> ticks (on_db m)"
  by (auto simp: ticks_def on_db_def mirror_view_def keeps_def split: prod.splits) (metis snd_conv)

lemma ticks_on_fs: "ticks (on_fs m)"
  by (auto simp: ticks_def on_fs_def mirror_view_def split: prod.splits)

lemma preserves_on_camera:
  assumes "\<And>k s. mirrored C s \<Longrightarrow> mirrored C (sc_other C k s)"
  shows "preserves (mirrored C) (yield_others C)" "preserves (mirrored C) (on_camera C m)"
proof -
  have "mirrored C (s\<lparr>sm_tick := sm_tick s + 1\<rparr>)" if "mirrored C s" for s :: "'a manager"
    using that by (rule mirrored_later) (simp_all add: mirror_view_def)
  then show y: "preserves (mirrored C) (yield_others C)"
    using assms by (simp add: preserves_def yield_others_def)
  have "ticks (\<lambda>s. case m (sm_camera s) of (r, w) \<Rightarrow> (r, s\<lparr>sm_camera := w\<rparr>))"
    by (auto simp: ticks_def mirror_view_def split: prod.splits)
  then show "preserves (mirrored C) (on_camera C m)"
    unfolding on_camera_def by (intro preserves_rules y preserves_ticks)
qed

lemma preserves_with_span:
  assumes "preserves (mirrored C) m" shows "preserves (mirrored C) (with_span C n i m)"
  unfolding with_span_def
proof (intro preserves_rules assms)
  show "preserves (mirrored C) next_tick" by (simp add: preserves_ticks)
next
  fix k s assume "mirrored C s"
  then show "mirrored C (s\<lparr>sm_db := insert_span i n (sc_now C k) (sc_now C (sm_tick s)) [] (sm_db s),
     sm_tick := sm_tick s + 1\<rparr>)"
    by (rule mirrored_later) (simp_all add: mirror_view_def insert_span_def)
qed

lemma preserves_broadcast: "preserves (mirrored C) (broadcast C ev)"
  by (intro preserves_ticks) (simp add: broadcast_def Let_def mirror_view_def)

lemma preserves_broadcast_of: "preserves (mirrored C) (\<lambda>s. broadcast C (ev s) s)"
  by (rule preserves_state) (rule preserves_broadcast)

lemma preserves_on_db_of:
  "(\<And>s. keeps sessions (m s)) \<Longrightarrow> preserves (mirrored C) (\<lambda>s. on_db (m s) s)"
  by (rule preserves_state) (intro preserves_ticks ticks_on_db)

lemma preserves_next_tick: "preserves (mirrored C) next_tick"
  by (rule preserves_ticks) simp

lemma preserves_do_transition: "preserves (mirrored C) (do_transition C t tok)"
proof (rule preservesI)
  fix s r s' assume inv: "mirrored C s" and run: "do_transition C t tok s = (r, s')"
  show "mirrored C s'"
  proof (cases "t \<in> ALLOWED_TRANSITIONS (m_state (sm_machine s))")
    case False
    then have "s' = s" using run by (simp add: do_transition_def machine_transition_def transition_def)
    with inv show ?thesis by simp
  next
    case True
    then have "mirror_view s' = (\<lparr>m_state = t\<rparr>, sm_session_id s, sessions (session_update_state
        (sm_session_id s) (state_value t) (sm_db s)))" "sm_tick s' = sm_tick s"
      using run by (auto simp: do_transition_def machine_transition_def transition_def broadcast_def
          Let_def mirror_view_def)
    with inv show ?thesis
      by (auto simp: mirrored_def mirror_view_def session_update_state_def set_sql_update)
  qed
qed

lemma keeps_sessions_ops:
  "keeps sessions (capture_create i s b t)" "keeps sessions (enqueue a n1 n2 k p m)"
  by (simp_all add: keeps_def capture_create_def enqueue_def upd_jobs_def)

lemma preserves_set_token:
  "preserves (mirrored C) (\<lambda>s. on_db (session_set_share_token (sm_session_id s) tok) s)"
  by (rule preservesI)
    (auto simp: on_db_def session_set_share_token_def mirrored_def set_sql_update split: if_splits)

lemma preserves_add_capture: "preserves (mirrored C) (add_capture C i b)"
  unfolding add_capture_def
  by (intro preserves_rules preserves_next_tick preserves_on_db_of keeps_sessions_ops)

lemma preserves_image_ready: "preserves (mirrored C) (image_ready C i)"
  unfolding image_ready_def by (rule preserves_broadcast_of)

lemma preserves_fs: "preserves (mirrored C) (on_fs m)"
  by (intro preserves_ticks ticks_on_fs)

lemma preserves_gate: "preserves (mirrored C)
    (modify (\<lambda>s. s\<lparr>sm_camera_idle := b\<rparr>) :: (exn, 'w manager, unit) op)"
  by (intro preserves_ticks) (simp add: mirror_view_def)

lemma preserves_show_preview: "preserves (mirrored C) (show_preview C c i n p)"
  by (cases p) (simp_all add: show_preview_def preserves_rules preserves_fs preserves_broadcast_of)

lemma preserves_fetch_full:
  assumes "\<And>k s. mirrored C s \<Longrightarrow> mirrored C (sc_other C k s)"
  shows "preserves (mirrored C) (fetch_full C i)"
  unfolding fetch_full_def
  by (intro preserves_rules preserves_gate preserves_with_span preserves_on_camera(2) assms)
    (simp_all add: mirrored_def)

lemma preserves_take_shot:
  assumes "\<And>k s. mirrored C s \<Longrightarrow> mirrored C (sc_other C k s)"
  shows "preserves (mirrored C) (take_shot C n i)"
proof -
  have "preserves (mirrored C) (\<lambda>s. with_span C ''capture.trigger'' (sm_session_id s)
      (on_camera C (b_trigger_capture (sc_camera C))) s)"
    by (rule preserves_state) (intro preserves_with_span preserves_on_camera(2) assms)
  then show ?thesis
    unfolding take_shot_def
    by (intro preserves_rules preserves_with_span preserves_on_camera(2) assms preserves_add_capture
        preserves_show_preview preserves_fetch_full preserves_fs preserves_image_ready)
qed

lemma preserves_camera_failed: "preserves (mirrored C) (camera_failed C e)"
  unfolding camera_failed_def
  by (simp add: preserves_rules preserves_gate preserves_broadcast_of preserves_do_transition)

lemma preserves_capture_shots:
  assumes "\<And>k s. mirrored C s \<Longrightarrow> mirrored C (sc_other C k s)"
  shows "preserves (mirrored C) (capture_shots C d n is)"
proof (induction "is")
  case Nil
  then show ?case by (simp add: preserves_def)
next
  case (Cons i "is")
  have "preserves (mirrored C) await_camera_idle"
    by (simp add: preserves_def await_camera_idle_def)
  then have "preserves (mirrored C) (capture_shot C d n i)"
    unfolding capture_shot_def
    by (intro preserves_rules preserves_do_transition preserves_broadcast_of
        preserves_on_camera(1) assms preserves_take_shot preserves_camera_failed)
  with Cons show ?case by (simp add: preserves_rules)
qed

lemma preserves_enqueue_uploads: "preserves (mirrored C) (enqueue_uploads C is)"
proof (induction "is")
  case Nil
  then show ?case by (simp add: preserves_def)
next
  case (Cons i "is")
  have "preserves (mirrored C) (on_db (enqueue a n1 n2 k p m))" for a n1 n2 k p m
    by (intro preserves_ticks ticks_on_db keeps_sessions_ops)
  with Cons show ?case by (simp add: preserves_rules preserves_next_tick)
qed

lemma preserves_issue: "preserves (mirrored C) (issue_share_token_and_enqueue_uploads C is)"
  unfolding issue_share_token_and_enqueue_uploads_def
  by (simp add: preserves_rules preserves_next_tick preserves_set_token preserves_enqueue_uploads)

lemma preserves_pure: "preserves I (\<lambda>s. (f s, s))"
  by (simp add: preserves_def)

lemma preserves_finalize:
  assumes "\<And>k s. mirrored C s \<Longrightarrow> mirrored C (sc_other C k s)"
  shows "preserves (mirrored C) (finalize_capture C ids)"
proof -
  have "preserves (mirrored C) (store_composite C d)" for d
    unfolding store_composite_def
    by (intro preserves_rules preserves_next_tick preserves_fs preserves_add_capture
        preserves_image_ready)
  moreover have "preserves (mirrored C) (render_in_thread C tp ids ev ed)" for tp ev ed
    unfolding render_in_thread_def by (intro preserves_rules preserves_on_camera(1) assms preserves_pure)
  ultimately have "preserves (mirrored C) (composite_capture C tp ids)" for tp
    by (cases "sc_events_dir C")
      (simp_all add: composite_capture_def preserves_rules preserves_pure)
  then show ?thesis
    unfolding finalize_capture_def preserves_def by (auto split: option.splits list.splits)
qed

lemma preserves_capture:
  assumes "\<And>k s. mirrored C s \<Longrightarrow> mirrored C (sc_other C k s)"
  shows "preserves (mirrored C) (capture C cd)"
proof -
  have "preserves (mirrored C)
      (modify (\<lambda>s. s\<lparr>sm_session_capture_ids := x\<rparr>) :: (exn, 'a manager, unit) op)" for x
    by (intro preserves_ticks) (simp add: mirror_view_def)
  then show ?thesis
    unfolding capture_def
    by (intro preserves_state [where f = "\<lambda>s. bindE (capture_shots C (countdown_duration C cd s)
          (sm_shot_count s) [0..<sm_shot_count s]) _"] preserves_rules preserves_capture_shots
        preserves_finalize preserves_issue preserves_do_transition assms)
qed

text \<open>The state while arming, and what a successful arm leaves in the row and the machine.\<close>

definition arming :: "('a, 'i) session_config \<Rightarrow> 'a manager \<Rightarrow> 'a manager" where
  "arming C s = s\<lparr>sm_machine := sm_machine s\<lparr>m_state := ARMED\<rparr>, sm_tick := sm_tick s + 1,
     sm_session_id := sc_uuid C (sm_tick s), sm_session_capture_ids := [], sm_armed_template_path := None,
     sm_armed_countdown_s := None\<rparr>"

lemma arm_created:
  fixes s :: "'a manager"
  defines "k \<equiv> sm_tick s"
  assumes run: "arm C mode s = (r, s')" and armed: "ARMED \<in> ALLOWED_TRANSITIONS (m_state (sm_machine s))"
    and at: "arm_template C mode (arming C s) = (Inr p, s2)"
    and s2: "mirror_view s2 = mirror_view (arming C s)" "sm_tick s2 = k + 1"
    and new: "sc_uuid C k \<notin> s_id ` set (sessions (sm_db s))"
  shows "mirror_view s' = (sm_machine s\<lparr>m_state := ARMED\<rparr>, sc_uuid C k, sessions (sm_db s) @
      [\<lparr>s_id = sc_uuid C k, s_event_id = fst p, s_state = ''armed'',
        s_created_at = sc_now_iso C (k + 1), s_share_token = None\<rparr>]) \<and> sm_tick s' = k + 2"
proof -
  let ?s3 = "s2\<lparr>sm_shot_count := snd p, sm_tick := k + 2\<rparr>"
  let ?row = "\<lparr>s_id = sc_uuid C k, s_event_id = fst p, s_state = ''armed'',
        s_created_at = sc_now_iso C (k + 1), s_share_token = None\<rparr>"
  let ?d = "sm_db s2\<lparr>sessions := sessions (sm_db s) @ [?row]\<rparr>"
  have view: "mirror_view s2 = (sm_machine s\<lparr>m_state := ARMED\<rparr>, sc_uuid C k, sessions (sm_db s))"
    using s2(1) by (simp add: mirror_view_def arming_def k_def)
  have sid: "sm_session_id ?s3 = sc_uuid C k" using view by (simp add: mirror_view_def)
  have create: "on_db (session_create (sm_session_id ?s3) (fst p) (state_value ARMED)
      (sc_now_iso C (k + 1))) ?s3 = (Inr (), ?s3\<lparr>sm_db := ?d\<rparr>)"
    using view new by (simp add: on_db_def session_create_def mirror_view_def)
  have "(r, s') = broadcast C (StateChanged (sc_uuid C k) ARMED None) (?s3\<lparr>sm_db := ?d\<rparr>)"
    using run armed at s2(2) create sid
    by (simp add: arm_def machine_transition_def transition_def next_tick_def case_prod_unfold
        arming_def k_def)
  then show ?thesis
    using view by (simp add: broadcast_def Let_def mirror_view_def)
qed

lemma preserves_arm:
  assumes "inj (sc_uuid C)"
  shows "preserves (mirrored C) (arm C mode)"
proof (rule preservesI)
  fix s r s' assume inv: "mirrored C s" and run: "arm C mode s = (r, s')"
  let ?k = "sm_tick s"
  let ?s1 = "arming C s"
  show "mirrored C s'"
  proof (cases "ARMED \<in> ALLOWED_TRANSITIONS (m_state (sm_machine s))")
    case False
    then have "s' = s" using run by (simp add: arm_def machine_transition_def transition_def)
    with inv show ?thesis by simp
  next
    case True
    have fresh: "r \<in> set (sessions (sm_db s)) \<Longrightarrow> ?k \<le> k \<Longrightarrow> s_id r \<noteq> sc_uuid C k" for r k
      using inv by (auto simp: mirrored_def)
    obtain ra s2 where at: "arm_template C mode ?s1 = (ra, s2)" by fastforce
    then have s2: "mirror_view s2 = mirror_view ?s1" "sm_tick s2 = ?k + 1"
      by (auto simp: arm_template_def arming_def mirror_view_def Let_def split: option.splits sum.splits)
    show ?thesis
    proof (cases ra)
      case (Inl e)
      then have "s' = s2" using run True at
        by (simp add: arm_def machine_transition_def transition_def next_tick_def arming_def)
      then show ?thesis using s2 fresh by (auto simp: mirrored_def mirror_view_def arming_def)
    next
      case (Inr p)
      have new: "sc_uuid C ?k \<notin> s_id ` set (sessions (sm_db s))" using fresh [of _ ?k] by force
      from arm_created [OF run True _ _ _ new] at Inr s2
      have "mirror_view s' = (sm_machine s\<lparr>m_state := ARMED\<rparr>, sc_uuid C ?k, sessions (sm_db s) @
          [\<lparr>s_id = sc_uuid C ?k, s_event_id = fst p, s_state = ''armed'',
            s_created_at = sc_now_iso C (?k + 1), s_share_token = None\<rparr>])" "sm_tick s' = ?k + 2"
        by blast+
      moreover have "sc_uuid C ?k \<noteq> sc_uuid C k" if "?k + 2 \<le> k" for k
        using assms that by (auto dest: injD)
      ultimately show ?thesis using fresh by (auto simp: mirrored_def mirror_view_def)
    qed
  qed
qed

text \<open>The requests that reach the manager, each run to its end, returning or raising.\<close>

datatype command =
    Arm "string option"
  | Capture "rat option"
  | Dismiss
  | Register nat
  | Unregister nat
  | Decoded string rat

fun serve_command :: "('w, 'i) session_config \<Rightarrow> command \<Rightarrow> (exn, 'w manager, unit) op" where
  "serve_command C (Arm mode_id) = arm C mode_id"
| "serve_command C (Capture countdown_s) = capture C countdown_s"
| "serve_command C Dismiss = dismiss C"
| "serve_command C (Register ws) = register ws"
| "serve_command C (Unregister ws) = unregister ws"
| "serve_command C (Decoded i ms) = record_browser_decode C i ms"

fun serve_commands :: "('w, 'i) session_config \<Rightarrow> command list \<Rightarrow> 'w manager \<Rightarrow> 'w manager" where
  "serve_commands C [] s = s"
| "serve_commands C (c # cs) s = serve_commands C cs (snd (serve_command C c s))"

lemma preserves_serve_command:
  assumes "inj (sc_uuid C)" and "\<And>k s. mirrored C s \<Longrightarrow> mirrored C (sc_other C k s)"
  shows "preserves (mirrored C) (serve_command C c)"
proof (cases c)
  case (Decoded i ms)
  have "preserves (mirrored C) (modify (\<lambda>s. s\<lparr>sm_db := record_duration n i d t [] (sm_db s)\<rparr>)
      :: (exn, 'a manager, unit) op)" for n d t
    by (intro preserves_ticks) (simp add: mirror_view_def record_duration_def insert_span_def)
  then show ?thesis
    using Decoded by (simp add: record_browser_decode_def preserves_rules preserves_next_tick)
qed (use assms in \<open>simp_all add: preserves_arm preserves_capture dismiss_def preserves_do_transition
      preserves_ticks register_def unregister_def mirror_view_def\<close>)

lemma serve_commands_mirrored:
  assumes "inj (sc_uuid C)" and "\<And>k s. mirrored C s \<Longrightarrow> mirrored C (sc_other C k s)"
    and "mirrored C s"
  shows "mirrored C (serve_commands C cs s)"
  using assms(3)
proof (induction cs arbitrary: s)
  case (Cons c cs)
  have "mirrored C (snd (serve_command C c s))"
    using preserves_serve_command [OF assms(1,2)] Cons.prems by (auto simp: preserves_def)
  then show ?case by (simp add: Cons.IH)
qed simp

text \<open>
  C6: whatever requests reach a manager, in whatever order and with whatever outcome, and
  whatever (state-mirroring) requests run while a capture awaits the camera, the database row of
  the current session, once there is one, holds exactly the state of the state machine.
\<close>

theorem session_row_mirrors_machine:
  assumes "inj (sc_uuid C)"
    and "\<forall>r \<in> set (sessions d). \<forall>k. s_id r \<noteq> sc_uuid C k"
    and "\<forall>k s. mirrored C s \<longrightarrow> mirrored C (sc_other C k s)"
    and "s = serve_commands C cs (new_manager C ev d f w)"
  shows "\<forall>r \<in> set (sessions (sm_db s)). s_id r = sm_session_id s \<longrightarrow>
    s_state r = state_value (m_state (sm_machine s))"
proof -
  have "mirrored C (new_manager C ev d f w)"
    using assms(2) by (auto simp: mirrored_def new_manager_def)
  then have "mirrored C s"
    unfolding assms(4) using assms(1,3) by (intro serve_commands_mirrored) blast+
  then show ?thesis by (simp add: mirrored_def)
qed

text \<open>A booth with a camera that always answers, no templates, and an upload queue.\<close>

definition demo_camera :: "unit camera_backend" where
  "demo_camera =
     \<lparr>b_connect = ret (), b_disconnect = ret (), b_is_connected = ret True,
      b_trigger_autofocus = ret (), b_trigger_capture = ret ''shot'',
      b_download_preview = (\<lambda>_. ret None),
      b_download_full = (\<lambda>_. ret \<lparr>ci_kind = FULL, ci_data = [0xFF, 0xD8], ci_width = 6, ci_height = 4\<rparr>),
      b_reconnect = ret ()\<rparr>"

definition demo_session :: "unit camera_backend \<Rightarrow> (unit, int \<times> int) session_config" where
  "demo_session cam =
     \<lparr>sc_camera = cam, sc_captures_dir = to_path ''captures'', sc_default_countdown_s = 3,
      sc_events_dir = None, sc_templates_dir = None, sc_job_queue = True,
      sc_parse_event = (\<lambda>_. Inl (ValueError ''no event'')),
      sc_parse_template = (\<lambda>_. Inl (ValueError ''no template'')), sc_vips = demo_vips,
      sc_uuid = (\<lambda>k. replicate k (CHR ''u'')), sc_token = (\<lambda>k. CHR ''t'' # replicate k (CHR ''x'')),
      sc_now = of_nat, sc_now_iso = (\<lambda>k. ''2026''), sc_socket_broken = (\<lambda>_. False),
      sc_other = (\<lambda>_ s. s)\<rparr>"

lemma demo_session_inj: "inj (sc_uuid (demo_session cam))"
  by (rule injI) (metis demo_session_def length_replicate session_config.select_convs(10))

definition demo_fs :: fs where
  "demo_fs = \<lparr>fs_files = (\<lambda>_. None), fs_dirs = {}, fs_faults = (\<lambda>_. False)\<rparr>"

definition demo_served :: "unit manager" where
  "demo_served = serve_commands (demo_session demo_camera) [Arm None, Dismiss, Arm None]
     (new_manager (demo_session demo_camera) ''dev'' empty_db demo_fs ())"

lemma session_row_mirrors_machine_witness:
  "filter (\<lambda>r. s_id r = sm_session_id demo_served \<and>
      s_state r \<noteq> state_value (m_state (sm_machine demo_served))) (sessions (sm_db demo_served)) = []"
  using session_row_mirrors_machine [OF demo_session_inj _ _ demo_served_def]
  by (simp add: empty_db_def demo_session_def filter_empty_conv)

end
