(* ===== verification/Kiosk.thy ===== *)
theory Kiosk
  imports Session_Props Printing Gallery
begin

text \<open>
  \<open>src/photobooth/web/routers/kiosk.py\<close>: the routes of the guest's screen.  They run on the
  state of the session manager; the application state they read besides (the events directory, the
  active event, the idle time-out, whether a printer is configured, the print limit) are
  arguments.  \<open>json.loads\<close> is a parameter, its \<open>JSONDecodeError\<close> the \<open>DecodeError\<close> here.
\<close>

subsection \<open>The active event\<close>

definition KIOSK_CAPTURES_DIR :: path where
  "KIOSK_CAPTURES_DIR = to_path ''out/captures''"

fun is_FileNotFoundError :: "exn \<Rightarrow> bool" where
  "is_FileNotFoundError (FileNotFoundError _) = True"
| "is_FileNotFoundError _ = False"

definition load_active_event ::
  "fs \<Rightarrow> (bytes \<Rightarrow> event_config res) \<Rightarrow> path \<Rightarrow> string \<Rightarrow> event_config res" where
  "load_active_event F parse events_dir active_event_id =
     (if active_event_id = '''' then Inl (HTTPException 404 ''no active event configured'')
      else (case load_event F parse events_dir active_event_id of
              Inl exc \<Rightarrow> if is_FileNotFoundError exc then Inl (HTTPException 404 ''active event not found'')
                        else Inl exc
            | Inr event \<Rightarrow> Inr event))"

definition get_active_event ::
  "fs \<Rightarrow> (bytes \<Rightarrow> event_config res) \<Rightarrow> path \<Rightarrow> string \<Rightarrow> rat \<Rightarrow> json res" where
  "get_active_event F parse events_dir active_event_id idle_timeout_s =
     bind_res (load_active_event F parse events_dir active_event_id) (\<lambda>event. Inr (JObj
       [(''event_id'', JStr (e_id event)), (''title'', JStr (e_title event)),
        (''date'', JStr (e_date event)),
        (''background_image_url'', optional_url ''/session/event/background'' (e_background_image event)),
        (''logo_image_url'', optional_url ''/session/event/logo'' (e_logo_image event)),
        (''theme'', theme_json event), (''modes'', modes_json event),
        (''strings'', strings_json event), (''idle_timeout_s'', JNum idle_timeout_s)]))"

definition serve_active_event_image ::
  "fs \<Rightarrow> (string \<Rightarrow> string option) \<Rightarrow> path \<Rightarrow> event_config \<Rightarrow> string \<Rightarrow> string \<Rightarrow> file_response res" where
  "serve_active_event_image F guess_type events_dir event filename missing_detail =
     (if filename = '''' then Inl (HTTPException 404 missing_detail)
      else let path = path_div (path_div events_dir (e_id event)) filename in
        if \<not> is_file F path then Inl (HTTPException 404 (missing_detail @ '' file not found''))
        else Inr (FileResponse path (guess_type (path_str path))))"

definition get_event_background ::
  "fs \<Rightarrow> (bytes \<Rightarrow> event_config res) \<Rightarrow> (string \<Rightarrow> string option) \<Rightarrow> path \<Rightarrow> string \<Rightarrow> file_response res" where
  "get_event_background F parse guess_type events_dir active_event_id =
     bind_res (load_active_event F parse events_dir active_event_id) (\<lambda>event.
       serve_active_event_image F guess_type events_dir event (e_background_image event)
         ''event has no background image'')"

definition get_event_logo ::
  "fs \<Rightarrow> (bytes \<Rightarrow> event_config res) \<Rightarrow> (string \<Rightarrow> string option) \<Rightarrow> path \<Rightarrow> string \<Rightarrow> file_response res" where
  "get_event_logo F parse guess_type events_dir active_event_id =
     bind_res (load_active_event F parse events_dir active_event_id) (\<lambda>event.
       serve_active_event_image F guess_type events_dir event (e_logo_image event)
         ''event has no logo image'')"

subsection \<open>The session\<close>

fun is_InvalidTransitionError :: "exn \<Rightarrow> bool" where
  "is_InvalidTransitionError (InvalidTransitionError _ _) = True"
| "is_InvalidTransitionError _ = False"

text \<open>\<open>except InvalidTransitionError as exc: raise HTTPException(status_code=409, ...)\<close>.\<close>

definition conflict :: "exn \<Rightarrow> (exn, 's, 'a) op" where
  "conflict exc =
     (if is_InvalidTransitionError exc then raise (HTTPException 409 (exn_str exc)) else raise exc)"

definition arm_session ::
  "('w, 'i) session_config \<Rightarrow> string option \<Rightarrow> (exn, 'w manager, json) op" where
  "arm_session C mode_id =
     andthen (try_except (arm C mode_id) conflict)
       (get_state (\<lambda>s. JObj [(''session_id'', JStr (sm_session_id s)),
                             (''state'', JStr (state_value (m_state (sm_machine s))))]))"

definition capture_session :: "('w, 'i) session_config \<Rightarrow> (exn, 'w manager, json) op" where
  "capture_session C =
     andthen (try_except (capture C None)
         (\<lambda>exc. if is_CameraError exc then raise (HTTPException 502 (exn_str exc)) else conflict exc))
       (ret (JObj [(''state'', JStr ''review'')]))"

definition dismiss_session :: "('w, 'i) session_config \<Rightarrow> (exn, 'w manager, json) op" where
  "dismiss_session C =
     andthen (try_except (dismiss C) conflict) (ret (JObj [(''state'', JStr ''idle'')]))"

subsection \<open>Printing\<close>

definition get_printer_status :: "(exn, 'p, payload) op option \<Rightarrow> (exn, 'p, payload) op" where
  "get_printer_status printer_backend =
     (case printer_backend of
        None \<Rightarrow> ret [(''status'', JStr ''gray''), (''detail'', JStr ''printing not configured'')]
      | Some status \<Rightarrow> status)"

fun is_PrintLimitExceededError :: "exn \<Rightarrow> bool" where
  "is_PrintLimitExceededError (PrintLimitExceededError _) = True"
| "is_PrintLimitExceededError _ = False"

definition submit_print ::
  "('w, 'i) session_config \<Rightarrow> int \<Rightarrow> path \<Rightarrow> (exn, 'w manager, string) op" where
  "submit_print C limit image_path =
     bindE next_tick (\<lambda>k s.
       on_db (print_submit limit (sc_uuid C k) (sc_now C k) (sc_now_iso C k) image_path
                (sm_session_id s) 5) s)"

definition print_capture ::
  "('w, 'i) session_config \<Rightarrow> bool \<Rightarrow> int \<Rightarrow> string \<Rightarrow> (exn, 'w manager, json) op" where
  "print_capture C printer_configured limit capture_id =
     (if \<not> printer_configured then raise (HTTPException 409 ''printing not configured'')
      else let image_path = path_div KIOSK_CAPTURES_DIR (capture_id @ ''.jpg'') in
       (\<lambda>s. if \<not> is_file (sm_fs s) image_path then (Inl (HTTPException 404 ''capture not found''), s)
            else andthen
              (try_except (submit_print C limit image_path)
                (\<lambda>exc. if is_PrintLimitExceededError exc then raise (HTTPException 409 (exn_str exc))
                       else raise exc))
              (get_state (\<lambda>s. JObj [(''remaining'',
                 JNum (of_int (remaining_for_session limit (sm_session_id s) (sm_db s))))])) s))"

subsection \<open>The WebSocket\<close>

text \<open>\<open>bool\<close> is a subclass of \<open>int\<close>: a duration of \<open>true\<close> is taken for 1.\<close>

definition handle_client_message ::
  "('w, 'i) session_config \<Rightarrow> (string \<Rightarrow> json res) \<Rightarrow> string \<Rightarrow> (exn, 'w manager, unit) op" where
  "handle_client_message C json_loads raw =
     (case json_loads raw of
        Inl (DecodeError _) \<Rightarrow> ret ()
      | Inl exc \<Rightarrow> raise exc
      | Inr (JObj msg) \<Rightarrow>
          if map_of msg ''type'' \<noteq> Some (JStr ''browser_decode'') then ret ()
          else (case (map_of msg ''capture_id'', map_of msg ''duration_ms'') of
                  (Some (JStr capture_id), Some (JNum d)) \<Rightarrow> record_browser_decode C capture_id d
                | (Some (JStr capture_id), Some (JBool b)) \<Rightarrow>
                    record_browser_decode C capture_id (if b then 1 else 0)
                | _ \<Rightarrow> ret ())
      | Inr _ \<Rightarrow> ret ())"

text \<open>
  What \<open>receive_text\<close> yields: a message, the disconnect, or another failure.  The list is what
  has arrived so far; \<open>True\<close> is returned after a disconnect, \<open>False\<close> while the socket is open.
\<close>

datatype ws_input = Received string | Disconnected | ReceiveFailed exn

fun ws_loop ::
  "('w, 'i) session_config \<Rightarrow> (string \<Rightarrow> json res) \<Rightarrow> ws_input list \<Rightarrow> (exn, 'w manager, bool) op" where
  "ws_loop C json_loads [] = ret False"
| "ws_loop C json_loads (Received raw # inputs) =
     andthen (handle_client_message C json_loads raw) (ws_loop C json_loads inputs)"
| "ws_loop C json_loads (Disconnected # inputs) = ret True"
| "ws_loop C json_loads (ReceiveFailed exc # inputs) = raise exc"

definition websocket_endpoint ::
  "('w, 'i) session_config \<Rightarrow> (string \<Rightarrow> json res) \<Rightarrow> nat \<Rightarrow> ws_input list \<Rightarrow> (exn, 'w manager, bool) op" where
  "websocket_endpoint C json_loads ws inputs =
     andthen (register ws)
      (bindE (try_except (ws_loop C json_loads inputs) (\<lambda>exc. andthen (unregister ws) (raise exc)))
        (\<lambda>gone. if gone then andthen (unregister ws) (ret True) else ret False))"

subsection \<open>Properties\<close>

lemma transition_refused:
  assumes "target \<notin> ALLOWED_TRANSITIONS (m_state (sm_machine s))"
  shows "do_transition C target tok s = (Inl (InvalidTransitionError (m_state (sm_machine s)) target), s)"
  using assms by (simp add: do_transition_def machine_transition_def transition_def)

lemma arm_refused:
  assumes "m_state (sm_machine s) \<noteq> IDLE"
  shows "arm C mode_id s = (Inl (InvalidTransitionError (m_state (sm_machine s)) ARMED), s)"
proof -
  have "ARMED \<notin> ALLOWED_TRANSITIONS (m_state (sm_machine s))"
    using assms by (cases "m_state (sm_machine s)") simp_all
  then show ?thesis by (simp add: arm_def machine_transition_def transition_def)
qed

lemma capture_refused:
  assumes "m_state (sm_machine s) \<notin> {ARMED, CAPTURING}" and "0 < sm_shot_count s"
  shows "capture C cd s = (Inl (InvalidTransitionError (m_state (sm_machine s)) COUNTDOWN), s)"
proof -
  have "COUNTDOWN \<notin> ALLOWED_TRANSITIONS (m_state (sm_machine s))"
    using assms(1) by (cases "m_state (sm_machine s)") simp_all
  note refused = transition_refused [OF this, of C None]
  from assms(2) obtain is' where is': "[0..<sm_shot_count s] = 0 # is'"
    by (metis upt_conv_Cons)
  then show ?thesis
    using refused by (simp add: capture_def capture_shot_def del: upt_Suc)
qed

lemma dismiss_refused:
  assumes "m_state (sm_machine s) = IDLE"
  shows "dismiss C s = (Inl (InvalidTransitionError IDLE IDLE), s)"
  using transition_refused [of IDLE s C None] assms by (simp add: dismiss_def)

text \<open>
  a request that comes at the wrong moment is answered with the 409 that names the illegal
  transition, and changes nothing at all: arming an unfinished session, capturing when no session
  is armed and no shot under way, dismissing an idle booth.
\<close>

theorem untimely_requests_refused:
  assumes "m_state (sm_machine s) = st" and "0 < sm_shot_count s"
  shows "(if st = IDLE
      then dismiss_session C s = (Inl (HTTPException 409 ''cannot transition idle -> idle''), s)
      else arm_session C mode_id s =
        (Inl (HTTPException 409 (''cannot transition '' @ state_value st @ '' -> armed'')), s)) \<and>
    (if st = ARMED \<or> st = CAPTURING then fst (do_transition C COUNTDOWN None s) = Inr ()
     else capture_session C s =
       (Inl (HTTPException 409 (''cannot transition '' @ state_value st @ '' -> countdown'')), s))"
proof (intro conjI)
  show "if st = IDLE
      then dismiss_session C s = (Inl (HTTPException 409 ''cannot transition idle -> idle''), s)
      else arm_session C mode_id s =
        (Inl (HTTPException 409 (''cannot transition '' @ state_value st @ '' -> armed'')), s)"
    using assms dismiss_refused [of s C] arm_refused [of s C mode_id]
    by (simp add: dismiss_session_def arm_session_def conflict_def)
  show "if st = ARMED \<or> st = CAPTURING then fst (do_transition C COUNTDOWN None s) = Inr ()
     else capture_session C s =
       (Inl (HTTPException 409 (''cannot transition '' @ state_value st @ '' -> countdown'')), s)"
    using assms capture_refused [of s C None]
    by (auto simp: capture_session_def conflict_def do_transition_def machine_transition_def
        transition_def broadcast_def)
qed

lemma submit_print_eq:
  "submit_print C limit p s =
     (case print_submit limit (sc_uuid C (sm_tick s)) (sc_now C (sm_tick s)) (sc_now_iso C (sm_tick s))
        p (sm_session_id s) 5 (sm_db s) of
      (r, d) \<Rightarrow> (r, s\<lparr>sm_tick := sm_tick s + 1, sm_db := d\<rparr>))"
  by (simp add: submit_print_def next_tick_def bindE_def on_db_def split: prod.split)

lemma print_capture_eq:
  "print_capture C configured limit capture_id s =
     (let p = path_div KIOSK_CAPTURES_DIR (capture_id @ ''.jpg'') in
      if \<not> configured then (Inl (HTTPException 409 ''printing not configured''), s)
      else if \<not> is_file (sm_fs s) p then (Inl (HTTPException 404 ''capture not found''), s)
      else (case submit_print C limit p s of
              (Inl e, s1) \<Rightarrow>
                (Inl (if is_PrintLimitExceededError e then HTTPException 409 (exn_str e) else e), s1)
            | (Inr _, s1) \<Rightarrow>
                (Inr (JObj [(''remaining'',
                   JNum (of_int (remaining_for_session limit (sm_session_id s1) (sm_db s1))))]), s1)))"
  by (simp add: print_capture_def Let_def andthen_def bindE_def try_except_def split: prod.split sum.split)


definition demo_start :: "unit manager" where
  "demo_start = (new_manager (demo_session demo_camera) ''dev'' empty_db demo_fs ())
     \<lparr>sm_fs := \<lparr>fs_files = [to_path ''out/captures/a.jpg'' \<mapsto> [0xFF], to_path ''/home/op/id.jpg'' \<mapsto> [0xFF]],
                fs_dirs = {}, fs_faults = (\<lambda>_. False)\<rparr>\<rparr>"

lemma demo_start_simps [simp]:
  "sm_machine demo_start = new_machine" "sm_shot_count demo_start = 1" "sm_db demo_start = empty_db"
  by (simp_all add: demo_start_def new_manager_def)

lemma untimely_requests_refused_witness:
  "capture_session (demo_session demo_camera) demo_start =
     (Inl (HTTPException 409 ''cannot transition idle -> countdown''), demo_start)"
  using untimely_requests_refused [of demo_start IDLE "demo_session demo_camera"]
  by (simp add: new_machine_def)

text \<open>The answer and the number of print jobs of a request at the start.\<close>

definition demo_print :: "string \<Rightarrow> json res \<times> unit manager" where
  "demo_print = (\<lambda>capture_id. print_capture (demo_session demo_camera) True 2 capture_id demo_start)"

lemma demo_print_accepts:
  assumes "is_file (sm_fs demo_start) (path_div KIOSK_CAPTURES_DIR (capture_id @ ''.jpg''))"
  shows "fst (demo_print capture_id) = Inr (JObj [(''remaining'', JNum 1)])"
  using assms
  by (simp add: demo_print_def print_capture_eq Let_def submit_print_eq print_submit_def enqueue_def
      empty_db_def count_for_session_def is_print_of_def remaining_for_session_def)


text \<open>
  the capture id of a print request is not confined to the captures directory: an id that is
  an absolute path makes the route print that file, whatever it is, as long as its name ends in
  .jpg; the job queued names the file outside the directory.
\<close>

theorem print_leaves_captures_dir:
  assumes "print_capture C configured limit (''/'' @ name) s = (Inr answer, s')"
  shows "map_of (j_payload_json (last (jobs (sm_db s')))) ''image_path'' =
      Some (JStr (path_str (to_path (''/'' @ name @ ''.jpg'')))) \<and>
    is_file (sm_fs s) (to_path (''/'' @ name @ ''.jpg''))"
proof -
  have "p_root (to_path (''/'' @ name @ ''.jpg'')) \<noteq> ''''" by (simp add: to_path_def starts_with_def)
  then have p: "path_div KIOSK_CAPTURES_DIR ((''/'' @ name) @ ''.jpg'') = to_path (''/'' @ name @ ''.jpg'')"
    by (simp add: path_div_def)
  obtain e1 e2 where sub: "submit_print C limit (to_path (''/'' @ name @ ''.jpg'')) s = (Inr e1, e2)"
    and s': "s' = e2" and there: "is_file (sm_fs s) (to_path (''/'' @ name @ ''.jpg''))"
    using assms unfolding print_capture_eq p
    by (auto simp: Let_def split: if_splits prod.splits sum.splits)
  from sub have "jobs (sm_db e2) \<noteq> []"
    "j_payload_json (last (jobs (sm_db e2))) =
       [(''image_path'', JStr (path_str (to_path (''/'' @ name @ ''.jpg'')))), (''session_id'', JStr (sm_session_id s))]"
    by (auto simp: submit_print_eq print_submit_def enqueue_def Let_def split: if_splits)
  with s' there show ?thesis by simp
qed

lemma print_leaves_captures_dir_witness:
  "map_of (j_payload_json (last (jobs (sm_db (snd (demo_print ''/home/op/id'')))))) ''image_path'' =
     Some (JStr ''/home/op/id.jpg'')"
proof -
  have "is_file (sm_fs demo_start) (path_div KIOSK_CAPTURES_DIR (''/home/op/id'' @ ''.jpg''))"
    unfolding demo_start_def by code_simp
  from demo_print_accepts [OF this]
  have "print_capture (demo_session demo_camera) True 2 (''/'' @ ''home/op/id'') demo_start =
      (Inr (JObj [(''remaining'', JNum 1)]), snd (demo_print ''/home/op/id''))"
    unfolding demo_print_def by (metis prod.collapse append.simps)
  moreover have "path_str (to_path (''/'' @ ''home/op/id'' @ ''.jpg'')) = ''/home/op/id.jpg''" by code_simp
  ultimately show ?thesis using print_leaves_captures_dir by metis
qed

end
