(* ===== verification/Admin_Actions.thy ===== *)
theory Admin_Actions
  imports Kiosk Admin_Events
begin

text \<open>
  \<open>src/photobooth/web/routers/admin.py\<close>, its actions: the test shot, the reconnect and the
  shutdown of the camera, the reset of a stuck guest session, the restart and the reprint.  They
  run on the session manager's state, or straight on the printer.
\<close>

subsection \<open>Camera and session\<close>

definition camera_502 :: "exn \<Rightarrow> (exn, 's, 'a) op" where
  "camera_502 exc = (if is_CameraError exc then raise (HTTPException 502 (exn_str exc)) else raise exc)"

definition ok_answer :: json where
  "ok_answer = JObj [(''ok'', JBool True)]"

definition test_shot :: "('w, 'i) session_config \<Rightarrow> (exn, 'w manager, json) op" where
  "test_shot C =
     bindE
       (try_except
         (bindE (on_camera C (b_trigger_capture (sc_camera C))) (\<lambda>capture_id.
          bindE (on_camera C (b_download_full (sc_camera C) capture_id)) (\<lambda>full.
            ret (capture_id, full))))
         camera_502) (\<lambda>(capture_id, full).
     let filename = ''admin-test-'' @ capture_id @ ''.jpg'' in
     andthen (on_fs (write_file (path_div ADMIN_CAPTURES_DIR filename) (ci_data full)))
       (ret (JObj
         [(''capture_id'', JStr capture_id), (''image_url'', JStr (''/captures/'' @ filename)),
          (''width'', JNum (of_nat (ci_width full))), (''height'', JNum (of_nat (ci_height full)))])))"

definition reconnect_camera :: "('w, 'i) session_config \<Rightarrow> (exn, 'w manager, json) op" where
  "reconnect_camera C =
     andthen (try_except (on_camera C (b_reconnect (sc_camera C))) camera_502) (ret ok_answer)"

text \<open>\<open>with contextlib.suppress(InvalidTransitionError): await session_manager.dismiss()\<close>.\<close>

definition dismiss_if_allowed :: "('w, 'i) session_config \<Rightarrow> (exn, 'w manager, unit) op" where
  "dismiss_if_allowed C =
     try_except (dismiss C) (\<lambda>exc. if is_InvalidTransitionError exc then ret () else raise exc)"

definition reset_session :: "('w, 'i) session_config \<Rightarrow> (exn, 'w manager, json) op" where
  "reset_session C = andthen (dismiss_if_allowed C) (ret ok_answer)"

definition shutdown_camera :: "('w, 'i) session_config \<Rightarrow> (exn, 'w manager, json) op" where
  "shutdown_camera C =
     andthen (dismiss_if_allowed C)
    (andthen (try_except (on_camera C (b_disconnect (sc_camera C))) camera_502) (ret ok_answer))"

text \<open>The tasks that run after the response: the delayed \<open>SIGTERM\<close>.\<close>

datatype background_task = DelayedSigterm

definition restart_app :: "(exn, background_task list, json) op" where
  "restart_app = andthen (modify (\<lambda>tasks. tasks @ [DelayedSigterm])) (ret ok_answer)"

subsection \<open>Reprinting\<close>

definition reprint_capture ::
  "(path \<Rightarrow> string \<Rightarrow> (exn, 'p, string) op) option \<Rightarrow> db \<Rightarrow> fs \<Rightarrow> string \<Rightarrow> (exn, 'p, json) op" where
  "reprint_capture printer_backend d F capture_id =
     (case capture_get_session_id capture_id d of
        None \<Rightarrow> raise (HTTPException 404 ''capture not found'')
      | Some session_id \<Rightarrow>
          (let image_path = path_div ADMIN_CAPTURES_DIR (capture_id @ ''.jpg'') in
           if \<not> is_file F image_path
           then raise (HTTPException 404 ''capture image file not found'')
           else (case printer_backend of
                   None \<Rightarrow> raise (HTTPException 409 ''printing not configured'')
                 | Some submit \<Rightarrow>
                     andthen
                       (try_except (submit image_path session_id)
                         (\<lambda>exc. if exc = Diverges then raise exc
                                else raise (HTTPException 502 (exn_str exc))))
                       (ret ok_answer))))"

subsection \<open>Properties\<close>

lemma dismiss_if_allowed_IDLE:
  "m_state (sm_machine s) = IDLE \<Longrightarrow> dismiss_if_allowed C s = (Inr (), s)"
  by (simp add: dismiss_if_allowed_def try_except_def dismiss_def do_transition_def machine_transition_def
      transition_def andthen_def bindE_def)

lemma dismiss_if_allowed_other:
  assumes "m_state (sm_machine s) \<noteq> IDLE"
  obtains s' where "dismiss_if_allowed C s = (Inr (), s')" "m_state (sm_machine s') = IDLE"
    "sessions (sm_db s') = map (\<lambda>r. if s_id r = sm_session_id s then r\<lparr>s_state := ''idle''\<rparr> else r) (sessions (sm_db s))"
    "jobs (sm_db s') = jobs (sm_db s)" "captures (sm_db s') = captures (sm_db s)"
    "sm_camera s' = sm_camera s" "sm_fs s' = sm_fs s"
    "sm_events s' = sm_events s @ [StateChanged (sm_session_id s) IDLE None]"
proof -
  have "IDLE \<in> ALLOWED_TRANSITIONS (m_state (sm_machine s))"
    using assms by (cases "m_state (sm_machine s)") simp_all
  then show thesis
    by (intro that [of "snd (dismiss_if_allowed C s)"])
      (simp_all add: dismiss_if_allowed_def try_except_def dismiss_def do_transition_def machine_transition_def
        transition_def andthen_def bindE_def broadcast_def Let_def session_update_state_def sql_update_def)
qed

text \<open>
  the reset of the session answers ok from every state and leaves the booth idle.  From a state
  other than idle it marks the row of the session idle and tells every screen, and nothing else:
  captures, jobs, files and camera are as before; an idle booth is not touched at all.
\<close>

theorem reset_session_to_idle:
  "\<exists>s'. reset_session C s = (Inr (JObj [(''ok'', JBool True)]), s') \<and> m_state (sm_machine s') = IDLE \<and>
     (if m_state (sm_machine s) = IDLE then s' = s
      else sm_events s' = sm_events s @ [StateChanged (sm_session_id s) IDLE None] \<and>
        sessions (sm_db s') =
          map (\<lambda>r. if s_id r = sm_session_id s then r\<lparr>s_state := ''idle''\<rparr> else r) (sessions (sm_db s)) \<and>
        jobs (sm_db s') = jobs (sm_db s) \<and> captures (sm_db s') = captures (sm_db s) \<and>
        sm_fs s' = sm_fs s \<and> sm_camera s' = sm_camera s)"
proof (cases "m_state (sm_machine s) = IDLE")
  case True
  then show ?thesis
    by (simp add: reset_session_def andthen_def bindE_def dismiss_if_allowed_IDLE ok_answer_def)
next
  case False
  obtain s' where "dismiss_if_allowed C s = (Inr (), s')" "m_state (sm_machine s') = IDLE"
    "sessions (sm_db s') = map (\<lambda>r. if s_id r = sm_session_id s then r\<lparr>s_state := ''idle''\<rparr> else r) (sessions (sm_db s))"
    "jobs (sm_db s') = jobs (sm_db s)" "captures (sm_db s') = captures (sm_db s)"
    "sm_camera s' = sm_camera s" "sm_fs s' = sm_fs s"
    "sm_events s' = sm_events s @ [StateChanged (sm_session_id s) IDLE None]"
    by (rule dismiss_if_allowed_other [OF False, where C = C])
  then show ?thesis
    using False by (intro exI [of _ s']) (simp add: reset_session_def andthen_def bindE_def ok_answer_def)
qed

lemma wf_path_div:
  assumes "wf_path p"
  shows "wf_path (path_div p x)"
  using wf_to_path [of x] assms by (auto simp: path_div_def wf_path_def Let_def)

lemma captures_dirs: "ADMIN_CAPTURES_DIR = KIOSK_CAPTURES_DIR" "wf_path KIOSK_CAPTURES_DIR"
  by (simp_all add: ADMIN_CAPTURES_DIR_def KIOSK_CAPTURES_DIR_def wf_to_path)

text \<open>
  C31: a reprint hands the printer what the print worker hands it for a guest's print of the same
  capture, with the same effect, and succeeds exactly when that does: the limit of the session is not
  consulted and no job is queued.
\<close>

theorem reprint_equals_worker_print:
  assumes "capture_get_session_id capture_id d = Some session_id"
    and "is_file F (path_div ADMIN_CAPTURES_DIR (capture_id @ ''.jpg''))"
    and "j_payload_json row = [(''image_path'', JStr (path_str (path_div KIOSK_CAPTURES_DIR (capture_id @ ''.jpg'')))),
      (''session_id'', JStr session_id)]"
  shows "snd (reprint_capture (Some submit) d F capture_id p) =
      snd (make_print_handler str_of submit (to_job row) p) \<and>
    (fst (reprint_capture (Some submit) d F capture_id p) = Inr (JObj [(''ok'', JBool True)])) =
      (fst (make_print_handler str_of submit (to_job row) p) = Inr ())"
proof -
  let ?path = "path_div KIOSK_CAPTURES_DIR (capture_id @ ''.jpg'')"
  have reads_back: "to_path (path_str ?path) = ?path"
    by (rule to_path_path_str [OF wf_path_div [OF captures_dirs(2)]])
  have worker: "make_print_handler str_of submit (to_job row) p = andthen (submit ?path session_id) (ret ()) p"
    by (simp add: make_print_handler_def to_job_def assms(3) payload_get_def json_str_def bindE_def reads_back Let_def)
  have reprint: "reprint_capture (Some submit) d F capture_id p =
      andthen (try_except (submit ?path session_id)
        (\<lambda>exc. if exc = Diverges then raise exc else raise (HTTPException 502 (exn_str exc)))) (ret ok_answer) p"
    using assms(1,2) by (simp add: reprint_capture_def captures_dirs(1))
  show ?thesis
    unfolding worker reprint
    by (auto simp: andthen_def bindE_def try_except_def ok_answer_def split: sum.splits prod.splits)
qed

text \<open>A printer that notes what it gets, a capture of session s1 and its print job.\<close>

definition noting_submit :: "path \<Rightarrow> string \<Rightarrow> (exn, (path \<times> string) list, string) op" where
  "noting_submit image_path session_id = (\<lambda>w. (Inr ''42'', w @ [(image_path, session_id)]))"

definition reprint_db :: db where
  "reprint_db = empty_db\<lparr>captures :=
     [\<lparr>c_id = ''a'', c_session_id = ''s1'', c_created_at = '''', c_is_deliverable = 1\<rparr>]\<rparr>"

definition reprint_fs :: fs where
  "reprint_fs = \<lparr>fs_files = [path_div ADMIN_CAPTURES_DIR ''a.jpg'' \<mapsto> [0xFF]], fs_dirs = {}, fs_faults = (\<lambda>_. False)\<rparr>"

definition reprint_row :: job_row where
  "reprint_row = new_row ''j'' 0 '''' ''print''
     [(''image_path'', JStr (path_str (path_div KIOSK_CAPTURES_DIR (''a'' @ ''.jpg'')))), (''session_id'', JStr ''s1'')] 5"

theorem reprint_equals_worker_print_witness:
  "snd (make_print_handler (\<lambda>_. '''') noting_submit (to_job reprint_row) []) =
     [(path_div ADMIN_CAPTURES_DIR ''a.jpg'', ''s1'')]"
proof -
  have "snd (reprint_capture (Some noting_submit) reprint_db reprint_fs ''a'' []) =
      snd (make_print_handler (\<lambda>_. '''') noting_submit (to_job reprint_row) [])"
    using reprint_equals_worker_print [of "''a''" reprint_db "''s1''" reprint_fs reprint_row noting_submit "[]" "\<lambda>_. ''''"]
    by (simp add: capture_get_session_id_def reprint_db_def fetchone_def reprint_fs_def is_file_def
        reprint_row_def new_row_def)
  moreover have "snd (reprint_capture (Some noting_submit) reprint_db reprint_fs ''a'' []) =
      [(path_div ADMIN_CAPTURES_DIR ''a.jpg'', ''s1'')]"
    by (simp add: reprint_capture_def capture_get_session_id_def reprint_db_def fetchone_def reprint_fs_def
        is_file_def Let_def andthen_def bindE_def try_except_def noting_submit_def)
  ultimately show ?thesis by simp
qed

end
