(* ===== verification/Camera_Gphoto.thy ===== *)
theory Camera_Gphoto
  imports Camera_Mock
begin

text \<open>
  \<open>src/photobooth/camera/gphoto.py\<close>: the real camera.  \<open>python-gphoto2\<close> and the camera
  behind it are a parameter, a record \<open>gp\<close> of its calls over an unknown state \<open>'g\<close>, each
  returning or raising \<open>GPhoto2Error\<close> with a message; \<open>'k\<close> is the type of its configuration
  trees; \<open>time.monotonic()\<close> is one of the calls, as time passes while the camera works.  The
  two event loops end when the camera says so (\<open>_drain_stale_events\<close>) or when the clock does,
  so they run on fuel, and running out of it is \<open>Diverges\<close>, a call that does not return.
\<close>

subsection \<open>The library\<close>

datatype gp_event =
    GP_EVENT_TIMEOUT
  | GP_EVENT_FILE_ADDED string string
  | GP_EVENT_CAPTURE_COMPLETE
  | GP_EVENT_OTHER

datatype gp_value = GpStr string | GpInt int

datatype gp_file_type = GP_FILE_TYPE_PREVIEW | GP_FILE_TYPE_NORMAL

record ('g, 'k) gp =
  gp_init :: "(string, 'g, unit) op"
  gp_exit :: "(string, 'g, unit) op"
  gp_get_config :: "(string, 'g, 'k) op"
  gp_set_config :: "'k \<Rightarrow> (string, 'g, unit) op"
  gp_has_child :: "'k \<Rightarrow> string \<Rightarrow> string + unit"
  gp_set_value :: "'k \<Rightarrow> string \<Rightarrow> gp_value \<Rightarrow> string + 'k"
  gp_get_summary :: "(string, 'g, unit) op"
  gp_wait_for_event :: "nat \<Rightarrow> (string, 'g, gp_event) op"
  gp_trigger_capture :: "(string, 'g, unit) op"
  gp_file_get :: "string \<Rightarrow> string \<Rightarrow> gp_file_type \<Rightarrow> (string, 'g, bytes) op"
  gp_file_delete :: "string \<Rightarrow> string \<Rightarrow> (string, 'g, unit) op"
  gp_monotonic :: "'g \<Rightarrow> rat \<times> 'g"

subsection \<open>The backend\<close>

text \<open>
  \<open>gb_camera\<close>: a camera handle is held; \<open>gb_world\<close> the camera and its driver.  A lookup in
  \<open>_pending\<close> gives the folder and name of the file in the camera.
\<close>

record 'g gphoto_backend =
  gb_jpeg_size :: string
  gb_camera :: bool
  gb_pending :: "string \<rightharpoonup> string \<times> string"
  gb_uuid :: "nat \<Rightarrow> string"
  gb_uuids :: nat
  gb_world :: 'g

definition SIZE_LABELS :: "string \<rightharpoonup> string" where
  "SIZE_LABELS = [''S'' \<mapsto> ''Small'', ''M'' \<mapsto> ''Medium'', ''L'' \<mapsto> ''Large'']"

definition EVENT_POLL_MS :: nat where
  "EVENT_POLL_MS = 1000"

definition EVENT_WAIT_BUDGET_S :: rat where
  "EVENT_WAIT_BUDGET_S = 10"

text \<open>\<open>GphotoBackend.__init__\<close>, where the library can be imported.\<close>

definition new_gphoto_backend :: "bool \<Rightarrow> string \<Rightarrow> (nat \<Rightarrow> string) \<Rightarrow> 'g \<Rightarrow> 'g gphoto_backend res" where
  "new_gphoto_backend installed jpeg_size uuid g =
     (if \<not> installed
      then Inl (RuntimeError (''python-gphoto2 is not installed '' @ em_dash @ '' install the `pi` extra '' @
             ''on a machine with libgphoto2 present (see IMPLEMENTATION_PLAN.md '' @ section_sign @ ''1)''))
      else Inr \<lparr>gb_jpeg_size = jpeg_size, gb_camera = False, gb_pending = (\<lambda>_. None),
                gb_uuid = uuid, gb_uuids = 0, gb_world = g\<rparr>)"

text \<open>A library call made by the backend.\<close>

definition gp_call :: "(string, 'g, 'a) op \<Rightarrow> (exn, 'g gphoto_backend, 'a) op" where
  "gp_call m =
     (\<lambda>s. case m (gb_world s) of (r, g) \<Rightarrow> (map_sum GPhoto2Error id r, s\<lparr>gb_world := g\<rparr>))"

fun is_GPhoto2Error :: "exn \<Rightarrow> bool" where
  "is_GPhoto2Error (GPhoto2Error _) = True"
| "is_GPhoto2Error _ = False"

text \<open>\<open>except gp.GPhoto2Error as exc: raise ... from exc\<close>.\<close>

definition rethrow :: "(string \<Rightarrow> exn) \<Rightarrow> (exn, 's, 'a) op \<Rightarrow> (exn, 's, 'a) op" where
  "rethrow E m = try_except m (\<lambda>e. raise (if is_GPhoto2Error e then E (exn_str e) else e))"

definition gphoto_apply_image_size :: "('g, 'k) gp \<Rightarrow> (exn, 'g gphoto_backend, unit) op" where
  "gphoto_apply_image_size G =
     (\<lambda>s. if \<not> gb_camera s then (Inl (AssertionError ''''), s)
        else bindE (gp_call (gp_get_config G)) (\<lambda>config.
          case gp_has_child G config ''imagesize'' of
            Inl _ \<Rightarrow> ret ()
          | Inr _ \<Rightarrow>
              (case SIZE_LABELS (gb_jpeg_size s) of
                 None \<Rightarrow> raise (KeyError (py_repr (gb_jpeg_size s)))
               | Some label \<Rightarrow>
                   bindE (lift_res (map_sum GPhoto2Error id (gp_set_value G config ''imagesize'' (GpStr label))))
                     (\<lambda>config'. gp_call (gp_set_config G config')))) s)"

definition gphoto_connect :: "('g, 'k) gp \<Rightarrow> (exn, 'g gphoto_backend, unit) op" where
  "gphoto_connect G =
     andthen (rethrow CameraDisconnectedError (gp_call (gp_init G)))
      (andthen (modify (\<lambda>s. s\<lparr>gb_camera := True\<rparr>)) (gphoto_apply_image_size G))"

definition gphoto_disconnect :: "('g, 'k) gp \<Rightarrow> (exn, 'g gphoto_backend, unit) op" where
  "gphoto_disconnect G =
     andthen
       (\<lambda>s. if gb_camera s
            then andthen (gp_call (gp_exit G)) (modify (\<lambda>s. s\<lparr>gb_camera := False\<rparr>)) s
            else (Inr (), s))
       (modify (\<lambda>s. s\<lparr>gb_pending := (\<lambda>_. None)\<rparr>))"

definition gphoto_is_connected :: "('g, 'k) gp \<Rightarrow> (exn, 'g gphoto_backend, bool) op" where
  "gphoto_is_connected G =
     (\<lambda>s. if \<not> gb_camera s then (Inr False, s)
        else try_except (andthen (gp_call (gp_get_summary G)) (ret True))
               (\<lambda>e. if is_GPhoto2Error e then ret False else raise e) s)"

definition gphoto_require_camera :: "(exn, 'g gphoto_backend, unit) op" where
  "gphoto_require_camera =
     (\<lambda>s. if \<not> gb_camera s then (Inl (CameraDisconnectedError ''camera not connected''), s)
          else (Inr (), s))"

definition gphoto_trigger_autofocus :: "('g, 'k) gp \<Rightarrow> (exn, 'g gphoto_backend, unit) op" where
  "gphoto_trigger_autofocus G =
     andthen gphoto_require_camera
      (bindE (gp_call (gp_get_config G)) (\<lambda>config.
       andthen (lift_res (map_sum GPhoto2Error id (gp_has_child G config ''autofocus'')))
      (bindE (lift_res (map_sum GPhoto2Error id (gp_set_value G config ''autofocus'' (GpInt 1))))
        (\<lambda>config'. rethrow (\<lambda>m. CameraError (''autofocus trigger failed: '' @ m))
                     (gp_call (gp_set_config G config'))))))"

fun gphoto_drain_stale_events :: "('g, 'k) gp \<Rightarrow> nat \<Rightarrow> (exn, 'g gphoto_backend, unit) op" where
  "gphoto_drain_stale_events G 0 = raise Diverges"
| "gphoto_drain_stale_events G (Suc fuel) =
     bindE (gp_call (gp_wait_for_event G 10)) (\<lambda>event.
       if event = GP_EVENT_TIMEOUT then ret () else gphoto_drain_stale_events G fuel)"

definition gphoto_monotonic :: "('g, 'k) gp \<Rightarrow> (exn, 'g gphoto_backend, rat) op" where
  "gphoto_monotonic G =
     (\<lambda>s. case gp_monotonic G (gb_world s) of (t, g) \<Rightarrow> (Inr t, s\<lparr>gb_world := g\<rparr>))"

text \<open>The new id and its file, as \<open>trigger_capture\<close> records them.\<close>

definition gphoto_new_capture :: "string \<Rightarrow> string \<Rightarrow> (exn, 'g gphoto_backend, string) op" where
  "gphoto_new_capture folder name =
     (\<lambda>s. let capture_id = gb_uuid s (gb_uuids s) in
        (Inr capture_id, s\<lparr>gb_uuids := gb_uuids s + 1,
                           gb_pending := (gb_pending s)(capture_id \<mapsto> (folder, name))\<rparr>))"

text \<open>The wait for the new file; \<open>None\<close>: the deadline passed.\<close>

fun gphoto_wait_file ::
  "('g, 'k) gp \<Rightarrow> nat \<Rightarrow> rat \<Rightarrow> (exn, 'g gphoto_backend, string option) op" where
  "gphoto_wait_file G 0 deadline = raise Diverges"
| "gphoto_wait_file G (Suc fuel) deadline =
     bindE (gphoto_monotonic G) (\<lambda>now.
       if now < deadline
       then bindE (gp_call (gp_wait_for_event G EVENT_POLL_MS)) (\<lambda>event.
              case event of
                GP_EVENT_FILE_ADDED folder name \<Rightarrow>
                  bindE (gphoto_new_capture folder name) (\<lambda>i. ret (Some i))
              | _ \<Rightarrow> gphoto_wait_file G fuel deadline)
       else ret None)"

definition gphoto_trigger_capture :: "('g, 'k) gp \<Rightarrow> nat \<Rightarrow> (exn, 'g gphoto_backend, string) op" where
  "gphoto_trigger_capture G fuel =
     andthen gphoto_require_camera
      (bindE (rethrow CameraDisconnectedError
               (andthen (gphoto_drain_stale_events G fuel)
               (andthen (gp_call (gp_trigger_capture G))
               (bindE (gphoto_monotonic G) (\<lambda>t0.
                  gphoto_wait_file G fuel (t0 + EVENT_WAIT_BUDGET_S))))))
        (\<lambda>found. case found of
           Some capture_id \<Rightarrow> ret capture_id
         | None \<Rightarrow> raise (CameraError
             ''timed out waiting for GP_EVENT_FILE_ADDED after trigger_capture'')))"

definition gphoto_path :: "string \<Rightarrow> (exn, 'g gphoto_backend, string \<times> string) op" where
  "gphoto_path capture_id =
     (\<lambda>s. case gb_pending s capture_id of
        None \<Rightarrow> (Inl (KeyError (py_repr capture_id)), s) | Some p \<Rightarrow> (Inr p, s))"

text \<open>\<open>self._pending.pop(capture_id)\<close>.\<close>

definition gphoto_pop :: "string \<Rightarrow> (exn, 'g gphoto_backend, string \<times> string) op" where
  "gphoto_pop capture_id =
     bindE (gphoto_path capture_id) (\<lambda>p.
       andthen (modify (\<lambda>s. s\<lparr>gb_pending := (gb_pending s)(capture_id := None)\<rparr>)) (ret p))"

definition gphoto_download_preview ::
  "pil \<Rightarrow> ('g, 'k) gp \<Rightarrow> string \<Rightarrow> (exn, 'g gphoto_backend, captured_image option) op" where
  "gphoto_download_preview P G capture_id =
     andthen gphoto_require_camera
      (bindE (gphoto_path capture_id) (\<lambda>(folder, name).
       bindE (try_except
               (bindE (gp_call (gp_file_get G folder name GP_FILE_TYPE_PREVIEW)) (\<lambda>d. ret (Some d)))
               (\<lambda>e. if is_GPhoto2Error e then ret None else raise e)) (\<lambda>got.
       case got of
         None \<Rightarrow> ret None
       | Some data \<Rightarrow>
           if data = [] then ret None
           else bindE (lift_res (image_open P data)) (\<lambda>(w, h).
             ret (Some \<lparr>ci_kind = PREVIEW, ci_data = data, ci_width = w, ci_height = h\<rparr>)))))"

definition gphoto_download_full ::
  "pil \<Rightarrow> ('g, 'k) gp \<Rightarrow> string \<Rightarrow> (exn, 'g gphoto_backend, captured_image) op" where
  "gphoto_download_full P G capture_id =
     andthen gphoto_require_camera
      (bindE (gphoto_pop capture_id) (\<lambda>(folder, name).
       bindE (rethrow CameraDisconnectedError
               (gp_call (gp_file_get G folder name GP_FILE_TYPE_NORMAL))) (\<lambda>data.
       andthen (try_except (gp_call (gp_file_delete G folder name))
                  (\<lambda>e. if is_GPhoto2Error e then ret () else raise e))
      (bindE (lift_res (image_open P data)) (\<lambda>(w, h).
       ret \<lparr>ci_kind = FULL, ci_data = data, ci_width = w, ci_height = h\<rparr>)))))"

definition gphoto_reconnect :: "('g, 'k) gp \<Rightarrow> (exn, 'g gphoto_backend, unit) op" where
  "gphoto_reconnect G = andthen (gphoto_disconnect G) (gphoto_connect G)"

definition gphoto_camera :: "pil \<Rightarrow> ('g, 'k) gp \<Rightarrow> nat \<Rightarrow> 'g gphoto_backend camera_backend" where
  "gphoto_camera P G fuel =
     \<lparr>b_connect = gphoto_connect G, b_disconnect = gphoto_disconnect G,
      b_is_connected = gphoto_is_connected G, b_trigger_autofocus = gphoto_trigger_autofocus G,
      b_trigger_capture = gphoto_trigger_capture G fuel,
      b_download_preview = gphoto_download_preview P G,
      b_download_full = gphoto_download_full P G, b_reconnect = gphoto_reconnect G\<rparr>"

subsection \<open>The contract holds\<close>

lemma keeps_gp_call [frame_rules]:
  "keeps gb_camera (gp_call m)" "keeps gb_pending (gp_call m)"
  by (simp_all add: keeps_def gp_call_def split: prod.splits)

lemma keeps_rethrow [frame_rules]: "keeps f m \<Longrightarrow> keeps f (rethrow E m)"
  unfolding rethrow_def by (intro frame_rules)

lemma keeps_require [frame_rules]: "keeps f gphoto_require_camera" "keeps f (gphoto_path i)"
  by (simp_all add: keeps_def gphoto_require_camera_def gphoto_path_def split: option.splits)

lemma keeps_apply_image_size: "keeps gb_camera (gphoto_apply_image_size G)"
proof (rule keepsI)
  fix s r s' assume "gphoto_apply_image_size G s = (r, s')"
  moreover have "keeps gb_camera (bindE (gp_call (gp_get_config G)) (\<lambda>config.
      case gp_has_child G config ''imagesize'' of
        Inl _ \<Rightarrow> ret ()
      | Inr _ \<Rightarrow>
          (case SIZE_LABELS (gb_jpeg_size s) of
             None \<Rightarrow> raise (KeyError (py_repr (gb_jpeg_size s)))
           | Some label \<Rightarrow>
               bindE (lift_res (map_sum GPhoto2Error id (gp_set_value G config ''imagesize'' (GpStr label))))
                 (\<lambda>config'. gp_call (gp_set_config G config')))))"
    by (auto intro!: frame_rules split: sum.splits option.splits)
  ultimately show "gb_camera s' = gb_camera s"
    by (auto simp: gphoto_apply_image_size_def dest: keepsD split: if_splits)
qed

lemma gphoto_connect_opens: "gphoto_connect G s = (Inr (), s') \<Longrightarrow> gb_camera s'"
  unfolding gphoto_connect_def andthen_def
  by (auto simp: bindE_returns_iff dest: keepsD [OF keeps_apply_image_size])

lemma gphoto_disconnect_closes: "gphoto_disconnect G s = (Inr (), s') \<Longrightarrow> \<not> gb_camera s'"
  unfolding gphoto_disconnect_def andthen_def
  by (auto simp: bindE_returns_iff split: if_splits)

lemma rethrow_returns: "rethrow E m s = (Inr x, s') \<Longrightarrow> m s = (Inr x, s')"
  by (auto simp: rethrow_def try_except_def split: prod.splits sum.splits)

lemma gphoto_trigger_pending:
  assumes "gphoto_trigger_capture G fuel s = (Inr i, s')"
  shows "i \<in> dom (gb_pending s')"
proof -
  have wait: "gphoto_wait_file G n d t = (Inr (Some j), t') \<Longrightarrow> j \<in> dom (gb_pending t')" for n d t t' j
  proof (induction n arbitrary: t)
    case (Suc n)
    from Suc.prems obtain now t1 where "gphoto_monotonic G t = (Inr now, t1)" and now: "now < d"
      by (auto simp: bindE_returns_iff split: if_splits)
    with Suc.prems obtain ev t2 where ev: "gp_call (gp_wait_for_event G EVENT_POLL_MS) t1 = (Inr ev, t2)"
      and "(case ev of
              GP_EVENT_FILE_ADDED folder name \<Rightarrow>
                bindE (gphoto_new_capture folder name) (\<lambda>i. ret (Some i))
            | _ \<Rightarrow> gphoto_wait_file G n d) t2 = (Inr (Some j), t')"
      by (auto simp: bindE_returns_iff)
    then show ?case
      by (cases ev) (auto simp: bindE_returns_iff gphoto_new_capture_def Let_def dest: Suc.IH)
  qed simp
  from assms show ?thesis
    unfolding gphoto_trigger_capture_def andthen_def
    by (auto simp: bindE_returns_iff dest!: rethrow_returns wait split: option.splits)
qed

text \<open>No \<open>KeyError\<close> once the id is pending.\<close>

lemma gp_call_raises [frame_rules]: "raises_only (\<lambda>e. \<not> is_KeyError e) (gp_call m)"
  by (auto simp: raises_only_def gp_call_def split: prod.splits) (case_tac x1; auto)+

lemma raises_only_rethrow [frame_rules]:
  "raises_only E m \<Longrightarrow> (\<And>t. E (F t)) \<Longrightarrow> raises_only E (rethrow F m)"
  unfolding rethrow_def by (intro frame_rules) auto

lemma require_raises [frame_rules]: "raises_only (\<lambda>e. \<not> is_KeyError e) gphoto_require_camera"
  by (auto simp: raises_only_def gphoto_require_camera_def split: if_splits)

lemma raises_only_split [frame_rules]:
  "(\<And>a b. raises_only E (f a b)) \<Longrightarrow> raises_only E (case p of (a, b) \<Rightarrow> f a b)"
  by (cases p) simp

lemma gphoto_require_ok: "gphoto_require_camera s = (Inr u, s') \<Longrightarrow> s' = s \<and> gb_camera s"
  by (auto simp: gphoto_require_camera_def split: if_splits)

lemma gphoto_preview_known:
  assumes "i \<in> dom (gb_pending s)" and "gphoto_download_preview P G i s = (Inl e, s')"
  shows "\<not> is_KeyError e"
proof (cases "gb_camera s")
  case True
  let ?rest = "\<lambda>(folder, name).
     bindE (try_except
             (bindE (gp_call (gp_file_get G folder name GP_FILE_TYPE_PREVIEW)) (\<lambda>d. ret (Some d)))
             (\<lambda>e. if is_GPhoto2Error e then ret None else raise e)) (\<lambda>got.
     case got of
       None \<Rightarrow> ret None
     | Some data \<Rightarrow>
         if data = [] then ret None
         else bindE (lift_res (image_open P data)) (\<lambda>(w, h).
           ret (Some \<lparr>ci_kind = PREVIEW, ci_data = data, ci_width = w, ci_height = h\<rparr>)))"
  obtain p where "gb_pending s i = Some p" using assms(1) by blast
  then have "?rest p s = (Inl e, s')"
    using assms(2) True
    by (simp add: gphoto_download_preview_def gphoto_require_camera_def gphoto_path_def bindE_def andthen_def)
  moreover have "raises_only (\<lambda>e. \<not> is_KeyError e) (?rest p)"
    by (intro frame_rules) (auto intro!: frame_rules simp: image_open_no_KeyError split: option.splits)
  ultimately show ?thesis by (rule raises_onlyD [rotated])
next
  case False
  then show ?thesis
    using assms(2) by (auto simp: gphoto_download_preview_def gphoto_require_camera_def andthen_def bindE_def)
qed

lemma gphoto_full_known:
  assumes "i \<in> dom (gb_pending s)" and "gphoto_download_full P G i s = (Inl e, s')"
  shows "\<not> is_KeyError e"
proof (cases "gb_camera s")
  case True
  let ?rest = "\<lambda>(folder, name). bindE (rethrow CameraDisconnectedError
               (gp_call (gp_file_get G folder name GP_FILE_TYPE_NORMAL))) (\<lambda>data.
       andthen (try_except (gp_call (gp_file_delete G folder name))
                  (\<lambda>e. if is_GPhoto2Error e then ret () else raise e))
      (bindE (lift_res (image_open P data)) (\<lambda>(w, h).
       ret \<lparr>ci_kind = FULL, ci_data = data, ci_width = w, ci_height = h\<rparr>)))"
  obtain p where "gb_pending s i = Some p" using assms(1) by blast
  then have "?rest p (s\<lparr>gb_pending := (gb_pending s)(i := None)\<rparr>) = (Inl e, s')"
    using assms(2) True
    by (simp add: gphoto_download_full_def gphoto_pop_def gphoto_require_camera_def gphoto_path_def
        bindE_def andthen_def)
  moreover have "raises_only (\<lambda>e. \<not> is_KeyError e) (?rest p)"
    by (intro frame_rules) (auto intro!: frame_rules simp: image_open_no_KeyError split: option.splits)
  ultimately show ?thesis by (rule raises_onlyD [rotated])
next
  case False
  then show ?thesis
    using assms(2) by (auto simp: gphoto_download_full_def gphoto_require_camera_def andthen_def bindE_def)
qed

lemma keeps_case_prod [frame_rules]:
  "(\<And>a b. keeps h (f a b)) \<Longrightarrow> keeps h (case p of (a, b) \<Rightarrow> f a b)"
  by (cases p) simp

lemma gphoto_keeps_preview: "keeps gb_pending (gphoto_download_preview P G i)"
  unfolding gphoto_download_preview_def
  by (intro frame_rules) (auto intro!: frame_rules split: option.splits)

lemma gphoto_closed:
  assumes "\<not> gb_camera s"
  shows "gphoto_trigger_autofocus G s = (Inl (CameraDisconnectedError ''camera not connected''), s)"
    and "gphoto_trigger_capture G n s = (Inl (CameraDisconnectedError ''camera not connected''), s)"
    and "gphoto_download_preview P G i s = (Inl (CameraDisconnectedError ''camera not connected''), s)"
    and "gphoto_download_full P G i s = (Inl (CameraDisconnectedError ''camera not connected''), s)"
  using assms
  by (simp_all add: gphoto_trigger_autofocus_def gphoto_trigger_capture_def
      gphoto_download_preview_def gphoto_download_full_def gphoto_require_camera_def)

lemma gphoto_trigger_raises: "raises_only (\<lambda>e. \<not> is_KeyError e) (gphoto_trigger_capture G fuel)"
proof -
  have clock: "raises_only (\<lambda>e. \<not> is_KeyError e) (gphoto_monotonic G)"
    "raises_only (\<lambda>e. \<not> is_KeyError e) (gphoto_new_capture f n)" for f n
    by (auto simp: raises_only_def gphoto_monotonic_def gphoto_new_capture_def Let_def split: prod.splits)
  have "raises_only (\<lambda>e. \<not> is_KeyError e) (gphoto_drain_stale_events G n)" for n
    by (induction n) (auto intro!: frame_rules)
  moreover have "raises_only (\<lambda>e. \<not> is_KeyError e) (gphoto_wait_file G n d)" for n d
    by (induction n) (auto intro!: frame_rules clock split: gp_event.splits)
  ultimately show ?thesis
    unfolding gphoto_trigger_capture_def
    by (intro frame_rules clock) (auto intro!: frame_rules split: option.splits)
qed

interpretation gphoto: camera_contract "gphoto_camera P G fuel" gb_camera "\<lambda>s. dom (gb_pending s)"
  for P :: pil and G :: "('g, 'k) gp" and fuel :: nat
proof (unfold_locales, goal_cases)
  case (2 s s')
  then show ?case
    by (auto simp: gphoto_camera_def gphoto_reconnect_def andthen_def bindE_returns_iff
        dest: gphoto_connect_opens)
next
  case (4 s s')
  then show ?case by (auto simp: gphoto_camera_def gphoto_is_connected_def split: if_splits)
next
  case (9 s e s')
  then show ?case unfolding gphoto_camera_def by (simp add: raises_onlyD [OF gphoto_trigger_raises])
next
  case (12 i s e s')
  then show ?case unfolding gphoto_camera_def by (simp add: gphoto_preview_known)
next
  case (13 i s e s')
  then show ?case unfolding gphoto_camera_def by (simp add: gphoto_full_known)
qed (auto simp: gphoto_camera_def gphoto_closed
      dest: gphoto_connect_opens gphoto_disconnect_closes gphoto_trigger_pending
        keepsD [OF gphoto_keeps_preview])

text \<open>
  the sequence a capture issues (fire, preview, full image of the returned id) never raises a
  \<open>KeyError\<close>, from any state of the mock or of the real camera: it cannot take the worker down
  on an unknown id.
\<close>

theorem capture_sequence_no_KeyError:
  "raises_only (\<lambda>e. \<not> is_KeyError e)
     (bindE (b_trigger_capture (mock_camera P)) (\<lambda>i.
        bindE (b_download_preview (mock_camera P) i) (\<lambda>_. b_download_full (mock_camera P) i))) \<and>
   raises_only (\<lambda>e. \<not> is_KeyError e)
     (bindE (b_trigger_capture (gphoto_camera P G fuel)) (\<lambda>i.
        bindE (b_download_preview (gphoto_camera P G fuel) i)
          (\<lambda>_. b_download_full (gphoto_camera P G fuel) i)))"
  using mock.shot_no_KeyError [of P] gphoto.shot_no_KeyError [of P G fuel]
  unfolding mock.shot_def gphoto.shot_def by (rule conjI)

subsection \<open>No stale file\<close>

text \<open>
  A camera that queues events: each wait hands out the next event, or a time-out when there is
  none, and firing the shutter makes it report \<open>noise\<close> (no file) and then the file
  \<open>folder/name\<close>; its clock stays within the wait budget while it does.
\<close>

definition queueing_camera ::
  "('g, 'k) gp \<Rightarrow> ('g \<Rightarrow> gp_event list) \<Rightarrow> gp_event list \<Rightarrow> string \<Rightarrow> string \<Rightarrow> bool" where
  "queueing_camera G q noise folder name \<longleftrightarrow>
     (\<forall>n g. \<exists>g'. gp_wait_for_event G n g =
        (Inr (case q g of [] \<Rightarrow> GP_EVENT_TIMEOUT | ev # _ \<Rightarrow> ev), g') \<and> q g' = tl (q g)) \<and>
     (\<forall>g. \<exists>g'. gp_trigger_capture G g = (Inr (), g') \<and>
        q g' = q g @ noise @ [GP_EVENT_FILE_ADDED folder name]) \<and>
     (\<forall>g. \<exists>t g'. gp_monotonic G g = (t, g') \<and> 0 \<le> t \<and> t < EVENT_WAIT_BUDGET_S \<and> q g' = q g) \<and>
     (\<forall>ev \<in> set noise. \<forall>f n. ev \<noteq> GP_EVENT_FILE_ADDED f n)"

lemma drain_empties:
  assumes "queueing_camera G q noise folder name" and "GP_EVENT_TIMEOUT \<notin> set (q (gb_world s))"
    and "length (q (gb_world s)) < fuel"
  shows "\<exists>g. gphoto_drain_stale_events G fuel s = (Inr (), s\<lparr>gb_world := g\<rparr>) \<and> q g = []"
  using assms(2,3)
proof (induction fuel arbitrary: s)
  case (Suc fuel)
  obtain g where w: "gp_wait_for_event G 10 (gb_world s) =
      (Inr (case q (gb_world s) of [] \<Rightarrow> GP_EVENT_TIMEOUT | ev # _ \<Rightarrow> ev), g)"
    and g: "q g = tl (q (gb_world s))"
    using assms(1) unfolding queueing_camera_def by blast
  show ?case
  proof (cases "q (gb_world s)")
    case Nil
    then show ?thesis using w g by (auto simp: gp_call_def bindE_def)
  next
    case (Cons ev evs)
    then have "ev \<noteq> GP_EVENT_TIMEOUT" using Suc.prems by auto
    moreover have "\<exists>g'. gphoto_drain_stale_events G fuel (s\<lparr>gb_world := g\<rparr>) =
        (Inr (), s\<lparr>gb_world := g\<rparr>\<lparr>gb_world := g'\<rparr>) \<and> q g' = []"
      using Suc.IH [of "s\<lparr>gb_world := g\<rparr>"] Suc.prems Cons g by simp
    ultimately show ?thesis using w Cons by (auto simp: gp_call_def bindE_def)
  qed
qed simp

lemma wait_finds_file:
  assumes "queueing_camera G q noise folder name" and "set pre \<subseteq> set noise"
    and "q (gb_world s) = pre @ [GP_EVENT_FILE_ADDED folder name]"
    and "length pre < fuel" and "EVENT_WAIT_BUDGET_S \<le> deadline"
  shows "\<exists>g. gphoto_wait_file G fuel deadline s =
    (Inr (Some (gb_uuid s (gb_uuids s))),
     s\<lparr>gb_world := g, gb_uuids := gb_uuids s + 1,
       gb_pending := (gb_pending s)(gb_uuid s (gb_uuids s) \<mapsto> (folder, name))\<rparr>)"
  using assms(2-4)
proof (induction pre arbitrary: s fuel)
  case Nil
  then obtain n where fuel: "fuel = Suc n" by (cases fuel) auto
  obtain t g1 where clk: "gp_monotonic G (gb_world s) = (t, g1)" and t: "t < deadline"
    and g1: "q g1 = q (gb_world s)"
    using assms(1,5) unfolding queueing_camera_def by (meson order_less_le_trans)
  obtain g2 where "gp_wait_for_event G EVENT_POLL_MS g1 =
      (Inr (case q g1 of [] \<Rightarrow> GP_EVENT_TIMEOUT | ev # _ \<Rightarrow> ev), g2)"
    using assms(1) unfolding queueing_camera_def by blast
  then have "gphoto_wait_file G fuel deadline s =
      bindE (gphoto_new_capture folder name) (\<lambda>i. ret (Some i)) (s\<lparr>gb_world := g2\<rparr>)"
    using Nil clk t g1 fuel by (simp add: gphoto_monotonic_def gp_call_def bindE_def)
  moreover have "gphoto_new_capture folder name (s\<lparr>gb_world := g2\<rparr>) =
     (Inr (gb_uuid s (gb_uuids s)),
      s\<lparr>gb_world := g2, gb_uuids := gb_uuids s + 1,
        gb_pending := (gb_pending s)(gb_uuid s (gb_uuids s) \<mapsto> (folder, name))\<rparr>)"
    by (simp add: gphoto_new_capture_def Let_def)
  ultimately show ?case by (intro exI [of _ g2]) (simp add: fun_upd_def)
next
  case (Cons ev pre)
  then obtain n where fuel: "fuel = Suc n" by (cases fuel) auto
  obtain t g1 where clk: "gp_monotonic G (gb_world s) = (t, g1)" and t: "t < deadline"
    and g1: "q g1 = q (gb_world s)"
    using assms(1,5) unfolding queueing_camera_def by (meson order_less_le_trans)
  obtain g2 where w: "gp_wait_for_event G EVENT_POLL_MS g1 =
      (Inr (case q g1 of [] \<Rightarrow> GP_EVENT_TIMEOUT | ev # _ \<Rightarrow> ev), g2)" and g2: "q g2 = tl (q g1)"
    using assms(1) unfolding queueing_camera_def by blast
  have ev: "\<And>f n. ev \<noteq> GP_EVENT_FILE_ADDED f n"
    using assms(1) Cons.prems(1) unfolding queueing_camera_def by auto
  have step: "gphoto_wait_file G fuel deadline s = gphoto_wait_file G n deadline (s\<lparr>gb_world := g2\<rparr>)"
    using Cons.prems clk t g1 w fuel ev
    by (simp add: gphoto_monotonic_def gp_call_def bindE_def split: gp_event.splits)
  show ?case
    unfolding step using Cons.IH [of "s\<lparr>gb_world := g2\<rparr>" n] Cons.prems g1 g2 fuel by simp
qed


text \<open>A camera whose state is its event queue, with a photo taken by its own button waiting.\<close>

definition queue_gp :: "(gp_event list, unit) gp" where
  "queue_gp =
     \<lparr>gp_init = ret (), gp_exit = ret (), gp_get_config = ret (), gp_set_config = (\<lambda>_. ret ()),
      gp_has_child = (\<lambda>_ _. Inl ''not found''), gp_set_value = (\<lambda>_ _ _. Inr ()),
      gp_get_summary = ret (),
      gp_wait_for_event = (\<lambda>_ q. (Inr (case q of [] \<Rightarrow> GP_EVENT_TIMEOUT | ev # _ \<Rightarrow> ev), tl q)),
      gp_trigger_capture =
        (\<lambda>q. (Inr (), q @ [GP_EVENT_CAPTURE_COMPLETE, GP_EVENT_FILE_ADDED ''/store'' ''new.jpg''])),
      gp_file_get = (\<lambda>_ _ _. raise ''no file''), gp_file_delete = (\<lambda>_ _. ret ()),
      gp_monotonic = (\<lambda>q. (3, q))\<rparr>"


end
