(* ===== verification/Startup.thy ===== *)
theory Startup
  imports Settings Camera_Gphoto
begin

text \<open>
  \<open>src/photobooth/web/app.py\<close>, the command line of \<open>camera/worker.py\<close> and
  \<open>telemetry/logging_config.py\<close>: how the booth's processes start and stop.  The command line the
  app builds for the camera worker and the one the worker parses are both modelled; of
  \<open>argparse\<close> what this command line uses (whole flags followed by their value; a value that looks
  like a flag is refused).  \<open>str\<close> and \<open>float\<close> of a float are the parameters of a \<open>float_text\<close>.
\<close>

subsection \<open>The worker's command line\<close>

record float_text =
  ft_str :: "rat \<Rightarrow> string"
  ft_float :: "string \<Rightarrow> rat option"

fun jpeg_size_str :: "jpeg_size \<Rightarrow> string" where
  "jpeg_size_str JPEG_S = ''S''"
| "jpeg_size_str JPEG_M = ''M''"
| "jpeg_size_str JPEG_L = ''L''"

fun camera_choice_str :: "camera_choice \<Rightarrow> string" where
  "camera_choice_str Mock = ''mock''"
| "camera_choice_str Gphoto = ''gphoto''"

definition worker_args :: "float_text \<Rightarrow> string \<Rightarrow> camera_config \<Rightarrow> string list" where
  "worker_args T executable cam =
     [executable, ''-m'', ''photobooth.camera.worker'',
      ''--backend'', camera_choice_str (cc_backend cam), ''--host'', ''127.0.0.1'',
      ''--port'', str_int (cc_worker_port cam)] @
     (case cc_backend cam of
        Mock \<Rightarrow>
          (let mock = cc_mock cam in
           [''--fixtures-dir'', path_str (mcc_fixtures_dir mock),
            ''--trigger-delay-ms'', str_int (mcc_trigger_delay_ms mock),
            ''--thumb-latency-ms'', str_int (mcc_thumb_latency_ms mock),
            ''--full-download-mbps'', ft_str T (mcc_full_download_mbps mock),
            ''--download-timeout-pct'', ft_str T (mcc_download_timeout_pct mock),
            ''--slow-download-pct'', ft_str T (mcc_slow_download_pct mock)] @
           (case mcc_disconnect_every_n mock of
              None \<Rightarrow> [] | Some n \<Rightarrow> [''--disconnect-every-n'', str_int n]))
      | Gphoto \<Rightarrow> [''--jpeg-size'', jpeg_size_str (cc_jpeg_size cam)])"

record worker_namespace =
  wn_backend :: camera_choice
  wn_host :: string
  wn_port :: "int option"
  wn_fixtures_dir :: string
  wn_trigger_delay_ms :: int
  wn_thumb_latency_ms :: int
  wn_full_download_mbps :: rat
  wn_jpeg_size :: jpeg_size
  wn_disconnect_every_n :: "int option"
  wn_download_timeout_pct :: rat
  wn_slow_download_pct :: rat

definition default_namespace :: worker_namespace where
  "default_namespace =
     \<lparr>wn_backend = Mock, wn_host = ''127.0.0.1'', wn_port = None, wn_fixtures_dir = ''fixtures/shots'',
      wn_trigger_delay_ms = 250, wn_thumb_latency_ms = 150, wn_full_download_mbps = 40,
      wn_jpeg_size = JPEG_S, wn_disconnect_every_n = None, wn_download_timeout_pct = 0,
      wn_slow_download_pct = 0\<rparr>"

text \<open>\<open>argparse\<close> takes a word for a value unless it starts with a dash and is no negative number.\<close>

definition negative_number :: "string \<Rightarrow> bool" where
  "negative_number v \<longleftrightarrow>
     (case v of
        [] \<Rightarrow> False
      | c # t \<Rightarrow>
          c = CHR ''-'' \<and>
          (let a = takeWhile is_digit t; r = dropWhile is_digit t in
           if r = [] then a \<noteq> []
           else hd r = CHR ''.'' \<and> tl r \<noteq> [] \<and> list_all is_digit (tl r)))"

definition arg_value :: "string \<Rightarrow> bool" where
  "arg_value v \<longleftrightarrow> v = '''' \<or> hd v \<noteq> CHR ''-'' \<or> v = ''-'' \<or> negative_number v \<or> CHR '' '' \<in> set v"

text \<open>\<open>SystemExit\<close> of a usage error.\<close>

definition usage_error :: "string \<Rightarrow> 'a res" where
  "usage_error flag = Inl (ValueError (''argument '' @ flag))"

definition conv :: "string \<Rightarrow> 'a option \<Rightarrow> 'a res" where
  "conv flag v = (case v of None \<Rightarrow> usage_error flag | Some x \<Rightarrow> Inr x)"

definition parse_choice :: "string \<Rightarrow> camera_choice option" where
  "parse_choice v = (if v = ''mock'' then Some Mock else if v = ''gphoto'' then Some Gphoto else None)"

definition parse_jpeg_size :: "string \<Rightarrow> jpeg_size option" where
  "parse_jpeg_size v =
     (if v = ''S'' then Some JPEG_S else if v = ''M'' then Some JPEG_M
      else if v = ''L'' then Some JPEG_L else None)"

definition set_flag :: "float_text \<Rightarrow> string \<Rightarrow> string \<Rightarrow> worker_namespace \<Rightarrow> worker_namespace res" where
  "set_flag T flag v ns =
     (if \<not> arg_value v then usage_error flag
      else if flag = ''--backend'' then map_sum id (\<lambda>x. ns\<lparr>wn_backend := x\<rparr>) (conv flag (parse_choice v))
      else if flag = ''--host'' then Inr (ns\<lparr>wn_host := v\<rparr>)
      else if flag = ''--port'' then map_sum id (\<lambda>x. ns\<lparr>wn_port := Some x\<rparr>) (conv flag (py_int v))
      else if flag = ''--fixtures-dir'' then Inr (ns\<lparr>wn_fixtures_dir := v\<rparr>)
      else if flag = ''--trigger-delay-ms''
      then map_sum id (\<lambda>x. ns\<lparr>wn_trigger_delay_ms := x\<rparr>) (conv flag (py_int v))
      else if flag = ''--thumb-latency-ms''
      then map_sum id (\<lambda>x. ns\<lparr>wn_thumb_latency_ms := x\<rparr>) (conv flag (py_int v))
      else if flag = ''--full-download-mbps''
      then map_sum id (\<lambda>x. ns\<lparr>wn_full_download_mbps := x\<rparr>) (conv flag (ft_float T v))
      else if flag = ''--jpeg-size''
      then map_sum id (\<lambda>x. ns\<lparr>wn_jpeg_size := x\<rparr>) (conv flag (parse_jpeg_size v))
      else if flag = ''--disconnect-every-n''
      then map_sum id (\<lambda>x. ns\<lparr>wn_disconnect_every_n := Some x\<rparr>) (conv flag (py_int v))
      else if flag = ''--download-timeout-pct''
      then map_sum id (\<lambda>x. ns\<lparr>wn_download_timeout_pct := x\<rparr>) (conv flag (ft_float T v))
      else if flag = ''--slow-download-pct''
      then map_sum id (\<lambda>x. ns\<lparr>wn_slow_download_pct := x\<rparr>) (conv flag (ft_float T v))
      else usage_error flag)"

fun parse_flags :: "float_text \<Rightarrow> string list \<Rightarrow> worker_namespace \<Rightarrow> worker_namespace res" where
  "parse_flags T [] ns = Inr ns"
| "parse_flags T [flag] ns = usage_error flag"
| "parse_flags T (flag # v # rest) ns = bind_res (set_flag T flag v ns) (parse_flags T rest)"

definition parse_args :: "float_text \<Rightarrow> string list \<Rightarrow> worker_namespace res" where
  "parse_args T argv =
     bind_res (parse_flags T argv default_namespace) (\<lambda>ns.
       if wn_port ns = None then usage_error ''--port'' else Inr ns)"

text \<open>What the backends get from outside: the fixture files, the random sources, \<open>python-gphoto2\<close>.\<close>

record 'g backend_env =
  be_listing :: "string list"
  be_files :: fs
  be_random :: "nat \<Rightarrow> rat"
  be_uuid :: "nat \<Rightarrow> string"
  be_hash :: "nat \<Rightarrow> int"
  be_gphoto_installed :: bool
  be_gphoto_world :: 'g

datatype 'g worker_backend = MockWorker mock_backend | GphotoWorker "'g gphoto_backend"

definition build_backend :: "'g backend_env \<Rightarrow> worker_namespace \<Rightarrow> 'g worker_backend res" where
  "build_backend E args =
     (if wn_backend args = Mock
      then Inr (MockWorker (new_mock_backend (to_path (wn_fixtures_dir args)) (wn_trigger_delay_ms args)
             (wn_thumb_latency_ms args) (wn_full_download_mbps args) (wn_disconnect_every_n args)
             (wn_download_timeout_pct args) (wn_slow_download_pct args) (be_listing E) (be_files E)
             (be_random E) (be_uuid E) (be_hash E)))
      else map_sum id GphotoWorker (new_gphoto_backend (be_gphoto_installed E)
             (jpeg_size_str (wn_jpeg_size args)) (be_uuid E) (be_gphoto_world E)))"

subsection \<open>The command line arrives\<close>

lemma str_int_value: "arg_value (str_int i)"
proof (cases "i < 0")
  case True
  have all: "list_all is_digit (str_nat (nat (- i)))" by (simp add: list_all_iff str_nat_digits)
  then have d: "dropWhile is_digit (str_nat (nat (- i))) = []"
    and tw: "takeWhile is_digit (str_nat (nat (- i))) = str_nat (nat (- i))"
    by (simp_all add: list_all_iff dropWhile_eq_Nil_conv takeWhile_eq_all_conv)
  have "negative_number (CHR ''-'' # str_nat (nat (- i)))"
    unfolding negative_number_def list.case Let_def d tw by simp
  then show ?thesis using True by (simp add: arg_value_def str_int_def)
next
  case False
  have "is_digit (hd (str_nat (nat i)))" by (rule str_nat_digits [of _ "nat i"]) simp
  with False show ?thesis by (auto simp: arg_value_def str_int_def is_digit_def)
qed

lemma fixed_values [simp]:
  "arg_value ''127.0.0.1''" "arg_value ''mock''" "arg_value ''gphoto''" "arg_value (jpeg_size_str z)"
  "parse_choice ''mock'' = Some Mock" "parse_choice ''gphoto'' = Some Gphoto"
  "parse_jpeg_size (jpeg_size_str z) = Some z"
  by (cases z; simp add: arg_value_def parse_choice_def parse_jpeg_size_def)+

lemma set_flag_simps:
  assumes "arg_value v"
  shows "set_flag T ''--backend'' v ns = map_sum id (\<lambda>x. ns\<lparr>wn_backend := x\<rparr>) (conv ''--backend'' (parse_choice v))"
    "set_flag T ''--host'' v ns = Inr (ns\<lparr>wn_host := v\<rparr>)"
    "set_flag T ''--port'' v ns = map_sum id (\<lambda>x. ns\<lparr>wn_port := Some x\<rparr>) (conv ''--port'' (py_int v))"
    "set_flag T ''--fixtures-dir'' v ns = Inr (ns\<lparr>wn_fixtures_dir := v\<rparr>)"
    "set_flag T ''--trigger-delay-ms'' v ns =
       map_sum id (\<lambda>x. ns\<lparr>wn_trigger_delay_ms := x\<rparr>) (conv ''--trigger-delay-ms'' (py_int v))"
    "set_flag T ''--thumb-latency-ms'' v ns =
       map_sum id (\<lambda>x. ns\<lparr>wn_thumb_latency_ms := x\<rparr>) (conv ''--thumb-latency-ms'' (py_int v))"
    "set_flag T ''--full-download-mbps'' v ns =
       map_sum id (\<lambda>x. ns\<lparr>wn_full_download_mbps := x\<rparr>) (conv ''--full-download-mbps'' (ft_float T v))"
    "set_flag T ''--jpeg-size'' v ns =
       map_sum id (\<lambda>x. ns\<lparr>wn_jpeg_size := x\<rparr>) (conv ''--jpeg-size'' (parse_jpeg_size v))"
    "set_flag T ''--disconnect-every-n'' v ns =
       map_sum id (\<lambda>x. ns\<lparr>wn_disconnect_every_n := Some x\<rparr>) (conv ''--disconnect-every-n'' (py_int v))"
    "set_flag T ''--download-timeout-pct'' v ns =
       map_sum id (\<lambda>x. ns\<lparr>wn_download_timeout_pct := x\<rparr>) (conv ''--download-timeout-pct'' (ft_float T v))"
    "set_flag T ''--slow-download-pct'' v ns =
       map_sum id (\<lambda>x. ns\<lparr>wn_slow_download_pct := x\<rparr>) (conv ''--slow-download-pct'' (ft_float T v))"
  using assms by (simp_all add: set_flag_def)

text \<open>Floats whose text reads back, and is no flag.\<close>

definition float_arg :: "float_text \<Rightarrow> rat \<Rightarrow> bool" where
  "float_arg T x \<longleftrightarrow> ft_float T (ft_str T x) = Some x \<and> arg_value (ft_str T x)"

definition mock_floats :: "mock_camera_config \<Rightarrow> rat list" where
  "mock_floats mock =
     [mcc_full_download_mbps mock, mcc_download_timeout_pct mock, mcc_slow_download_pct mock]"

definition sent_namespace :: "camera_config \<Rightarrow> worker_namespace" where
  "sent_namespace cam =
     (let ns = default_namespace\<lparr>wn_backend := cc_backend cam, wn_port := Some (cc_worker_port cam)\<rparr>;
          mock = cc_mock cam in
      case cc_backend cam of
        Mock \<Rightarrow> ns\<lparr>wn_fixtures_dir := path_str (mcc_fixtures_dir mock),
            wn_trigger_delay_ms := mcc_trigger_delay_ms mock,
            wn_thumb_latency_ms := mcc_thumb_latency_ms mock,
            wn_full_download_mbps := mcc_full_download_mbps mock,
            wn_download_timeout_pct := mcc_download_timeout_pct mock,
            wn_slow_download_pct := mcc_slow_download_pct mock,
            wn_disconnect_every_n := mcc_disconnect_every_n mock\<rparr>
      | Gphoto \<Rightarrow> ns\<lparr>wn_jpeg_size := cc_jpeg_size cam\<rparr>)"

lemma parse_worker_args:
  assumes "arg_value (path_str (mcc_fixtures_dir (cc_mock cam)))"
    and "list_all (float_arg T) (mock_floats (cc_mock cam))"
  shows "parse_args T (drop 3 (worker_args T exe cam)) = Inr (sent_namespace cam)"
proof (cases "cc_backend cam")
  case Mock
  with assms show ?thesis
    by (cases "mcc_disconnect_every_n (cc_mock cam)")
      (simp_all add: parse_args_def worker_args_def Let_def set_flag_simps str_int_value py_int_str_int
        conv_def sent_namespace_def default_namespace_def float_arg_def mock_floats_def)
next
  case Gphoto
  then show ?thesis
    by (simp add: parse_args_def worker_args_def Let_def set_flag_simps str_int_value py_int_str_int
        conv_def sent_namespace_def default_namespace_def)
qed

subsection \<open>Waiting for the worker\<close>

text \<open>
  \<open>clock k\<close> is the \<open>k\<close>th reading of the monotonic clock, \<open>connect k\<close> the outcome of the
  \<open>k\<close>th attempt (\<open>None\<close>: connected, else the message of the \<open>OSError\<close>).  Every failed attempt
  is followed by a sleep.  The loop runs on fuel; \<open>Diverges\<close> is fuel run out.
\<close>

definition WORKER_READY_TIMEOUT_S :: rat where
  "WORKER_READY_TIMEOUT_S = 5"

definition WORKER_READY_POLL_S :: rat where
  "WORKER_READY_POLL_S = 1 / 10"

fun wait_loop ::
  "(nat \<Rightarrow> rat) \<Rightarrow> (nat \<Rightarrow> string option) \<Rightarrow> exn \<Rightarrow> rat \<Rightarrow> nat \<Rightarrow> nat \<Rightarrow> unit res" where
  "wait_loop clock connect give_up deadline 0 k = Inl Diverges"
| "wait_loop clock connect give_up deadline (Suc fuel) k =
     (if clock k < deadline
      then (case connect k of
              None \<Rightarrow> Inr ()
            | Some _ \<Rightarrow> wait_loop clock connect give_up deadline fuel (Suc k))
      else Inl give_up)"

definition wait_for_worker ::
  "nat \<Rightarrow> (nat \<Rightarrow> rat) \<Rightarrow> (nat \<Rightarrow> string option) \<Rightarrow> string \<Rightarrow> int \<Rightarrow> rat \<Rightarrow> unit res" where
  "wait_for_worker fuel clock connect host port timeout_s =
     wait_loop clock connect
       (TimeoutError (''camera worker not reachable on '' @ host @ '':'' @ str_int port))
       (clock 0 + timeout_s) fuel 1"

lemma wait_loop_ends:
  assumes "\<And>i. k \<le> i \<Longrightarrow> clock i + WORKER_READY_POLL_S \<le> clock (Suc i)"
    and "deadline \<le> clock k + of_nat fuel * WORKER_READY_POLL_S"
  shows "wait_loop clock connect give_up deadline (Suc fuel) k =
    (if \<exists>n. clock (k + n) < deadline \<and> connect (k + n) = None then Inr () else Inl give_up)"
  using assms
proof (induction fuel arbitrary: k)
  case 0
  have "clock k \<le> clock (k + n)" for n
  proof (induction n)
    case (Suc n)
    with "0.prems"(1) [of "k + n"] show ?case by (simp add: WORKER_READY_POLL_S_def)
  qed simp
  then have "\<not> clock (k + n) < deadline" for n using "0.prems"(2) by (simp add: not_less order_trans)
  from this [of 0] this show ?case by auto
next
  case (Suc fuel)
  note step = Suc.prems(1)
  have mono: "clock k \<le> clock (k + n)" for n
  proof (induction n)
    case (Suc m)
    with step [of "k + m"] show ?case by (simp add: WORKER_READY_POLL_S_def)
  qed simp
  show ?case
  proof (cases "clock k < deadline \<and> connect k \<noteq> None")
    case False
    have "\<not> (\<exists>n. clock (k + n) < deadline \<and> connect (k + n) = None)" if "\<not> clock k < deadline"
      using that mono by (meson le_less_trans not_less)
    moreover have "\<exists>n. clock (k + n) < deadline \<and> connect (k + n) = None"
      if "clock k < deadline" "connect k = None"
      using that by (intro exI [of _ 0]) simp
    ultimately show ?thesis using False by auto
  next
    case True
    have "deadline \<le> clock (Suc k) + of_nat fuel * WORKER_READY_POLL_S"
      using Suc.prems(2) Suc.prems(1) [of k] by (simp add: algebra_simps)
    from Suc.IH [OF _ this] Suc.prems(1)
    have IH: "wait_loop clock connect give_up deadline (Suc fuel) (Suc k) =
        (if \<exists>n. clock (Suc k + n) < deadline \<and> connect (Suc k + n) = None then Inr () else Inl give_up)"
      by simp
    have "(\<exists>n. clock (k + n) < deadline \<and> connect (k + n) = None) \<longleftrightarrow>
        (\<exists>n. clock (Suc k + n) < deadline \<and> connect (Suc k + n) = None)"
      using True by (metis add_Suc_right add_Suc_shift not0_implies_Suc plus_nat.add_0 add.right_neutral)
    with IH True show ?thesis by auto
  qed
qed

subsection \<open>Logging\<close>

definition LEVEL_NAMES :: "string \<rightharpoonup> int" where
  "LEVEL_NAMES =
     [''CRITICAL'' \<mapsto> 50, ''FATAL'' \<mapsto> 50, ''ERROR'' \<mapsto> 40, ''WARN'' \<mapsto> 30, ''WARNING'' \<mapsto> 30, ''INFO'' \<mapsto> 20,
      ''DEBUG'' \<mapsto> 10, ''NOTSET'' \<mapsto> 0]"

definition upper_char :: "char \<Rightarrow> char" where
  "upper_char c = (if CHR ''a'' \<le> c \<and> c \<le> CHR ''z'' then char_of ((of_char c :: nat) - 32) else c)"

definition resolve_level :: "string \<Rightarrow> int res" where
  "resolve_level level_name =
     (case LEVEL_NAMES (map upper_char level_name) of
        None \<Rightarrow> Inl (ValueError (''invalid log level: '' @ py_repr level_name)) | Some n \<Rightarrow> Inr n)"

text \<open>The logging module: the root logger's level and handlers, the levels of the other loggers.\<close>

record log_state =
  lg_root_level :: int
  lg_root_handlers :: nat
  lg_levels :: "string \<rightharpoonup> int"

definition set_level :: "string \<Rightarrow> int \<Rightarrow> log_state \<Rightarrow> log_state" where
  "set_level name n s =
     (if name = '''' \<or> name = ''root'' then s\<lparr>lg_root_level := n\<rparr>
      else s\<lparr>lg_levels := (lg_levels s)(name \<mapsto> n)\<rparr>)"

fun set_module_levels :: "(string \<times> string) list \<Rightarrow> (exn, log_state, unit) op" where
  "set_module_levels [] = ret ()"
| "set_module_levels ((module_name, level_name) # rest) =
     bindE (lift_res (resolve_level level_name)) (\<lambda>n.
       andthen (modify (set_level module_name n)) (set_module_levels rest))"

definition configure_logging :: "logging_config \<Rightarrow> (exn, log_state, unit) op" where
  "configure_logging config =
     bindE (lift_res (resolve_level (lc_level config))) (\<lambda>root_level.
     andthen (modify (\<lambda>s. s\<lparr>lg_root_level := root_level, lg_root_handlers := 1\<rparr>))
             (set_module_levels (lc_module_levels config)))"

lemma configure_logging_one_handler:
  assumes "configure_logging config s = (Inr (), s')"
  shows "lg_root_handlers s' = 1"
proof -
  have kp: "keeps lg_root_handlers (set_module_levels ls)" for ls
    by (induction ls) (auto intro!: frame_rules keeps_modify simp: set_level_def)
  from assms show ?thesis
    by (auto simp: configure_logging_def bindE_returns_iff andthen_def dest!: keepsD [OF kp])
qed

subsection \<open>The life of the app\<close>

text \<open>
  The parts the app starts and stops, recorded in the order it happens.  Each step of the start and
  of the shutdown that may fail has its outcome in \<open>startup_steps\<close>; stopping a task waits for it
  and raises what the task raised.
\<close>

datatype part = WorkerProcess | CameraClient | DbConnection | DeliveryTask | PrintTask | RetentionTask | PreviewClient

datatype part_event = Started part | Stopped part

record startup_steps =
  ss_settings :: "(settings \<times> string list) res"
  ss_logging :: "unit res"
  ss_popen :: "unit res"
  ss_wait :: "unit res"
  ss_connect :: "unit res"
  ss_db :: "unit res"
  ss_output_dir :: "unit res"
  ss_pycups :: "unit res option"
  ss_manager :: "unit res"
  ss_serve :: "unit res"
  ss_print_task :: "unit res"
  ss_retention_task :: "unit res"
  ss_delivery_task :: "unit res"
  ss_preview_close :: "unit res"
  ss_client_close :: "unit res"

type_synonym 'a app_op = "(exn, part_event list, 'a) op"

definition part_event :: "part_event \<Rightarrow> unit app_op" where
  "part_event e = modify (\<lambda>trace. trace @ [e])"

definition connect_camera :: "startup_steps \<Rightarrow> unit app_op" where
  "connect_camera S =
     try_except (andthen (part_event (Started CameraClient)) (lift_res (ss_connect S)))
       (\<lambda>exc. if is_CameraError exc then ret () else raise exc)"

definition start_parts :: "startup_steps \<Rightarrow> settings \<Rightarrow> bool app_op" where
  "start_parts S settings =
     andthen (part_event (Started DeliveryTask))
    (andthen (if dc_backend (st_delivery settings) = Local then lift_res (ss_output_dir S) else ret ())
    (bindE (lift_res (build_printer_backend (ss_pycups S) (st_printing settings))) (\<lambda>printer_backend.
     andthen (if printer_backend \<noteq> None then part_event (Started PrintTask) else ret ())
    (andthen (part_event (Started RetentionTask))
    (andthen (lift_res (ss_manager S))
    (andthen (part_event (Started PreviewClient)) (ret (printer_backend \<noteq> None))))))))"

definition stop_part :: "part \<Rightarrow> unit res \<Rightarrow> unit app_op" where
  "stop_part p outcome = andthen (part_event (Stopped p)) (lift_res outcome)"

definition shutdown :: "startup_steps \<Rightarrow> bool \<Rightarrow> unit app_op" where
  "shutdown S printing =
     andthen (if printing then stop_part PrintTask (ss_print_task S) else ret ())
    (andthen (stop_part RetentionTask (ss_retention_task S))
    (andthen (stop_part DeliveryTask (ss_delivery_task S))
    (andthen (stop_part PreviewClient (ss_preview_close S))
             (stop_part CameraClient (ss_client_close S)))))"

definition lifespan :: "startup_steps \<Rightarrow> unit app_op" where
  "lifespan S =
     bindE (lift_res (ss_settings S)) (\<lambda>(settings, _).
     andthen (lift_res (ss_logging S))
    (andthen (lift_res (ss_popen S))
    (andthen (part_event (Started WorkerProcess))
    (try_finally
      (andthen (lift_res (ss_wait S))
      (andthen (connect_camera S)
      (andthen (lift_res (ss_db S))
      (andthen (part_event (Started DbConnection))
      (try_finally
        (bindE (start_parts S settings) (\<lambda>printing.
           try_finally_op (lift_res (ss_serve S)) (shutdown S printing)))
        (\<lambda>trace. trace @ [Stopped DbConnection]))))))
      (\<lambda>trace. trace @ [Stopped WorkerProcess])))))"

definition running :: "part \<Rightarrow> part_event list \<Rightarrow> bool" where
  "running p trace =
     foldl (\<lambda>b e. if e = Started p then True else if e = Stopped p then False else b) False trace"

subsection \<open>The pages of the built frontend\<close>

definition serve_frontend_index :: "fs \<Rightarrow> path res" where
  "serve_frontend_index F =
     (let index_path = path_div (to_path ''frontend/dist'') ''index.html'' in
      if \<not> is_file F index_path
      then Inl (HTTPException 503 (''frontend/dist/index.html not found '' @ em_dash @
             '' run `npm run build` in frontend/ first''))
      else Inr index_path)"

definition app_health :: payload where
  "app_health = [(''status'', JStr ''ok'')]"

lemma running_append [simp]:
  "running p (trace @ [Started q]) \<longleftrightarrow> p = q \<or> running p trace"
  "running p (trace @ [Stopped q]) \<longleftrightarrow> p \<noteq> q \<and> running p trace"
  by (auto simp: running_def)

lemma running_Nil [simp]: "\<not> running p []"
  by (simp add: running_def)

lemma part_event_apply [simp]: "part_event e trace = (Inr (), trace @ [e])"
  by (simp add: part_event_def)

lemma stop_part_apply [simp]: "stop_part p r trace = (r, trace @ [Stopped p])"
  by (simp add: stop_part_def andthen_def bindE_def)

definition parts_started :: "bool \<Rightarrow> part_event list" where
  "parts_started printing =
     [Started DeliveryTask] @ (if printing then [Started PrintTask] else []) @
     [Started RetentionTask, Started PreviewClient]"

definition parts_stopped :: "bool \<Rightarrow> part_event list" where
  "parts_stopped printing =
     (if printing then [Stopped PrintTask] else []) @
     [Stopped RetentionTask, Stopped DeliveryTask, Stopped PreviewClient, Stopped CameraClient]"

lemma start_parts_cases:
  assumes "start_parts S st trace = (r, trace')"
  obtains (up) printing where "r = Inr printing" "trace' = trace @ parts_started printing"
    | (down) e started where "r = Inl e" "trace' = trace @ started"
      "\<And>x. x \<in> set started \<Longrightarrow> x \<in> {Started DeliveryTask, Started PrintTask, Started RetentionTask}"
      "hd started = Started DeliveryTask" "started \<noteq> []"
proof (cases "build_printer_backend (ss_pycups S) (st_printing st)")
  case (Inl e)
  with assms show thesis
    by (cases "dc_backend (st_delivery st) = Local"; cases "ss_output_dir S")
      (auto simp: start_parts_def andthen_def bindE_def intro: down [of _ "[Started DeliveryTask]"])
next
  case (Inr pb)
  consider (mk) e where "dc_backend (st_delivery st) = Local" "ss_output_dir S = Inl e"
    | (ok) "dc_backend (st_delivery st) = Local \<Longrightarrow> ss_output_dir S = Inr ()"
    by (cases "ss_output_dir S") auto
  then show thesis
  proof cases
    case mk
    with assms show thesis
      by (auto simp: start_parts_def andthen_def bindE_def intro: down [of _ "[Started DeliveryTask]"])
  next
    case ok
    let ?pre = "[Started DeliveryTask] @ (if pb \<noteq> None then [Started PrintTask] else []) @ [Started RetentionTask]"
    have eq: "start_parts S st trace =
        (case ss_manager S of Inl e \<Rightarrow> (Inl e, trace @ ?pre)
         | Inr _ \<Rightarrow> (Inr (pb \<noteq> None), trace @ parts_started (pb \<noteq> None)))"
      using ok Inr
      by (cases "ss_manager S")
        (auto simp: start_parts_def andthen_def bindE_def parts_started_def)
    then show thesis
    proof (cases "ss_manager S")
      case (Inl e)
      with eq assms have "r = Inl e" "trace' = trace @ ?pre" by simp_all
      then show thesis by (rule down) (auto split: if_splits)
    next
      case (Inr u)
      with eq assms have "r = Inr (pb \<noteq> None)" "trace' = trace @ parts_started (pb \<noteq> None)"
        by simp_all
      then show thesis by (rule up)
    qed
  qed
qed

lemma shutdown_stops:
  "(\<forall>r \<in> set [ss_retention_task S, ss_delivery_task S, ss_preview_close S, ss_client_close S]. r = Inr ()) \<Longrightarrow>
     (printing \<Longrightarrow> ss_print_task S = Inr ()) \<Longrightarrow>
     shutdown S printing trace = (Inr (), trace @ parts_stopped printing)"
  by (cases printing) (simp_all add: shutdown_def parts_stopped_def andthen_def bindE_def)

text \<open>The events of a whole life, when every step of the shutdown returns.\<close>

definition full_life :: "bool \<Rightarrow> part_event list" where
  "full_life printing =
     [Started WorkerProcess, Started CameraClient, Started DbConnection] @ parts_started printing @
     parts_stopped printing @ [Stopped DbConnection, Stopped WorkerProcess]"

lemma running_prefix:
  "set xs \<subseteq> {Started DeliveryTask, Started PrintTask, Started RetentionTask} \<Longrightarrow>
     p \<notin> {DeliveryTask, PrintTask, RetentionTask} \<Longrightarrow> running p (trace @ xs) = running p trace"
proof (induction xs arbitrary: trace)
  case (Cons x xs)
  have "running p ((trace @ [x]) @ xs) = running p (trace @ [x])" using Cons.prems by (intro Cons.IH) auto
  also have "\<dots> = running p trace" using Cons.prems by auto
  finally show ?case by simp
qed simp

subsection \<open>Properties\<close>

definition configured_backend :: "'g backend_env \<Rightarrow> camera_config \<Rightarrow> 'g worker_backend res" where
  "configured_backend E cam =
     (case cc_backend cam of
        Mock \<Rightarrow>
          (let mock = cc_mock cam in
           Inr (MockWorker (new_mock_backend (mcc_fixtures_dir mock) (mcc_trigger_delay_ms mock)
             (mcc_thumb_latency_ms mock) (mcc_full_download_mbps mock) (mcc_disconnect_every_n mock)
             (mcc_download_timeout_pct mock) (mcc_slow_download_pct mock) (be_listing E) (be_files E)
             (be_random E) (be_uuid E) (be_hash E))))
      | Gphoto \<Rightarrow>
          map_sum id GphotoWorker (new_gphoto_backend (be_gphoto_installed E)
             (jpeg_size_str (cc_jpeg_size cam)) (be_uuid E) (be_gphoto_world E)))"

lemma sent_listen:
  "wn_host (sent_namespace cam) = ''127.0.0.1''" "wn_port (sent_namespace cam) = Some (cc_worker_port cam)"
  by (cases "cc_backend cam"; simp add: sent_namespace_def default_namespace_def Let_def)+

lemma built_from_sent:
  "cc_backend cam = Mock \<Longrightarrow> build_backend E (sent_namespace cam) =
     Inr (MockWorker (new_mock_backend (to_path (path_str (mcc_fixtures_dir (cc_mock cam))))
       (mcc_trigger_delay_ms (cc_mock cam)) (mcc_thumb_latency_ms (cc_mock cam))
       (mcc_full_download_mbps (cc_mock cam)) (mcc_disconnect_every_n (cc_mock cam))
       (mcc_download_timeout_pct (cc_mock cam)) (mcc_slow_download_pct (cc_mock cam))
       (be_listing E) (be_files E) (be_random E) (be_uuid E) (be_hash E)))"
  "cc_backend cam = Gphoto \<Longrightarrow> build_backend E (sent_namespace cam) =
     map_sum id GphotoWorker (new_gphoto_backend (be_gphoto_installed E)
       (jpeg_size_str (cc_jpeg_size cam)) (be_uuid E) (be_gphoto_world E))"
  by (simp_all add: sent_namespace_def default_namespace_def build_backend_def Let_def)

text \<open>
  C32: the command line the app builds for the camera worker round-trips through the worker's
  argument parser: the worker listens on the configured port of the loopback interface and builds
  the configured backend with the configured parameters, every one of them, whatever the integers
  are.  It needs a fixtures directory that does not look like a flag, and floats whose text reads back.
\<close>

theorem worker_gets_configured_backend:
  assumes "wf_path (mcc_fixtures_dir (cc_mock cam))"
    and "arg_value (path_str (mcc_fixtures_dir (cc_mock cam)))"
    and "list_all (float_arg T) (mock_floats (cc_mock cam))"
  shows "map_sum id (\<lambda>ns. (wn_host ns, wn_port ns, build_backend E ns))
           (parse_args T (drop 3 (worker_args T exe cam))) =
         Inr (''127.0.0.1'', Some (cc_worker_port cam), configured_backend E cam)"
proof -
  have path: "to_path (path_str (mcc_fixtures_dir (cc_mock cam))) = mcc_fixtures_dir (cc_mock cam)"
    by (rule to_path_path_str [OF assms(1)])
  have "build_backend E (sent_namespace cam) = configured_backend E cam"
    using path by (cases "cc_backend cam") (simp_all add: built_from_sent configured_backend_def Let_def)
  then show ?thesis
    unfolding parse_worker_args [OF assms(2,3)] by (simp add: sent_listen)
qed

definition sample_floats :: float_text where
  "sample_floats = \<lparr>ft_str = (\<lambda>x. if x = 40 then ''40.0'' else ''0.0''),
     ft_float = (\<lambda>v. if v = ''40.0'' then Some 40 else if v = ''0.0'' then Some 0 else None)\<rparr>"

definition sample_env :: "unit backend_env" where
  "sample_env = \<lparr>be_listing = [], be_files = \<lparr>fs_files = (\<lambda>_. None), fs_dirs = {}, fs_faults = (\<lambda>_. False)\<rparr>, be_random = (\<lambda>_. 0),
     be_uuid = (\<lambda>_. ''u''), be_hash = (\<lambda>_. 0), be_gphoto_installed = False, be_gphoto_world = ()\<rparr>"

theorem worker_gets_configured_backend_witness:
  "map_sum id (\<lambda>ns. (wn_host ns, wn_port ns,
       build_backend sample_env ns))
     (parse_args sample_floats (drop 3 (worker_args sample_floats ''python'' default_camera))) =
   Inr (''127.0.0.1'', Some 8765,
     configured_backend sample_env default_camera)"
proof -
  have "path_str (to_path ''fixtures/shots'') = ''fixtures/shots''" by code_simp
  then show ?thesis
    by (subst worker_gets_configured_backend)
      (simp_all add: default_camera_def default_mock_camera_def wf_to_path arg_value_def
        float_arg_def mock_floats_def sample_floats_def)
qed

text \<open>
  waiting for the camera worker ends.  If every failed attempt takes at least the poll interval
  (it sleeps that long) and the timeout is at most \<open>n\<close> intervals, \<open>n + 1\<close> rounds are enough: the
  wait succeeds exactly when an attempt started before the deadline connects, and raises
  \<open>TimeoutError\<close> otherwise.
\<close>

theorem wait_for_worker_ends:
  assumes "\<And>i. 1 \<le> i \<Longrightarrow> clock i + WORKER_READY_POLL_S \<le> clock (Suc i)"
    and "clock 0 \<le> clock 1" and "timeout_s \<le> of_nat n * WORKER_READY_POLL_S"
  shows "wait_for_worker (Suc n) clock connect host port timeout_s =
    (if \<exists>i. clock (1 + i) < clock 0 + timeout_s \<and> connect (1 + i) = None then Inr ()
     else Inl (TimeoutError (''camera worker not reachable on '' @ host @ '':'' @ str_int port)))"
  unfolding wait_for_worker_def
  by (rule wait_loop_ends) (use assms in \<open>auto simp: algebra_simps\<close>)

theorem wait_for_worker_ends_witness:
  "wait_for_worker 51 (\<lambda>i. of_nat i / 5) (\<lambda>i. if i = 3 then None else Some ''refused'') ''127.0.0.1'' 8765
     WORKER_READY_TIMEOUT_S = Inr ()"
proof -
  have "wait_for_worker (Suc 50) (\<lambda>i. of_nat i / 5) (\<lambda>i. if i = 3 then None else Some ''refused'') ''127.0.0.1'' 8765
     WORKER_READY_TIMEOUT_S =
    (if \<exists>i. (of_nat (1 + i) :: rat) / 5 < of_nat 0 / 5 + WORKER_READY_TIMEOUT_S \<and>
            (if 1 + i = 3 then None else Some ''refused'') = None then Inr ()
     else Inl (TimeoutError (''camera worker not reachable on '' @ ''127.0.0.1'' @ '':'' @ str_int 8765)))"
    by (rule wait_for_worker_ends) (simp_all add: WORKER_READY_POLL_S_def WORKER_READY_TIMEOUT_S_def)
  moreover have "\<exists>i. (of_nat (1 + i) :: rat) / 5 < of_nat 0 / 5 + WORKER_READY_TIMEOUT_S \<and>
      (if 1 + i = 3 then None else Some ''refused'') = None"
    by (rule exI [of _ 2]) (simp add: WORKER_READY_TIMEOUT_S_def)
  ultimately show ?thesis by simp
qed

subsection \<open>What the shutdown leaves\<close>

lemma running_stopped:
  "running p (trace @ [Stopped q, Stopped q']) \<longleftrightarrow> p \<noteq> q \<and> p \<noteq> q' \<and> running p trace"
  by (simp add: running_def)

lemma connect_camera_cases:
  obtains (up) "connect_camera S trace = (Inr (), trace @ [Started CameraClient])"
    | (down) e where "connect_camera S trace = (Inl e, trace @ [Started CameraClient])"
      "ss_connect S = Inl e" "\<not> is_CameraError e"
proof (cases "ss_connect S")
  case (Inl e)
  then show thesis
    using up down by (cases "is_CameraError e") (simp_all add: connect_camera_def try_except_def andthen_def bindE_def)
next
  case (Inr u)
  then show thesis using up by (simp add: connect_camera_def try_except_def andthen_def bindE_def)
qed

text \<open>The part of the lifespan that holds the database connection.\<close>

definition serving :: "startup_steps \<Rightarrow> settings \<Rightarrow> unit app_op" where
  "serving S settings =
     bindE (start_parts S settings) (\<lambda>printing.
       try_finally_op (lift_res (ss_serve S)) (shutdown S printing))"

definition with_database :: "startup_steps \<Rightarrow> settings \<Rightarrow> unit app_op" where
  "with_database S settings =
     andthen (lift_res (ss_wait S))
    (andthen (connect_camera S)
    (andthen (lift_res (ss_db S))
    (andthen (part_event (Started DbConnection))
    (try_finally (serving S settings) (\<lambda>trace. trace @ [Stopped DbConnection])))))"

lemma lifespan_unfold:
  "lifespan S [] =
     (case ss_settings S of
        Inl e \<Rightarrow> (Inl e, [])
      | Inr sp \<Rightarrow>
          (case ss_logging S of
             Inl e \<Rightarrow> (Inl e, [])
           | Inr _ \<Rightarrow>
               (case ss_popen S of
                  Inl e \<Rightarrow> (Inl e, [])
                | Inr _ \<Rightarrow>
                    (case with_database S (fst sp) [Started WorkerProcess] of
                       (r, trace) \<Rightarrow> (r, trace @ [Stopped WorkerProcess])))))"
proof (cases "ss_settings S")
  case (Inr sp)
  obtain st path where "sp = (st, path)" by fastforce
  with Inr show ?thesis
    unfolding lifespan_def with_database_def [symmetric] serving_def [symmetric]
    by (cases "ss_logging S"; cases "ss_popen S") (simp_all add: andthen_def bindE_def try_finally_def)
qed (simp add: lifespan_def bindE_def)

lemma with_database_cases:
  assumes "with_database S st trace = (r, trace')"
  obtains (early) e where "r = Inl e" "trace' = trace \<or> trace' = trace @ [Started CameraClient]"
    | (open_db) trace1 where
        "serving S st (trace @ [Started CameraClient, Started DbConnection]) = (r, trace1)"
        "trace' = trace1 @ [Stopped DbConnection]"
proof (cases "ss_wait S")
  case (Inl e)
  with assms show thesis by (intro early [of e]) (simp_all add: with_database_def andthen_def bindE_def)
next
  case (Inr u)
  note wait = this
  show thesis
  proof (cases rule: connect_camera_cases [of S trace])
    case up
    show thesis
    proof (cases "ss_db S")
      case (Inl e)
      with assms up wait show thesis
        by (intro early [of e]) (simp_all add: with_database_def andthen_def bindE_def)
    next
      case (Inr v)
      obtain r1 trace1 where
        "serving S st (trace @ [Started CameraClient, Started DbConnection]) = (r1, trace1)" by fastforce
      with Inr assms up wait show thesis
        by (intro open_db [of trace1]) (auto simp: with_database_def andthen_def bindE_def try_finally_def)
    qed
  next
    case (down e)
    with assms wait show thesis
      by (intro early [of e]) (simp_all add: with_database_def andthen_def bindE_def)
  qed
qed

definition shutdown_returns :: "startup_steps \<Rightarrow> bool" where
  "shutdown_returns S \<longleftrightarrow>
     ss_print_task S = Inr () \<and> ss_retention_task S = Inr () \<and> ss_delivery_task S = Inr () \<and>
     ss_preview_close S = Inr () \<and> ss_client_close S = Inr ()"

lemma serving_cases:
  assumes "serving S st trace = (r, trace')" and "shutdown_returns S"
  obtains printing where "trace' = trace @ parts_started printing @ parts_stopped printing" "r = ss_serve S"
    | e started where "r = Inl e" "trace' = trace @ started"
      "set started \<subseteq> {Started DeliveryTask, Started PrintTask, Started RetentionTask}"
      "Started DeliveryTask \<in> set started"
proof -
  obtain r1 trace1 where parts: "start_parts S st trace = (r1, trace1)" by fastforce
  from parts show thesis
  proof (cases rule: start_parts_cases)
    case (up printing)
    have "shutdown S printing trace1 = (Inr (), trace1 @ parts_stopped printing)"
      using assms(2) by (intro shutdown_stops) (auto simp: shutdown_returns_def)
    with assms(1) parts up show thesis
      by (intro that(1) [of printing]) (auto simp: serving_def bindE_def try_finally_op_def lift_res_def)
  next
    case (down e started)
    have "Started DeliveryTask \<in> set started" using down(4,5) by (metis hd_in_set)
    with assms(1) parts down show thesis
      by (intro that(2) [of e started]) (auto simp: serving_def bindE_def)
  qed
qed


definition sample_startup :: startup_steps where
  "sample_startup =
     \<lparr>ss_settings = Inr (minimal_settings Dev ''http://127.0.0.1:1984'' ''token'', []), ss_logging = Inr (), ss_popen = Inr (), ss_wait = Inr (),
      ss_connect = Inl (CameraDisconnectedError (''no camera'')), ss_db = Inr (), ss_output_dir = Inr (),
      ss_pycups = None, ss_manager = Inr (), ss_serve = Inr (), ss_print_task = Inr (),
      ss_retention_task = Inr (), ss_delivery_task = Inr (), ss_preview_close = Inr (),
      ss_client_close = Inr ()\<rparr>"

lemma sample_parts:
  "start_parts sample_startup (minimal_settings Dev ''http://127.0.0.1:1984'' ''token'') trace =
     (Inr True, trace @ parts_started True)"
  by (simp add: start_parts_def sample_startup_def andthen_def bindE_def minimal_settings_def
      default_printing_def default_delivery_def build_printer_backend_def parts_started_def)

lemma sample_steps [simp]:
  "ss_settings sample_startup = Inr (minimal_settings Dev ''http://127.0.0.1:1984'' ''token'', [])"
  "ss_logging sample_startup = Inr ()" "ss_popen sample_startup = Inr ()" "ss_wait sample_startup = Inr ()"
  "ss_connect sample_startup = Inl (CameraDisconnectedError ''no camera'')" "ss_db sample_startup = Inr ()"
  "ss_serve sample_startup = Inr ()" "shutdown_returns sample_startup"
  by (simp_all add: sample_startup_def shutdown_returns_def)

lemma sample_life: "lifespan sample_startup [] = (Inr (), full_life True)"
proof -
  have s: "serving sample_startup (minimal_settings Dev ''http://127.0.0.1:1984'' ''token'') trace =
      (Inr (), trace @ parts_started True @ parts_stopped True)" for trace
    using shutdown_stops [of sample_startup True "trace @ parts_started True"] sample_parts [of trace]
    by (simp add: serving_def bindE_def try_finally_op_def shutdown_returns_def sample_startup_def)
  have c: "connect_camera sample_startup trace = (Inr (), trace @ [Started CameraClient])" for trace
    by (simp add: connect_camera_def try_except_def andthen_def bindE_def)
  show ?thesis
    by (simp add: lifespan_unfold with_database_def andthen_def bindE_def try_finally_def s c full_life_def)
qed


text \<open>
  A printer configuration the backend factory refuses stops the start after the delivery task was
  started: the worker process and the database are closed, the delivery task and the camera client
  are not.
\<close>

lemma refused_printer_leaks:
  assumes "ss_settings S = Inr (st, path)" "ss_logging S = Inr ()" "ss_popen S = Inr ()" "ss_wait S = Inr ()"
    "ss_connect S = Inr ()" "ss_db S = Inr ()" "ss_output_dir S = Inr ()"
    and "build_printer_backend (ss_pycups S) (st_printing st) = Inl e"
  shows "lifespan S [] = (Inl e, [Started WorkerProcess, Started CameraClient, Started DbConnection,
      Started DeliveryTask, Stopped DbConnection, Stopped WorkerProcess])"
  using assms
  by (simp add: lifespan_unfold with_database_def serving_def start_parts_def andthen_def bindE_def
      try_finally_def connect_camera_def try_except_def)

end
