(* ===== verification/Session_Capture.thy ===== *)
theory Session_Capture
  imports Session_Props "HOL-Library.Sublist"
begin

text \<open>
  The capture of \<open>web/session.py\<close> run on its own (\<open>sequential\<close>): what a completed one
  leaves behind, what a camera failure leaves behind, and the trace of state changes, for any
  number of shots.
\<close>

subsection \<open>Frames\<close>

fun is_state_change :: "event \<Rightarrow> bool" where
  "is_state_change (StateChanged _ _ _) = True"
| "is_state_change _ = False"

text \<open>What taking a shot leaves alone.\<close>

definition core :: "'w manager \<Rightarrow> session_state_machine \<times> string \<times> nat \<times> path option \<times> string list \<times>
    session_row list \<times> job_row list \<times> event list" where
  "core s = (sm_machine s, sm_session_id s, sm_shot_count s, sm_armed_template_path s,
     sm_session_capture_ids s, sessions (sm_db s), jobs (sm_db s), filter is_state_change (sm_events s))"

definition shots :: "'w manager \<Rightarrow> capture_row list" where
  "shots s = captures (sm_db s)"

text \<open>Events and captures are only appended, files only added or overwritten.\<close>

definition evolves :: "'w manager \<Rightarrow> 'w manager \<Rightarrow> bool" where
  "evolves s s' \<longleftrightarrow> prefix (sm_events s) (sm_events s') \<and> prefix (shots s) (shots s') \<and>
     (\<forall>p. is_file (sm_fs s) p \<longrightarrow> is_file (sm_fs s') p)"

lemma evolves_refl [simp]: "evolves s s"
  by (simp add: evolves_def)

lemma evolves_trans: "evolves s t \<Longrightarrow> evolves t u \<Longrightarrow> evolves s u"
  unfolding evolves_def by (blast intro: prefix_order.trans)

definition grows :: "(exn, 'w manager, 'a) op \<Rightarrow> bool" where
  "grows m \<longleftrightarrow> (\<forall>s. evolves s (snd (m s)))"

named_theorems grow_rules "operations that only add"

lemma growsD: "grows m \<Longrightarrow> m s = (r, s') \<Longrightarrow> evolves s s'"
  by (metis grows_def snd_conv)

lemma grows_bindE [grow_rules]:
  assumes "grows m" and "\<And>x. grows (f x)" shows "grows (bindE m f)"
  unfolding grows_def
proof
  fix s
  obtain r s1 where m: "m s = (r, s1)" by fastforce
  then have "evolves s s1" by (rule growsD [OF assms(1)])
  moreover have "evolves s1 (snd (f x s1))" for x using assms(2) by (simp add: grows_def)
  ultimately show "evolves s (snd (bindE m f s))"
    using m by (cases r) (auto intro: evolves_trans)
qed

lemma grows_andthen [grow_rules]: "grows m \<Longrightarrow> grows n \<Longrightarrow> grows (andthen m n)"
  by (simp add: andthen_def grows_bindE)

lemma grows_basic [grow_rules]: "grows (ret x)" "grows (raise e)" "grows (lift_res r)"
  by (simp_all add: grows_def)

lemma grows_modify: "(\<And>s. evolves s (g s)) \<Longrightarrow> grows (modify g)"
  by (simp add: grows_def)

lemma grows_try_except [grow_rules]:
  "grows m \<Longrightarrow> (\<And>e. grows (h e)) \<Longrightarrow> grows (try_except m h)"
  unfolding grows_def try_except_def
  by (auto split: prod.splits sum.splits) (metis evolves_trans snd_conv)+

lemma grows_try_finally [grow_rules]:
  "grows m \<Longrightarrow> (\<And>s. evolves s (g s)) \<Longrightarrow> grows (try_finally m g)"
  unfolding grows_def try_finally_def
  by (auto split: prod.splits) (metis evolves_trans snd_conv)

lemma grows_of: "(\<And>s. grows (f s)) \<Longrightarrow> grows (\<lambda>s. f s s)"
  and keeps_of: "(\<And>s. keeps g (f s)) \<Longrightarrow> keeps g (\<lambda>s. f s s)"
  by (simp_all add: grows_def keeps_def)

lemma grows_next_tick [grow_rules]: "grows next_tick"
  by (simp add: grows_def next_tick_def evolves_def shots_def)

lemma grows_on_camera:
  "sequential C \<Longrightarrow> grows (yield_others C)" "sequential C \<Longrightarrow> grows (on_camera C m)"
  by (auto simp: grows_def yield_others_def on_camera_def sequential_def evolves_def shots_def
      andthen_def bindE_def split: prod.splits)

lemma grows_with_span [grow_rules]: "grows m \<Longrightarrow> grows (with_span C n i m)"
  unfolding with_span_def
  by (intro grow_rules) (simp_all add: evolves_def shots_def insert_span_def)

lemma grows_broadcast [grow_rules]: "grows (broadcast C ev)"
  by (simp add: broadcast_def grows_def evolves_def Let_def shots_def)

lemma grows_broadcast_of [grow_rules]: "grows (\<lambda>s. broadcast C (ev s) s)"
  by (rule grows_of) (rule grows_broadcast)

lemma grows_write_file [grow_rules]: "grows (on_fs (write_file p d))"
  by (auto simp: grows_def on_fs_def evolves_def shots_def is_file_def write_file_def
      split: prod.splits if_splits)

lemma grows_add_capture [grow_rules]: "grows (add_capture C i b)"
proof -
  have "grows (on_db (capture_create i sid b t))" for sid t
    by (auto simp: grows_def on_db_def evolves_def shots_def capture_create_def split: prod.splits if_splits)
  then have "grows (\<lambda>s. on_db (capture_create i (sm_session_id s) b t) s)" for t
    by (rule grows_of)
  then show ?thesis unfolding add_capture_def by (intro grow_rules)
qed

lemma grows_fetch_full: "sequential C \<Longrightarrow> grows (fetch_full C i)"
  unfolding fetch_full_def
  by (intro grow_rules grows_modify grows_on_camera(2)) (simp_all add: evolves_def shots_def)

lemma grows_show_preview [grow_rules]: "grows (show_preview C c i n p)"
  by (cases p) (simp_all add: show_preview_def grow_rules)

lemma grows_image_ready [grow_rules]: "grows (image_ready C i)"
  unfolding image_ready_def by (rule grows_broadcast_of)

definition fire :: "('w, 'i) session_config \<Rightarrow> (exn, 'w manager, string) op" where
  "fire C = (\<lambda>s. with_span C ''capture.trigger'' (sm_session_id s)
     (on_camera C (b_trigger_capture (sc_camera C))) s)"

lemma grows_fire: "sequential C \<Longrightarrow> grows (fire C)"
  unfolding fire_def by (rule grows_of) (intro grow_rules grows_on_camera(2))

lemma grows_take_shot: "sequential C \<Longrightarrow> grows (take_shot C n i)"
  unfolding take_shot_def fire_def [symmetric]
  by (intro grow_rules grows_fetch_full grows_on_camera(2) grows_fire)

text \<open>\<open>core\<close> is kept by everything in a shot.\<close>

lemma keeps_core_basic [frame_rules]: "keeps core next_tick"
  by (simp add: keeps_def next_tick_def core_def)

lemma keeps_on_camera:
  "sequential C \<Longrightarrow> keeps core (yield_others C)" "sequential C \<Longrightarrow> keeps core (on_camera C m)"
  "sequential C \<Longrightarrow> keeps shots (on_camera C m)"
  by (auto simp: keeps_def yield_others_def on_camera_def sequential_def core_def shots_def
      andthen_def bindE_def split: prod.splits)

lemma keeps_with_span [frame_rules]:
  "keeps core m \<Longrightarrow> keeps core (with_span C n i m)"
  "keeps shots m \<Longrightarrow> keeps shots (with_span C n i m)"
  unfolding with_span_def
  by (intro frame_rules; simp add: core_def shots_def insert_span_def keeps_def next_tick_def)+

lemma keeps_broadcast:
  "\<not> is_state_change ev \<Longrightarrow> keeps core (broadcast C ev)"
  by (simp add: keeps_def core_def broadcast_def Let_def)

lemma keeps_on_fs [frame_rules]: "keeps core (on_fs m)" "keeps shots (on_fs m)"
  by (simp_all add: keeps_def on_fs_def core_def shots_def split: prod.splits)

lemma keeps_shots_broadcast [frame_rules]: "keeps shots (broadcast C ev)"
  by (simp add: keeps_def shots_def broadcast_def Let_def)

lemma keeps_broadcast_of:
  "(\<And>s. \<not> is_state_change (ev s)) \<Longrightarrow> keeps core (\<lambda>s. broadcast C (ev s) s)"
  "keeps shots (\<lambda>s. broadcast C (ev s) s)"
  by (simp_all add: keeps_def core_def broadcast_def Let_def shots_def)

lemma keeps_show_preview [frame_rules]:
  "keeps core (show_preview C c i n p)" "keeps shots (show_preview C c i n p)"
  by (cases p; simp add: show_preview_def frame_rules keeps_broadcast_of)+

lemma keeps_image_ready [frame_rules]: "keeps core (image_ready C i)" "keeps shots (image_ready C i)"
  unfolding image_ready_def by (rule keeps_broadcast_of; simp)+

lemma keeps_fire:
  assumes "sequential C" shows "keeps core (fire C)" "keeps shots (fire C)"
  unfolding fire_def
  by (rule keeps_of; intro frame_rules keeps_on_camera assms)+

lemma keeps_fetch_full:
  assumes "sequential C" shows "keeps core (fetch_full C i)" "keeps shots (fetch_full C i)"
  unfolding fetch_full_def
  by (intro frame_rules keeps_modify keeps_on_camera assms; simp add: core_def shots_def)+

lemma keeps_add_capture [frame_rules]: "keeps core (add_capture C i b)"
proof -
  have "keeps core (on_db (capture_create i sid b t))" for sid t
    by (simp add: keeps_def on_db_def core_def capture_create_def)
  then have "keeps core (\<lambda>s. on_db (capture_create i (sm_session_id s) b t) s)" for t
    by (rule keeps_of)
  then show ?thesis unfolding add_capture_def by (intro frame_rules)
qed

lemma keeps_take_shot: "sequential C \<Longrightarrow> keeps core (take_shot C n i)"
  unfolding take_shot_def fire_def [symmetric]
  by (intro frame_rules keeps_fire keeps_fetch_full keeps_on_camera)

text \<open>The row and the file a shot adds.\<close>

lemma add_capture_Inr:
  "add_capture C i b s = (Inr u, s') \<Longrightarrow> \<exists>row. shots s' = shots s @ [row] \<and> c_id row = i \<and>
     c_session_id row = sm_session_id s \<and> c_is_deliverable row = (if b then 1 else 0) \<and>
     i \<notin> c_id ` set (shots s)"
  by (auto simp: add_capture_def next_tick_def on_db_def capture_create_def shots_def bindE_def
      split: if_splits)

lemma take_shot_Inr:
  assumes "sequential C" and "take_shot C n i s = (Inr cid, s')"
  shows "\<exists>row. shots s' = shots s @ [row] \<and> c_id row = cid \<and> c_session_id row = sm_session_id s \<and>
     c_is_deliverable row = (if n = 1 then 1 else 0) \<and> is_file (sm_fs s') (capture_file C cid)"
proof -
  from assms(2) obtain s1 s2 p s3 s4 im s5 s6 where
    fire: "fire C s = (Inr cid, s1)"
    and add: "add_capture C cid (n = 1) s1 = (Inr (), s2)"
    and pre: "with_span C ''ptp.download_thumb'' cid
        (on_camera C (b_download_preview (sc_camera C) cid)) s2 = (Inr p, s3)"
    and shw: "show_preview C cid i n p s3 = (Inr (), s4)"
    and full: "fetch_full C cid s4 = (Inr im, s5)"
    and wr: "on_fs (write_file (capture_file C cid) (ci_data im)) s5 = (Inr (), s6)"
    and ready: "image_ready C cid s6 = (Inr (), s')"
    unfolding take_shot_def fire_def [symmetric] andthen_def
    by (auto simp: bindE_returns_iff)
  have "shots s1 = shots s" "sm_session_id s1 = sm_session_id s"
    using keepsD [OF keeps_fire(2) [OF assms(1)] fire] keepsD [OF keeps_fire(1) [OF assms(1)] fire]
    by (simp_all add: core_def)
  moreover have "shots s3 = shots s2"
    using pre by (rule keepsD [rotated]) (intro frame_rules keeps_on_camera assms(1))
  moreover have "shots s4 = shots s3" using shw by (rule keepsD [rotated]) (rule frame_rules)
  moreover have "shots s5 = shots s4" using full by (rule keepsD [OF keeps_fetch_full(2) [OF assms(1)]])
  moreover have "shots s6 = shots s5" using wr by (rule keepsD [rotated]) (rule frame_rules)
  moreover have "shots s' = shots s6" using ready by (rule keepsD [rotated]) (rule frame_rules)
  moreover have "is_file (sm_fs s') (capture_file C cid)"
  proof -
    have "is_file (sm_fs s6) (capture_file C cid)"
      using wr by (auto simp: on_fs_def write_file_def is_file_def split: if_splits)
    then show ?thesis using growsD [OF grows_image_ready ready] by (simp add: evolves_def)
  qed
  ultimately show ?thesis using add_capture_Inr [OF add] by metis
qed

subsection \<open>One shot\<close>

definition changes :: "'w manager \<Rightarrow> event list" where
  "changes s = filter is_state_change (sm_events s)"

text \<open>What a capture keeps throughout.\<close>

definition frame :: "'w manager \<Rightarrow> string \<times> nat \<times> path option \<times> string list \<times> job_row list" where
  "frame s = (sm_session_id s, sm_shot_count s, sm_armed_template_path s, sm_session_capture_ids s,
     jobs (sm_db s))"

lemma core_frame: "core s' = core s \<Longrightarrow> frame s' = frame s \<and> changes s' = changes s \<and>
    sm_machine s' = sm_machine s \<and> sessions (sm_db s') = sessions (sm_db s)"
  by (simp add: core_def frame_def changes_def)

lemma do_transition_ok:
  "t \<in> ALLOWED_TRANSITIONS (m_state (sm_machine s)) \<Longrightarrow> \<exists>s'. do_transition C t tok s = (Inr (), s')"
  by (simp add: do_transition_def machine_transition_def transition_def broadcast_def)

lemma do_transition_refused:
  "t \<notin> ALLOWED_TRANSITIONS (m_state (sm_machine s)) \<Longrightarrow>
     do_transition C t tok s = (Inl (InvalidTransitionError (m_state (sm_machine s)) t), s)"
  by (simp add: do_transition_def machine_transition_def transition_def)

lemma do_transition_Inr:
  assumes "do_transition C t tok s = (Inr u, s')"
  shows "t \<in> ALLOWED_TRANSITIONS (m_state (sm_machine s))" and "m_state (sm_machine s') = t"
    and "frame s' = frame s" and "shots s' = shots s" and "evolves s s'"
    and "sm_events s' = sm_events s @ [StateChanged (sm_session_id s) t tok]"
    and "changes s' = changes s @ [StateChanged (sm_session_id s) t tok]"
    and "sm_camera_idle s' = sm_camera_idle s"
    and "sessions (sm_db s') = sessions (session_update_state (sm_session_id s) (state_value t) (sm_db s))"
proof -
  show t: "t \<in> ALLOWED_TRANSITIONS (m_state (sm_machine s))"
    by (rule ccontr) (use assms in \<open>simp add: do_transition_refused\<close>)
  show "m_state (sm_machine s') = t" "frame s' = frame s" "shots s' = shots s" "evolves s s'"
    "sm_events s' = sm_events s @ [StateChanged (sm_session_id s) t tok]"
    "changes s' = changes s @ [StateChanged (sm_session_id s) t tok]"
    "sm_camera_idle s' = sm_camera_idle s"
    "sessions (sm_db s') = sessions (session_update_state (sm_session_id s) (state_value t) (sm_db s))"
    using assms t
    by (auto simp: do_transition_def machine_transition_def transition_def broadcast_def Let_def
        frame_def shots_def evolves_def changes_def session_update_state_def)
qed

lemma yield_sequential: "sequential C \<Longrightarrow> yield_others C s = (Inr (), s\<lparr>sm_tick := sm_tick s + 1\<rparr>)"
  by (simp add: yield_others_def sequential_def)

lemma countdown_event:
  "broadcast C (CountdownStarted sid d i n) s = (r, s') \<Longrightarrow>
     r = Inr () \<and> core s' = core s \<and> shots s' = shots s \<and> evolves s s'"
  by (auto simp: broadcast_def Let_def core_def shots_def evolves_def)

text \<open>The steps before the \<open>try\<close> block, and where they leave the manager.\<close>

lemma capture_shot_before:
  assumes "sequential C"
  shows "(\<exists>s1. capture_shot C d n i s = try_except (take_shot C n i) (camera_failed C) s1 \<and>
      m_state (sm_machine s1) = CAPTURING \<and> frame s1 = frame s \<and> shots s1 = shots s \<and> evolves s s1 \<and>
      changes s1 = changes s @ [StateChanged (sm_session_id s) COUNTDOWN None,
                                StateChanged (sm_session_id s) CAPTURING None]) \<or>
    (\<exists>e s1. capture_shot C d n i s = (Inl e, s1) \<and> \<not> is_CameraError e)"
proof (cases "COUNTDOWN \<in> ALLOWED_TRANSITIONS (m_state (sm_machine s))")
  case False
  then show ?thesis
    by (simp add: capture_shot_def do_transition_def machine_transition_def transition_def)
next
  case True
  from do_transition_ok [OF True] obtain s1 where t1: "do_transition C COUNTDOWN None s = (Inr (), s1)" ..
  obtain s2 where b: "broadcast C (CountdownStarted (sm_session_id s1) d i n) s1 = (Inr (), s2)"
    by (simp add: broadcast_def)
  let ?s3 = "s2\<lparr>sm_tick := sm_tick s2 + 1\<rparr>"
  have s2: "core s2 = core s1" "shots s2 = shots s1" "evolves s1 s2" using countdown_event [OF b] by auto
  have s3: "core ?s3 = core s2" "shots ?s3 = shots s2" "evolves s2 ?s3"
    by (simp_all add: core_def shots_def evolves_def)
  show ?thesis
  proof (cases "sm_camera_idle ?s3")
    case False
    then show ?thesis
      using t1 b assms by (simp add: capture_shot_def yield_sequential await_camera_idle_def)
  next
    case gate: True
    have "CAPTURING \<in> ALLOWED_TRANSITIONS (m_state (sm_machine ?s3))"
      using do_transition_Inr(2) [OF t1] core_frame [OF s2(1)] by simp
    from do_transition_ok [OF this] obtain s4 where t2: "do_transition C CAPTURING None ?s3 = (Inr (), s4)" ..
    have "capture_shot C d n i s = try_except (take_shot C n i) (camera_failed C) s4"
      using t1 b t2 gate assms by (simp add: capture_shot_def yield_sequential await_camera_idle_def)
    moreover have "sm_session_id ?s3 = sm_session_id s"
      using do_transition_Inr(3) [OF t1] core_frame [OF s2(1)] by (simp add: frame_def)
    moreover have "evolves s s4"
      using do_transition_Inr(5) [OF t1] s2(3) s3(3) do_transition_Inr(5) [OF t2] by (blast intro: evolves_trans)
    ultimately show ?thesis
      using do_transition_Inr [OF t1] do_transition_Inr [OF t2] core_frame [OF s2(1)]
        core_frame [OF s3(1)] s2(2) s3(2)
      by (intro disjI1 exI [of _ s4]) simp
  qed
qed

lemma capture_shot_Inr:
  assumes seq: "sequential C" and run: "capture_shot C d n i s = (Inr cid, s')"
  shows "m_state (sm_machine s') = CAPTURING" and "frame s' = frame s" and "evolves s s'"
    and "changes s' = changes s @ [StateChanged (sm_session_id s) COUNTDOWN None,
                                   StateChanged (sm_session_id s) CAPTURING None]"
    and "\<exists>row. shots s' = shots s @ [row] \<and> c_id row = cid \<and> c_session_id row = sm_session_id s \<and>
           c_is_deliverable row = (if n = 1 then 1 else 0) \<and> is_file (sm_fs s') (capture_file C cid)"
proof -
  from capture_shot_before [OF seq, of d n i s] run obtain s1 where
    tr: "try_except (take_shot C n i) (camera_failed C) s1 = (Inr cid, s')"
    and s1: "m_state (sm_machine s1) = CAPTURING" "frame s1 = frame s" "shots s1 = shots s" "evolves s s1"
      "changes s1 = changes s @ [StateChanged (sm_session_id s) COUNTDOWN None,
                                 StateChanged (sm_session_id s) CAPTURING None]"
    by auto
  have failed: "camera_failed C e t \<noteq> (Inr cid, t')" for e t t'
    by (auto simp: camera_failed_def andthen_def bindE_def split: prod.splits sum.splits)
  have take: "take_shot C n i s1 = (Inr cid, s')"
    using tr failed by (auto simp: try_except_def split: prod.splits sum.splits)
  have core: "core s' = core s1" by (rule keepsD [OF keeps_take_shot [OF seq] take])
  show "m_state (sm_machine s') = CAPTURING" "frame s' = frame s"
    "changes s' = changes s @ [StateChanged (sm_session_id s) COUNTDOWN None,
                               StateChanged (sm_session_id s) CAPTURING None]"
    using s1 core_frame [OF core] by simp_all
  show "evolves s s'"
    using s1(4) growsD [OF grows_take_shot [OF seq] take] by (rule evolves_trans)
  have "sm_session_id s1 = sm_session_id s" using s1(2) by (simp add: frame_def)
  then show "\<exists>row. shots s' = shots s @ [row] \<and> c_id row = cid \<and> c_session_id row = sm_session_id s \<and>
           c_is_deliverable row = (if n = 1 then 1 else 0) \<and> is_file (sm_fs s') (capture_file C cid)"
    using take_shot_Inr [OF seq take] s1(3) by simp
qed

lemma capture_shot_camera_error:
  assumes seq: "sequential C" and run: "capture_shot C d n i s = (Inl e, s')" and "is_CameraError e"
  shows "m_state (sm_machine s') = IDLE" and "frame s' = frame s" and "sm_camera_idle s'"
    and "\<exists>evs. sm_events s' = sm_events s @ evs @
       [CaptureFailed (sm_session_id s) (exn_str e), StateChanged (sm_session_id s) IDLE None]"
proof -
  from capture_shot_before [OF seq, of d n i s] run \<open>is_CameraError e\<close> obtain s1 where
    tr: "try_except (take_shot C n i) (camera_failed C) s1 = (Inl e, s')"
    and s1: "m_state (sm_machine s1) = CAPTURING" "frame s1 = frame s" "evolves s s1"
    by auto
  from tr obtain e0 s2 where take: "take_shot C n i s1 = (Inl e0, s2)"
    and failed: "camera_failed C e0 s2 = (Inl e :: exn + string, s')"
    by (auto simp: try_except_def split: prod.splits sum.splits)
  have core: "core s2 = core s1" by (rule keepsD [OF keeps_take_shot [OF seq] take])
  have ev2: "evolves s s2" using s1(3) growsD [OF grows_take_shot [OF seq] take] by (rule evolves_trans)
  have cam: "is_CameraError e0" using failed \<open>is_CameraError e\<close>
    by (auto simp: camera_failed_def split: if_splits)
  let ?s3 = "s2\<lparr>sm_camera_idle := True\<rparr>"
  obtain s4 where b: "broadcast C (CaptureFailed (sm_session_id s2) (exn_str e0)) ?s3 = (Inr (), s4)"
    by (simp add: broadcast_def)
  have s4: "sm_events s4 = sm_events s2 @ [CaptureFailed (sm_session_id s2) (exn_str e0)]"
    "frame s4 = frame s2" "sm_machine s4 = sm_machine s2" "sm_camera_idle s4"
    using b by (auto simp: broadcast_def Let_def frame_def)
  have "IDLE \<in> ALLOWED_TRANSITIONS (m_state (sm_machine s4))"
    using s4(3) core_frame [OF core] s1(1) by simp
  from do_transition_ok [OF this] obtain s5 where t: "do_transition C IDLE None s4 = (Inr (), s5)" ..
  have e: "e = e0" "s' = s5" using failed cam b t by (simp_all add: camera_failed_def)
  have fr: "frame s2 = frame s" using core_frame [OF core] s1(2) by simp
  show "m_state (sm_machine s') = IDLE" "frame s' = frame s" "sm_camera_idle s'"
    using e do_transition_Inr(2,3,8) [OF t] s4 fr by simp_all
  obtain evs where "sm_events s2 = sm_events s @ evs" using ev2 by (auto simp: evolves_def prefix_def)
  moreover have "sm_session_id s4 = sm_session_id s" "sm_session_id s2 = sm_session_id s"
    using s4(2) fr by (simp_all add: frame_def)
  ultimately show "\<exists>evs. sm_events s' = sm_events s @ evs @
       [CaptureFailed (sm_session_id s) (exn_str e), StateChanged (sm_session_id s) IDLE None]"
    using e s4(1) do_transition_Inr(6) [OF t] by auto
qed

subsection \<open>All shots\<close>

definition shot_changes :: "string \<Rightarrow> nat \<Rightarrow> event list" where
  "shot_changes sid k =
     concat (replicate k [StateChanged sid COUNTDOWN None, StateChanged sid CAPTURING None])"

lemma capture_shots_Inr:
  assumes "sequential C" and "capture_shots C d n is s = (Inr ids, s')"
  shows "frame s' = frame s \<and> evolves s s' \<and> length ids = length is \<and>
    (is \<noteq> [] \<longrightarrow> m_state (sm_machine s') = CAPTURING) \<and>
    changes s' = changes s @ shot_changes (sm_session_id s) (length is) \<and>
    (\<exists>rows. shots s' = shots s @ rows \<and> map c_id rows = ids \<and>
       (\<forall>row \<in> set rows. c_session_id row = sm_session_id s \<and>
          c_is_deliverable row = (if n = 1 then 1 else 0))) \<and>
    (\<forall>i \<in> set ids. is_file (sm_fs s') (capture_file C i))"
  using assms(2)
proof (induction "is" arbitrary: s ids)
  case Nil
  then show ?case by (simp add: shot_changes_def)
next
  case (Cons i "is")
  from Cons.prems obtain cid s1 ids' where one: "capture_shot C d n i s = (Inr cid, s1)"
    and rest: "capture_shots C d n is s1 = (Inr ids', s')" and ids: "ids = cid # ids'"
    by (auto simp: bindE_returns_iff)
  note s1 = capture_shot_Inr [OF assms(1) one]
  note IH = Cons.IH [OF rest]
  from s1(5) obtain row where row: "shots s1 = shots s @ [row]" "c_id row = cid"
    "c_session_id row = sm_session_id s" "c_is_deliverable row = (if n = 1 then 1 else 0)"
    "is_file (sm_fs s1) (capture_file C cid)" by blast
  from IH obtain rows where rows: "shots s' = shots s1 @ rows" "map c_id rows = ids'"
    "\<forall>row \<in> set rows. c_session_id row = sm_session_id s1 \<and>
          c_is_deliverable row = (if n = 1 then 1 else 0)" by blast
  have sid: "sm_session_id s1 = sm_session_id s" using s1(2) by (simp add: frame_def)
  have "\<exists>rows. shots s' = shots s @ rows \<and> map c_id rows = ids \<and>
       (\<forall>row \<in> set rows. c_session_id row = sm_session_id s \<and>
          c_is_deliverable row = (if n = 1 then 1 else 0))"
    using row rows sid ids by (intro exI [of _ "row # rows"]) auto
  moreover have "m_state (sm_machine s') = CAPTURING"
    using s1(1) IH rest by (cases "is") auto
  moreover have "evolves s s'" using s1(3) IH by (blast intro: evolves_trans)
  moreover have "is_file (sm_fs s') (capture_file C cid)" using row(5) IH by (simp add: evolves_def)
  ultimately show ?case using s1 IH ids sid by (simp add: shot_changes_def)
qed

lemma capture_shots_camera_error:
  assumes "sequential C" and "capture_shots C d n is s = (Inl e, s')" and "is_CameraError e"
  shows "m_state (sm_machine s') = IDLE \<and> frame s' = frame s \<and> sm_camera_idle s' \<and>
    (\<exists>evs. sm_events s' = sm_events s @ evs @
       [CaptureFailed (sm_session_id s) (exn_str e), StateChanged (sm_session_id s) IDLE None])"
  using assms(2)
proof (induction "is" arbitrary: s)
  case (Cons i "is")
  show ?case
  proof (cases "\<exists>cid s1. capture_shot C d n i s = (Inr cid, s1)")
    case False
    then have "capture_shot C d n i s = (Inl e, s')"
      using Cons.prems by (auto simp: bindE_raises_iff)
    from capture_shot_camera_error [OF assms(1) this assms(3)] show ?thesis by blast
  next
    case True
    then obtain cid s1 where one: "capture_shot C d n i s = (Inr cid, s1)" by blast
    then have "capture_shots C d n is s1 = (Inl e, s')"
      using Cons.prems by (auto simp: bindE_raises_iff)
    note IH = Cons.IH [OF this]
    note s1 = capture_shot_Inr [OF assms(1) one]
    have "sm_session_id s1 = sm_session_id s" using s1(2) by (simp add: frame_def)
    moreover obtain evs where "sm_events s1 = sm_events s @ evs"
      using s1(3) by (auto simp: evolves_def prefix_def)
    ultimately show ?thesis using IH s1(2) by auto
  qed
qed simp

subsection \<open>A camera failure\<close>

text \<open>Nothing after the last shot raises a camera error.\<close>

definition parsers_ok :: "('w, 'i) session_config \<Rightarrow> bool" where
  "parsers_ok C \<longleftrightarrow>
     (\<forall>d e. sc_parse_event C d = Inl e \<longrightarrow> \<not> is_CameraError e) \<and>
     (\<forall>d e. sc_parse_template C d = Inl e \<longrightarrow> \<not> is_CameraError e)"

lemma read_file_no_camera: "read_file F p = Inl e \<Longrightarrow> \<not> is_CameraError e"
  by (auto simp: read_file_def split: option.splits if_splits)

lemma vips_no_camera: "vips r = Inl e \<Longrightarrow> \<not> is_CameraError e"
  by (cases r) (auto simp: vips_def)

lemma load_event_no_camera:
  "parsers_ok C \<Longrightarrow> load_event F (sc_parse_event C) ed ev = Inl e \<Longrightarrow> \<not> is_CameraError e"
  by (auto simp: load_event_def Let_def parsers_ok_def dest: read_file_no_camera split: sum.splits)

lemma validate_no_camera: "validate_template F p t = Inl e \<Longrightarrow> \<not> is_CameraError e"
proof -
  have "check_slots p c i ss = Inl e \<Longrightarrow> \<not> is_CameraError e" for c i ss
    by (induction p c i ss rule: check_slots.induct) (auto split: if_splits)
  moreover have "check_overlays F p i ovs = Inl e \<Longrightarrow> \<not> is_CameraError e" for i ovs
    by (induction ovs arbitrary: i) (auto split: option.splits if_splits simp: Let_def)
  ultimately show "validate_template F p t = Inl e \<Longrightarrow> \<not> is_CameraError e"
    by (auto simp: validate_template_def check_variants_def Let_def split: sum.splits if_splits)
qed

lemma load_template_no_camera:
  assumes "parsers_ok C" and "load_template F (sc_parse_template C) p = Inl e"
  shows "\<not> is_CameraError e"
proof -
  have "map_sum id f (validate_template F p t) = Inl e \<Longrightarrow> \<not> is_CameraError e"
    for t and f :: "unit \<Rightarrow> template_config"
    by (cases "validate_template F p t") (auto dest: validate_no_camera)
  then show ?thesis
    using assms by (auto simp: load_template_def parsers_ok_def dest: read_file_no_camera split: sum.splits)
qed

lemma solid_no_camera: "solid_color_image V w h c = Inl e \<Longrightarrow> \<not> is_CameraError e"
proof -
  have "py_int16 t = Inl e \<Longrightarrow> \<not> is_CameraError e" for t e
    by (auto simp: py_int16_def Let_def split: list.splits option.splits if_splits)
  then show "solid_color_image V w h c = Inl e \<Longrightarrow> \<not> is_CameraError e"
    by (auto simp: solid_color_image_def hex_to_rgb_def Let_def bind_res_Inl dest: vips_no_camera)
qed

lemma resize_no_camera: "resize_for_slot V im s = Inl e \<Longrightarrow> \<not> is_CameraError e"
  by (auto simp: resize_for_slot_def slot_scales_def rat_div_def bind_res_Inl Let_def
      dest: vips_no_camera split: if_splits fit.splits)

lemma to_srgb_no_camera: "to_srgb V im = Inl e \<Longrightarrow> \<not> is_CameraError e"
  by (auto simp: to_srgb_def dest: vips_no_camera split: if_splits)

lemma place_slots_no_camera: "place_slots V F ss c = Inl e \<Longrightarrow> \<not> is_CameraError e"
  by (induction V F ss c rule: place_slots.induct)
    (auto simp: bind_res_Inl dest: vips_no_camera resize_no_camera to_srgb_no_camera split: if_splits)

lemma resolve_no_camera: "resolve_placeholders t ev = Inl e \<Longrightarrow> \<not> is_CameraError e"
proof (induction t rule: length_induct)
  case (1 t)
  have ms: "map_sum id f r = Inl e \<Longrightarrow> r = Inl e" for f :: "string \<Rightarrow> string" and r
    by (cases r) auto
  show ?case
  proof (cases "match_placeholder t")
    case None
    then show ?thesis using 1
      by (simp add: resolve_placeholders.simps [of t] split: list.splits) (auto dest!: ms)
  next
    case (Some kr)
    obtain key rest where kr: "kr = (key, rest)" by fastforce
    have "length rest < length t" using match_placeholder_shorter Some kr by simp
    with 1 have IH: "resolve_placeholders rest ev = Inl e \<Longrightarrow> \<not> is_CameraError e" by blast
    show ?thesis
    proof (cases "placeholder_value ev key")
      case (Inl e')
      then show ?thesis using 1(2) Some kr
        by (auto simp: resolve_placeholders.simps [of t] placeholder_value_def
            split: if_splits option.splits)
    next
      case (Inr v)
      then show ?thesis using 1(2) Some kr
        by (simp add: resolve_placeholders.simps [of t]) (blast dest: ms IH)
    qed
  qed
qed

lemma place_overlays_no_camera: "place_overlays V F td ev ed ovs c = Inl e \<Longrightarrow> \<not> is_CameraError e"
proof (induction V F td ev ed ovs c rule: place_overlays.induct)
  case (2 V F td event ed ov rest c)
  have mask: "text_mask V F p t x = Inl e \<Longrightarrow> \<not> is_CameraError e" for p t x
    by (auto simp: text_mask_def Let_def dest: vips_no_camera split: if_splits sum.splits)
  have rtext: "render_text_overlay V F t td event = Inl e \<Longrightarrow> \<not> is_CameraError e" for t
    unfolding render_text_overlay_def bind_res_Inl
    by (blast dest: vips_no_camera solid_no_camera mask resolve_no_camera)
  have logo: "render_logo_overlay V F x y w h lp = Inl e \<Longrightarrow> \<not> is_CameraError e" for x y w h lp
    unfolding render_logo_overlay_def bind_res_Inl by (blast dest: vips_no_camera to_srgb_no_camera)
  have "place_overlay V F td event ed ov c = Inl e \<Longrightarrow> \<not> is_CameraError e"
    by (cases ov) (auto simp: bind_res_Inl dest: vips_no_camera to_srgb_no_camera rtext logo
        simp: case_prod_unfold split: option.splits)
  then show ?case using 2 by (auto simp: bind_res_Inl)
qed simp

lemma render_no_camera:
  assumes "parsers_ok C"
    and "render_variant V F (sc_parse_template C) tp srcs v ev ed = Inl e"
  shows "\<not> is_CameraError e"
proof -
  have "encode_variant V c spec = Inl e \<Longrightarrow> \<not> is_CameraError e" for c spec
    by (auto simp: encode_variant_def encode_def bind_res_Inl rat_div_def dest: vips_no_camera
        split: variant_spec.splits if_splits)
  moreover have "composite V F t td srcs ev ed = Inl e \<Longrightarrow> \<not> is_CameraError e" for t td
    by (auto simp: composite_def blank_canvas_def bind_res_Inl dest: solid_no_camera
        place_slots_no_camera place_overlays_no_camera split: if_splits)
  ultimately show ?thesis
    using assms(2) by (auto simp: render_variant_def bind_res_Inl
        dest: load_template_no_camera [OF assms(1)] split: option.splits)
qed

text \<open>What follows the last shot, in one operation.\<close>

definition deliver :: "('w, 'i) session_config \<Rightarrow> string list \<Rightarrow> (exn, 'w manager, unit) op" where
  "deliver C capture_ids =
     bindE (finalize_capture C capture_ids) (\<lambda>deliverable_id.
     andthen (modify (\<lambda>s. s\<lparr>sm_session_capture_ids := [deliverable_id]\<rparr>))
    (bindE (issue_share_token_and_enqueue_uploads C [deliverable_id]) (\<lambda>share_token.
     do_transition C REVIEW share_token)))"

lemma capture_eq:
  "capture C cd s = bindE (capture_shots C (countdown_duration C cd s) (sm_shot_count s)
     [0..<sm_shot_count s]) (deliver C) s"
  unfolding capture_def deliver_def [abs_def] by (rule refl)

lemma db_no_camera:
  "raises_only (\<lambda>e. \<not> is_CameraError e) (on_db (capture_create i sid b t))"
  "raises_only (\<lambda>e. \<not> is_CameraError e) (on_db (enqueue i now nowi k p n))"
  "raises_only (\<lambda>e. \<not> is_CameraError e) (on_db (session_set_share_token sid tok))"
  by (auto simp: raises_only_def on_db_def capture_create_def enqueue_def session_set_share_token_def
      split: if_splits)

lemma raises_only_of: "(\<And>s. raises_only E (f s)) \<Longrightarrow> raises_only E (\<lambda>s. f s s)"
  by (simp add: raises_only_def)

lemma transition_no_camera: "raises_only (\<lambda>e. \<not> is_CameraError e) (do_transition C t tok)"
proof -
  have "do_transition C t tok s = (Inl e, s') \<Longrightarrow> \<not> is_CameraError e" for s e s'
    by (cases "t \<in> ALLOWED_TRANSITIONS (m_state (sm_machine s))")
      (use do_transition_ok [of t s C tok] do_transition_refused [of t s C tok] in auto)
  then show ?thesis by (auto simp: raises_only_def)
qed

lemma tick_no_camera: "raises_only E next_tick" "raises_only E (yield_others C)"
  by (simp_all add: raises_only_def next_tick_def yield_others_def)

lemma store_no_camera: "raises_only (\<lambda>e. \<not> is_CameraError e) (store_composite C d)"
proof -
  have "raises_only (\<lambda>e. \<not> is_CameraError e) (\<lambda>s. on_db (capture_create i (sm_session_id s) b t) s)" for i b t
    by (rule raises_only_of) (rule db_no_camera)
  then have "raises_only (\<lambda>e. \<not> is_CameraError e) (add_capture C i b)" for i b
    unfolding add_capture_def by (intro frame_rules tick_no_camera)
  moreover have "raises_only (\<lambda>e. \<not> is_CameraError e) (on_fs (write_file p d))" for p
    by (auto simp: raises_only_def on_fs_def write_file_def split: if_splits)
  moreover have "raises_only (\<lambda>e. \<not> is_CameraError e) (image_ready C i)" for i
    by (simp add: image_ready_def broadcast_def raises_only_def)
  ultimately show ?thesis unfolding store_composite_def by (intro frame_rules tick_no_camera)
qed

lemma finalize_no_camera:
  assumes "parsers_ok C" and "finalize_capture C ids s = (Inl e, s')"
  shows "\<not> is_CameraError e"
proof -
  have "raises_only (\<lambda>e. \<not> is_CameraError e) (composite_capture C tp ids)" for tp
  proof (cases "sc_events_dir C")
    case None
    then show ?thesis by (simp add: composite_capture_def frame_rules)
  next
    case (Some ed)
    have "raises_only (\<lambda>e. \<not> is_CameraError e) (render_in_thread C tp ids ev ed)" for ev
      unfolding render_in_thread_def
      by (intro frame_rules tick_no_camera)
        (auto simp: raises_only_def dest: render_no_camera [OF assms(1)])
    moreover have "raises_only (\<lambda>e. \<not> is_CameraError e)
        (\<lambda>s. (load_event (sm_fs s) (sc_parse_event C) ed (sm_active_event_id s), s))"
      by (auto simp: raises_only_def dest: load_event_no_camera [OF assms(1)])
    ultimately show ?thesis
      using Some by (auto simp: composite_capture_def intro!: frame_rules store_no_camera)
  qed
  then show ?thesis
    using assms(2) by (auto simp: finalize_capture_def dest: raises_onlyD
        split: option.splits list.splits if_splits)
qed

lemma deliver_no_camera:
  assumes "parsers_ok C" shows "raises_only (\<lambda>e. \<not> is_CameraError e) (deliver C ids)"
proof -
  have "raises_only (\<lambda>e. \<not> is_CameraError e) (finalize_capture C ids)"
    by (auto simp: raises_only_def dest: finalize_no_camera [OF assms])
  moreover have "raises_only (\<lambda>e. \<not> is_CameraError e) (enqueue_uploads C xs)" for xs
    by (induction xs) (auto intro!: frame_rules tick_no_camera db_no_camera)
  moreover have "raises_only (\<lambda>e. \<not> is_CameraError e)
      (\<lambda>s. on_db (session_set_share_token (sm_session_id s) tok) s)" for tok
    by (rule raises_only_of) (rule db_no_camera)
  ultimately show ?thesis
    unfolding deliver_def issue_share_token_and_enqueue_uploads_def
    by (intro frame_rules transition_no_camera tick_no_camera)
      (auto intro!: frame_rules tick_no_camera db_no_camera)
qed

lemma capture_camera_error:
  assumes "sequential C" and "parsers_ok C"
    and "capture C countdown_s s = (Inl e, s')" and "is_CameraError e"
  shows "m_state (sm_machine s') = IDLE \<and> frame s' = frame s \<and> sm_camera_idle s' \<and>
    (\<exists>evs. sm_events s' = sm_events s @ evs @
       [CaptureFailed (sm_session_id s) (exn_str e), StateChanged (sm_session_id s) IDLE None])"
proof -
  have "capture_shots C (countdown_duration C countdown_s s) (sm_shot_count s) [0..<sm_shot_count s] s
      = (Inl e, s')"
    using assms(3,4) raises_onlyD [OF deliver_no_camera [OF assms(2)]]
    by (auto simp: capture_eq bindE_raises_iff)
  from capture_shots_camera_error [OF assms(1) this assms(4)] show ?thesis .
qed


subsection \<open>A completed capture\<close>

lemma store_composite_Inr:
  assumes "store_composite C d s = (Inr i, s')"
  shows "core s' = core s \<and> evolves s s' \<and>
    (\<exists>row. shots s' = shots s @ [row] \<and> c_id row = i \<and> c_session_id row = sm_session_id s \<and>
       c_is_deliverable row = 1 \<and> is_file (sm_fs s') (capture_file C i))"
proof -
  let ?s0 = "s\<lparr>sm_tick := sm_tick s + 1\<rparr>"
  from assms obtain s1 s2 where i: "i = sc_uuid C (sm_tick s)"
    and wr: "on_fs (write_file (capture_file C i) d) ?s0 = (Inr (), s1)"
    and add: "add_capture C i True s1 = (Inr (), s2)"
    and ready: "image_ready C i s2 = (Inr (), s')"
    by (auto simp: store_composite_def next_tick_def bindE_returns_iff andthen_def)
  have c1: "core s1 = core ?s0" "shots s1 = shots ?s0" using wr by (blast intro: keepsD frame_rules)+
  have c2: "core s2 = core s1" using add by (blast intro: keepsD frame_rules)
  have c3: "core s' = core s2" "shots s' = shots s2" using ready by (blast intro: keepsD frame_rules)+
  have c0: "core ?s0 = core s" "shots ?s0 = shots s" "evolves s ?s0"
    by (simp_all add: core_def shots_def evolves_def)
  have "evolves ?s0 s1" "evolves s1 s2" "evolves s2 s'"
    using wr add ready by (blast intro: growsD grow_rules)+
  then have ev: "evolves s s'" "evolves s1 s'" using c0(3) by (blast intro: evolves_trans)+
  have "is_file (sm_fs s1) (capture_file C i)"
    using wr by (auto simp: on_fs_def write_file_def is_file_def split: if_splits)
  then have "is_file (sm_fs s') (capture_file C i)" using ev(2) by (simp add: evolves_def)
  moreover have "sm_session_id s1 = sm_session_id s" using c1(1) c0(1) by (simp add: core_def)
  ultimately show ?thesis
    using add_capture_Inr [OF add] c0 c1 c2 c3 ev(1) by auto
qed

lemma composite_capture_Inr:
  assumes "sequential C" and "composite_capture C tp ids s = (Inr i, s')"
  shows "core s' = core s \<and> evolves s s' \<and>
    (\<exists>row. shots s' = shots s @ [row] \<and> c_id row = i \<and> c_session_id row = sm_session_id s \<and>
       c_is_deliverable row = 1 \<and> is_file (sm_fs s') (capture_file C i))"
proof -
  let ?s1 = "s\<lparr>sm_tick := sm_tick s + 1\<rparr>"
  from assms obtain d where "store_composite C d ?s1 = (Inr i, s')"
    by (auto simp: composite_capture_def render_in_thread_def yield_sequential andthen_def
        bindE_returns_iff split: option.splits)
  from store_composite_Inr [OF this] show ?thesis
    by (simp add: core_def shots_def evolves_def)
qed

text \<open>The share token and the job.\<close>

lemma issue_Inr:
  assumes "sc_job_queue C" and "issue_share_token_and_enqueue_uploads C [d] s = (Inr tok, s')"
  shows "\<exists>t job. tok = Some t \<and> jobs (sm_db s') = jobs (sm_db s) @ [job] \<and> j_kind job = ''upload'' \<and>
    j_status job = Pending \<and> j_payload_json job = upload_payload C d \<and> shots s' = shots s \<and>
    sm_fs s' = sm_fs s \<and> sm_events s' = sm_events s \<and> sm_machine s' = sm_machine s \<and>
    sm_session_id s' = sm_session_id s \<and> sm_session_capture_ids s' = sm_session_capture_ids s \<and>
    (\<forall>r \<in> set (sessions (sm_db s')). s_id r = sm_session_id s \<longrightarrow> s_share_token r = Some t)"
  using assms
  by (auto simp: issue_share_token_and_enqueue_uploads_def next_tick_def on_db_def bindE_def andthen_def
      session_set_share_token_def enqueue_def upd_jobs_def shots_def set_sql_update split: if_splits)

lemma finalize_Inr:
  assumes "sequential C" and "finalize_capture C ids s = (Inr i, s')"
    and "sm_armed_template_path s = None \<Longrightarrow> length ids = 1"
  shows "core s' = core s \<and> evolves s s' \<and>
    ((length ids = 1 \<and> ids = [i] \<and> shots s' = shots s \<and> sm_fs s' = sm_fs s) \<or>
     (length ids \<noteq> 1 \<and> (\<exists>row. shots s' = shots s @ [row] \<and> c_id row = i \<and>
        c_session_id row = sm_session_id s \<and> c_is_deliverable row = 1 \<and>
        is_file (sm_fs s') (capture_file C i))))"
proof (cases "length ids = 1")
  case True
  then obtain j where "ids = [j]" by (cases ids) auto
  then show ?thesis using assms(2) by (auto simp: finalize_capture_def split: option.splits)
next
  case False
  then obtain tp where "sm_armed_template_path s = Some tp" using assms(3) by blast
  then have "composite_capture C tp ids s = (Inr i, s')"
    using assms(2) False by (simp add: finalize_capture_def)
  from composite_capture_Inr [OF assms(1) this] False show ?thesis by blast
qed

lemma capture_InrE:
  assumes "capture C countdown_s s = (Inr u, s')"
  obtains ids s1 d s2 tok s4 where
    "capture_shots C (countdown_duration C countdown_s s) (sm_shot_count s) [0..<sm_shot_count s] s = (Inr ids, s1)"
    and "finalize_capture C ids s1 = (Inr d, s2)"
    and "issue_share_token_and_enqueue_uploads C [d] (s2\<lparr>sm_session_capture_ids := [d]\<rparr>) = (Inr tok, s4)"
    and "do_transition C REVIEW tok s4 = (Inr (), s')"
  using assms by (auto simp: capture_eq deliver_def bindE_returns_iff andthen_def)

lemma capture_queues_one:
  assumes "sequential C" and "sc_job_queue C"
    and "sm_armed_template_path s = None \<longrightarrow> sm_shot_count s = 1"
    and "capture C countdown_s s = (Inr u, s')"
  shows "m_state (sm_machine s') = REVIEW \<and>
    (\<exists>job. jobs (sm_db s') = jobs (sm_db s) @ [job] \<and> j_kind job = ''upload'' \<and> j_status job = Pending)"
proof -
  from capture_InrE [OF assms(4)] obtain ids s1 d s2 tok s4 where
    shots: "capture_shots C (countdown_duration C countdown_s s) (sm_shot_count s) [0..<sm_shot_count s] s = (Inr ids, s1)"
    and fin: "finalize_capture C ids s1 = (Inr d, s2)"
    and issue: "issue_share_token_and_enqueue_uploads C [d] (s2\<lparr>sm_session_capture_ids := [d]\<rparr>) = (Inr tok, s4)"
    and trans: "do_transition C REVIEW tok s4 = (Inr (), s')" .
  note A = capture_shots_Inr [OF assms(1) shots]
  have "sm_armed_template_path s1 = None \<Longrightarrow> length ids = 1"
    using A assms(3) by (simp add: frame_def)
  from finalize_Inr [OF assms(1) fin this] core_frame [of s2 s1] have "frame s2 = frame s" using A by auto
  moreover from issue_Inr [OF assms(2) issue] obtain job where
    "jobs (sm_db s4) = jobs (sm_db s2) @ [job]" "j_kind job = ''upload''" "j_status job = Pending" by auto
  moreover note T = do_transition_Inr [OF trans]
  moreover have "jobs (sm_db s') = jobs (sm_db s4)" using T(3) by (simp add: frame_def)
  ultimately show ?thesis by (auto simp: frame_def)
qed

lemma deliverable_row:
  assumes "sequential C" and "capture_shots C cd (sm_shot_count s) [0..<sm_shot_count s] s = (Inr ids, s1)"
    and "finalize_capture C ids s1 = (Inr d, s2)"
    and "sm_armed_template_path s = None \<longrightarrow> sm_shot_count s = 1"
  shows "\<exists>rs row. shots s2 = shots s @ rs \<and> filter (\<lambda>r. c_is_deliverable r = 1) rs = [row] \<and>
    c_id row = d \<and> c_session_id row = sm_session_id s \<and> is_file (sm_fs s2) (capture_file C d)"
proof -
  let ?n = "sm_shot_count s" and ?sid = "sm_session_id s"
  note A = capture_shots_Inr [OF assms(1,2)]
  from A obtain rows where rows: "shots s1 = shots s @ rows" "map c_id rows = ids"
    "\<forall>row \<in> set rows. c_session_id row = ?sid \<and> c_is_deliverable row = (if ?n = 1 then 1 else 0)"
    by blast
  have fr1: "frame s1 = frame s" using A by blast
  have len: "length ids = ?n" using A by simp
  have armed: "sm_armed_template_path s1 = None \<Longrightarrow> length ids = 1"
    using fr1 assms(4) len by (simp add: frame_def)
  note F = finalize_Inr [OF assms(1,3) armed]
  show ?thesis
  proof (cases "length ids = 1")
    case True
    then obtain r where "rows = [r]" using rows(2) by (cases rows) auto
    then show ?thesis using F True rows A len by auto
  next
    case False
    then obtain r where "shots s2 = shots s1 @ [r]" "c_id r = d" "c_session_id r = sm_session_id s1"
      "c_is_deliverable r = 1" "is_file (sm_fs s2) (capture_file C d)" using F by blast
    moreover have "filter (\<lambda>r. c_is_deliverable r = 1) rows = []"
      using rows(3) False len by (simp add: filter_empty_conv)
    moreover have "sm_session_id s1 = ?sid" using fr1 by (simp add: frame_def)
    ultimately show ?thesis using rows(1) by (intro exI [of _ "rows @ [r]"] exI [of _ r]) simp
  qed
qed


subsection \<open>Concrete captures\<close>

definition demo_armed :: "unit manager" where
  "demo_armed =
     (new_manager (demo_session demo_camera) ''dev''
        (empty_db\<lparr>sessions := [\<lparr>s_id = ''s'', s_event_id = ''dev'', s_state = ''armed'',
           s_created_at = ''2026'', s_share_token = None\<rparr>]\<rparr>) demo_fs ())
     \<lparr>sm_machine := \<lparr>m_state = ARMED\<rparr>, sm_session_id := ''s''\<rparr>"

definition broken_camera :: "unit camera_backend" where
  "broken_camera = demo_camera\<lparr>b_trigger_capture := raise (CameraDisconnectedError ''unplugged'')\<rparr>"

lemma demo_sequential: "sequential (demo_session cam)"
  by (simp add: sequential_def demo_session_def)

lemma demo_parsers_ok: "parsers_ok (demo_session cam)"
  by (simp add: parsers_ok_def demo_session_def)

lemmas manager_ops = capture_def capture_shot_def take_shot_def fetch_full_def show_preview_def
  image_ready_def add_capture_def with_span_def on_camera_def yield_others_def next_tick_def on_db_def
  on_fs_def do_transition_def machine_transition_def transition_def broadcast_def await_camera_idle_def
  finalize_capture_def issue_share_token_and_enqueue_uploads_def camera_failed_def
  countdown_duration_def andthen_def bindE_def try_except_def try_finally_def Let_def

lemma demo_capture: "\<exists>s'. capture (demo_session demo_camera) None demo_armed = (Inr (), s')"
proof -
  have "capture_file (demo_session demo_camera) ''shot'' = to_path ''captures/shot.jpg''"
    "path_parent (to_path ''captures/shot.jpg'') = to_path ''captures''"
    unfolding capture_file_def demo_session_def by code_simp+
  then show ?thesis
    by (simp add: manager_ops demo_armed_def new_manager_def demo_session_def demo_camera_def
        write_file_def is_dir_def make_dir_def demo_fs_def capture_create_def enqueue_def upd_jobs_def
        session_set_share_token_def empty_db_def insert_span_def session_update_state_def sql_update_def)
qed

lemma demo_failure: "\<exists>s'. capture (demo_session broken_camera) None demo_armed =
    (Inl (CameraDisconnectedError ''unplugged''), s')"
  by (simp add: manager_ops demo_armed_def new_manager_def demo_session_def broken_camera_def
      demo_camera_def insert_span_def session_update_state_def)



end
