(* ===== verification/Session_Arming.thy ===== *)
theory Session_Arming
  imports Session_Capture
begin

text \<open>
  The other requests of \<open>web/session.py\<close>: arming a session from the event's configuration,
  what a failed arm leaves behind, and a dismiss served in the middle of a capture.
\<close>

subsection \<open>Arming\<close>


text \<open>
  C36: when the event or the template cannot be loaded, the error reaches the caller, but the state
  machine has already moved: the booth stays armed with the shot count of the session before,
  there is no session row, no screen is told, and arming again is refused until someone dismisses.
\<close>

theorem arm_failure_strands:
  assumes "m_state (sm_machine s) = IDLE"
    and "sc_events_dir C = Some ed" and "sc_templates_dir C = Some td"
    and "load_event (sm_fs s) (sc_parse_event C) ed (sm_active_event_id s) = Inl e \<or>
      (\<exists>ev. load_event (sm_fs s) (sc_parse_event C) ed (sm_active_event_id s) = Inr ev \<and>
        load_template (sm_fs s) (sc_parse_template C) (path_div td (chosen_template ev mode_id)) = Inl e)"
  shows "\<exists>s'. arm C mode_id s = (Inl e, s') \<and> m_state (sm_machine s') = ARMED \<and>
    sm_shot_count s' = sm_shot_count s \<and> sm_armed_template_path s' = None \<and>
    sessions (sm_db s') = sessions (sm_db s) \<and> sm_events s' = sm_events s \<and>
    (\<forall>m. arm C m s' = (Inl (InvalidTransitionError ARMED ARMED), s'))"
  using assms
  by (auto simp: arm_def machine_transition_def transition_def next_tick_def arm_template_def Let_def)

text \<open>A booth with one event and the single-slot template, and one whose event file is missing.\<close>

definition demo_booth :: "(unit, int \<times> int) session_config" where
  "demo_booth = (demo_session demo_camera)
     \<lparr>sc_events_dir := Some (to_path ''events''), sc_templates_dir := Some (to_path ''templates''),
      sc_parse_event := (\<lambda>_. Inr (new_event_config ''dev'' ''Gala'' ''single.yaml'')),
      sc_parse_template := (\<lambda>_. Inr demo_template)\<rparr>"

definition demo_booth_fs :: fs where
  "demo_booth_fs = demo_files [(to_path ''events/dev/event.yaml'', [1]), (to_path ''templates/single.yaml'', [1])]"

lemma demo_booth_read:
  "read_file demo_booth_fs (to_path ''events/dev/event.yaml'') = Inr [1]"
  "read_file demo_booth_fs (to_path ''templates/single.yaml'') = Inr [1]"
proof -
  have "to_path ''events/dev/event.yaml'' \<noteq> to_path ''templates/single.yaml''" by code_simp
  then show "read_file demo_booth_fs (to_path ''events/dev/event.yaml'') = Inr [1]"
    "read_file demo_booth_fs (to_path ''templates/single.yaml'') = Inr [1]"
    by (auto simp: read_file_def demo_booth_fs_def demo_files_def)
qed

lemma demo_booth_paths:
  "path_div (path_div (to_path ''events'') ''dev'') ''event.yaml'' = to_path ''events/dev/event.yaml''"
  "path_div (to_path ''templates'') ''single.yaml'' = to_path ''templates/single.yaml''"
  by code_simp+

lemma demo_booth_load:
  "load_event demo_booth_fs (sc_parse_event demo_booth) (to_path ''events'') ''dev'' =
     Inr (new_event_config ''dev'' ''Gala'' ''single.yaml'')"
  "load_template demo_booth_fs (sc_parse_template demo_booth) (to_path ''templates/single.yaml'') =
     Inr demo_template"
  by (simp_all add: load_event_def demo_booth_paths demo_booth_read demo_booth_def load_template_Inr
      validate_template_ok_iff check_slots_ok_iff check_overlays_ok_iff check_variants_ok_iff
      demo_sets REQUIRED_VARIANTS_def)


lemma arm_failure_strands_witness:
  "\<exists>e s'. arm demo_booth None (new_manager demo_booth ''dev'' empty_db demo_fs ()) = (Inl e, s') \<and>
     m_state (sm_machine s') = ARMED \<and> sessions (sm_db s') = []"
proof -
  let ?s = "new_manager demo_booth ''dev'' empty_db demo_fs ()"
  have "load_event (sm_fs ?s) (sc_parse_event demo_booth) (to_path ''events'') (sm_active_event_id ?s) =
      Inl (FileNotFoundError (path_str (path_div (path_div (to_path ''events'') ''dev'') ''event.yaml'')))"
    by (simp add: load_event_def read_file_def new_manager_def make_dir_def demo_fs_def)
  moreover have "m_state (sm_machine ?s) = IDLE" "sessions (sm_db ?s) = []"
    by (simp_all add: new_manager_def new_machine_def empty_db_def)
  moreover have "sc_events_dir demo_booth = Some (to_path ''events'')"
    "sc_templates_dir demo_booth = Some (to_path ''templates'')" by (simp_all add: demo_booth_def)
  ultimately show ?thesis
    using arm_failure_strands [of ?s demo_booth "to_path ''events''" "to_path ''templates''"] by metis
qed

subsection \<open>A guest who leaves in the middle of a shot\<close>

text \<open>The demo booth where a dismiss request is served while the full image is downloaded.\<close>

definition demo_dismissed :: "(unit, int \<times> int) session_config" where
  "demo_dismissed = (demo_session demo_camera)
     \<lparr>sc_other := (\<lambda>k s. if \<not> sm_camera_idle s then snd (dismiss (demo_session demo_camera) s) else s)\<rparr>"

text \<open>
  a dismiss served while a shot is still being downloaded takes the booth to idle, but the
  capture goes on: it stores the image as the deliverable, issues the share token, queues the
  upload of the guest who left, and only then fails, with an illegal transition from idle to
  review.
\<close>

theorem dismissed_capture_still_uploads:
  "\<exists>s' job. capture demo_dismissed None demo_armed = (Inl (InvalidTransitionError IDLE REVIEW), s') \<and>
     m_state (sm_machine s') = IDLE \<and> sm_session_capture_ids s' = [''shot''] \<and>
     jobs (sm_db s') = [job] \<and> j_kind job = ''upload'' \<and> j_status job = Pending"
proof -
  have "capture_file demo_dismissed ''shot'' = to_path ''captures/shot.jpg''"
    "path_parent (to_path ''captures/shot.jpg'') = to_path ''captures''"
    unfolding capture_file_def demo_dismissed_def demo_session_def by code_simp+
  then show ?thesis
    by (simp add: manager_ops demo_armed_def new_manager_def demo_dismissed_def dismiss_def
        demo_session_def demo_camera_def write_file_def is_dir_def make_dir_def demo_fs_def
        capture_create_def enqueue_def upd_jobs_def session_set_share_token_def empty_db_def
        insert_span_def session_update_state_def sql_update_def)
qed

subsection \<open>A capture that fails otherwise\<close>

definition not_idle :: "'w manager \<Rightarrow> bool" where
  "not_idle s \<longleftrightarrow> m_state (sm_machine s) \<noteq> IDLE"

text \<open>Neither the return nor an exception of the operation leaves the booth idle, a camera error apart.\<close>

definition stays_busy :: "(exn, 'w manager, 'a) op \<Rightarrow> bool" where
  "stays_busy m \<longleftrightarrow> hoare not_idle m (\<lambda>_. not_idle) (\<lambda>e s. is_CameraError e \<or> not_idle s)"

lemma stays_busy_basic: "stays_busy (ret x)" "stays_busy (raise e)" "stays_busy (lift_res r)"
  by (auto simp: stays_busy_def hoare_def split: sum.split)

lemma stays_busy_bindE: "stays_busy m \<Longrightarrow> (\<And>x. stays_busy (f x)) \<Longrightarrow> stays_busy (bindE m f)"
  unfolding stays_busy_def by (rule hoare_bindE)

lemma stays_busy_andthen: "stays_busy m \<Longrightarrow> stays_busy n \<Longrightarrow> stays_busy (andthen m n)"
  unfolding stays_busy_def by (rule hoare_andthen)

lemmas stays_busy_rules = stays_busy_basic stays_busy_bindE stays_busy_andthen

lemma stays_busy_Pair: "stays_busy (Pair r)"
  by (auto simp: stays_busy_def hoare_def split: sum.split)

lemma stays_busy_keeps: "keeps sm_machine m \<Longrightarrow> stays_busy m"
  unfolding stays_busy_def by (rule hoareI) (auto simp: not_idle_def dest: keepsD)

lemma stays_busy_core: "keeps core m \<Longrightarrow> stays_busy m"
  by (rule stays_busy_keeps) (auto simp: keeps_def core_def)

lemma stays_busy_state: "(\<And>s. stays_busy (f s)) \<Longrightarrow> stays_busy (\<lambda>s. f s s)"
  by (simp add: stays_busy_def hoare_def)

lemma stays_busy_ops:
  "stays_busy next_tick" "stays_busy (on_db d)" "stays_busy (on_fs f)" "stays_busy (broadcast C ev)"
  "stays_busy (modify (\<lambda>s. s\<lparr>sm_session_capture_ids := is\<rparr>))"
  by (rule stays_busy_keeps, simp add: keeps_def next_tick_def on_db_def on_fs_def broadcast_def Let_def
      split: prod.split)+

lemma stays_busy_transition: "t \<noteq> IDLE \<Longrightarrow> stays_busy (do_transition C t tok)"
  unfolding stays_busy_def
proof (rule hoareI)
  fix s x s' assume "t \<noteq> IDLE" "do_transition C t tok s = (Inr x, s')"
  then show "not_idle s'" using do_transition_Inr(2) by (fastforce simp: not_idle_def)
next
  fix s e s' assume "not_idle s" and run: "do_transition C t tok s = (Inl e, s')"
  moreover have "t \<notin> ALLOWED_TRANSITIONS (m_state (sm_machine s))"
    using run do_transition_ok [of t s C tok] by auto
  ultimately show "is_CameraError e \<or> not_idle s'" using do_transition_refused [of t s C tok] by auto
qed

lemma stays_busy_shot:
  assumes "sequential C" shows "stays_busy (capture_shot C d n i)"
proof -
  have yield: "stays_busy (yield_others C)"
    by (rule stays_busy_keeps) (use assms in \<open>simp add: keeps_def yield_others_def sequential_def\<close>)
  have gate: "stays_busy await_camera_idle"
    by (rule stays_busy_keeps) (simp add: keeps_def await_camera_idle_def)
  have said: "stays_busy (\<lambda>s. broadcast C (CountdownStarted (sm_session_id s) d i n) s)"
    by (rule stays_busy_state) (rule stays_busy_ops)
  have "stays_busy (try_except (take_shot C n i) (camera_failed C))"
    unfolding stays_busy_def
  proof (rule hoareI)
    fix s x s' assume "not_idle s" and run: "try_except (take_shot C n i) (camera_failed C) s = (Inr x, s')"
    then have "take_shot C n i s = (Inr x, s')"
      by (auto simp: try_except_def camera_failed_def andthen_def bindE_def split: prod.splits sum.splits if_splits)
    with \<open>not_idle s\<close> show "not_idle s'"
      using core_frame [OF keepsD [OF keeps_take_shot [OF assms]]] by (simp add: not_idle_def)
  next
    fix s e s' assume "not_idle s" and run: "try_except (take_shot C n i) (camera_failed C) s = (Inl e, s')"
    then obtain e0 s1 where take: "take_shot C n i s = (Inl e0, s1)" "camera_failed C e0 s1 = (Inl e :: exn + string, s')"
      by (auto simp: try_except_def split: prod.splits sum.splits)
    have "not_idle s1"
      using \<open>not_idle s\<close> core_frame [OF keepsD [OF keeps_take_shot [OF assms] take(1)]] by (simp add: not_idle_def)
    then show "is_CameraError e \<or> not_idle s'"
    proof (cases "is_CameraError e0")
      case True
      obtain s4 where b: "broadcast C (CaptureFailed (sm_session_id s1) (exn_str e0)) (s1\<lparr>sm_camera_idle := True\<rparr>) =
          (Inr (), s4)" "sm_machine s4 = sm_machine s1" by (simp add: broadcast_def Let_def)
      have "IDLE \<in> ALLOWED_TRANSITIONS (m_state (sm_machine s4))"
        using \<open>not_idle s1\<close> b(2) by (cases "m_state (sm_machine s1)") (simp_all add: not_idle_def)
      from do_transition_ok [OF this] obtain s5 where "do_transition C IDLE None s4 = (Inr (), s5)" ..
      with take(2) True b(1) have "e = e0" by (simp add: camera_failed_def)
      with True show ?thesis by simp
    next
      case False
      with take(2) \<open>not_idle s1\<close> show ?thesis by (simp add: camera_failed_def)
    qed
  qed
  then show ?thesis
    unfolding capture_shot_def
    by (intro stays_busy_rules stays_busy_transition yield gate said) simp_all
qed

lemma stays_busy_deliver:
  assumes "sequential C" shows "stays_busy (deliver C ids)"
proof -
  have add: "stays_busy (add_capture C i b)" "stays_busy (image_ready C i)" for i b
    by (rule stays_busy_core, rule frame_rules)+
  have store: "stays_busy (store_composite C d)" for d
    unfolding store_composite_def by (intro stays_busy_rules stays_busy_ops add)
  have pure: "stays_busy (\<lambda>s. (g s, s))" for g :: "'a manager \<Rightarrow> 'c res"
    by (rule stays_busy_keeps) (simp add: keeps_def)
  have yield: "stays_busy (yield_others C)"
    by (rule stays_busy_keeps) (use assms in \<open>simp add: keeps_def yield_others_def sequential_def\<close>)
  have composite: "stays_busy (composite_capture C tp ids)" for tp
    unfolding composite_capture_def render_in_thread_def
    by (cases "sc_events_dir C") (auto intro!: stays_busy_rules store pure yield)
  have final: "stays_busy (finalize_capture C ids)"
    unfolding finalize_capture_def stays_busy_def hoare_def
    using composite unfolding stays_busy_def hoare_def
    by (auto split: option.splits list.splits if_splits)
  have uploads: "stays_busy (enqueue_uploads C is)" for "is"
    by (induction "is") (auto intro!: stays_busy_rules stays_busy_Pair stays_busy_ops)
  have token: "stays_busy (\<lambda>s. on_db (session_set_share_token (sm_session_id s) t) s)" for t
    by (rule stays_busy_state) (rule stays_busy_ops)
  show ?thesis
    unfolding deliver_def issue_share_token_and_enqueue_uploads_def
    by (intro stays_busy_rules final stays_busy_ops stays_busy_transition)
      (auto intro!: stays_busy_rules stays_busy_ops uploads token)
qed

text \<open>
  C8: only a camera error takes the booth back to idle: when a capture fails with anything else (a
  full disk, a broken template, a database error), the booth stays where it was, not idle, every
  further arm is refused without changing anything, and so it remains until someone dismisses
  the session.
\<close>

theorem capture_failure_strands:
  assumes "sequential C" and "m_state (sm_machine s) \<noteq> IDLE"
    and "capture C countdown_s s = (Inl e, s')" and "\<not> is_CameraError e"
  shows "m_state (sm_machine s') \<noteq> IDLE \<and>
    arm C mode_id s' = (Inl (InvalidTransitionError (m_state (sm_machine s')) ARMED), s') \<and>
    (\<exists>s''. dismiss C s' = (Inr (), s'') \<and> m_state (sm_machine s'') = IDLE)"
proof -
  have "stays_busy (capture_shots C d n is)" for d n "is"
    by (induction "is") (auto intro!: stays_busy_rules stays_busy_Pair stays_busy_shot [OF assms(1)])
  then have "stays_busy (bindE (capture_shots C d n is) (deliver C))" for d n "is"
    by (intro stays_busy_rules stays_busy_deliver [OF assms(1)])
  note busy_all = this [unfolded stays_busy_def]
  have "not_idle s" using assms(2) by (simp add: not_idle_def)
  from hoare_raisesD [OF busy_all this assms(3) [unfolded capture_eq]] assms(4) have busy: "not_idle s'" by blast
  then have "ARMED \<notin> ALLOWED_TRANSITIONS (m_state (sm_machine s'))"
    "IDLE \<in> ALLOWED_TRANSITIONS (m_state (sm_machine s'))"
    by (cases "m_state (sm_machine s')"; simp add: not_idle_def)+
  moreover from do_transition_ok [OF this(2)] obtain s'' where t: "dismiss C s' = (Inr (), s'')"
    unfolding dismiss_def ..
  ultimately show ?thesis
    using busy do_transition_Inr(2) [OF t [unfolded dismiss_def]]
    by (simp add: arm_def machine_transition_def transition_def not_idle_def)
qed

text \<open>The demo booth with a full disk.\<close>

definition demo_full_disk :: "unit manager" where
  "demo_full_disk = demo_armed\<lparr>sm_fs := demo_fs\<rparr>"

lemma capture_failure_strands_witness:
  "\<exists>e s'. capture (demo_session demo_camera) None demo_full_disk = (Inl e, s') \<and>
     m_state (sm_machine s') \<noteq> IDLE"
proof -
  have "\<exists>m s'. capture (demo_session demo_camera) None demo_full_disk = (Inl (FileNotFoundError m), s')"
    by (simp add: manager_ops demo_full_disk_def demo_armed_def new_manager_def demo_session_def demo_camera_def
        write_file_def is_dir_def demo_fs_def capture_create_def empty_db_def insert_span_def
        session_update_state_def sql_update_def)
  then obtain m s' where run: "capture (demo_session demo_camera) None demo_full_disk = (Inl (FileNotFoundError m), s')"
    by blast
  have "m_state (sm_machine demo_full_disk) \<noteq> IDLE" by (simp add: demo_full_disk_def demo_armed_def)
  from capture_failure_strands [OF demo_sequential this run] run show ?thesis by auto
qed

end
