(* ===== verification/Render_Pool.thy ===== *)
theory Render_Pool
  imports Compositor
begin

text \<open>
  \<open>src/photobooth/pipeline/pool.py\<close>: the bounded thread pool around \<open>render_variant\<close>.  The
  threads of the standard library's \<open>ThreadPoolExecutor\<close> are the steps of an inductive relation:
  a call of \<open>render\<close> queues a job, a free worker takes the oldest one, a worker finishes whenever
  its render does, and \<open>close\<close> shuts the executor, with \<open>cancel_futures\<close> when it does not wait.
\<close>

subsection \<open>The pool\<close>

record render_job =
  rj_template_path :: path
  rj_source_images :: "path list"
  rj_variant :: string
  rj_event :: event_config

text \<open>What a future holds once it is settled.\<close>

datatype settled = Rendered "bytes res" | Cancelled

record pool =
  pl_max_workers :: nat
  pl_queue :: "(nat \<times> render_job) list"
  pl_running :: "(nat \<times> render_job) list"
  pl_settled :: "nat \<rightharpoonup> settled"
  pl_shutdown :: bool
  pl_next :: nat

definition open_pool :: "int option \<Rightarrow> int option \<Rightarrow> pool res" where
  "open_pool cpu_count max_workers =
     bind_res (new_render_pool cpu_count max_workers) (\<lambda>n. Inr
       \<lparr>pl_max_workers = nat n, pl_queue = [], pl_running = [], pl_settled = (\<lambda>_. None),
        pl_shutdown = False, pl_next = 0\<rparr>)"

text \<open>\<open>run_in_executor\<close>: the number of the future that \<open>render\<close> awaits.\<close>

definition submit_render :: "render_job \<Rightarrow> (exn, pool, nat) op" where
  "submit_render job =
     (\<lambda>p. if pl_shutdown p
          then (Inl (RuntimeError ''cannot schedule new futures after shutdown''), p)
          else (Inr (pl_next p),
                p\<lparr>pl_queue := pl_queue p @ [(pl_next p, job)], pl_next := pl_next p + 1\<rparr>))"

text \<open>
  \<open>close(wait)\<close> is \<open>shutdown(wait=wait, cancel_futures=not wait)\<close>; \<open>aclose\<close> is \<open>close(True)\<close>.
  With \<open>wait\<close> it returns when the pool is \<open>drained\<close>.
\<close>

definition begin_close :: "bool \<Rightarrow> pool \<Rightarrow> pool" where
  "begin_close wait p =
     (if wait then p\<lparr>pl_shutdown := True\<rparr>
      else p\<lparr>pl_shutdown := True, pl_queue := [],
             pl_settled := pl_settled p ++ map_of (map (\<lambda>(t, _). (t, Cancelled)) (pl_queue p))\<rparr>)"

definition drained :: "pool \<Rightarrow> bool" where
  "drained p \<longleftrightarrow> pl_queue p = [] \<and> pl_running p = []"

definition close_returns :: "bool \<Rightarrow> pool \<Rightarrow> bool" where
  "close_returns wait p \<longleftrightarrow> pl_shutdown p \<and> (wait \<longrightarrow> drained p)"

definition run_job ::
  "'i vips \<Rightarrow> fs \<Rightarrow> (bytes \<Rightarrow> template_config res) \<Rightarrow> render_job \<Rightarrow> bytes res" where
  "run_job V F parse job =
     pool_render V F parse (rj_template_path job) (rj_source_images job) (rj_variant job) (rj_event job)"

text \<open>One step of a worker thread; the files are those at the end of the render.\<close>

inductive worker_step :: "'i vips \<Rightarrow> (bytes \<Rightarrow> template_config res) \<Rightarrow> pool \<Rightarrow> pool \<Rightarrow> bool"
  for V parse where
  take: "pl_queue p = j # q \<Longrightarrow> length (pl_running p) < pl_max_workers p \<Longrightarrow>
    worker_step V parse p (p\<lparr>pl_queue := q, pl_running := pl_running p @ [j]\<rparr>)"
| finish: "pl_running p = a @ (t, job) # b \<Longrightarrow>
    worker_step V parse p
      (p\<lparr>pl_running := a @ b, pl_settled := (pl_settled p)(t \<mapsto> Rendered (run_job V F parse job))\<rparr>)"

text \<open>A pool in use: the application's calls and the workers' steps in any order.\<close>

inductive pool_run :: "'i vips \<Rightarrow> (bytes \<Rightarrow> template_config res) \<Rightarrow> pool \<Rightarrow> pool \<Rightarrow> bool"
  for V parse p0 where
  start: "pool_run V parse p0 p0"
| call: "pool_run V parse p0 p \<Longrightarrow> pool_run V parse p0 (snd (submit_render job p))"
| close: "pool_run V parse p0 p \<Longrightarrow> pool_run V parse p0 (begin_close wait p)"
| work: "pool_run V parse p0 p \<Longrightarrow> worker_step V parse p p' \<Longrightarrow> pool_run V parse p0 p'"

inductive_cases worker_stepE: "worker_step V parse p p'"

subsection \<open>Every render is in one place\<close>

definition tickets :: "(nat \<times> render_job) list \<Rightarrow> nat set" where
  "tickets js = set (map fst js)"

lemma tickets_simps [simp]:
  "tickets [] = {}" "tickets (j # js) = insert (fst j) (tickets js)" "tickets (a @ b) = tickets a \<union> tickets b"
  by (simp_all add: tickets_def)

definition pool_ok :: "pool \<Rightarrow> bool" where
  "pool_ok p \<longleftrightarrow>
     1 \<le> pl_max_workers p \<and> length (pl_running p) \<le> pl_max_workers p \<and>
     distinct (map fst (pl_queue p @ pl_running p)) \<and>
     tickets (pl_queue p @ pl_running p) \<inter> dom (pl_settled p) = {} \<and>
     tickets (pl_queue p @ pl_running p) \<union> dom (pl_settled p) = {..<pl_next p}"

lemma pool_ok_open: "open_pool cpu_count max_workers = Inr p \<Longrightarrow> pool_ok p \<and> pl_next p = 0"
  by (auto simp: open_pool_def new_render_pool_def bind_res_def pool_ok_def Let_def split: if_splits)

lemma pool_ok_submit: "pool_ok p \<Longrightarrow> pool_ok (snd (submit_render job p))"
  by (auto simp: submit_render_def pool_ok_def tickets_def)

lemma dom_cancelled: "dom (map_of (map (\<lambda>(t, _). (t, Cancelled)) js)) = tickets js"
  by (force simp: dom_map_of_conv_image_fst tickets_def)

lemma pool_ok_close: "pool_ok p \<Longrightarrow> pool_ok (begin_close wait p)"
  by (auto simp: begin_close_def pool_ok_def dom_cancelled tickets_def)

lemma pool_ok_step: "worker_step V parse p p' \<Longrightarrow> pool_ok p \<Longrightarrow> pool_ok p'"
  by (erule worker_stepE) (auto simp: pool_ok_def tickets_def)

lemma pool_run_ok:
  "pool_run V parse p0 p \<Longrightarrow> pool_ok p0 \<Longrightarrow> pool_ok p \<and> pl_max_workers p = pl_max_workers p0"
proof (induction rule: pool_run.induct)
  case (call p job)
  then show ?case by (auto simp: pool_ok_submit) (auto simp: submit_render_def)
next
  case (close p wait)
  then show ?case by (auto simp: pool_ok_close) (auto simp: begin_close_def)
next
  case (work p p')
  then show ?case using pool_ok_step [OF work.hyps(2)] by (auto elim!: worker_stepE)
qed simp

subsection \<open>Closing\<close>

text \<open>Each step of a worker is progress: a queued job counts twice, a running one once.\<close>

definition pool_work :: "pool \<Rightarrow> nat" where
  "pool_work p = 2 * length (pl_queue p) + length (pl_running p)"

lemma worker_step_progress: "worker_step V parse p p' \<Longrightarrow> pool_work p' < pool_work p"
  by (erule worker_stepE) (auto simp: pool_work_def)

lemma worker_step_enabled:
  assumes "pool_ok p" and "\<not> drained p" shows "\<exists>p'. worker_step V parse p p'"
proof (cases "pl_running p")
  case (Cons r rs)
  then show ?thesis using worker_step.finish [of p "[]" "fst r" "snd r" rs V parse F for F] by auto
next
  case Nil
  with assms obtain j q where "pl_queue p = j # q" by (auto simp: drained_def neq_Nil_conv)
  moreover have "length (pl_running p) < pl_max_workers p" using assms(1) Nil by (simp add: pool_ok_def)
  ultimately show ?thesis by (blast intro: worker_step.take)
qed

lemma worker_stuck: "pool_ok p \<Longrightarrow> (\<nexists>p'. worker_step V parse p p') \<longleftrightarrow> drained p"
  using worker_step_enabled [of p V parse] by (auto simp: drained_def elim: worker_stepE)

text \<open>What has been queued or taken is rendered, whatever the order of the steps.\<close>

lemma worker_steps_render:
  assumes "(worker_step V parse)\<^sup>*\<^sup>* p p'" and "pool_ok p"
  shows "pool_ok p' \<and> pl_shutdown p' = pl_shutdown p \<and> pl_next p' = pl_next p \<and>
    set (pl_queue p' @ pl_running p') \<subseteq> set (pl_queue p @ pl_running p) \<and>
    (\<forall>t r. pl_settled p t = Some r \<longrightarrow> pl_settled p' t = Some r) \<and>
    (\<forall>t job. (t, job) \<in> set (pl_queue p @ pl_running p) \<longrightarrow>
       (t, job) \<in> set (pl_queue p' @ pl_running p') \<or>
       (\<exists>F. pl_settled p' t = Some (Rendered (run_job V F parse job))))"
  using assms
proof (induction rule: rtranclp_induct)
  case (step p1 p2)
  have ok: "pool_ok p1" using step by blast
  have keep: "\<forall>t r. pl_settled p1 t = Some r \<longrightarrow> pl_settled p2 t = Some r"
    using step.hyps(2) ok by (auto elim!: worker_stepE simp: pool_ok_def)
  have move: "(t, job) \<in> set (pl_queue p2 @ pl_running p2) \<or>
       (\<exists>F. pl_settled p2 t = Some (Rendered (run_job V F parse job)))"
    if "(t, job) \<in> set (pl_queue p1 @ pl_running p1)" for t job
    using step.hyps(2) that by (auto elim!: worker_stepE)
  have same: "pl_shutdown p2 = pl_shutdown p1" "pl_next p2 = pl_next p1"
    "set (pl_queue p2 @ pl_running p2) \<subseteq> set (pl_queue p1 @ pl_running p1)"
    using step.hyps(2) by (auto elim!: worker_stepE)
  have all: "(t, job) \<in> set (pl_queue p2 @ pl_running p2) \<or>
       (\<exists>F. pl_settled p2 t = Some (Rendered (run_job V F parse job)))"
    if mem: "(t, job) \<in> set (pl_queue p @ pl_running p)" for t job
  proof (cases "(t, job) \<in> set (pl_queue p1 @ pl_running p1)")
    case True
    then show ?thesis by (rule move)
  next
    case False
    then obtain F where "pl_settled p1 t = Some (Rendered (run_job V F parse job))"
      using step.IH [OF step.prems] mem by blast
    then show ?thesis using keep by blast
  qed
  have still: "pl_settled p2 t = Some r" if "pl_settled p t = Some r" for t r
    using that keep step.IH [OF step.prems] by blast
  have "set (pl_queue p2 @ pl_running p2) \<subseteq> set (pl_queue p @ pl_running p)"
    using same(3) step.IH [OF step.prems] by blast
  then show ?case
    using pool_ok_step [OF step.hyps(2) ok] same(1,2) step.IH [OF step.prems] all still by simp
qed auto

text \<open>
  C26: the pool never runs more renders than it has threads, and every render it accepted is in one
  place: queued, running, or settled.  Closing it with \<open>wait\<close> ends: from any state of its use the
  workers can only make a bounded number of steps, they are stuck only when the pool is drained,
  and then every future accepted is settled, each render queued or running at the time of
  the call with the result of its own \<open>render_variant\<close>; later renders are refused.
\<close>

theorem pool_close_drains:
  assumes "open_pool cpu_count max_workers = Inr p0" and "pool_run V parse p0 p"
    and "(worker_step V parse)\<^sup>*\<^sup>* (begin_close True p) p'"
  shows "length (pl_running p) \<le> pl_max_workers p0 \<and>
    pool_work p' + (if p' = begin_close True p then 0 else 1) \<le> pool_work p \<and>
    ((\<nexists>p''. worker_step V parse p' p'') \<longleftrightarrow> close_returns True p') \<and>
    (close_returns True p' \<longrightarrow> dom (pl_settled p') = {..<pl_next p} \<and>
      (\<forall>t job. (t, job) \<in> set (pl_queue p @ pl_running p) \<longrightarrow>
         (\<exists>F. pl_settled p' t = Some (Rendered (run_job V F parse job)))) \<and>
      (\<forall>job. fst (submit_render job p') = Inl (RuntimeError ''cannot schedule new futures after shutdown'')))"
proof -
  have ok: "pool_ok p" "pl_max_workers p = pl_max_workers p0"
    using pool_run_ok [OF assms(2)] pool_ok_open [OF assms(1)] by auto
  let ?c = "begin_close True p"
  have c: "pool_ok ?c" "pl_queue ?c = pl_queue p" "pl_running ?c = pl_running p" "pl_next ?c = pl_next p"
    "pl_shutdown ?c"
    using pool_ok_close [OF ok(1), of True] by (simp_all add: begin_close_def)
  note R = worker_steps_render [OF assms(3) c(1)]
  have "pool_work p' + (if p' = ?c then 0 else 1) \<le> pool_work ?c"
    using assms(3)
  proof (induction rule: rtranclp_induct)
    case (step p1 p2)
    with worker_step_progress [OF step.hyps(2)] show ?case by (auto split: if_splits)
  qed simp
  moreover have "pool_work ?c = pool_work p" by (simp add: pool_work_def c)
  moreover have "(\<nexists>p''. worker_step V parse p' p'') \<longleftrightarrow> close_returns True p'"
    using worker_stuck [of p' V parse] R c(5) by (auto simp: close_returns_def)
  moreover have "dom (pl_settled p') = {..<pl_next p} \<and>
      (\<forall>t job. (t, job) \<in> set (pl_queue p @ pl_running p) \<longrightarrow>
         (\<exists>F. pl_settled p' t = Some (Rendered (run_job V F parse job))))" if "close_returns True p'"
    using that R c by (auto simp: close_returns_def drained_def pool_ok_def)
  moreover have "fst (submit_render job p') = Inl (RuntimeError ''cannot schedule new futures after shutdown'')" for job
    using R c(5) by (simp add: submit_render_def)
  moreover have "length (pl_running p) \<le> pl_max_workers p0" using ok by (simp add: pool_ok_def)
  ultimately show ?thesis by simp
qed

definition demo_render_job :: render_job where
  "demo_render_job = \<lparr>rj_template_path = to_path ''templates/single.yaml'',
     rj_source_images = [to_path ''out/captures/a.jpg''], rj_variant = ''print'',
     rj_event = new_event_config ''dev'' ''Gala'' ''single.yaml''\<rparr>"

definition demo_pool :: pool where
  "demo_pool = \<lparr>pl_max_workers = 4, pl_queue = [], pl_running = [], pl_settled = (\<lambda>_. None),
     pl_shutdown = False, pl_next = 0\<rparr>"

lemma pool_close_drains_witness:
  "\<exists>p' F. (worker_step demo_vips (\<lambda>_. Inr demo_template))\<^sup>*\<^sup>*
      (begin_close True (snd (submit_render demo_render_job demo_pool))) p' \<and> close_returns True p' \<and>
    pl_settled p' 0 = Some (Rendered (run_job demo_vips F (\<lambda>_. Inr demo_template) demo_render_job))"
proof -
  let ?step = "worker_step demo_vips (\<lambda>_. Inr demo_template)"
  let ?p = "snd (submit_render demo_render_job demo_pool)"
  let ?c = "begin_close True ?p"
  let ?r = "?c\<lparr>pl_queue := [], pl_running := pl_running ?c @ [(0, demo_render_job)]\<rparr>"
  let ?d = "?r\<lparr>pl_running := [] @ [], pl_settled := (pl_settled ?r)
      (0 \<mapsto> Rendered (run_job demo_vips undefined (\<lambda>_. Inr demo_template) demo_render_job))\<rparr>"
  have o: "open_pool (Some 8) None = Inr demo_pool"
    by (simp add: open_pool_def new_render_pool_def DEFAULT_MAX_WORKERS_def bind_res_def demo_pool_def Let_def)
  have "?step ?c ?r"
    by (rule worker_step.take) (simp_all add: begin_close_def submit_render_def demo_pool_def)
  moreover have "?step ?r ?d"
    by (rule worker_step.finish) (simp add: begin_close_def submit_render_def demo_pool_def)
  ultimately have run: "?step\<^sup>*\<^sup>* ?c ?d" by (meson rtranclp.rtrancl_into_rtrancl rtranclp.rtrancl_refl)
  have done': "close_returns True ?d"
    by (simp add: close_returns_def drained_def begin_close_def submit_render_def demo_pool_def)
  have "(0, demo_render_job) \<in> set (pl_queue ?p @ pl_running ?p)"
    by (simp add: submit_render_def demo_pool_def)
  with pool_close_drains [OF o pool_run.call [OF pool_run.start, of _ _ _ demo_render_job] run] done'
  show ?thesis using run by blast
qed

end
