(* ===== verification/Diagnostics.thy ===== *)
theory Diagnostics
  imports Template Camera_Mock Printing
begin

text \<open>
  \<open>src/photobooth/web/health_checks.py\<close>, \<open>web/routers/debug.py\<close>, \<open>preview/proxy.py\<close> and
  \<open>web/routers/preview.py\<close>: the health probes, the latency statistics over the recorded spans,
  and the relay of the live preview.  What the probes ask of the outside (the HTTP client, the
  disk, a TCP connect, the printer) is a parameter with its result or error; \<open>asyncio.gather\<close>
  runs the probes in the order they are listed.
\<close>

subsection \<open>Probes\<close>

definition DISK_FREE_WARN_BYTES :: int where
  "DISK_FREE_WARN_BYTES = 1024 ^ 3"

definition status_row :: "string \<Rightarrow> string \<Rightarrow> payload" where
  "status_row status detail = [(''status'', JStr status), (''detail'', JStr detail)]"

definition check_camera :: "(exn, 'w, bool) op \<Rightarrow> (exn, 'w, payload) op" where
  "check_camera get_status =
     try_except
       (bindE get_status (\<lambda>connected.
          ret (status_row (if connected then ''green'' else ''red'')
                          (if connected then ''connected'' else ''disconnected''))))
       (\<lambda>exc. if is_CameraError exc then ret (status_row ''red'' (exn_str exc)) else raise exc)"

text \<open>\<open>http url\<close>: the status code, or the message of an \<open>httpx.HTTPError\<close>.\<close>

definition check_preview :: "(string \<Rightarrow> string + int) \<Rightarrow> string \<Rightarrow> payload" where
  "check_preview http stream_url =
     (case http stream_url of
        Inl msg \<Rightarrow> status_row ''red'' msg
      | Inr code \<Rightarrow>
          if code = 200 then status_row ''green'' ''reachable''
          else status_row ''red'' (''unexpected status '' @ str_int code))"

text \<open>A non-negative number with two decimals, rounded half to even.\<close>

definition fixed2 :: "rat \<Rightarrow> string" where
  "fixed2 x =
     (let n = nat (py_round (x * 100)) in
      str_nat (n div 100) @ ''.'' @ [digit_char (n mod 100 div 10), digit_char (n mod 10)])"

text \<open>\<open>disk_usage p\<close>: the free bytes, or the message of an \<open>OSError\<close>.\<close>

definition check_disk :: "fs \<Rightarrow> (path \<Rightarrow> string + int) \<Rightarrow> path \<Rightarrow> payload" where
  "check_disk F disk_usage path =
     (let probe = (if path_exists F path then path else path_parent path) in
      case disk_usage probe of
        Inl msg \<Rightarrow> status_row ''gray'' msg
      | Inr free \<Rightarrow>
          status_row (if DISK_FREE_WARN_BYTES \<le> free then ''green'' else ''red'')
            (fixed2 (of_int free / of_int (1024 ^ 3)) @ '' GB free'') @
          [(''free_bytes'', JNum (of_int free))])"

definition NETWORK_PROBE_HOST :: string where
  "NETWORK_PROBE_HOST = ''1.1.1.1''"

definition NETWORK_PROBE_PORT :: int where
  "NETWORK_PROBE_PORT = 443"

text \<open>\<open>connect host port\<close>: \<open>None\<close>, or the message of an \<open>OSError\<close>.\<close>

definition check_network :: "(string \<Rightarrow> int \<Rightarrow> string option) \<Rightarrow> string \<Rightarrow> int \<Rightarrow> payload" where
  "check_network connect host port =
     (case connect host port of
        None \<Rightarrow> status_row ''green'' (''reached '' @ host @ '':'' @ str_int port)
      | Some msg \<Rightarrow> status_row ''red'' msg)"

definition NOT_CONFIGURED_PRINTER :: payload where
  "NOT_CONFIGURED_PRINTER = status_row ''not_configured'' ''no printer backend exists yet (Phase 4)''"

subsection \<open>The preflight checklist\<close>

record 'w probes =
  pr_get_status :: "(exn, 'w, bool) op"
  pr_http :: "string \<Rightarrow> string + int"
  pr_stream_url :: string
  pr_disk_usage :: "path \<Rightarrow> string + int"
  pr_disk_path :: path
  pr_connect :: "string \<Rightarrow> int \<Rightarrow> string option"
  pr_printer :: "(exn, 'w, payload) op option"

definition printer_check :: "'w probes \<Rightarrow> (exn, 'w, payload) op" where
  "printer_check P = (case pr_printer P of None \<Rightarrow> ret NOT_CONFIGURED_PRINTER | Some status \<Rightarrow> status)"

definition preview_check :: "'w probes \<Rightarrow> payload" where
  "preview_check P = check_preview (pr_http P) (pr_stream_url P)"

definition disk_check :: "fs \<Rightarrow> 'w probes \<Rightarrow> payload" where
  "disk_check F P = check_disk F (pr_disk_usage P) (pr_disk_path P)"

definition network_check :: "'w probes \<Rightarrow> payload" where
  "network_check P = check_network (pr_connect P) NETWORK_PROBE_HOST NETWORK_PROBE_PORT"

definition health_row :: "string \<Rightarrow> payload \<Rightarrow> payload" where
  "health_row name check = (''name'', JStr name) # check"

definition camera_ready :: "session_state \<Rightarrow> payload" where
  "camera_ready st =
     status_row (if state_value st \<noteq> ''capturing'' then ''green'' else ''red'')
       (''session state: '' @ state_value st)"

definition TEST_SHOT_DETAIL :: string where
  "TEST_SHOT_DETAIL =
     ''not run automatically from this GET (would be a mutating action from a passive health check) '' @
     em_dash @ '' trigger POST /admin/actions/test-shot manually''"

definition get_health :: "fs \<Rightarrow> 'w probes \<Rightarrow> session_state \<Rightarrow> (exn, 'w, payload list) op" where
  "get_health F P st =
     bindE (check_camera (pr_get_status P)) (\<lambda>camera_connected.
     bindE (printer_check P) (\<lambda>printer.
     ret [health_row ''camera_connected'' camera_connected,
          health_row ''camera_idle'' (camera_ready st),
          health_row ''preview_stream'' (preview_check P),
          health_row ''disk_free'' (disk_check F P),
          health_row ''network'' (network_check P),
          health_row ''camera_settings_profile''
            (status_row ''not_available'' ''no expected-profile check exists yet''),
          health_row ''test_shot_within_budget'' (status_row ''not_available'' TEST_SHOT_DETAIL),
          health_row ''flash_fires'' (status_row ''not_available'' ''unmeasurable via software''),
          health_row ''printer_online_with_media'' printer,
          health_row ''time_synced''
            (status_row ''not_available''
              (''skipped for v1 '' @ em_dash @ '' no NTP-offset check implemented''))]))"

text \<open>The same probes, as the admin panel's status (\<open>admin.py\<close>).\<close>

definition get_status :: "fs \<Rightarrow> 'w probes \<Rightarrow> (exn, 'w, (string \<times> payload) list) op" where
  "get_status F P =
     bindE (check_camera (pr_get_status P)) (\<lambda>camera.
     bindE (printer_check P) (\<lambda>printer.
     ret [(''camera'', camera), (''preview'', preview_check P), (''disk'', disk_check F P),
          (''network'', network_check P), (''printer'', printer)]))"

subsection \<open>Traces and timings\<close>

text \<open>\<open>LIMIT n\<close>: none when \<open>n\<close> is negative.\<close>

definition sql_limit :: "int \<Rightarrow> 'a list \<Rightarrow> 'a list" where
  "sql_limit n xs = (if n < 0 then xs else take (nat n) xs)"

text \<open>
  \<open>SELECT DISTINCT ... ORDER BY rowid DESC\<close> scans the table from its newest row and keeps the
  first row of each value.
\<close>

definition distinct_newest :: "'a list \<Rightarrow> 'a list" where
  "distinct_newest xs = rev (remdups xs)"

record trace_span =
  ts_name :: string
  ts_t_start :: rat
  ts_t_end :: "rat option"
  ts_duration_ms :: "rat option"
  ts_meta :: payload

definition to_trace_span :: "span_row \<Rightarrow> trace_span" where
  "to_trace_span r =
     \<lparr>ts_name = sp_name r, ts_t_start = sp_t_start r, ts_t_end = sp_t_end r,
      ts_duration_ms = map_option (\<lambda>t_end. (t_end - sp_t_start r) * 1000) (sp_t_end r),
      ts_meta = sp_meta_json r\<rparr>"

definition get_traces :: "int \<Rightarrow> db \<Rightarrow> (string \<times> trace_span list) list" where
  "get_traces limit d =
     map (\<lambda>capture_id. (capture_id,
            map to_trace_span
              (order_by sp_t_start (filter (\<lambda>r. sp_capture_id r = capture_id) (spans d)))))
         (sql_limit limit (distinct_newest (map sp_capture_id (spans d))))"

text \<open>\<open>statistics.quantiles(data, n=100, method="inclusive")\<close>: the cut points 1 to 99.\<close>

definition quantile :: "rat list \<Rightarrow> nat \<Rightarrow> rat" where
  "quantile data i =
     (let m = length data - 1; j = i * m div 100; delta = i * m mod 100 in
      (data ! j * of_nat (100 - delta) + data ! (j + 1) * of_nat delta) / 100)"

definition py_index :: "'a list \<Rightarrow> int \<Rightarrow> 'a res" where
  "py_index xs i =
     (let k = (if i < 0 then i + int (length xs) else i) in
      if 0 \<le> k \<and> k < int (length xs) then Inr (xs ! nat k)
      else Inl (IndexError ''list index out of range''))"

definition percentile :: "rat list \<Rightarrow> rat \<Rightarrow> rat res" where
  "percentile sorted_values p =
     (if length sorted_values = 1 then Inr (hd sorted_values)
      else py_index (map (quantile sorted_values) [1..<100]) (\<lfloor>p * 100\<rfloor> - 1))"

record timing =
  tm_count :: nat
  tm_p50 :: rat
  tm_p95 :: rat
  tm_p99 :: rat
  tm_max :: rat

definition durations_ms :: "int \<Rightarrow> string \<Rightarrow> db \<Rightarrow> rat list" where
  "durations_ms limit_per_name name d =
     map (\<lambda>r. (the (sp_t_end r) - sp_t_start r) * 1000)
       (sql_limit limit_per_name
         (rev (filter (\<lambda>r. sp_name r = name \<and> sp_t_end r \<noteq> None) (spans d))))"

definition summarise :: "rat list \<Rightarrow> timing res" where
  "summarise sorted_ms =
     bind_res (percentile sorted_ms (1 / 2)) (\<lambda>p50.
     bind_res (percentile sorted_ms (95 / 100)) (\<lambda>p95.
     bind_res (percentile sorted_ms (99 / 100)) (\<lambda>p99.
       Inr \<lparr>tm_count = length sorted_ms, tm_p50 = p50, tm_p95 = p95, tm_p99 = p99,
            tm_max = last sorted_ms\<rparr>)))"

fun timings_of :: "int \<Rightarrow> db \<Rightarrow> string list \<Rightarrow> (string \<times> timing) list res" where
  "timings_of limit d [] = Inr []"
| "timings_of limit d (name # names) =
     (case durations_ms limit name d of
        [] \<Rightarrow> timings_of limit d names
      | ds \<Rightarrow> bind_res (summarise (sort ds)) (\<lambda>t.
                bind_res (timings_of limit d names) (\<lambda>rest. Inr ((name, t) # rest))))"

definition get_timings :: "int \<Rightarrow> db \<Rightarrow> (string \<times> timing) list res" where
  "get_timings limit_per_name d =
     timings_of limit_per_name d (rev (remdups (rev (map sp_name (spans d)))))"

subsection \<open>The preview relay\<close>

text \<open>
  The upstream's answer: its content type, the chunks it sends, and whether it was closed.  The
  browser takes some chunks and goes away, or takes them all; the relay closes it either way.
\<close>

record upstream =
  us_content_type :: "string option"
  us_chunks :: "bytes list"
  us_closed :: bool

definition open_stream :: "(string \<Rightarrow> string + upstream) \<Rightarrow> string \<Rightarrow> string + (string \<times> upstream)" where
  "open_stream send stream_url =
     (case send stream_url of
        Inl msg \<Rightarrow> Inl msg
      | Inr response \<Rightarrow>
          Inr (case us_content_type response of None \<Rightarrow> ''multipart/x-mixed-replace'' | Some t \<Rightarrow> t, response))"

definition relay_body :: "nat \<Rightarrow> upstream \<Rightarrow> bytes list \<times> upstream" where
  "relay_body taken response = (take taken (us_chunks response), response\<lparr>us_closed := True\<rparr>)"

definition preview_stream ::
  "(string \<Rightarrow> string + upstream) \<Rightarrow> string \<Rightarrow> (string \<times> upstream) res" where
  "preview_stream send stream_url =
     (case open_stream send stream_url of
        Inl msg \<Rightarrow> Inl (HTTPException 502 (''go2rtc unreachable: '' @ msg))
      | Inr streaming \<Rightarrow> Inr streaming)"

subsection \<open>Quantiles of sorted data\<close>

text \<open>The cut at \<open>x\<close> hundredths of a step from the first value.\<close>

definition cut :: "rat list \<Rightarrow> nat \<Rightarrow> rat" where
  "cut data x =
     (data ! (x div 100) * of_nat (100 - x mod 100) + data ! (x div 100 + 1) * of_nat (x mod 100)) / 100"

lemma quantile_cut: "quantile data i = cut data (i * (length data - 1))"
  by (simp add: quantile_def cut_def Let_def)

lemma cut_eq: "cut data x = data ! (x div 100) + (data ! (x div 100 + 1) - data ! (x div 100)) * of_nat (x mod 100) / 100"
proof -
  have "of_nat (100 - x mod 100) = (100 :: rat) - of_nat (x mod 100)" by (simp add: of_nat_diff)
  then show ?thesis by (simp add: cut_def field_simps)
qed

lemma cut_between:
  assumes "sorted data" and "x div 100 + 1 < length data"
  shows "data ! (x div 100) \<le> cut data x" and "cut data x \<le> data ! (x div 100 + 1)"
proof -
  let ?a = "data ! (x div 100)" and ?b = "data ! (x div 100 + 1)"
  have ab: "0 \<le> ?b - ?a" using assms by (simp add: sorted_nth_mono)
  then show "?a \<le> cut data x" by (simp add: cut_eq)
  have "of_nat (x mod 100) \<le> (100 :: rat)"
    using of_nat_mono [of "x mod 100" 100, where 'a = rat] by simp
  then have "(?b - ?a) * of_nat (x mod 100) \<le> (?b - ?a) * 100" using ab by (rule mult_left_mono)
  then show "cut data x \<le> ?b" by (simp add: cut_eq)
qed

lemma cut_mono:
  assumes data: "sorted data" and "x \<le> y" and y: "y div 100 + 1 < length data"
  shows "cut data x \<le> cut data y"
proof (cases "x div 100 = y div 100")
  case True
  then have "x mod 100 \<le> y mod 100"
    using \<open>x \<le> y\<close> by (metis add_le_cancel_left mult_div_mod_eq)
  then have le: "of_nat (x mod 100) \<le> (of_nat (y mod 100) :: rat)" by (rule of_nat_mono)
  have "0 \<le> data ! (y div 100 + 1) - data ! (y div 100)" using data y by (simp add: sorted_nth_mono)
  from mult_left_mono [OF le this] show ?thesis using True by (simp add: cut_eq)
next
  case False
  then have lt: "x div 100 + 1 \<le> y div 100" using div_le_mono [OF \<open>x \<le> y\<close>, of 100] by simp
  then have "cut data x \<le> data ! (x div 100 + 1)" using data y by (intro cut_between) simp_all
  also have "\<dots> \<le> data ! (y div 100)" using data lt y by (intro sorted_nth_mono) simp_all
  also have "\<dots> \<le> cut data y" using data y by (rule cut_between)
  finally show ?thesis .
qed

lemma quantile_index:
  assumes "2 \<le> length data" and "i < 100"
  shows "i * (length data - 1) div 100 + 1 < length data"
proof -
  have "i * (length data - 1) < 100 * (length data - 1)" using assms by simp
  then have "i * (length data - 1) div 100 < length data - 1"
    by (simp add: less_mult_imp_div_less mult.commute)
  then show ?thesis by simp
qed

lemma quantile_mono:
  "sorted data \<Longrightarrow> 2 \<le> length data \<Longrightarrow> i \<le> k \<Longrightarrow> k < 100 \<Longrightarrow> quantile data i \<le> quantile data k"
  unfolding quantile_cut by (rule cut_mono [OF _ _ quantile_index]) simp_all

lemma quantile_range:
  assumes "sorted data" and "2 \<le> length data" and "i < 100"
  shows "hd data \<le> quantile data i" and "quantile data i \<le> last data"
proof -
  let ?x = "i * (length data - 1)"
  have ix: "?x div 100 + 1 < length data" using assms by (intro quantile_index)
  have ne: "data \<noteq> []" using assms by auto
  have "hd data \<le> data ! (?x div 100)"
    using assms(1) ix ne by (simp add: hd_conv_nth sorted_nth_mono)
  also have "\<dots> \<le> quantile data i"
    unfolding quantile_cut by (rule cut_between(1) [OF assms(1) ix])
  finally show "hd data \<le> quantile data i" .
  have "quantile data i \<le> data ! (?x div 100 + 1)"
    unfolding quantile_cut by (rule cut_between(2) [OF assms(1) ix])
  also have "\<dots> \<le> last data"
    using assms(1) ix ne by (simp add: last_conv_nth sorted_nth_mono)
  finally show "quantile data i \<le> last data" .
qed

lemma percentile_quantile:
  assumes "2 \<le> length data" and "\<lfloor>p * 100\<rfloor> = int i" and "1 \<le> i" and "i < 100"
  shows "percentile data p = Inr (quantile data i)"
  using assms by (simp add: percentile_def py_index_def nat_diff_distrib del: upt_Suc)

lemma summarise_spec:
  assumes "sorted ds" and "ds \<noteq> []"
  obtains t where "summarise ds = Inr t" "tm_count t = length ds" "tm_max t = last ds"
    "hd ds \<le> tm_p50 t" "tm_p50 t \<le> tm_p95 t" "tm_p95 t \<le> tm_p99 t" "tm_p99 t \<le> tm_max t"
proof (cases "length ds = 1")
  case True
  then obtain x where x: "ds = [x]" by (auto simp: length_Suc_conv)
  show thesis
    by (rule that [of "\<lparr>tm_count = 1, tm_p50 = x, tm_p95 = x, tm_p99 = x, tm_max = x\<rparr>"])
      (simp_all add: summarise_def percentile_def x)
next
  case False
  with assms(2) have len: "2 \<le> length ds" by (cases ds) (auto simp: Suc_le_eq)
  have p: "percentile ds (1 / 2) = Inr (quantile ds 50)" "percentile ds (19 / 20) = Inr (quantile ds 95)"
    "percentile ds (99 / 100) = Inr (quantile ds 99)"
    using len by (simp_all add: percentile_quantile)
  let ?t = "\<lparr>tm_count = length ds, tm_p50 = quantile ds 50, tm_p95 = quantile ds 95,
             tm_p99 = quantile ds 99, tm_max = last ds\<rparr>"
  have "summarise ds = Inr ?t" by (simp add: summarise_def p)
  then show thesis
    by (rule that) (simp_all add: quantile_mono [OF assms(1) len] quantile_range [OF assms(1) len])
qed

lemma timings_of_spec:
  "\<exists>ts. timings_of limit d names = Inr ts \<and>
     map fst ts = filter (\<lambda>name. durations_ms limit name d \<noteq> []) names \<and>
     list_all (\<lambda>(name, t). let ds = durations_ms limit name d in
        ds \<noteq> [] \<and> tm_count t = length ds \<and> Min (set ds) \<le> tm_p50 t \<and> tm_p50 t \<le> tm_p95 t \<and>
        tm_p95 t \<le> tm_p99 t \<and> tm_p99 t \<le> tm_max t \<and> tm_max t = Max (set ds)) ts"
proof (induction names)
  case Nil
  then show ?case by simp
next
  case (Cons name names)
  show ?case
  proof (cases "durations_ms limit name d")
    case Nil
    with Cons show ?thesis by simp
  next
    case (Cons x xs)
    let ?ds = "durations_ms limit name d"
    have ne: "sort ?ds \<noteq> []" using Cons by (metis length_sort length_0_conv list.distinct(1))
    obtain t where t: "summarise (sort ?ds) = Inr t" "tm_count t = length (sort ?ds)"
      "tm_max t = last (sort ?ds)" "hd (sort ?ds) \<le> tm_p50 t" "tm_p50 t \<le> tm_p95 t"
      "tm_p95 t \<le> tm_p99 t" "tm_p99 t \<le> tm_max t"
      by (rule summarise_spec [OF sorted_sort ne])
    have mn: "Min (set ?ds) \<le> hd (sort ?ds)"
      using ne by (intro Min_le) (metis List.finite_set, metis hd_in_set set_sort)
    have mx: "last (sort ?ds) = Max (set ?ds)"
    proof (rule Max_eqI [symmetric])
      fix y assume "y \<in> set ?ds"
      then have "y \<in> set (sort ?ds)" by simp
      then show "y \<le> last (sort ?ds)"
        using sorted_sort [of ?ds] by (metis ne append_butlast_last_id sorted_append
            Un_iff set_append list.set_intros(1) empty_iff insert_iff list.set order_refl)
    qed (use ne last_in_set [OF ne] in simp_all)
    have step: "timings_of limit d (name # names) =
        bind_res (timings_of limit d names) (\<lambda>rest. Inr ((name, t) # rest))"
      using Cons t(1) by simp
    from Cons.IH obtain ts where ts: "timings_of limit d names = Inr ts"
      "map fst ts = filter (\<lambda>name. durations_ms limit name d \<noteq> []) names"
      "list_all (\<lambda>(name, t). let ds = durations_ms limit name d in
        ds \<noteq> [] \<and> tm_count t = length ds \<and> Min (set ds) \<le> tm_p50 t \<and> tm_p50 t \<le> tm_p95 t \<and>
        tm_p95 t \<le> tm_p99 t \<and> tm_p99 t \<le> tm_max t \<and> tm_max t = Max (set ds)) ts" by blast
    show ?thesis
      unfolding step using ts t mn mx Cons
      by (intro exI [of _ "(name, t) # ts"]) (simp add: Let_def)
  qed
qed

subsection \<open>Properties\<close>

text \<open>
  C38: the latency report always comes out, has one entry for every span name with a finished span
  (none is lost unless the limit is 0), and its figures are ordered and honest: no percentile is
  below the shortest or above the longest duration it summarises, the 50th, 95th and 99th follow
  each other, the maximum is the longest, and the count is the number of durations read.
\<close>

theorem timings_are_bounds:
  "\<exists>ts. get_timings limit d = Inr ts \<and> distinct (map fst ts) \<and>
     {name. \<exists>t. (name, t) \<in> set ts} =
       (if limit = 0 then {} else {sp_name r | r. r \<in> set (spans d) \<and> sp_t_end r \<noteq> None}) \<and>
     list_all (\<lambda>(name, t). let ds = durations_ms limit name d in
        ds \<noteq> [] \<and> tm_count t = length ds \<and> Min (set ds) \<le> tm_p50 t \<and> tm_p50 t \<le> tm_p95 t \<and>
        tm_p95 t \<le> tm_p99 t \<and> tm_p99 t \<le> tm_max t \<and> tm_max t = Max (set ds)) ts"
proof -
  obtain ts where ts: "get_timings limit d = Inr ts"
    "map fst ts = filter (\<lambda>name. durations_ms limit name d \<noteq> []) (rev (remdups (rev (map sp_name (spans d)))))"
    "list_all (\<lambda>(name, t). let ds = durations_ms limit name d in
        ds \<noteq> [] \<and> tm_count t = length ds \<and> Min (set ds) \<le> tm_p50 t \<and> tm_p50 t \<le> tm_p95 t \<and>
        tm_p95 t \<le> tm_p99 t \<and> tm_p99 t \<le> tm_max t \<and> tm_max t = Max (set ds)) ts"
    using timings_of_spec [of limit d "rev (remdups (rev (map sp_name (spans d))))"]
    by (elim exE conjE) (rule that, simp_all only: get_timings_def)
  have nonempty: "durations_ms limit name d \<noteq> [] \<longleftrightarrow>
      limit \<noteq> 0 \<and> (\<exists>r \<in> set (spans d). sp_name r = name \<and> sp_t_end r \<noteq> None)" for name
    by (auto simp: durations_ms_def sql_limit_def filter_empty_conv)
  have "{name. \<exists>t. (name, t) \<in> set ts} = set (map fst ts)" by force
  also have "\<dots> = (if limit = 0 then {} else {sp_name r | r. r \<in> set (spans d) \<and> sp_t_end r \<noteq> None})"
    unfolding ts(2) by (auto simp: nonempty) metis
  finally have names: "{name. \<exists>t. (name, t) \<in> set ts} =
      (if limit = 0 then {} else {sp_name r | r. r \<in> set (spans d) \<and> sp_t_end r \<noteq> None})" .
  have "distinct (map fst ts)" unfolding ts(2) by simp
  with ts(1,3) names show ?thesis by (intro exI [of _ ts] conjI)
qed

text \<open>A check's answer: one of some states, with a detail.\<close>

definition has_status :: "string set \<Rightarrow> payload \<Rightarrow> bool" where
  "has_status states p \<longleftrightarrow>
     (\<exists>st \<in> states. map_of p ''status'' = Some (JStr st)) \<and> (\<exists>detail. map_of p ''detail'' = Some (JStr detail))"

lemma has_status_row [simp]: "has_status A (status_row st detail @ extra) \<longleftrightarrow> st \<in> A"
  "has_status A (status_row st detail) \<longleftrightarrow> st \<in> A"
  by (auto simp: has_status_def status_row_def)

lemma has_status_health_row [simp]: "has_status A (health_row name p) \<longleftrightarrow> has_status A p"
  by (simp add: has_status_def health_row_def)

lemma health_row_name [simp]: "map_of (health_row name p) ''name'' = Some (JStr name)"
  by (simp add: health_row_def)

lemma has_status_mono: "has_status A p \<Longrightarrow> A \<subseteq> B \<Longrightarrow> has_status B p"
  by (auto simp: has_status_def)

lemma printer_contract_status:
  "printer_status_contract st \<Longrightarrow> has_status {''green'', ''red'', ''gray''} (st w)"
  using printer_status_contract.has_colour printer_status_contract.has_detail
  unfolding has_status_def by metis

lemma probe_status:
  "check_camera m w = (Inr p, w') \<Longrightarrow> has_status {''green'', ''red''} p"
  "has_status {''green'', ''red''} (camera_ready st)"
  "has_status {''green'', ''red''} (preview_check P)"
  "has_status {''green'', ''red'', ''gray''} (disk_check F P)"
  "has_status {''green'', ''red''} (network_check P)"
  by (auto simp: check_camera_def try_except_def bindE_def camera_ready_def preview_check_def
      check_preview_def disk_check_def check_disk_def network_check_def check_network_def Let_def
      split: prod.splits sum.splits option.splits if_splits)

definition HEALTH_STATES :: "string set" where
  "HEALTH_STATES = {''green'', ''red'', ''gray'', ''not_available'', ''not_configured''}"

definition HEALTH_NAMES :: "string list" where
  "HEALTH_NAMES =
     [''camera_connected'', ''camera_idle'', ''preview_stream'', ''disk_free'', ''network'',
      ''camera_settings_profile'', ''test_shot_within_budget'', ''flash_fires'',
      ''printer_online_with_media'', ''time_synced'']"

lemma printer_check_ok:
  assumes "pr_printer P = None \<or> (\<exists>st. pr_printer P = Some (get_state st) \<and> printer_status_contract st)"
  shows "\<exists>pr w'. printer_check P w = (Inr pr, w') \<and>
    has_status {''green'', ''red'', ''gray'', ''not_configured''} pr"
proof (cases "pr_printer P")
  case None
  then show ?thesis
    by (intro exI [of _ NOT_CONFIGURED_PRINTER] exI [of _ w])
      (simp add: printer_check_def NOT_CONFIGURED_PRINTER_def)
next
  case (Some m)
  with assms obtain f where "m = get_state f" "printer_status_contract f" by auto
  with Some show ?thesis
    by (intro exI [of _ "f w"] exI [of _ w])
      (auto simp: printer_check_def intro: has_status_mono [OF printer_contract_status])
qed

lemma get_health_answers:
  assumes "raises_only is_CameraError (pr_get_status P)"
    and "pr_printer P = None \<or> (\<exists>st. pr_printer P = Some (get_state st) \<and> printer_status_contract st)"
  obtains cam pr w' where "has_status {''green'', ''red''} cam"
    and "has_status {''green'', ''red'', ''gray'', ''not_configured''} pr"
    and "get_health F P st w = (Inr
      [health_row ''camera_connected'' cam, health_row ''camera_idle'' (camera_ready st),
       health_row ''preview_stream'' (preview_check P), health_row ''disk_free'' (disk_check F P),
       health_row ''network'' (network_check P),
       health_row ''camera_settings_profile''
         (status_row ''not_available'' ''no expected-profile check exists yet''),
       health_row ''test_shot_within_budget'' (status_row ''not_available'' TEST_SHOT_DETAIL),
       health_row ''flash_fires'' (status_row ''not_available'' ''unmeasurable via software''),
       health_row ''printer_online_with_media'' pr,
       health_row ''time_synced''
         (status_row ''not_available'' (''skipped for v1 '' @ em_dash @ '' no NTP-offset check implemented''))], w')"
proof -
  obtain rc w1 where c: "check_camera (pr_get_status P) w = (rc, w1)" by fastforce
  obtain cam where cam: "rc = Inr cam"
    using c assms(1)
    by (auto simp: check_camera_def try_except_def bindE_def raises_only_def
        split: prod.splits sum.splits if_splits)
  from printer_check_ok [OF assms(2)] obtain pr w2 where p: "printer_check P w1 = (Inr pr, w2)"
    and pst: "has_status {''green'', ''red'', ''gray'', ''not_configured''} pr" by blast
  show thesis
    by (rule that [OF probe_status(1) [OF c [unfolded cam]] pst]) (use c cam p in \<open>simp add: get_health_def\<close>)
qed


definition demo_probes :: "null_printer probes" where
  "demo_probes =
     \<lparr>pr_get_status = raise (CameraDisconnectedError ''gone''), pr_http = (\<lambda>_. Inr 503),
      pr_stream_url = ''http://127.0.0.1:1984'', pr_disk_usage = (\<lambda>_. Inr 1073741823),
      pr_disk_path = to_path ''out'', pr_connect = (\<lambda>_ _. None),
      pr_printer = Some (get_state null_status)\<rparr>"


end
