(* ===== verification/Soak.thy ===== *)
theory Soak
  imports Kiosk Diagnostics Session_Capture
begin

text \<open>
  \<open>src/tools/soak.py\<close>: the soak harness, which plays guests against a running booth over HTTP
  and counts what they met; and, from \<open>Kiosk\<close> and \<open>Diagnostics\<close>, the booth it plays against.

  The HTTP client, the clocks, the random generator and the sleep act on one world and are
  parameters (\<open>soak_env\<close>).  Control-C may arrive in any request and any sleep
  (\<open>StopRequested\<close>).  What is printed is left out.
\<close>

subsection \<open>The environment of the harness\<close>

text \<open>
  The exceptions the harness tells apart: its own \<open>_StopRequested\<close>, an \<open>httpx.HTTPError\<close> with its
  text, and every other one.
\<close>

datatype soak_exn = StopRequested | HttpxError string | SoakRaised exn

text \<open>\<open>rs_json\<close> is what \<open>resp.json()\<close> returns, \<open>None\<close> where it raises \<open>ValueError\<close>.\<close>

record response =
  rs_status :: int
  rs_json :: "json option"
  rs_text :: string

record 'w soak_env =
  se_post :: "string \<Rightarrow> (soak_exn, 'w, response) op"
  se_get :: "string \<Rightarrow> (soak_exn, 'w, response) op"
  se_status_error :: "response \<Rightarrow> string"
  se_str :: "json \<Rightarrow> string"
  se_time :: "'w \<Rightarrow> rat"
  se_monotonic :: "'w \<Rightarrow> rat"
  se_uniform :: "rat \<Rightarrow> rat \<Rightarrow> (soak_exn, 'w, rat) op"
  se_sleep :: "rat \<Rightarrow> (soak_exn, 'w, unit) op"

text \<open>\<open>Response.raise_for_status\<close>: an \<open>HTTPStatusError\<close> unless the status is a success.\<close>

definition raise_for_status :: "'w soak_env \<Rightarrow> response \<Rightarrow> (soak_exn, 'w, unit) op" where
  "raise_for_status E resp =
     (if 200 \<le> rs_status resp \<and> rs_status resp < 300 then ret ()
      else raise (HttpxError (se_status_error E resp)))"

text \<open>\<open>try: m except httpx.HTTPError as exc: h exc\<close>.\<close>

definition except_http ::
  "(soak_exn, 's, 'a) op \<Rightarrow> (string \<Rightarrow> (soak_exn, 's, 'a) op) \<Rightarrow> (soak_exn, 's, 'a) op" where
  "except_http m h =
     try_except m (\<lambda>e. case e of HttpxError msg \<Rightarrow> h msg | _ \<Rightarrow> raise e)"

definition response_json :: "response \<Rightarrow> (soak_exn, 'w, json) op" where
  "response_json resp =
     (case rs_json resp of
        None \<Rightarrow> raise (SoakRaised (ValueError ''invalid JSON''))
      | Some j \<Rightarrow> ret j)"

definition json_dict :: "json \<Rightarrow> payload" where
  "json_dict j = (case j of JObj d \<Rightarrow> d | _ \<Rightarrow> [])"

definition safe_json :: "response \<Rightarrow> payload" where
  "safe_json resp = (case rs_json resp of None \<Rightarrow> [] | Some j \<Rightarrow> json_dict j)"

definition think :: "'w soak_env \<Rightarrow> rat \<Rightarrow> rat \<Rightarrow> (soak_exn, 'w, unit) op" where
  "think E min_s max_s = bindE (se_uniform E min_s max_s) (se_sleep E)"

definition since :: "'w soak_env \<Rightarrow> rat \<Rightarrow> (soak_exn, 'w, rat) op" where
  "since E t0 = get_state (\<lambda>w. se_monotonic E w - t0)"

subsection \<open>One guest\<close>

record iteration_result =
  ir_ok :: bool
  ir_reason :: "string option"
  ir_duration_s :: rat

text \<open>
  One answer of \<open>/debug/health\<close>: whether a line named \<open>camera_idle\<close> reports idle.  Iterating a
  number, or asking a line that is no object for its name, raises.
\<close>

fun idle_reported :: "(json \<Rightarrow> string) \<Rightarrow> json list \<Rightarrow> bool res" where
  "idle_reported str_of [] = Inr False"
| "idle_reported str_of (JObj check # checks) =
     (if map_of check ''name'' = Some (JStr ''camera_idle'') \<and>
         str_contains ''idle'' (case map_of check ''detail'' of None \<Rightarrow> '''' | Some v \<Rightarrow> json_str str_of v)
      then Inr True else idle_reported str_of checks)"
| "idle_reported str_of (_ # checks) = Inl (AttributeError ''object has no attribute get'')"

definition json_items :: "json \<Rightarrow> json list res" where
  "json_items j =
     (case j of
        JArr xs \<Rightarrow> Inr xs
      | JObj d \<Rightarrow> Inr (map (JStr \<circ> fst) d)
      | JStr s \<Rightarrow> Inr (map (\<lambda>c. JStr [c]) s)
      | _ \<Rightarrow> Inl (TypeError ''object is not iterable''))"

definition soak_res :: "'a res \<Rightarrow> (soak_exn, 'w, 'a) op" where
  "soak_res r = (case r of Inl e \<Rightarrow> raise (SoakRaised e) | Inr x \<Rightarrow> ret x)"

definition ask_health :: "'w soak_env \<Rightarrow> (soak_exn, 'w, json option) op" where
  "ask_health E =
     except_http
       (bindE (se_get E ''/debug/health'') (\<lambda>resp.
        andthen (raise_for_status E resp) (bindE (response_json resp) (\<lambda>checks. ret (Some checks)))))
       (\<lambda>_. ret None)"

text \<open>The polling loop, on fuel.\<close>

fun recovery_loop :: "'w soak_env \<Rightarrow> rat \<Rightarrow> nat \<Rightarrow> (soak_exn, 'w, bool) op" where
  "recovery_loop E deadline 0 = raise (SoakRaised Diverges)"
| "recovery_loop E deadline (Suc fuel) =
     bindE (get_state (se_monotonic E)) (\<lambda>now.
       if \<not> now < deadline then ret False
       else bindE (ask_health E) (\<lambda>answer.
         case answer of
           None \<Rightarrow> andthen (se_sleep E (1 / 5)) (recovery_loop E deadline fuel)
         | Some checks \<Rightarrow>
             bindE (soak_res (bind_res (json_items checks) (idle_reported (se_str E)))) (\<lambda>idle.
               if idle then ret True
               else andthen (se_sleep E (1 / 5)) (recovery_loop E deadline fuel))))"

definition verify_recovered_to_idle :: "'w soak_env \<Rightarrow> nat \<Rightarrow> rat \<Rightarrow> (soak_exn, 'w, bool) op" where
  "verify_recovered_to_idle E fuel timeout_s =
     bindE (get_state (se_monotonic E)) (\<lambda>now. recovery_loop E (now + timeout_s) fuel)"

definition failed_result :: "'w soak_env \<Rightarrow> rat \<Rightarrow> string \<Rightarrow> (soak_exn, 'w, iteration_result) op" where
  "failed_result E t0 reason =
     bindE (since E t0) (\<lambda>d. ret \<lparr>ir_ok = False, ir_reason = Some reason, ir_duration_s = d\<rparr>)"

text \<open>\<open>_safe_json(resp).get("detail", missing)\<close>, formatted.\<close>

definition response_detail :: "'w soak_env \<Rightarrow> response \<Rightarrow> string \<Rightarrow> string" where
  "response_detail E resp missing =
     (case map_of (safe_json resp) ''detail'' of
        None \<Rightarrow> missing | Some v \<Rightarrow> json_str (se_str E) v)"

text \<open>
  A request whose failure ends the flow; \<open>Inl\<close> is the result the flow returns.
\<close>

definition guest_step ::
  "'w soak_env \<Rightarrow> rat \<Rightarrow> string \<Rightarrow> (soak_exn, 'w, 'a) op \<Rightarrow> (soak_exn, 'w, iteration_result + 'a) op" where
  "guest_step E t0 label m =
     except_http (bindE m (\<lambda>x. ret (Inr x)))
       (\<lambda>exc. bindE (failed_result E t0 (label @ '': '' @ exc)) (\<lambda>r. ret (Inl r)))"

definition after_step ::
  "iteration_result + 'a \<Rightarrow> ('a \<Rightarrow> (soak_exn, 'w, iteration_result) op) \<Rightarrow>
     (soak_exn, 'w, iteration_result) op" where
  "after_step r k = (case r of Inl result \<Rightarrow> ret result | Inr x \<Rightarrow> k x)"

definition capture_failed_result ::
  "'w soak_env \<Rightarrow> nat \<Rightarrow> rat \<Rightarrow> response \<Rightarrow> (soak_exn, 'w, iteration_result) op" where
  "capture_failed_result E fuel t0 resp =
     bindE (verify_recovered_to_idle E fuel 5) (\<lambda>recovered.
       failed_result E t0 (''capture_failed: '' @ response_detail E resp ''capture failed'' @
         (if recovered then '''' else '' [DID NOT RECOVER TO IDLE]'')))"

definition posted :: "'w soak_env \<Rightarrow> string \<Rightarrow> (soak_exn, 'w, unit) op" where
  "posted E url = bindE (se_post E url) (raise_for_status E)"

definition run_one_guest_flow :: "'w soak_env \<Rightarrow> nat \<Rightarrow> (soak_exn, 'w, iteration_result) op" where
  "run_one_guest_flow E fuel =
     bindE (get_state (se_monotonic E)) (\<lambda>t0.
     bindE (guest_step E t0 ''arm_failed'' (posted E ''/session/arm'')) (\<lambda>armed. after_step armed (\<lambda>_.
     andthen (think E 1 8)
    (bindE (guest_step E t0 ''capture_request_failed'' (se_post E ''/session/capture'')) (\<lambda>answered.
     after_step answered (\<lambda>resp.
       if rs_status resp = 502 then capture_failed_result E fuel t0 resp
       else if rs_status resp \<noteq> 200
       then failed_result E t0 (''capture_unexpected_status_'' @ str_int (rs_status resp) @ '': '' @
              response_detail E resp (take 200 (rs_text resp)))
       else
         andthen (think E 1 8)
        (bindE (guest_step E t0 ''dismiss_failed'' (posted E ''/session/dismiss'')) (\<lambda>gone.
         after_step gone (\<lambda>_.
           bindE (since E t0) (\<lambda>d.
             ret \<lparr>ir_ok = True, ir_reason = None, ir_duration_s = d\<rparr>))))))))))"

subsection \<open>The statistics of a run\<close>

record soak_stats =
  ks_started_at :: rat
  ks_iterations :: nat
  ks_successes :: nat
  ks_failures :: nat
  ks_failure_reasons :: "(string \<times> nat) list"
  ks_durations_s :: "rat list"

definition new_stats :: "rat \<Rightarrow> soak_stats" where
  "new_stats now = \<lparr>ks_started_at = now, ks_iterations = 0, ks_successes = 0, ks_failures = 0,
     ks_failure_reasons = [], ks_durations_s = []\<rparr>"

text \<open>\<open>d[key] = d.get(key, 0) + 1\<close> in a dictionary that keeps its insertion order.\<close>

fun count_reason :: "string \<Rightarrow> (string \<times> nat) list \<Rightarrow> (string \<times> nat) list" where
  "count_reason reason [] = [(reason, 1)]"
| "count_reason reason ((r, n) # rest) =
     (if r = reason then (r, n + 1) # rest else (r, n) # count_reason reason rest)"

text \<open>\<open>result.reason or "unknown"\<close>: an empty reason counts as none.\<close>

definition reason_or_unknown :: "string option \<Rightarrow> string" where
  "reason_or_unknown reason =
     (case reason of None \<Rightarrow> ''unknown'' | Some r \<Rightarrow> if r = '''' then ''unknown'' else r)"

definition record_result :: "iteration_result \<Rightarrow> soak_stats \<Rightarrow> soak_stats" where
  "record_result result st =
     (let st = st\<lparr>ks_iterations := ks_iterations st + 1,
                  ks_durations_s := ks_durations_s st @ [ir_duration_s result]\<rparr> in
      if ir_ok result then st\<lparr>ks_successes := ks_successes st + 1\<rparr>
      else st\<lparr>ks_failures := ks_failures st + 1,
              ks_failure_reasons :=
                count_reason (reason_or_unknown (ir_reason result)) (ks_failure_reasons st)\<rparr>)"

text \<open>\<open>statistics.fmean\<close> and \<open>statistics.median\<close> of a sorted list that is not empty.\<close>

definition fmean :: "rat list \<Rightarrow> rat" where
  "fmean xs = sum_list xs / of_nat (length xs)"

definition median :: "rat list \<Rightarrow> rat" where
  "median xs =
     (let n = length xs; i = n div 2 in
      if odd n then xs ! i else (xs ! (i - 1) + xs ! i) / 2)"

definition timing_stats :: "soak_stats \<Rightarrow> payload" where
  "timing_stats st =
     (if ks_durations_s st = [] then []
      else let sorted_durations = sort (ks_durations_s st) in
        [(''min_s'', JNum (hd sorted_durations)), (''max_s'', JNum (last sorted_durations)),
         (''mean_s'', JNum (fmean sorted_durations)), (''median_s'', JNum (median sorted_durations))])"

definition jnat :: "nat \<Rightarrow> json" where
  "jnat n = JNum (of_nat n)"

definition soak_summary :: "rat \<Rightarrow> soak_stats \<Rightarrow> payload" where
  "soak_summary now st =
     [(''elapsed_s'', JNum (now - ks_started_at st)),
      (''iterations'', jnat (ks_iterations st)),
      (''successes'', jnat (ks_successes st)),
      (''failures'', jnat (ks_failures st)),
      (''failure_rate'', JNum (if ks_iterations st = 0 then 0
                                else of_nat (ks_failures st) / of_nat (ks_iterations st))),
      (''failure_reasons'', JObj (map (\<lambda>(r, n). (r, jnat n)) (ks_failure_reasons st))),
      (''iteration_timing'', JObj (timing_stats st))]"

subsection \<open>The run\<close>

record soak_args =
  ka_base_url :: string
  ka_hours :: "rat option"
  ka_minutes :: "rat option"
  ka_shots :: "int option"
  ka_min_think_s :: rat
  ka_max_think_s :: rat
  ka_report_every :: int
  ka_out_dir :: path

definition should_stop :: "rat \<Rightarrow> soak_stats \<Rightarrow> rat option \<Rightarrow> int option \<Rightarrow> bool" where
  "should_stop now st deadline max_shots \<longleftrightarrow>
     (case deadline of None \<Rightarrow> False | Some d \<Rightarrow> d \<le> now) \<or>
     (case max_shots of None \<Rightarrow> False | Some n \<Rightarrow> n \<le> int (ks_iterations st))"

definition soak_deadline :: "rat \<Rightarrow> soak_args \<Rightarrow> rat option" where
  "soak_deadline now args =
     (case ka_hours args of
        Some h \<Rightarrow> Some (now + h * 3600)
      | None \<Rightarrow> map_option (\<lambda>m. now + m * 60) (ka_minutes args))"

text \<open>The run acts on the world and on its statistics, which survive an interruption.\<close>

record 'w soak_run =
  kr_world :: 'w
  kr_stats :: soak_stats

definition on_world :: "(soak_exn, 'w, 'a) op \<Rightarrow> (soak_exn, 'w soak_run, 'a) op" where
  "on_world m = (\<lambda>s. case m (kr_world s) of (r, w) \<Rightarrow> (r, s\<lparr>kr_world := w\<rparr>))"

text \<open>\<open>stats.iterations % args.report_every == 0\<close>, for the report that is printed.\<close>

definition report_due :: "soak_args \<Rightarrow> (soak_exn, 'w soak_run, unit) op" where
  "report_due args =
     (if ka_report_every args = 0
      then raise (SoakRaised (ZeroDivisionError ''integer modulo by zero'')) else ret ())"

fun soak_loop ::
  "'w soak_env \<Rightarrow> nat \<Rightarrow> soak_args \<Rightarrow> rat option \<Rightarrow> nat \<Rightarrow> (soak_exn, 'w soak_run, unit) op" where
  "soak_loop E poll args deadline 0 = raise (SoakRaised Diverges)"
| "soak_loop E poll args deadline (Suc fuel) =
     bindE (get_state (\<lambda>s. should_stop (se_time E (kr_world s)) (kr_stats s) deadline (ka_shots args)))
       (\<lambda>stop.
         if stop then ret ()
         else bindE (on_world (run_one_guest_flow E poll)) (\<lambda>result.
           andthen (modify (\<lambda>s. s\<lparr>kr_stats := record_result result (kr_stats s)\<rparr>))
          (andthen (report_due args)
          (andthen (on_world (think E (ka_min_think_s args) (ka_max_think_s args)))
             (soak_loop E poll args deadline fuel)))))"

definition fetch_timings :: "'w soak_env \<Rightarrow> (soak_exn, 'w, payload) op" where
  "fetch_timings E =
     except_http
       (bindE (se_get E ''/debug/timings'') (\<lambda>resp.
        andthen (raise_for_status E resp) (bindE (response_json resp) (\<lambda>data. ret (json_dict data)))))
       (\<lambda>_. ret [])"

text \<open>\<open>except _StopRequested\<close> ends the loop and keeps the statistics.\<close>

definition soak_until_stopped ::
  "'w soak_env \<Rightarrow> nat \<Rightarrow> nat \<Rightarrow> soak_args \<Rightarrow> rat option \<Rightarrow> (soak_exn, 'w soak_run, unit) op" where
  "soak_until_stopped E poll fuel args deadline =
     try_except (soak_loop E poll args deadline fuel)
       (\<lambda>e. if e = StopRequested then ret () else raise e)"

text \<open>
  \<open>write_summary dumps\<close>: the report as JSON text in a file named after the second \<open>ts\<close>.
\<close>

definition write_summary ::
  "(json \<Rightarrow> bytes) \<Rightarrow> path \<Rightarrow> string \<Rightarrow> rat \<Rightarrow> soak_stats \<Rightarrow> payload \<Rightarrow> string \<Rightarrow> (exn, fs, path) op" where
  "write_summary dumps out_dir ts now st timings base_url =
     andthen (mkdir_parents out_dir)
       (let path = path_div out_dir (ts @ ''.json'') in
        andthen (write_file path (dumps (JObj
          [(''base_url'', JStr base_url), (''summary'', JObj (soak_summary now st)),
           (''app_timings'', JObj timings)])))
          (ret path))"

definition run_soak ::
  "'w soak_env \<Rightarrow> nat \<Rightarrow> nat \<Rightarrow> (json \<Rightarrow> bytes) \<Rightarrow> string \<Rightarrow> soak_args \<Rightarrow> (soak_exn, 'w \<times> fs, soak_stats) op" where
  "run_soak E poll fuel dumps ts args =
     (\<lambda>(w, f).
        let now = se_time E w;
            run = soak_until_stopped E poll fuel args (soak_deadline now args)
                    \<lparr>kr_world = w, kr_stats = new_stats now\<rparr> in
        case run of
          (Inl e, s) \<Rightarrow> (Inl e, (kr_world s, f))
        | (Inr _, s) \<Rightarrow>
            (case fetch_timings E (kr_world s) of
               (Inl e, w') \<Rightarrow> (Inl e, (w', f))
             | (Inr timings, w') \<Rightarrow>
                 (case write_summary dumps (ka_out_dir args) ts (se_time E w') (kr_stats s) timings
                         (ka_base_url args) f of
                    (Inl e, f') \<Rightarrow> (Inl (SoakRaised e), (w', f'))
                  | (Inr _, f') \<Rightarrow> (Inr (kr_stats s), (w', f')))))"

text \<open>The exit status; 2 is that of \<open>parser.error\<close>.\<close>

definition soak_exit_code :: "soak_stats \<Rightarrow> nat" where
  "soak_exit_code st =
     (if ks_failures st \<noteq> 0 \<and> ks_iterations st \<noteq> 0 \<and> ks_failures st = ks_iterations st then 1 else 0)"

definition soak_main ::
  "'w soak_env \<Rightarrow> nat \<Rightarrow> nat \<Rightarrow> (json \<Rightarrow> bytes) \<Rightarrow> string \<Rightarrow> soak_args \<Rightarrow> (soak_exn, 'w \<times> fs, nat) op" where
  "soak_main E poll fuel dumps ts args =
     (if ka_max_think_s args < ka_min_think_s args then ret 2
      else bindE (run_soak E poll fuel dumps ts args) (\<lambda>st. ret (soak_exit_code st)))"

subsection \<open>The counts of a run\<close>

definition stats_consistent :: "soak_stats \<Rightarrow> bool" where
  "stats_consistent st \<longleftrightarrow>
     ks_iterations st = ks_successes st + ks_failures st \<and>
     length (ks_durations_s st) = ks_iterations st \<and>
     sum_list (map snd (ks_failure_reasons st)) = ks_failures st \<and>
     distinct (map fst (ks_failure_reasons st))"

lemma count_reason_keys: "set (map fst (count_reason r rs)) = insert r (set (map fst rs))"
  by (induction r rs rule: count_reason.induct) auto

lemma count_reason_sum: "sum_list (map snd (count_reason r rs)) = Suc (sum_list (map snd rs))"
  by (induction r rs rule: count_reason.induct) auto

lemma count_reason_distinct: "distinct (map fst rs) \<Longrightarrow> distinct (map fst (count_reason r rs))"
proof (induction r rs rule: count_reason.induct)
  case (2 reason r n rest)
  then show ?case using count_reason_keys [of reason rest] by auto
qed simp

lemma record_result_consistent: "stats_consistent st \<Longrightarrow> stats_consistent (record_result result st)"
  using count_reason_sum count_reason_distinct
  by (simp add: stats_consistent_def record_result_def Let_def)

lemma record_result_iterations [simp]: "ks_iterations (record_result result st) = Suc (ks_iterations st)"
  by (simp add: record_result_def Let_def)

text \<open>The statistics between the iterations.\<close>

definition counted :: "int option \<Rightarrow> 'w soak_run \<Rightarrow> bool" where
  "counted max_shots s \<longleftrightarrow> stats_consistent (kr_stats s) \<and>
     (\<forall>n. max_shots = Some n \<longrightarrow> int (ks_iterations (kr_stats s)) \<le> max 0 n)"

lemma on_world_stats: "on_world m s = (r, s') \<Longrightarrow> kr_stats s' = kr_stats s"
  by (auto simp: on_world_def split: prod.splits)

lemma report_due_state: "report_due args s = (r, s') \<Longrightarrow> s' = s"
  by (auto simp: report_due_def split: if_splits)

lemma soak_loop_counted:
  assumes "counted (ka_shots args) s" and "soak_loop E poll args deadline fuel s = (r, s')"
  shows "counted (ka_shots args) s' \<and>
    (r = Inr () \<longrightarrow> should_stop (se_time E (kr_world s')) (kr_stats s') deadline (ka_shots args))"
  using assms
proof (induction fuel arbitrary: s)
  case (Suc fuel)
  let ?stop = "should_stop (se_time E (kr_world s)) (kr_stats s) deadline (ka_shots args)"
  show ?case
  proof (cases ?stop)
    case True
    with Suc.prems show ?thesis by (auto simp: bindE_def)
  next
    case False
    obtain res s1 where flow: "on_world (run_one_guest_flow E poll) s = (res, s1)" by fastforce
    note st1 = on_world_stats [OF flow]
    show ?thesis
    proof (cases res)
      case (Inl e)
      with False flow Suc.prems st1 show ?thesis by (auto simp: bindE_def counted_def)
    next
      case (Inr result)
      let ?s2 = "s1\<lparr>kr_stats := record_result result (kr_stats s1)\<rparr>"
      have c2: "counted (ka_shots args) ?s2"
        using Suc.prems(1) False st1
        by (auto simp: counted_def should_stop_def record_result_consistent split: option.splits)
      obtain rp s3 where rep: "report_due args ?s2 = (rp, s3)" by fastforce
      note s3 = report_due_state [OF rep]
      obtain rt s4 where th: "on_world (think E (ka_min_think_s args) (ka_max_think_s args)) s3 = (rt, s4)"
        by fastforce
      have c4: "counted (ka_shots args) s4"
        using c2 s3 on_world_stats [OF th] by (simp add: counted_def)
      show ?thesis
        using Suc.prems(2) False flow Inr rep s3 th c2 c4 Suc.IH [OF c4]
        by (cases rp; cases rt) (auto simp: bindE_def andthen_def)
    qed
  qed
qed (auto simp: counted_def)

text \<open>
  what a soak run reports is what happened: whatever the booth answers and however the run ends
  (a limit or control-C), every iteration is counted once as a success or a failure, each failure
  under one reason, no more iterations are run than asked for; the exit status is 1 exactly when
  guests were played and none got through, and the summary file holds these counts.
\<close>

theorem soak_counts_exact:
  assumes "run_soak E poll fuel dumps ts args (w, f) = (Inr st, (w', f'))"
  shows "ks_iterations st = ks_successes st + ks_failures st \<and>
    length (ks_durations_s st) = ks_iterations st \<and>
    sum_list (map snd (ks_failure_reasons st)) = ks_failures st \<and>
    (\<forall>n. ka_shots args = Some n \<longrightarrow> int (ks_iterations st) \<le> max 0 n) \<and>
    (soak_exit_code st = 1 \<longleftrightarrow> 0 < ks_iterations st \<and> ks_successes st = 0) \<and>
    (\<exists>timings. fs_files f' (path_div (ka_out_dir args) (ts @ ''.json'')) = Some (dumps (JObj
       [(''base_url'', JStr (ka_base_url args)), (''summary'', JObj (soak_summary (se_time E w') st)),
        (''app_timings'', JObj timings)])))"
proof -
  let ?s0 = "\<lparr>kr_world = w, kr_stats = new_stats (se_time E w)\<rparr>"
  let ?run = "soak_until_stopped E poll fuel args (soak_deadline (se_time E w) args) ?s0"
  obtain s w1 timings p where run: "?run = (Inr (), s)" and st: "st = kr_stats s"
    and written: "write_summary dumps (ka_out_dir args) ts (se_time E w') st timings (ka_base_url args) f = (Inr p, f')"
    using assms
    by (auto simp: run_soak_def Let_def split: prod.splits sum.splits)
  obtain r where "soak_loop E poll args (soak_deadline (se_time E w) args) fuel ?s0 = (r, s)"
    using run by (auto simp: soak_until_stopped_def try_except_def split: prod.splits sum.splits if_splits)
  moreover have "counted (ka_shots args) ?s0"
    by (simp add: counted_def stats_consistent_def new_stats_def)
  ultimately have c: "counted (ka_shots args) s" using soak_loop_counted by blast
  have "fs_files f' (path_div (ka_out_dir args) (ts @ ''.json'')) = Some (dumps (JObj
       [(''base_url'', JStr (ka_base_url args)), (''summary'', JObj (soak_summary (se_time E w') st)),
        (''app_timings'', JObj timings)]))"
    using written
    by (auto simp: write_summary_def andthen_def bindE_def Let_def write_file_def
        split: prod.splits sum.splits if_splits)
  then show ?thesis using c st by (auto simp: counted_def stats_consistent_def soak_exit_code_def)
qed

subsection \<open>Termination\<close>

definition no_divergence :: "soak_exn \<Rightarrow> bool" where
  "no_divergence e \<longleftrightarrow> e \<noteq> SoakRaised Diverges"

text \<open>
  What the harness relies on: requests and sleeps come back, the monotonic clock never runs
  backwards, and a sleep lasts at least as long as asked.
\<close>

definition clock_ok :: "'w soak_env \<Rightarrow> bool" where
  "clock_ok E \<longleftrightarrow>
     (\<forall>url w. se_monotonic E w \<le> se_monotonic E (snd (se_get E url w))) \<and>
     (\<forall>d w r w'. se_sleep E d w = (r, w') \<longrightarrow>
        se_monotonic E w \<le> se_monotonic E w' \<and> (r = Inr () \<longrightarrow> se_monotonic E w + d \<le> se_monotonic E w')) \<and>
     (\<forall>url. raises_only no_divergence (se_get E url) \<and> raises_only no_divergence (se_post E url)) \<and>
     (\<forall>d. raises_only no_divergence (se_sleep E d)) \<and>
     (\<forall>a b. raises_only no_divergence (se_uniform E a b))"

lemma no_divergence_simps [simp]:
  "no_divergence StopRequested" "no_divergence (HttpxError m)"
  "no_divergence (SoakRaised e) \<longleftrightarrow> e \<noteq> Diverges"
  by (simp_all add: no_divergence_def)

lemma raises_only_except_http [frame_rules]:
  "raises_only E m \<Longrightarrow> (\<And>msg. raises_only E (h msg)) \<Longrightarrow> raises_only E (except_http m h)"
  unfolding except_http_def by (intro raises_only_try) (auto split: soak_exn.splits intro: frame_rules)

lemma raises_only_status [frame_rules]: "raises_only no_divergence (raise_for_status E resp)"
  and raises_only_json [frame_rules]: "raises_only no_divergence (response_json resp)"
  by (auto simp: raise_for_status_def response_json_def intro!: frame_rules split: option.split)

lemma ask_health_returns: "clock_ok E \<Longrightarrow> raises_only no_divergence (ask_health E)"
  unfolding ask_health_def clock_ok_def by (intro frame_rules) auto

lemma json_items_returns: "raises_only no_divergence (soak_res (bind_res (json_items j) (idle_reported t)))"
proof -
  have "idle_reported t cs = Inl e \<Longrightarrow> e \<noteq> Diverges" for cs e
    by (induction t cs rule: idle_reported.induct) (auto split: if_splits)
  then show ?thesis
    by (auto simp: soak_res_def bind_res_def json_items_def raises_only_def split: json.splits sum.splits)
qed

lemma ask_health_clock:
  assumes "clock_ok E" and "ask_health E w = (r, w')" shows "se_monotonic E w \<le> se_monotonic E w'"
proof -
  obtain g w1 where g: "se_get E ''/debug/health'' w = (g, w1)" by fastforce
  then have "se_monotonic E w \<le> se_monotonic E w1" using assms(1) unfolding clock_ok_def by (metis snd_conv)
  moreover have "w' = w1"
    using assms(2) g
    by (auto simp: ask_health_def except_http_def try_except_def bindE_def andthen_def raise_for_status_def
        response_json_def split: sum.splits option.splits if_splits soak_exn.splits)
  ultimately show ?thesis by simp
qed

lemma recovery_step:
  assumes "clock_ok E" and run: "recovery_loop E deadline (Suc n) w = (Inl e, w')"
  shows "no_divergence e \<or> (\<exists>w2. se_monotonic E w + 1 / 5 \<le> se_monotonic E w2 \<and>
      recovery_loop E deadline n w2 = (Inl e, w'))"
proof (rule ccontr)
  assume not: "\<not> ?thesis"
  have now: "se_monotonic E w < deadline" using run by (auto simp: bindE_def split: if_splits)
  obtain a w1 where ask: "ask_health E w = (a, w1)" by fastforce
  note m1 = ask_health_clock [OF assms(1) ask]
  have sleep: False if "andthen (se_sleep E (1 / 5)) (recovery_loop E deadline n) w1 = (Inl e, w')"
  proof -
    obtain r w2 where s: "se_sleep E (1 / 5) w1 = (r, w2)" by fastforce
    with assms(1) have "r = Inr () \<Longrightarrow> se_monotonic E w1 + 1 / 5 \<le> se_monotonic E w2"
      "\<And>e. r = Inl e \<Longrightarrow> no_divergence e"
      unfolding clock_ok_def by (blast, blast dest: raises_onlyD)
    with that s not m1 show False by (cases r) (auto simp: andthen_def bindE_def)
  qed
  show False
  proof (cases a)
    case (Inl e')
    then show ?thesis
      using run now ask not raises_onlyD [OF ask_health_returns [OF assms(1)]] by (auto simp: bindE_def)
  next
    case (Inr answer)
    show ?thesis
    proof (cases answer)
      case None
      then show ?thesis using run now ask Inr sleep by (simp add: bindE_def)
    next
      case (Some checks)
      obtain i w2 where i: "soak_res (bind_res (json_items checks) (idle_reported (se_str E))) w1 = (i, w2)"
        by fastforce
      moreover have "w2 = w1" using i by (auto simp: soak_res_def split: sum.splits)
      ultimately show ?thesis
        using run now ask Inr Some not sleep raises_onlyD [OF json_items_returns, of checks "se_str E" w1]
        by (cases i) (auto simp: bindE_def split: if_splits)
    qed
  qed
qed

lemma recovery_loop_ends:
  assumes "clock_ok E" and "deadline \<le> se_monotonic E w + of_nat fuel / 5"
    and "recovery_loop E deadline (Suc fuel) w = (Inl e, w')"
  shows "no_divergence e"
  using assms(2,3)
proof (induction fuel arbitrary: w)
  case 0
  then show ?case by (auto simp: bindE_def split: if_splits)
next
  case (Suc fuel)
  from recovery_step [OF assms(1) Suc.prems(2)] show ?case
  proof (elim disjE exE conjE)
    fix w2 assume "se_monotonic E w + 1 / 5 \<le> se_monotonic E w2"
      and "recovery_loop E deadline (Suc fuel) w2 = (Inl e, w')"
    then show ?thesis using Suc.prems(1) by (intro Suc.IH) (auto simp: field_simps)
  qed
qed

text \<open>The five seconds of the recovery check take at most 25 sleeps.\<close>

lemma guest_flow_returns: "clock_ok E \<Longrightarrow> raises_only no_divergence (run_one_guest_flow E 26)"
proof -
  assume ok: "clock_ok E"
  have verify: "raises_only no_divergence (verify_recovered_to_idle E 26 5)"
  proof -
    have "no_divergence e" if "recovery_loop E (se_monotonic E s + 5) 26 s = (Inl e, s')" for s e s'
    proof -
      have "recovery_loop E (se_monotonic E s + 5) (Suc 25) s = (Inl e, s')"
        using that by (simp del: recovery_loop.simps)
      then show ?thesis by (rule recovery_loop_ends [OF ok, rotated]) simp
    qed
    then show ?thesis
      by (auto simp: verify_recovered_to_idle_def raises_only_def bindE_def simp del: recovery_loop.simps)
  qed
  have result: "raises_only no_divergence (failed_result E t0 reason)" for t0 reason
    unfolding failed_result_def since_def by (intro frame_rules)
  have think: "raises_only no_divergence (think E a b)" for a b
    using ok unfolding think_def clock_ok_def by (intro frame_rules) auto
  have step: "raises_only no_divergence m \<Longrightarrow> raises_only no_divergence (guest_step E t0 l m)" for t0 l and m :: "(soak_exn, 'a, 'b) op"
    unfolding guest_step_def by (intro frame_rules result)
  have after: "(\<And>x. raises_only no_divergence (k x)) \<Longrightarrow> raises_only no_divergence (after_step r k)" for r and k :: "'b \<Rightarrow> (soak_exn, 'a, iteration_result) op"
    unfolding after_step_def by (cases r) (simp_all add: frame_rules)
  have post: "raises_only no_divergence (se_post E url)" for url using ok by (simp add: clock_ok_def)
  show ?thesis
    unfolding run_one_guest_flow_def posted_def capture_failed_result_def since_def
    by (intro frame_rules step after result think verify post)
qed

lemma guest_flow_no_divergence:
  "clock_ok E \<Longrightarrow> on_world (run_one_guest_flow E 26) s = (Inl e, s') \<Longrightarrow> no_divergence e"
  using raises_onlyD [OF guest_flow_returns] by (force simp: on_world_def split: prod.splits)

lemma think_no_divergence:
  assumes "clock_ok E" and "on_world (think E a b) s = (Inl e, s')" shows "no_divergence e"
proof -
  have "raises_only no_divergence (think E a b)"
    using assms(1) unfolding think_def clock_ok_def by (intro frame_rules) auto
  then show ?thesis using assms(2) by (force simp: on_world_def dest: raises_onlyD split: prod.splits)
qed

lemma soak_loop_returns:
  assumes "clock_ok E" and "ka_shots args = Some n" and "n \<le> int (ks_iterations (kr_stats s)) + int fuel"
    and "soak_loop E 26 args deadline (Suc fuel) s = (Inl e, s')"
  shows "no_divergence e"
  using assms(3,4)
proof (induction fuel arbitrary: s)
  case 0
  then show ?case using assms(2) by (simp add: bindE_def should_stop_def)
next
  case (Suc fuel)
  let ?rest = "soak_loop E 26 args deadline (Suc fuel)"
  have go: "\<not> should_stop (se_time E (kr_world s)) (kr_stats s) deadline (ka_shots args)"
    using Suc.prems(2) by (auto simp: bindE_def split: if_splits)
  obtain res s1 where flow: "on_world (run_one_guest_flow E 26) s = (res, s1)" by fastforce
  show ?case
  proof (cases res)
    case (Inl e1)
    with flow go Suc.prems(2) guest_flow_no_divergence [OF assms(1)] show ?thesis by (auto simp: bindE_def)
  next
    case (Inr result)
    let ?s2 = "s1\<lparr>kr_stats := record_result result (kr_stats s1)\<rparr>"
    obtain rp s3 where rep: "report_due args ?s2 = (rp, s3)" by fastforce
    obtain rt s4 where th: "on_world (think E (ka_min_think_s args) (ka_max_think_s args)) s3 = (rt, s4)"
      by fastforce
    have it: "ks_iterations (kr_stats s4) = Suc (ks_iterations (kr_stats s))"
      using on_world_stats [OF flow] on_world_stats [OF th] report_due_state [OF rep] by simp
    have rest: "andthen (report_due args)
        (andthen (on_world (think E (ka_min_think_s args) (ka_max_think_s args))) ?rest) ?s2 = (Inl e, s')"
      using Suc.prems(2) go flow Inr by (simp add: bindE_def andthen_def)
    consider "rp = Inl e" | "rp = Inr ()" "rt = Inl e" | "rp = Inr ()" "rt = Inr ()" "?rest s4 = (Inl e, s')"
      using rest rep th by (cases rp; cases rt) (auto simp: andthen_def bindE_def)
    then show ?thesis
    proof cases
      case 1
      then show ?thesis using rep by (auto simp: report_due_def split: if_splits)
    next
      case 2
      then show ?thesis using th think_no_divergence [OF assms(1)] by blast
    next
      case 3
      then show ?thesis using Suc.prems(1) it by (intro Suc.IH [of s4]) auto
    qed
  qed
qed

text \<open>
  a soak run limited to \<open>n\<close> iterations ends, whatever the booth answers: with a monotonic clock
  and sleeps that last, 26 polls of the recovery check and \<open>n\<close> turns of the loop suffice; if no
  control-C, deadline or other exception ends it sooner, exactly \<open>n\<close> guests were played.
\<close>

theorem soak_run_ends:
  assumes "clock_ok E" and "ka_shots args = Some (int n)"
    and "soak_loop E 26 args deadline (Suc n) \<lparr>kr_world = w, kr_stats = new_stats t\<rparr> = (r, s')"
  shows "r \<noteq> Inl (SoakRaised Diverges) \<and>
    (r = Inr () \<and> deadline = None \<longrightarrow> ks_iterations (kr_stats s') = n)"
proof (intro conjI impI)
  let ?s = "\<lparr>kr_world = w, kr_stats = new_stats t\<rparr>"
  show "r \<noteq> Inl (SoakRaised Diverges)"
    using soak_loop_returns [OF assms(1,2), of ?s n deadline "SoakRaised Diverges" s'] assms(3)
    by (auto simp: new_stats_def simp del: soak_loop.simps)
  have "counted (ka_shots args) ?s"
    using assms(2) by (simp add: counted_def stats_consistent_def new_stats_def)
  from soak_loop_counted [OF this assms(3)]
  show "ks_iterations (kr_stats s') = n" if "r = Inr () \<and> deadline = None"
    using that assms(2) by (auto simp: counted_def should_stop_def)
qed

subsection \<open>The booth the harness plays against\<close>

text \<open>
  The world of a run against one booth: its session manager, the time, the draws so far.
\<close>

record 'w booth_world =
  bw_booth :: "'w manager"
  bw_clock :: rat
  bw_draws :: nat

text \<open>
  The requests the harness makes, as the routes of \<open>kiosk.py\<close> and \<open>debug.py\<close> answer them.
\<close>

definition booth_request ::
  "('w, 'i) session_config \<Rightarrow> 'w probes \<Rightarrow> string \<Rightarrow> (exn, 'w manager, json) op" where
  "booth_request C P url =
     (if url = ''/session/arm'' then arm_session C None
      else if url = ''/session/capture'' then capture_session C
      else if url = ''/session/dismiss'' then dismiss_session C
      else if url = ''/debug/health''
      then (\<lambda>s. case get_health (sm_fs s) P (m_state (sm_machine s)) (sm_camera s) of
              (r, w) \<Rightarrow> (map_sum id (\<lambda>rows. JArr (map JObj rows)) r, s\<lparr>sm_camera := w\<rparr>))
      else raise (HTTPException 404 ''Not Found''))"

text \<open>
  What the web framework makes of a route's outcome: an \<open>HTTPException\<close> becomes its status with the
  detail, any other exception the status 500; a call that never returns is a client time-out.
\<close>

definition framework_answer :: "json res \<Rightarrow> string + response" where
  "framework_answer r =
     (case r of
        Inr j \<Rightarrow> Inr \<lparr>rs_status = 200, rs_json = Some j, rs_text = ''''\<rparr>
      | Inl (HTTPException code detail) \<Rightarrow>
          Inr \<lparr>rs_status = code, rs_json = Some (JObj [(''detail'', JStr detail)]), rs_text = ''''\<rparr>
      | Inl Diverges \<Rightarrow> Inl ''timed out''
      | Inl _ \<Rightarrow> Inr \<lparr>rs_status = 500, rs_json = None, rs_text = ''Internal Server Error''\<rparr>)"

definition booth_call ::
  "('w, 'i) session_config \<Rightarrow> 'w probes \<Rightarrow> (string \<Rightarrow> rat) \<Rightarrow> string \<Rightarrow> (soak_exn, 'w booth_world, response) op" where
  "booth_call C P delay url =
     (\<lambda>b. case booth_request C P url (bw_booth b) of
        (r, s) \<Rightarrow> (case framework_answer r of Inl msg \<Rightarrow> Inl (HttpxError msg) | Inr resp \<Rightarrow> Inr resp,
                    b\<lparr>bw_booth := s, bw_clock := bw_clock b + delay url\<rparr>))"

definition booth_env ::
  "('w, 'i) session_config \<Rightarrow> 'w probes \<Rightarrow> (string \<Rightarrow> rat) \<Rightarrow> (nat \<Rightarrow> rat \<Rightarrow> rat \<Rightarrow> rat) \<Rightarrow> (json \<Rightarrow> string) \<Rightarrow>
     (response \<Rightarrow> string) \<Rightarrow> 'w booth_world soak_env" where
  "booth_env C P delay draw str_of status_error =
     \<lparr>se_post = booth_call C P delay, se_get = booth_call C P delay, se_status_error = status_error,
      se_str = str_of, se_time = bw_clock, se_monotonic = bw_clock,
      se_uniform = (\<lambda>a b s. (Inr (draw (bw_draws s) a b), s\<lparr>bw_draws := bw_draws s + 1\<rparr>)),
      se_sleep = (\<lambda>d s. (Inr (), s\<lparr>bw_clock := bw_clock s + max 0 d\<rparr>))\<rparr>"

lemma framework_answer_simps [simp]:
  "framework_answer (Inr j) = Inr \<lparr>rs_status = 200, rs_json = Some j, rs_text = ''''\<rparr>"
  "framework_answer (Inl (HTTPException code detail)) =
     Inr \<lparr>rs_status = code, rs_json = Some (JObj [(''detail'', JStr detail)]), rs_text = ''''\<rparr>"
  by (simp_all add: framework_answer_def)

lemma framework_answer_not_200:
  "framework_answer (Inl e) = Inr resp \<Longrightarrow> \<forall>d. e \<noteq> HTTPException 200 d \<Longrightarrow> rs_status resp \<noteq> 200"
  by (auto simp: framework_answer_def split: exn.splits)

lemma arm_Inr:
  assumes "arm C mode_id s = (Inr u, s1)"
  shows "jobs (sm_db s1) = jobs (sm_db s) \<and> (sm_armed_template_path s1 = None \<longrightarrow> sm_shot_count s1 = 1) \<and>
    m_state (sm_machine s1) = ARMED"
  using assms
  by (auto simp: arm_def machine_transition_def transition_def next_tick_def arm_template_def Let_def
      on_db_def session_create_def broadcast_def andthen_def bindE_def
      split: if_splits option.splits sum.splits prod.splits)

lemma booth_post_arm:
  assumes "arm C None (bw_booth b) = (Inr u, s1)"
  shows "\<exists>resp. booth_call C P delay ''/session/arm'' b =
      (Inr resp, b\<lparr>bw_booth := s1, bw_clock := bw_clock b + delay ''/session/arm''\<rparr>) \<and> rs_status resp = 200"
  using assms
  by (simp add: booth_call_def booth_request_def arm_session_def andthen_def bindE_def try_except_def)

lemma booth_post_capture:
  assumes "capture C None (bw_booth b) = (r, s2)"
  shows "booth_call C P delay ''/session/capture'' b =
      (case framework_answer (map_sum (\<lambda>e. if is_CameraError e then HTTPException 502 (exn_str e)
                else if is_InvalidTransitionError e then HTTPException 409 (exn_str e) else e)
              (\<lambda>_. JObj [(''state'', JStr ''review'')]) r) of
         Inl msg \<Rightarrow> Inl (HttpxError msg) | Inr resp \<Rightarrow> Inr resp,
       b\<lparr>bw_booth := s2, bw_clock := bw_clock b + delay ''/session/capture''\<rparr>)"
  using assms
  by (cases r) (simp_all add: booth_call_def booth_request_def capture_session_def andthen_def bindE_def
      try_except_def conflict_def)

lemma booth_post_dismiss:
  assumes "m_state (sm_machine (bw_booth b)) = REVIEW"
  shows "\<exists>resp s3. booth_call C P delay ''/session/dismiss'' b =
      (Inr resp, b\<lparr>bw_booth := s3, bw_clock := bw_clock b + delay ''/session/dismiss''\<rparr>) \<and>
    rs_status resp = 200 \<and> m_state (sm_machine s3) = IDLE \<and> jobs (sm_db s3) = jobs (sm_db (bw_booth b))"
proof -
  obtain s3 where t: "do_transition C IDLE None (bw_booth b) = (Inr (), s3)"
    using do_transition_ok [of IDLE "bw_booth b" C None] assms by auto
  from do_transition_Inr [OF t] have "m_state (sm_machine s3) = IDLE" "jobs (sm_db s3) = jobs (sm_db (bw_booth b))"
    by (simp_all add: frame_def)
  then show ?thesis
    using t by (intro exI exI [of _ s3]) (auto simp: booth_call_def booth_request_def
        dismiss_session_def dismiss_def andthen_def bindE_def try_except_def)
qed

definition probes_answer :: "'w probes \<Rightarrow> bool" where
  "probes_answer P \<longleftrightarrow> raises_only is_CameraError (pr_get_status P) \<and>
     (pr_printer P = None \<or> (\<exists>st. pr_printer P = Some (get_state st) \<and> printer_status_contract st))"

lemma booth_get_health:
  assumes "probes_answer P" and "m_state (sm_machine (bw_booth b)) = IDLE"
  shows "\<exists>resp rows w. booth_call C P delay ''/debug/health'' b =
      (Inr resp, b\<lparr>bw_booth := (bw_booth b)\<lparr>sm_camera := w\<rparr>, bw_clock := bw_clock b + delay ''/debug/health''\<rparr>) \<and>
    rs_status resp = 200 \<and> rs_json resp = Some (JArr rows) \<and> idle_reported str_of rows = Inr True"
proof -
  obtain cam pr w' where "get_health (sm_fs (bw_booth b)) P IDLE (sm_camera (bw_booth b)) = (Inr
      [health_row ''camera_connected'' cam, health_row ''camera_idle'' (camera_ready IDLE),
       health_row ''preview_stream'' (preview_check P), health_row ''disk_free'' (disk_check (sm_fs (bw_booth b)) P),
       health_row ''network'' (network_check P),
       health_row ''camera_settings_profile''
         (status_row ''not_available'' ''no expected-profile check exists yet''),
       health_row ''test_shot_within_budget'' (status_row ''not_available'' TEST_SHOT_DETAIL),
       health_row ''flash_fires'' (status_row ''not_available'' ''unmeasurable via software''),
       health_row ''printer_online_with_media'' pr,
       health_row ''time_synced''
         (status_row ''not_available'' (''skipped for v1 '' @ em_dash @ '' no NTP-offset check implemented''))], w')"
    using get_health_answers assms(1) unfolding probes_answer_def by metis
  then show ?thesis
    using assms(2)
    by (intro exI [of _ w'] exI)
      (auto simp: booth_call_def booth_request_def health_row_def camera_ready_def status_row_def json_str_def)
qed

lemma booth_recovers:
  assumes "probes_answer P" and "m_state (sm_machine (bw_booth b)) = IDLE"
  shows "\<exists>w. verify_recovered_to_idle (booth_env C P delay draw str_of err) (Suc fuel) 5 b =
    (Inr True, b\<lparr>bw_booth := (bw_booth b)\<lparr>sm_camera := w\<rparr>, bw_clock := bw_clock b + delay ''/debug/health''\<rparr>)"
proof -
  obtain resp rows w where "booth_call C P delay ''/debug/health'' b =
      (Inr resp, b\<lparr>bw_booth := (bw_booth b)\<lparr>sm_camera := w\<rparr>, bw_clock := bw_clock b + delay ''/debug/health''\<rparr>)"
    "rs_status resp = 200" "rs_json resp = Some (JArr rows)" "idle_reported str_of rows = Inr True"
    using booth_get_health [OF assms] by blast
  then show ?thesis
    by (intro exI [of _ w]) (simp add: verify_recovered_to_idle_def ask_health_def except_http_def try_except_def andthen_def
        bindE_def raise_for_status_def response_json_def soak_res_def bind_res_def json_items_def booth_env_def)
qed

lemma booth_env_simps [simp]:
  "se_post (booth_env C P delay draw str_of err) = booth_call C P delay"
  "se_get (booth_env C P delay draw str_of err) = booth_call C P delay"
  "se_monotonic (booth_env C P delay draw str_of err) = bw_clock"
  "se_str (booth_env C P delay draw str_of err) = str_of"
  "se_uniform (booth_env C P delay draw str_of err) a c b = (Inr (draw (bw_draws b) a c), b\<lparr>bw_draws := bw_draws b + 1\<rparr>)"
  "se_sleep (booth_env C P delay draw str_of err) d b = (Inr (), b\<lparr>bw_clock := bw_clock b + max 0 d\<rparr>)"
  by (simp_all add: booth_env_def)

text \<open>The booth after a think-time, and after a request that succeeds.\<close>

definition thought :: "(nat \<Rightarrow> rat \<Rightarrow> rat \<Rightarrow> rat) \<Rightarrow> 'w booth_world \<Rightarrow> 'w booth_world" where
  "thought draw b = b\<lparr>bw_draws := bw_draws b + 1, bw_clock := bw_clock b + max 0 (draw (bw_draws b) 1 8)\<rparr>"

lemma thought_booth [simp]: "bw_booth (thought draw b) = bw_booth b"
  by (simp add: thought_def)

lemma think_booth [simp]: "think (booth_env C P delay draw str_of err) 1 8 b = (Inr (), thought draw b)"
  by (simp add: think_def bindE_def thought_def)

lemma step_posted:
  assumes "booth_call C P delay url b = (Inr resp, b')" and "rs_status resp = 200"
  shows "guest_step (booth_env C P delay draw str_of err) t0 label
    (posted (booth_env C P delay draw str_of err) url) b = (Inr (Inr ()), b')"
  using assms
  by (simp add: guest_step_def posted_def except_http_def try_except_def bindE_def raise_for_status_def)

lemma step_answered:
  assumes "booth_call C P delay url b = (Inr resp, b')"
  shows "guest_step (booth_env C P delay draw str_of err) t0 label (booth_call C P delay url) b = (Inr (Inr resp), b')"
  using assms by (simp add: guest_step_def except_http_def try_except_def bindE_def)

lemma failed_result_eq: "failed_result E t0 reason b =
    (Inr \<lparr>ir_ok = False, ir_reason = Some reason, ir_duration_s = se_monotonic E b - t0\<rparr>, b)"
  by (simp add: failed_result_def since_def bindE_def)

lemma guest_flow_success:
  assumes "sequential C" and "sc_job_queue C"
    and "arm C None (bw_booth b) = (Inr (), s1)" and "capture C None s1 = (Inr (), s2)"
    and "run_one_guest_flow (booth_env C P delay draw str_of err) fuel b = (res, b')"
  shows "\<exists>result job. res = Inr result \<and> ir_ok result \<and>
    m_state (sm_machine (bw_booth b')) = IDLE \<and>
    jobs (sm_db (bw_booth b')) = jobs (sm_db (bw_booth b)) @ [job] \<and>
    j_kind job = ''upload'' \<and> j_status job = Pending"
proof -
  let ?b1 = "b\<lparr>bw_booth := s1, bw_clock := bw_clock b + delay ''/session/arm''\<rparr>"
  let ?b2 = "(thought draw ?b1)\<lparr>bw_booth := s2,
    bw_clock := bw_clock (thought draw ?b1) + delay ''/session/capture''\<rparr>"
  note armed = arm_Inr [OF assms(3)]
  obtain resp1 where "booth_call C P delay ''/session/arm'' b = (Inr resp1, ?b1)" "rs_status resp1 = 200"
    using booth_post_arm [OF assms(3)] by blast
  note arm = step_posted [OF this]
  from capture_queues_one [OF assms(1,2) _ assms(4)] armed obtain job where
    job: "m_state (sm_machine s2) = REVIEW" "jobs (sm_db s2) = jobs (sm_db (bw_booth b)) @ [job]"
    "j_kind job = ''upload''" "j_status job = Pending" by auto
  have "capture C None (bw_booth (thought draw ?b1)) = (Inr (), s2)" using assms(4) by simp
  from booth_post_capture [OF this] obtain resp where
    call: "booth_call C P delay ''/session/capture'' (thought draw ?b1) = (Inr resp, ?b2)"
    and st: "rs_status resp = 200" by simp
  obtain resp3 s3 where dis: "booth_call C P delay ''/session/dismiss'' (thought draw ?b2) =
      (Inr resp3, (thought draw ?b2)\<lparr>bw_booth := s3, bw_clock := bw_clock (thought draw ?b2) + delay ''/session/dismiss''\<rparr>)"
    "rs_status resp3 = 200" "m_state (sm_machine s3) = IDLE" "jobs (sm_db s3) = jobs (sm_db s2)"
    using booth_post_dismiss [of "thought draw ?b2" C P delay] job(1) by auto
  show ?thesis
    using assms(5) job dis arm step_answered [OF call] st step_posted [OF dis(1,2)]
    by (auto simp: run_one_guest_flow_def bindE_def andthen_def after_step_def since_def)
qed

lemma guest_flow_camera_failure:
  assumes "sequential C" and "parsers_ok C" and "probes_answer P"
    and "arm C None (bw_booth b) = (Inr (), s1)" and "capture C None s1 = (Inl e, s2)" and "is_CameraError e"
    and "run_one_guest_flow (booth_env C P delay draw str_of err) (Suc fuel) b = (res, b')"
  shows "\<exists>result. res = Inr result \<and> \<not> ir_ok result \<and>
    ir_reason result = Some (''capture_failed: '' @ exn_str e) \<and>
    m_state (sm_machine (bw_booth b')) = IDLE \<and> jobs (sm_db (bw_booth b')) = jobs (sm_db (bw_booth b))"
proof -
  let ?E = "booth_env C P delay draw str_of err"
  let ?b1 = "b\<lparr>bw_booth := s1, bw_clock := bw_clock b + delay ''/session/arm''\<rparr>"
  let ?b2 = "(thought draw ?b1)\<lparr>bw_booth := s2,
    bw_clock := bw_clock (thought draw ?b1) + delay ''/session/capture''\<rparr>"
  obtain resp1 where "booth_call C P delay ''/session/arm'' b = (Inr resp1, ?b1)" "rs_status resp1 = 200"
    using booth_post_arm [OF assms(4)] by blast
  note arm = step_posted [OF this]
  have idle: "m_state (sm_machine s2) = IDLE" "jobs (sm_db s2) = jobs (sm_db (bw_booth b))"
    using capture_camera_error [OF assms(1,2,5,6)] arm_Inr [OF assms(4)] by (simp_all add: frame_def)
  have "capture C None (bw_booth (thought draw ?b1)) = (Inl e, s2)" using assms(5) by simp
  from booth_post_capture [OF this] assms(6) obtain resp where
    call: "booth_call C P delay ''/session/capture'' (thought draw ?b1) = (Inr resp, ?b2)"
    and st: "rs_status resp = 502" and det: "response_detail ?E resp ''capture failed'' = exn_str e"
    by (simp add: response_detail_def safe_json_def json_dict_def json_str_def)
  from booth_recovers [OF assms(3), of ?b2 C delay draw str_of err fuel] idle(1)
  obtain w where "verify_recovered_to_idle ?E (Suc fuel) 5 ?b2 = (Inr True,
      ?b2\<lparr>bw_booth := s2\<lparr>sm_camera := w\<rparr>, bw_clock := bw_clock ?b2 + delay ''/debug/health''\<rparr>)"
    by auto
  then show ?thesis
    using assms(7) arm step_answered [OF call] st det idle
    by (auto simp: run_one_guest_flow_def bindE_def andthen_def after_step_def capture_failed_result_def
        failed_result_eq simp del: recovery_loop.simps)
qed


definition demo_probes :: "unit probes" where
  "demo_probes = \<lparr>pr_get_status = ret True, pr_http = (\<lambda>_. Inr 200), pr_stream_url = '''',
     pr_disk_usage = (\<lambda>_. Inr 0), pr_disk_path = to_path ''out'', pr_connect = (\<lambda>_ _. None), pr_printer = None\<rparr>"

definition demo_guest :: "unit booth_world" where
  "demo_guest = \<lparr>bw_booth = new_manager (demo_session demo_camera) ''dev'' empty_db demo_fs (),
     bw_clock = 0, bw_draws = 0\<rparr>"

definition demo_soak_env :: "unit camera_backend \<Rightarrow> unit booth_world soak_env" where
  "demo_soak_env cam = booth_env (demo_session cam) demo_probes (\<lambda>_. 1) (\<lambda>_ a b. (a + b) / 2) (\<lambda>_. '''') (\<lambda>_. ''409'')"

lemma demo_guest_arm: "\<exists>s1 s2. arm (demo_session demo_camera) None (bw_booth demo_guest) = (Inr (), s1) \<and>
    capture (demo_session demo_camera) None s1 = (Inr (), s2)"
proof -
  have "capture_file (demo_session demo_camera) ''shot'' = to_path ''captures/shot.jpg''"
    "path_parent (to_path ''captures/shot.jpg'') = to_path ''captures''"
    unfolding capture_file_def demo_session_def by code_simp+
  then show ?thesis
    by (simp add: manager_ops arm_def arm_template_def session_create_def demo_guest_def new_machine_def
        new_manager_def demo_session_def demo_camera_def write_file_def is_dir_def make_dir_def demo_fs_def
        capture_create_def enqueue_def upd_jobs_def session_set_share_token_def empty_db_def insert_span_def
        session_update_state_def sql_update_def)
qed


lemma flow_refused:
  assumes "m_state (sm_machine (bw_booth b)) \<noteq> IDLE"
  shows "\<exists>result b'. run_one_guest_flow (booth_env C P delay draw str_of err) fuel b = (Inr result, b') \<and>
    \<not> ir_ok result \<and> bw_booth b' = bw_booth b"
proof -
  have "booth_call C P delay ''/session/arm'' b =
      (Inr \<lparr>rs_status = 409, rs_json = Some (JObj [(''detail'', JStr
          (exn_str (InvalidTransitionError (m_state (sm_machine (bw_booth b))) ARMED)))]), rs_text = ''''\<rparr>,
       b\<lparr>bw_clock := bw_clock b + delay ''/session/arm''\<rparr>)"
    using arm_refused [OF assms, of C None]
    by (simp add: booth_call_def booth_request_def arm_session_def conflict_def andthen_def bindE_def try_except_def)
  then show ?thesis
    by (simp add: run_one_guest_flow_def guest_step_def posted_def except_http_def try_except_def
        bindE_def raise_for_status_def failed_result_eq after_step_def)
qed

definition wedged :: "'w manager \<Rightarrow> 'w booth_world soak_run \<Rightarrow> bool" where
  "wedged B s \<longleftrightarrow> bw_booth (kr_world s) = B \<and> ks_successes (kr_stats s) = 0 \<and>
     ks_failures (kr_stats s) = ks_iterations (kr_stats s)"

lemma soak_loop_wedged:
  assumes "m_state (sm_machine B) \<noteq> IDLE"
  shows "preserves (wedged B) (soak_loop (booth_env C P delay draw str_of err) poll args deadline fuel)"
proof (induction fuel)
  case (Suc fuel)
  let ?E = "booth_env C P delay draw str_of err"
  let ?rest = "andthen (report_due args)
    (andthen (on_world (think ?E (ka_min_think_s args) (ka_max_think_s args))) (soak_loop ?E poll args deadline fuel))"
  have "preserves (wedged B) (on_world (think ?E a c))" for a c
    by (simp add: preserves_def on_world_def think_def bindE_def wedged_def)
  moreover have "preserves (wedged B) (report_due args)"
    by (simp add: report_due_def preserves_basic)
  ultimately have rest: "preserves (wedged B) ?rest" by (intro preserves_andthen Suc.IH)
  show ?case
  proof (rule preservesI)
    fix s r s' assume w: "wedged B s" and run: "soak_loop ?E poll args deadline (Suc fuel) s = (r, s')"
    from w assms have "m_state (sm_machine (bw_booth (kr_world s))) \<noteq> IDLE" by (simp add: wedged_def)
    from flow_refused [OF this] obtain result b' where
      flow: "run_one_guest_flow ?E poll (kr_world s) = (Inr result, b')" "\<not> ir_ok result"
      "bw_booth b' = bw_booth (kr_world s)" by blast
    let ?s2 = "s\<lparr>kr_world := b', kr_stats := record_result result (kr_stats s)\<rparr>"
    have "wedged B ?s2" using w flow by (simp add: wedged_def record_result_def Let_def)
    then have "wedged B (snd (?rest ?s2))" using rest by (simp add: preserves_def)
    then show "wedged B s'"
      using run w flow(1) by (auto simp: bindE_def on_world_def andthen_def [of "modify _"] split: if_splits)
  qed
qed (simp add: preserves_def)

text \<open>
  the harness cannot free a booth that is not idle: every guest of the run fails at the arm
  request, the booth stays exactly as it was, and not one success is counted, however long the
  run.  (A capture that fails with another error than the camera's leaves the booth so.)
\<close>

theorem soak_stays_wedged:
  assumes "m_state (sm_machine (bw_booth b)) \<noteq> IDLE"
    and "soak_loop (booth_env C P delay draw str_of err) poll args deadline fuel
      \<lparr>kr_world = b, kr_stats = new_stats t\<rparr> = (r, s')"
  shows "bw_booth (kr_world s') = bw_booth b \<and> ks_successes (kr_stats s') = 0 \<and>
    ks_failures (kr_stats s') = ks_iterations (kr_stats s') \<and>
    (0 < ks_iterations (kr_stats s') \<longrightarrow> soak_exit_code (kr_stats s') = 1)"
  using preservesD [OF soak_loop_wedged [OF assms(1)] _ assms(2)]
  by (simp add: wedged_def new_stats_def soak_exit_code_def)

definition demo_soak_args :: "int \<Rightarrow> soak_args" where
  "demo_soak_args n = \<lparr>ka_base_url = ''http://127.0.0.1:8000'', ka_hours = None, ka_minutes = None,
     ka_shots = Some n, ka_min_think_s = 1, ka_max_think_s = 8, ka_report_every = 10,
     ka_out_dir = to_path ''out/soak''\<rparr>"

definition demo_stuck :: "unit booth_world" where
  "demo_stuck = demo_guest\<lparr>bw_booth := (bw_booth demo_guest)\<lparr>sm_machine := \<lparr>m_state = CAPTURING\<rparr>\<rparr>\<rparr>"

lemma demo_clock: "clock_ok (demo_soak_env cam)"
proof -
  have "raises_only no_divergence (booth_call C P delay url)" for C :: "(unit, int \<times> int) session_config" and P delay url
    by (auto simp: raises_only_def booth_call_def split: prod.splits sum.splits)
  moreover have "bw_clock (snd (booth_call C P (\<lambda>_. 1) url b)) = bw_clock b + 1"
    for C :: "(unit, int \<times> int) session_config" and P url b
    by (simp add: booth_call_def split: prod.split)
  ultimately show ?thesis
    by (auto simp: clock_ok_def demo_soak_env_def raises_only_def)
qed

lemma soak_run_ends_witness:
  "\<exists>r s'. soak_loop (demo_soak_env demo_camera) 26 (demo_soak_args 3) None (Suc 3)
      \<lparr>kr_world = demo_stuck, kr_stats = new_stats 0\<rparr> = (r, s') \<and> r \<noteq> Inl (SoakRaised Diverges)"
  using soak_run_ends [OF demo_clock, of "demo_soak_args 3" 3 demo_camera None demo_stuck 0]
  by (metis demo_soak_args_def of_nat_numeral prod.collapse soak_args.select_convs(4))

lemma soak_stays_wedged_witness:
  "\<exists>s'. ks_successes (kr_stats s') = 0 \<and> bw_booth (kr_world s') = bw_booth demo_stuck \<and>
     s' = snd (soak_loop (demo_soak_env demo_camera) 26 (demo_soak_args 3) None (Suc 3)
      \<lparr>kr_world = demo_stuck, kr_stats = new_stats 0\<rparr>)"
proof -
  have "m_state (sm_machine (bw_booth demo_stuck)) \<noteq> IDLE" by (simp add: demo_stuck_def)
  from soak_stays_wedged [OF this] show ?thesis unfolding demo_soak_env_def by (metis prod.collapse)
qed


lemma demo_stuck_run:
  "\<exists>st p. run_soak (demo_soak_env demo_camera) 26 2 (\<lambda>_. []) ''20260101-000000'' (demo_soak_args 1) (demo_stuck, demo_fs) =
     (Inr st, p) \<and> ks_failures st = 1"
proof -
  let ?E = "demo_soak_env demo_camera"
  have "m_state (sm_machine (bw_booth demo_stuck)) \<noteq> IDLE" by (simp add: demo_stuck_def)
  from flow_refused [OF this] obtain result b' where
    flow: "run_one_guest_flow ?E 26 demo_stuck = (Inr result, b')" "\<not> ir_ok result"
    unfolding demo_soak_env_def by blast
  have "booth_call (demo_session demo_camera) demo_probes (\<lambda>_. 1) ''/debug/timings'' b =
      (Inr \<lparr>rs_status = 404, rs_json = Some (JObj [(''detail'', JStr ''Not Found'')]), rs_text = ''''\<rparr>,
       b\<lparr>bw_clock := bw_clock b + 1\<rparr>)" for b
    by (simp add: booth_call_def booth_request_def)
  then have timings: "fetch_timings ?E b = (Inr [], b\<lparr>bw_clock := bw_clock b + 1\<rparr>)" for b
    by (simp add: demo_soak_env_def fetch_timings_def except_http_def try_except_def bindE_def andthen_def
        raise_for_status_def)
  let ?s0 = "\<lparr>kr_world = demo_stuck, kr_stats = new_stats 0\<rparr>"
  have time: "se_time ?E = bw_clock" "bw_clock demo_stuck = 0"
    by (simp_all add: demo_soak_env_def booth_env_def demo_stuck_def demo_guest_def)
  obtain b'' where "think ?E 1 8 b' = (Inr (), b'')"
    unfolding demo_soak_env_def using think_booth by blast
  then have "soak_loop ?E 26 (demo_soak_args 1) None 2 ?s0 =
      (Inr (), \<lparr>kr_world = b'', kr_stats = record_result result (new_stats 0)\<rparr>)"
    using flow
    by (simp add: numeral_2_eq_2 bindE_def andthen_def should_stop_def demo_soak_args_def new_stats_def
        on_world_def report_due_def)
  moreover have "path_parent (path_div (to_path ''out/soak'') (''20260101-000000'' @ ''.json'')) = to_path ''out/soak''"
    by (rule path_parent_div_plain) (simp add: plain_name_def)
  then have "write_summary d (to_path ''out/soak'') ''20260101-000000'' now st t u demo_fs \<noteq> (Inl e, f)" for d now st t u e f
    by (auto simp: write_summary_def andthen_def bindE_def mkdir_parents_def write_file_def demo_fs_def
        is_file_def is_dir_def Let_def split: if_splits)
  ultimately show ?thesis
    using flow(2) time
    by (auto simp: run_soak_def Let_def soak_until_stopped_def try_except_def timings soak_deadline_def
        demo_soak_args_def record_result_def new_stats_def split: prod.splits sum.splits)
qed

lemma soak_counts_exact_witness:
  "\<exists>st p. run_soak (demo_soak_env demo_camera) 26 2 (\<lambda>_. []) ''20260101-000000'' (demo_soak_args 1) (demo_stuck, demo_fs) =
     (Inr st, p) \<and> ks_iterations st = 1 \<and> ks_successes st = 0"
proof -
  obtain st w f where "run_soak (demo_soak_env demo_camera) 26 2 (\<lambda>_. []) ''20260101-000000'' (demo_soak_args 1)
      (demo_stuck, demo_fs) = (Inr st, (w, f))" and "ks_failures st = 1"
    using demo_stuck_run by (metis prod.collapse)
  moreover from soak_counts_exact [OF this(1)] this(2) have "ks_iterations st = 1 \<and> ks_successes st = 0"
    by (auto simp: demo_soak_args_def)
  ultimately show ?thesis by blast
qed

end
