(* ===== verification/Camera_Tools.thy ===== *)
theory Camera_Tools
  imports Camera_Gphoto
begin

text \<open>
  \<open>src/tools/cam_test.py\<close>: the operator's camera test, which drives a \<open>GphotoBackend\<close> directly and
  saves what it takes; and \<open>src/tools/trace_report.py\<close>.  The backend is any camera backend here;
  the properties use its contract, and through the interpretations the gphoto2 camera.  What is
  printed is left out, apart from the verdicts.
\<close>

subsection \<open>The bench\<close>

text \<open>
  The state: the camera, the file system and a counter that numbers the readings of the clocks.
\<close>

record 'c bench =
  be_camera :: 'c
  be_fs :: fs
  be_tick :: nat

record bench_clock =
  bc_timestamp :: "nat \<Rightarrow> string"
  bc_monotonic :: "nat \<Rightarrow> rat"

definition cam :: "(exn, 'c, 'a) op \<Rightarrow> (exn, 'c bench, 'a) op" where
  "cam m = (\<lambda>s. case m (be_camera s) of (r, c) \<Rightarrow> (r, s\<lparr>be_camera := c\<rparr>))"

definition on_disk :: "(exn, fs, 'a) op \<Rightarrow> (exn, 'c bench, 'a) op" where
  "on_disk m = (\<lambda>s. case m (be_fs s) of (r, f) \<Rightarrow> (r, s\<lparr>be_fs := f\<rparr>))"

definition reading :: "(nat \<Rightarrow> 'a) \<Rightarrow> (exn, 'c bench, 'a) op" where
  "reading clock = (\<lambda>s. (Inr (clock (be_tick s)), s\<lparr>be_tick := be_tick s + 1\<rparr>))"

definition shot_path :: "path \<Rightarrow> string \<Rightarrow> string \<Rightarrow> path" where
  "shot_path out_dir ts label = path_div out_dir (ts @ ''-'' @ label @ ''.jpg'')"

definition save_shot :: "bench_clock \<Rightarrow> path \<Rightarrow> bytes \<Rightarrow> string \<Rightarrow> (exn, 'c bench, path) op" where
  "save_shot T out_dir data label =
     andthen (on_disk (mkdir_parents out_dir))
      (bindE (reading (bc_timestamp T)) (\<lambda>ts.
       andthen (on_disk (write_file (shot_path out_dir ts label) data)) (ret (shot_path out_dir ts label))))"

subsection \<open>Captures\<close>

definition do_capture_full :: "'c camera_backend \<Rightarrow> bench_clock \<Rightarrow> path \<Rightarrow> (exn, 'c bench, unit) op" where
  "do_capture_full B T out_dir =
     bindE (cam (b_trigger_capture B)) (\<lambda>capture_id.
     bindE (cam (b_download_full B capture_id)) (\<lambda>image.
     bindE (save_shot T out_dir (ci_data image) ''full'') (\<lambda>_. ret ())))"

text \<open>
  The background thread is joined at once; an exception it raises is reported by the interpreter
  and ends there.
\<close>

definition in_thread :: "(exn, 's, unit) op \<Rightarrow> (exn, 's, unit) op" where
  "in_thread m = try_except m (\<lambda>e. if e = Diverges then raise e else ret ())"

definition do_capture_preview_then_full ::
  "'c camera_backend \<Rightarrow> bench_clock \<Rightarrow> path \<Rightarrow> (exn, 'c bench, unit) op" where
  "do_capture_preview_then_full B T out_dir =
     bindE (cam (b_trigger_capture B)) (\<lambda>capture_id.
     bindE (cam (b_download_preview B capture_id)) (\<lambda>preview.
       let download = bindE (cam (b_download_full B capture_id)) (\<lambda>image.
                      bindE (save_shot T out_dir (ci_data image) ''full'') (\<lambda>_. ret ())) in
       case preview of
         None \<Rightarrow> download
       | Some im \<Rightarrow>
           bindE (save_shot T out_dir (ci_data im) ''preview'') (\<lambda>_. in_thread download)))"

subsection \<open>The commands\<close>

text \<open>\<open>detect\<close>: the lines printed for the cameras the library lists.\<close>

definition cmd_detect :: "(string \<times> string) list \<Rightarrow> string list" where
  "cmd_detect cameras =
     (if cameras = [] then [''no camera detected'']
      else map (\<lambda>(name, port). name @ ''  ('' @ port @ '')'') cameras)"

text \<open>\<open>backend.connect(); try: m finally: backend.disconnect()\<close>.\<close>

definition connected :: "'c camera_backend \<Rightarrow> (exn, 'c bench, 'a) op \<Rightarrow> (exn, 'c bench, 'a) op" where
  "connected B m = andthen (cam (b_connect B)) (try_finally_op m (cam (b_disconnect B)))"

definition cmd_summary :: "'c camera_backend \<Rightarrow> (exn, 'c bench, bool) op" where
  "cmd_summary B =
     andthen (cam (b_connect B))
      (bindE (cam (b_is_connected B)) (\<lambda>c. andthen (cam (b_disconnect B)) (ret c)))"

definition cmd_autofocus :: "'c camera_backend \<Rightarrow> (exn, 'c bench, unit) op" where
  "cmd_autofocus B = connected B (cam (b_trigger_autofocus B))"

definition cmd_capture_full :: "'c camera_backend \<Rightarrow> bench_clock \<Rightarrow> path \<Rightarrow> (exn, 'c bench, unit) op" where
  "cmd_capture_full B T out_dir = connected B (do_capture_full B T out_dir)"

definition cmd_capture_preview_then_full ::
  "'c camera_backend \<Rightarrow> bench_clock \<Rightarrow> path \<Rightarrow> (exn, 'c bench, unit) op" where
  "cmd_capture_preview_then_full B T out_dir = connected B (do_capture_preview_then_full B T out_dir)"

text \<open>\<open>except CameraError as exc\<close>.\<close>

definition except_camera ::
  "(exn, 's, 'a) op \<Rightarrow> (exn \<Rightarrow> (exn, 's, 'a) op) \<Rightarrow> (exn, 's, 'a) op" where
  "except_camera m h = try_except m (\<lambda>e. if is_CameraError e then h e else raise e)"

text \<open>\<open>reconnect-test\<close>: the wait for the failure, then for a capture that works; both on fuel.\<close>

fun watch_for_failure ::
  "'c camera_backend \<Rightarrow> bench_clock \<Rightarrow> rat \<Rightarrow> nat \<Rightarrow> (exn, 'c bench, rat option) op" where
  "watch_for_failure B T deadline 0 = raise Diverges"
| "watch_for_failure B T deadline (Suc fuel) =
     bindE (reading (bc_monotonic T)) (\<lambda>now.
       if \<not> now < deadline then ret None
       else bindE
         (except_camera (andthen (cam (b_trigger_capture B)) (ret None))
            (\<lambda>exc. bindE (reading (bc_monotonic T)) (\<lambda>t. ret (Some t))))
         (\<lambda>failed. case failed of
            Some t \<Rightarrow> ret (Some t) | None \<Rightarrow> watch_for_failure B T deadline fuel))"

fun retry_until_recovered ::
  "'c camera_backend \<Rightarrow> bench_clock \<Rightarrow> path \<Rightarrow> rat \<Rightarrow> nat \<Rightarrow> nat \<Rightarrow> (exn, 'c bench, rat option \<times> nat) op" where
  "retry_until_recovered B T out_dir deadline attempt 0 = raise Diverges"
| "retry_until_recovered B T out_dir deadline attempt (Suc fuel) =
     bindE (reading (bc_monotonic T)) (\<lambda>now.
       if \<not> now < deadline then ret (None, attempt)
       else bindE
         (except_camera
            (andthen (cam (b_reconnect B))
            (andthen (do_capture_full B T out_dir)
              (bindE (reading (bc_monotonic T)) (\<lambda>t. ret (Some t)))))
            (\<lambda>exc. ret None))
         (\<lambda>recovered. case recovered of
            Some t \<Rightarrow> ret (Some t, attempt + 1)
          | None \<Rightarrow> retry_until_recovered B T out_dir deadline (attempt + 1) fuel))"

datatype reconnect_verdict =
    NoDisconnect | NotRecovered nat | Recovered rat nat

definition cmd_reconnect_test ::
  "'c camera_backend \<Rightarrow> bench_clock \<Rightarrow> path \<Rightarrow> rat \<Rightarrow> rat \<Rightarrow> nat \<Rightarrow> (exn, 'c bench, reconnect_verdict) op" where
  "cmd_reconnect_test B T out_dir detect_timeout reconnect_timeout fuel =
     andthen (cam (b_connect B))
    (andthen (do_capture_full B T out_dir)
    (bindE (reading (bc_monotonic T)) (\<lambda>now.
     bindE (watch_for_failure B T (now + detect_timeout) fuel) (\<lambda>detected.
       case detected of
         None \<Rightarrow> andthen (cam (b_disconnect B)) (ret NoDisconnect)
       | Some t_fail \<Rightarrow>
           bindE (reading (bc_monotonic T)) (\<lambda>now.
           bindE (retry_until_recovered B T out_dir (now + reconnect_timeout) 0 fuel)
             (\<lambda>(recovered, attempts).
              andthen (cam (b_disconnect B))
                (ret (case recovered of
                        None \<Rightarrow> NotRecovered attempts
                      | Some t \<Rightarrow> Recovered (t - t_fail) attempts))))))))"

fun soak_shots :: "(exn, 'c bench, unit) op \<Rightarrow> nat list \<Rightarrow> (exn, 'c bench, unit) op" where
  "soak_shots capture_fn [] = ret ()"
| "soak_shots capture_fn (i # is) =
     andthen (except_camera capture_fn (\<lambda>exc. ret ())) (soak_shots capture_fn is)"

definition cmd_soak ::
  "'c camera_backend \<Rightarrow> bench_clock \<Rightarrow> path \<Rightarrow> string \<Rightarrow> int \<Rightarrow> (exn, 'c bench, unit) op" where
  "cmd_soak B T out_dir mode shots =
     (let capture_fn = (if mode = ''preview-then-full'' then do_capture_preview_then_full B T out_dir
                        else do_capture_full B T out_dir) in
      connected B (soak_shots capture_fn [1..<nat (shots + 1)]))"

subsection \<open>The command line\<close>

record cam_args =
  ca_size :: string
  ca_out :: path
  ca_detect_timeout :: rat
  ca_reconnect_timeout :: rat
  ca_retry_interval :: rat
  ca_shots :: int
  ca_mode :: string
  ca_interval :: rat

text \<open>The defaults of the options, over the directory \<open>DEFAULT_OUT\<close>.\<close>

definition default_cam_args :: "path \<Rightarrow> cam_args" where
  "default_cam_args default_out =
     \<lparr>ca_size = ''S'', ca_out = default_out, ca_detect_timeout = 30, ca_reconnect_timeout = 60,
      ca_retry_interval = 2, ca_shots = 10, ca_mode = ''full'', ca_interval = 2\<rparr>"

datatype cam_output = Listing "string list" | Connection bool | Verdict reconnect_verdict | Finished

text \<open>\<open>args.func(args)\<close>; a name the parser does not know exits with status 2 (\<open>None\<close>).\<close>

definition cam_main ::
  "'c camera_backend \<Rightarrow> bench_clock \<Rightarrow> (string \<times> string) list \<Rightarrow> nat \<Rightarrow> string \<Rightarrow> cam_args \<Rightarrow>
     (exn, 'c bench, cam_output option) op" where
  "cam_main B T cameras fuel command args =
     (if command = ''detect'' then ret (Some (Listing (cmd_detect cameras)))
      else if command = ''summary'' then bindE (cmd_summary B) (\<lambda>c. ret (Some (Connection c)))
      else if command = ''autofocus'' then andthen (cmd_autofocus B) (ret (Some Finished))
      else if command = ''capture-full''
      then andthen (cmd_capture_full B T (ca_out args)) (ret (Some Finished))
      else if command = ''capture-preview-then-full''
      then andthen (cmd_capture_preview_then_full B T (ca_out args)) (ret (Some Finished))
      else if command = ''reconnect-test''
      then bindE (cmd_reconnect_test B T (ca_out args) (ca_detect_timeout args)
                    (ca_reconnect_timeout args) fuel) (\<lambda>v. ret (Some (Verdict v)))
      else if command = ''soak''
      then andthen (cmd_soak B T (ca_out args) (ca_mode args) (ca_shots args)) (ret (Some Finished))
      else ret None)"

subsection \<open>What a command leaves behind\<close>

context camera_contract
begin

lemma connected_closes:
  assumes "b_connect b (be_camera s) = (Inr (), c)" and "connected b m s = (r, s')"
    and "\<And>c. \<exists>c'. b_disconnect b c = (Inr (), c')"
  shows "\<not> opened (be_camera s')"
proof -
  obtain r1 s1 where m: "m (s\<lparr>be_camera := c\<rparr>) = (r1, s1)" by fastforce
  obtain c' where d: "b_disconnect b (be_camera s1) = (Inr (), c')" using assms(3) by blast
  have "be_camera s' = c'"
    using assms(1,2) m d by (auto simp: connected_def andthen_def bindE_def cam_def try_finally_op_def)
  then show ?thesis using disconnect_closes [OF d] by simp
qed

end

lemma soak_shots_returns:
  assumes "raises_only is_CameraError capture_fn" shows "\<exists>s'. soak_shots capture_fn is s = (Inr (), s')"
proof (induction "is" arbitrary: s)
  case (Cons i "is")
  obtain r s1 where c: "capture_fn s = (r, s1)" by fastforce
  moreover have "\<And>e. r = Inl e \<Longrightarrow> is_CameraError e" using c assms by (auto dest: raises_onlyD)
  ultimately have "\<exists>u. except_camera capture_fn (\<lambda>exc. ret ()) s = (Inr u, s1)"
    by (cases r) (auto simp: except_camera_def try_except_def)
  then show ?case using Cons.IH [of s1] by (auto simp: andthen_def bindE_def)
qed simp

text \<open>
  the camera tool gives the camera back: with a gphoto2 library whose exit works, every command
  but \<open>reconnect-test\<close> that got a connection leaves the camera closed, whatever it raises; and a
  soak whose shots fail with camera errors only runs through to the end.
\<close>

theorem cam_commands_release_camera:
  assumes "\<And>g. \<exists>g'. gp_exit G g = (Inr (), g')"
    and "b_connect (gphoto_camera P G fuel) (be_camera s) = (Inr (), c)"
  shows "\<not> gb_camera (be_camera (snd (cmd_autofocus (gphoto_camera P G fuel) s))) \<and>
    \<not> gb_camera (be_camera (snd (cmd_capture_full (gphoto_camera P G fuel) T out_dir s))) \<and>
    \<not> gb_camera (be_camera (snd (cmd_capture_preview_then_full (gphoto_camera P G fuel) T out_dir s))) \<and>
    \<not> gb_camera (be_camera (snd (cmd_soak (gphoto_camera P G fuel) T out_dir mode shots s))) \<and>
    (raises_only is_CameraError (do_capture_full (gphoto_camera P G fuel) T out_dir) \<longrightarrow>
       fst (cmd_soak (gphoto_camera P G fuel) T out_dir ''full'' shots s) = Inr ())"
proof -
  let ?B = "gphoto_camera P G fuel"
  have exit: "\<exists>c'. b_disconnect ?B c = (Inr (), c')" for c
    using assms(1) [of "gb_world c"]
    by (auto simp: gphoto_camera_def gphoto_disconnect_def andthen_def bindE_def gp_call_def)
  have closed: "\<not> gb_camera (be_camera (snd (connected ?B m s)))" for m :: "(exn, 'a gphoto_backend bench, unit) op"
    using gphoto.connected_closes [OF assms(2) _ exit] by (metis prod.collapse)
  have "fst (connected ?B (soak_shots m xs) s) = Inr ()" if "raises_only is_CameraError m" for m xs
  proof -
    note m = soak_shots_returns [OF that]
    obtain s1 where "soak_shots m xs (s\<lparr>be_camera := c\<rparr>) = (Inr (), s1)" using m by blast
    moreover obtain c' where "b_disconnect ?B (be_camera s1) = (Inr (), c')" using exit by blast
    ultimately show ?thesis
      using assms(2) by (simp add: connected_def andthen_def bindE_def cam_def try_finally_op_def)
  qed
  then show ?thesis
    using closed by (simp add: cmd_autofocus_def cmd_capture_full_def cmd_capture_preview_then_full_def cmd_soak_def Let_def)
qed

text \<open>
  \<open>reconnect-test\<close> has no \<open>finally\<close>: when its baseline shot fails, it ends with the connection
  still open.
\<close>

lemma reconnect_test_leaks:
  assumes "b_connect B (be_camera s) = (Inr (), c)"
    and "do_capture_full B T out_dir (s\<lparr>be_camera := c\<rparr>) = (Inl e, s1)"
  shows "cmd_reconnect_test B T out_dir dt rt fuel s = (Inl e, s1)"
  using assms by (simp add: cmd_reconnect_test_def andthen_def bindE_def cam_def)

text \<open>
  a capture that returns has stored the bytes the camera sent for the shot it fired, under the
  name of the current second; a second capture within the same second replaces that file.
\<close>

theorem bench_capture_saved:
  assumes "do_capture_full B T out_dir s = (Inr (), s')"
  shows "\<exists>i c c' image. b_trigger_capture B (be_camera s) = (Inr i, c) \<and>
    b_download_full B i c = (Inr image, c') \<and> be_camera s' = c' \<and>
    fs_files (be_fs s') = (fs_files (be_fs s))
      (shot_path out_dir (bc_timestamp T (be_tick s)) ''full'' \<mapsto> ci_data image)"
  using assms
  by (auto simp: do_capture_full_def save_shot_def on_disk_def reading_def cam_def andthen_def bindE_def
      write_file_def mkdir_parents_def split: prod.splits sum.splits if_splits)

lemma same_second_overwrites:
  assumes "do_capture_full B T out_dir s = (Inr (), s1)" and "do_capture_full B T out_dir s1 = (Inr (), s2)"
    and "bc_timestamp T (be_tick s) = bc_timestamp T (be_tick s1)"
  shows "dom (fs_files (be_fs s2)) = dom (fs_files (be_fs s1))"
proof -
  have "dom (fs_files (be_fs s')) = insert (shot_path out_dir (bc_timestamp T (be_tick s)) ''full'') (dom (fs_files (be_fs s)))"
    if "do_capture_full B T out_dir s = (Inr (), s')" for s s'
    using that
    by (auto simp: do_capture_full_def save_shot_def on_disk_def reading_def cam_def andthen_def bindE_def
        write_file_def mkdir_parents_def split: prod.splits sum.splits if_splits)
  from this [OF assms(1)] this [OF assms(2)] assms(3) show ?thesis by auto
qed

end
