(* ===== verification/Report_Tools.thy ===== *)
theory Report_Tools
  imports Compositor Database
begin

text \<open>
  \<open>src/tools/trace_report.py\<close> (the average duration of each kind of span in a database) and
  \<open>src/tools/gen_golden_images.py\<close> (the reference pictures of the collage templates).  A line of
  the report is its figures; their formatting is left out.
\<close>

subsection \<open>\<open>trace_report.py\<close>\<close>

text \<open>
  \<open>SELECT name, COUNT(*), AVG(t_end - t_start) ... GROUP BY name ORDER BY name\<close>: \<open>AVG\<close> skips
  nulls and is null where nothing is left, and then the multiplication raises.
\<close>

definition span_names :: "db \<Rightarrow> string list" where
  "span_names d = sort (remdups (map sp_name (spans d)))"

definition spans_named :: "string \<Rightarrow> db \<Rightarrow> span_row list" where
  "spans_named name d = filter (\<lambda>r. sp_name r = name) (spans d)"

definition span_durations :: "string \<Rightarrow> db \<Rightarrow> rat list" where
  "span_durations name d =
     concat (map (\<lambda>r. case sp_t_end r of None \<Rightarrow> [] | Some t \<Rightarrow> [t - sp_t_start r]) (spans_named name d))"

definition report_line :: "db \<Rightarrow> string \<Rightarrow> (string \<times> nat \<times> rat) res" where
  "report_line d name =
     (let durations = span_durations name d in
      if durations = [] then Inl (TypeError ''unsupported operand type(s) for *: NoneType and int'')
      else Inr (name, length (spans_named name d),
                sum_list durations / of_nat (length durations) * 1000))"

fun report_lines :: "db \<Rightarrow> string list \<Rightarrow> (string \<times> nat \<times> rat) list res" where
  "report_lines d [] = Inr []"
| "report_lines d (name # names) =
     bind_res (report_line d name) (\<lambda>line. bind_res (report_lines d names) (\<lambda>rest. Inr (line # rest)))"

definition trace_report :: "db \<Rightarrow> (string \<times> nat \<times> rat) list res" where
  "trace_report d = report_lines d (span_names d)"

lemma report_lines_ok:
  assumes "\<And>name. name \<in> set names \<Longrightarrow> span_durations name d \<noteq> []"
  shows "\<exists>rows. report_lines d names = Inr rows \<and> map fst rows = names \<and>
    map (fst \<circ> snd) rows = map (\<lambda>n. length (spans_named n d)) names"
  using assms
proof (induction names)
  case (Cons n names)
  then obtain rows where "report_lines d names = Inr rows" "map fst rows = names"
    "map (fst \<circ> snd) rows = map (\<lambda>n. length (spans_named n d)) names" by auto
  then show ?case
    using Cons.prems [of n] by (simp add: bind_res_def report_line_def Let_def comp_def)
qed simp

text \<open>
  When every recorded span has ended, the report has one line per name, in order, and its counts add
  up to the spans recorded.
\<close>

lemma trace_report_complete:
  assumes "\<And>r. r \<in> set (spans d) \<Longrightarrow> sp_t_end r \<noteq> None"
  shows "\<exists>rows. trace_report d = Inr rows \<and> sorted (map fst rows) \<and> distinct (map fst rows) \<and>
    set (map fst rows) = sp_name ` set (spans d) \<and>
    sum_list (map (fst \<circ> snd) rows) = length (spans d)"
proof -
  have dur: "span_durations name d \<noteq> []" if n: "name \<in> set (span_names d)" for name
  proof -
    from n obtain r where r: "r \<in> set (spans d)" "sp_name r = name" by (auto simp: span_names_def)
    with assms obtain t where "sp_t_end r = Some t" by blast
    with r show ?thesis
      by (auto simp: span_durations_def spans_named_def intro!: bexI [of _ r])
  qed
  have "sum_list (map (\<lambda>n. length (filter (\<lambda>r. sp_name r = n) xs)) ns) =
      length (filter (\<lambda>r. sp_name r \<in> set ns) xs)" if "distinct ns" for ns and xs :: "span_row list"
    using that
  proof (induction ns)
    case (Cons n ns)
    have "length (filter (\<lambda>r. sp_name r \<in> set (n # ns)) xs) =
        length (filter (\<lambda>r. sp_name r = n) xs) + length (filter (\<lambda>r. sp_name r \<in> set ns) xs)"
      using Cons.prems by (induction xs) auto
    with Cons show ?case by simp
  qed simp
  from this [of "span_names d" "spans d"]
  have "sum_list (map (\<lambda>n. length (spans_named n d)) (span_names d)) = length (spans d)"
    by (simp add: spans_named_def span_names_def filter_True cong: filter_cong)
  moreover obtain rows where rows: "trace_report d = Inr rows" "map fst rows = span_names d"
    "map (fst \<circ> snd) rows = map (\<lambda>n. length (spans_named n d)) (span_names d)"
    using report_lines_ok [OF dur] unfolding trace_report_def by blast
  ultimately show ?thesis
    by (intro exI [of _ rows]) (simp only: rows, simp add: span_names_def)
qed

subsection \<open>\<open>gen_golden_images.py\<close>\<close>

definition GOLDEN_TEMPLATES :: "(string \<times> nat) list" where
  "GOLDEN_TEMPLATES = [(''collage-2x2.yaml'', 4), (''strip-1plus2.yaml'', 3), (''strip-3strip.yaml'', 3)]"

definition source_image :: "path \<Rightarrow> path" where
  "source_image repo_root = path_div (path_div (path_div repo_root ''fixtures'') ''shots'') ''sample-01.jpg''"

definition golden_dir :: "path \<Rightarrow> path" where
  "golden_dir repo_root = path_div (path_div repo_root ''tests'') ''golden''"

fun write_goldens ::
  "'i vips \<Rightarrow> (bytes \<Rightarrow> template_config res) \<Rightarrow> path \<Rightarrow> event_config \<Rightarrow> (string \<times> nat) list \<Rightarrow> (exn, fs, unit) op" where
  "write_goldens V parse repo_root event [] = ret ()"
| "write_goldens V parse repo_root event ((template_name, slot_count) # rest) =
     bindE (\<lambda>f. (render_variant V f parse (path_div (path_div repo_root ''templates'') template_name)
                   (replicate slot_count (source_image repo_root)) ''print'' event None, f)) (\<lambda>data.
       andthen (write_file (path_div (golden_dir repo_root) (path_stem (to_path template_name) @ ''-print.jpg'')) data)
         (write_goldens V parse repo_root event rest))"

definition gen_golden_images ::
  "'i vips \<Rightarrow> (bytes \<Rightarrow> event_config res) \<Rightarrow> (bytes \<Rightarrow> template_config res) \<Rightarrow> path \<Rightarrow> (exn, fs, unit) op" where
  "gen_golden_images V parse_event parse repo_root =
     bindE (\<lambda>f. (load_event f parse_event (path_div repo_root ''events'') ''example-event'', f)) (\<lambda>event.
       andthen (mkdir_parents (golden_dir repo_root))
         (write_goldens V parse repo_root event GOLDEN_TEMPLATES))"

end
