(* ===== verification/Spec2Isabelle.thy ===== *)
theory Spec2Isabelle
  imports Storage_Connect Routes Admin_Delivery Admin_Actions Startup Session_Arming Render_Pool Soak
    Camera_Tools Report_Tools
begin

text \<open>
  A verification library for the photobooth application under \<open>src/src/photobooth\<close>.

  \<^bold>\<open>The program.\<close>  One web application process drives the booth.  A guest's screen talks to it
  over HTTP and a websocket (\<open>web/routers/kiosk.py\<close>); the session manager (\<open>web/session.py\<close>)
  runs the state machine idle, armed, countdown, capturing, review (\<open>core/state.py\<close>), takes
  pictures through a camera client (\<open>camera/client.py\<close>), composes them into a print
  (\<open>pipeline/compositor.py\<close> after a template, \<open>pipeline/template.py\<close>, and the event's texts,
  \<open>config/event.py\<close>), records everything in SQLite (\<open>storage/db.py\<close>, \<open>storage/repos.py\<close>) and
  queues uploads and prints as durable jobs (\<open>storage/queue.py\<close>).  Background tasks of the same
  process claim the jobs: the delivery worker (\<open>delivery/worker.py\<close>, \<open>delivery/backend.py\<close>) and
  the print worker (\<open>printing/queue.py\<close>, \<open>printing/backend.py\<close>); a third task deletes old
  captures (\<open>storage/retention.py\<close>).  The camera itself is owned by a second process
  (\<open>camera/worker.py\<close>) that answers framed messages (\<open>camera/messages.py\<close>) on a loopback socket
  and drives a mock (\<open>camera/mock.py\<close>) or a gphoto2 camera (\<open>camera/gphoto.py\<close>).  Guests later
  read their pictures through the gallery and share routes (\<open>web/routers/gallery.py\<close>,
  \<open>share.py\<close>); operators log in (\<open>web/routers/admin_auth.py\<close>), edit the events and the delivery
  settings, test and reset the booth (\<open>web/routers/admin.py\<close>), and look at the health and timing
  routes (\<open>web/health_checks.py\<close>, \<open>web/routers/debug.py\<close>).  \<open>web/app.py\<close> starts and stops all of
  it.  Beside it, \<open>src/tools\<close> has a harness that plays guests against a running booth
  (\<open>soak.py\<close>) and small programs for the operator.

  \<^bold>\<open>How the program is modelled.\<close>  A function that may raise has a value in \<open>exn + 'a\<close> (\<open>Inl\<close>
  the exception); a method that also changes state is an operation
  \<open>'s \<Rightarrow> (exn + 'a) \<times> 's\<close>, and the combinators of \<open>Prelude\<close> (\<open>bindE\<close>, \<open>andthen\<close>, \<open>try_except\<close>,
  \<open>try_finally\<close>) compose operations as the statements of the code do, so every early return and
  every \<open>except\<close> clause is a branch.  Coroutines run one after another; where interleaving matters
  it is explicit: the statements of competing queue workers are the steps of an inductive relation
  (\<open>Queue_Protocol.pool_step\<close>), the requests that arrive while a capture waits are an arbitrary
  operation of the session's configuration (\<open>sc_other\<close>), and the property says when they are
  excluded (\<open>sequential\<close>).  Clocks, random identifiers and time stamps are arguments or supplies
  indexed by a counter.  Floats are rationals: rounding is not modelled.  Characters are 8 bits wide and
  literals outside ASCII are their UTF-8 bytes.  Dictionaries of answers and job payloads are
  association lists of \<open>json\<close> values.  Log lines are left out.  Exceptions the code does not
  catch propagate to the caller of the operation.

  Third-party code is a parameter: YAML parsing with pydantic validation (a function from the bytes of
  a file), pyvips and PIL, the MessagePack codec, \<open>python-gphoto2\<close> with the camera behind it,
  paramiko and boto3, CUPS, httpx, the QR encoder, HMAC-SHA256.  What the code relies on is a
  named hypothesis (\<open>codec_ok\<close>, \<open>gphoto_ok\<close> and the like), and the witnesses instantiate it.

  \<^bold>\<open>Theories.\<close>
  \<^item> \<open>Prelude\<close>: operations, a small Hoare logic, frame and invariant rules; \<open>Py_String\<close>,
    \<open>Py_Files\<close>: the string and path functions of the standard library the code calls and the file system.
  \<^item> \<open>Core_State\<close> (\<open>core/state.py\<close>, \<open>core/events.py\<close>), \<open>Database\<close> (the schema of \<open>storage/db.py\<close>,
    \<open>storage/repos.py\<close>, \<open>telemetry/spans.py\<close>), \<open>Storage_Connect\<close> (\<open>connect\<close> of \<open>storage/db.py\<close>: creating
    and migrating the file).
  \<^item> \<open>Job_Queue\<close> (\<open>storage/queue.py\<close>); \<open>Queue_Protocol\<close>: its contract as the locale
    \<open>work_queue\<close>, interpreted on the SQL statements, and the interleaving of workers;
    \<open>Worker_Loop\<close>: what \<open>run_worker\<close> guarantees.
  \<^item> \<open>Printing\<close> (\<open>printing/queue.py\<close>, \<open>printing/backend.py\<close>), with the locale of what a printer's status
    promises, interpreted for both printers.
  \<^item> \<open>Event_Config\<close> (\<open>config/event.py\<close>, \<open>config/event_templates.py\<close>), \<open>Settings\<close>
    (\<open>config/models.py\<close>), \<open>Template\<close> (\<open>pipeline/template.py\<close>), \<open>Compositor\<close>
    (\<open>pipeline/compositor.py\<close>), \<open>Render_Pool\<close> (\<open>pipeline/pool.py\<close>), its threads as steps.
  \<^item> \<open>Camera_Messages\<close> (\<open>camera/protocol.py\<close>, \<open>camera/messages.py\<close>), \<open>Camera_Worker\<close>
    (\<open>camera/worker.py\<close>), \<open>Camera_Client\<close> (\<open>camera/client.py\<close>), \<open>Camera_Mock\<close>
    (\<open>camera/mock.py\<close>) with the locale \<open>camera_contract\<close> that both cameras interpret,
    \<open>Camera_Gphoto\<close> (\<open>camera/gphoto.py\<close>).
  \<^item> \<open>Session\<close> (\<open>web/session.py\<close>) with \<open>Session_Capture\<close> (what a capture does),
    \<open>Session_Props\<close> (the invariant between database and machine) and \<open>Session_Arming\<close> (arming,
    dismissing, interleaved requests).
  \<^item> \<open>Delivery\<close> (\<open>delivery/backend.py\<close>, \<open>delivery/worker.py\<close>) with the locale
    \<open>delivery_contract\<close>, \<open>Retention\<close> (\<open>storage/retention.py\<close>).
  \<^item> \<open>Admin_Auth\<close> (\<open>web/routers/admin_auth.py\<close>), \<open>Gallery\<close> (\<open>gallery.py\<close>, \<open>share.py\<close>),
    \<open>Kiosk\<close> (\<open>kiosk.py\<close>), \<open>Diagnostics\<close> (\<open>web/health_checks.py\<close>, \<open>debug.py\<close>,
    \<open>preview/proxy.py\<close>, \<open>routers/preview.py\<close>, the status route of \<open>admin.py\<close>).
  \<^item> \<open>Admin_Events\<close>, \<open>Admin_Delivery\<close>, \<open>Admin_Actions\<close> (\<open>web/routers/admin.py\<close>): the events,
    their images, captures and templates; the delivery settings; test shot, reset, restart, reprint.
  \<^item> \<open>Routes\<close>: the routers of \<open>web/routers\<close> as \<open>web/app.py\<close> assembles them, the dispatch of a request
    and the gate before the admin routes.
  \<^item> \<open>Startup\<close> (\<open>web/app.py\<close>, the command line of \<open>camera/worker.py\<close>,
    \<open>telemetry/logging_config.py\<close>).
  \<^item> \<open>Soak\<close> (\<open>src/tools/soak.py\<close>, and the routes it calls as one booth), \<open>Camera_Tools\<close>
    (\<open>src/tools/cam_test.py\<close>), \<open>Report_Tools\<close> (\<open>trace_report.py\<close>, \<open>gen_golden_images.py\<close>).

  \<^bold>\<open>What is shown.\<close>  Jobs: a job is never held by two workers, whatever the interleaving; claiming
  takes the oldest job due; failing implements the abstract retry policy; a job survives an outage;
  a finished upload is stored under its key; the print limit is exact.  Sessions: the database row
  mirrors the machine, a completed capture delivers exactly one picture with its upload job and
  share token, a camera failure returns the booth to idle.  Camera: the socket and the two processes are
  transparent, requests are answered in order however TCP cuts the stream, the mock's fault schedule is exact,
  a gphoto2 capture is never confused with a stale one.  Pictures: every photo fits its slot, a
  rendered print is complete, a template is accepted exactly when its checks hold; closing the render
  pool settles every render it accepted.  Guests and operators: a share
  link shows its own session, a disabled gallery cannot be told from a missing one, the admin gate opens
  exactly for a live signed cookie; created events read back and stay in their own directory, deleting
  one removes that directory and nothing else, the saved delivery password never shows in an answer,
  a reset leaves the booth idle, a reprint is what the print worker does.  No route shadows another, and below
  \<open>/admin\<close> nothing but login, logout, the session query and the page runs without a live cookie.  Storage: connecting
  to a database file of any age loses no row and upgrades it.  Life cycle: the worker process and the database never outlive the
  application.  End to end: a guest played by the soak harness through the routes, the session, the
  camera and the queue reports what happened at the booth.  Some theorems establish what the code does where that is not what it means to do; the
  text above each says so.

  \<^bold>\<open>Bounds and fuel.\<close>  Loops over a finite list or stream are structural.  The event loops of
  \<open>camera/gphoto.py\<close> and the wait for the worker run on fuel whose end is the outcome
  \<open>Diverges\<close>, which no \<open>except\<close> clause catches; \<open>Startup.wait_for_worker_ends\<close> gives a
  sufficient amount from the time-out and the poll interval; the soak harness polls for recovery at most 26 times
  (\<open>Soak.soak_run_ends\<close>).  Background tasks run over a list of
  clock readings, one per iteration until the stop event.

  \<^bold>\<open>Not modelled.\<close>  Signal handlers, the files a static mount serves, the framework's documentation pages and
  \<open>structlog.configure\<close>, which are the libraries'; the indexes' use and the locks of SQLite beyond a refused statement; \<open>argparse\<close> apart from the camera worker's command line, which another part
  of the program writes; \<open>cli.py\<close> and the three benchmarks under \<open>src/tools\<close>, which only raise
  \<open>NotImplementedError\<close>; the Svelte frontend, templates, configuration and deployment files.
\<close>

end
